(* ===== verification/Prelude.thy ===== *)
theory Prelude
  imports Complex_Main "HOL-Library.Word" "HOL-Library.Multiset"
begin

text \<open>
  Shared vocabulary of the development. JavaScript code runs with exceptions and
  mutable state; the model writes both out. A thrown exception is a value of
  \<open>js_error\<close> on the left of a sum, and an effectful function is a state
  transformer that returns the new state together with either the exception it threw or
  its result (\<open>('s, 'a) io\<close>), so that effects made before a throw are kept, as in the
  source. The collections below gather the equations the component theories
  contribute, so that later proofs can say \<open>simp add: js_simps\<close>.
\<close>

named_theorems js_simps "equations of the JavaScript value model"
named_theorems store_simps "equations of the submission store"
named_theorems ui_simps "equations of the user-interface state machines"

datatype js_error =
    TypeError \<comment> \<open>property read on \<open>null\<close>, call of a missing method\<close>
  | SyntaxError \<comment> \<open>\<open>JSON.parse\<close> / \<open>request.json()\<close> on malformed text\<close>
  | IOError \<comment> \<open>a failed \<open>fs\<close> call\<close>
  | ReactError \<comment> \<open>React's render error, e.g. an object given as a child\<close>

type_synonym ('s, 'a) io = "'s \<Rightarrow> 's \<times> (js_error + 'a)"

definition io_return :: "'a \<Rightarrow> ('s, 'a) io" where
  "io_return a = (\<lambda>s. (s, Inr a))"

definition io_throw :: "js_error \<Rightarrow> ('s, 'a) io" where
  "io_throw e = (\<lambda>s. (s, Inl e))"

definition io_bind :: "('s, 'a) io \<Rightarrow> ('a \<Rightarrow> ('s, 'b) io) \<Rightarrow> ('s, 'b) io" where
  "io_bind m f = (\<lambda>s. case m s of (s', Inl e) \<Rightarrow> (s', Inl e) | (s', Inr a) \<Rightarrow> f a s')"

text \<open>\<open>try { m } catch (e) { h e }\<close>: the handler runs in the state the throw left.\<close>

definition io_catch :: "('s, 'a) io \<Rightarrow> (js_error \<Rightarrow> ('s, 'a) io) \<Rightarrow> ('s, 'a) io" where
  "io_catch m h = (\<lambda>s. case m s of (s', Inl e) \<Rightarrow> h e s' | (s', Inr a) \<Rightarrow> (s', Inr a))"

text \<open>Exceptions of pure code: a computation that may throw, and a \<open>map\<close> that stops at the first throw.\<close>

definition sum_bind :: "'e + 'a \<Rightarrow> ('a \<Rightarrow> 'e + 'b) \<Rightarrow> 'e + 'b" where
  "sum_bind m f = (case m of Inl e \<Rightarrow> Inl e | Inr a \<Rightarrow> f a)"

fun sum_map_all :: "('a \<Rightarrow> 'e + 'b) \<Rightarrow> 'a list \<Rightarrow> 'e + 'b list" where
  "sum_map_all f [] = Inr []"
| "sum_map_all f (x # xs) = sum_bind (f x) (\<lambda>y. sum_bind (sum_map_all f xs) (\<lambda>ys. Inr (y # ys)))"

lemma sum_bind_Inl [simp]: "sum_bind (Inl e) f = Inl e"
  by (simp add: sum_bind_def)

lemma sum_bind_Inr [simp]: "sum_bind (Inr a) f = f a"
  by (simp add: sum_bind_def)

lemma sum_map_all_Inr:
  "(\<And>x. x \<in> set xs \<Longrightarrow> f x = Inr (g x)) \<Longrightarrow> sum_map_all f xs = Inr (map g xs)"
  by (induction xs) simp_all

lemma sum_map_all_Inl:
  "x \<in> set xs \<Longrightarrow> f x = Inl e \<Longrightarrow> \<exists>e'. sum_map_all f xs = Inl e'"
proof (induction xs)
  case Nil
  then show ?case by simp
next
  case (Cons y ys)
  show ?case
  proof (cases "f y")
    case (Inl e1)
    then show ?thesis by simp
  next
    case (Inr b)
    with Cons have "x \<in> set ys" by auto
    with Cons.IH Cons.prems(2) obtain e' where "sum_map_all f ys = Inl e'" by blast
    with Inr show ?thesis by simp
  qed
qed

lemma io_return_apply [simp]: "io_return a s = (s, Inr a)"
  by (simp add: io_return_def)

lemma io_throw_apply [simp]: "io_throw e s = (s, Inl e)"
  by (simp add: io_throw_def)

lemma io_bind_apply [simp]:
  "io_bind m f s = (case m s of (s', Inl e) \<Rightarrow> (s', Inl e) | (s', Inr a) \<Rightarrow> f a s')"
  by (simp add: io_bind_def)

lemma io_catch_apply [simp]:
  "io_catch m h s = (case m s of (s', Inl e) \<Rightarrow> h e s' | (s', Inr a) \<Rightarrow> (s', Inr a))"
  by (simp add: io_catch_def)

lemma io_bind_return [simp]: "io_bind (io_return a) f = f a"
  by (rule ext) simp

lemma io_bind_throw [simp]: "io_bind (io_throw e) f = io_throw e"
  by (rule ext) simp

subsection \<open>Lists\<close>

text \<open>\<open>Array.prototype.filter(i => i !== x)\<close> and \<open>includes\<close> on index lists.\<close>

lemma set_filter_neq [simp]: "set (filter (\<lambda>y. y \<noteq> x) xs) = set xs - {x}"
  by auto

lemma distinct_filter_neq [intro]: "distinct xs \<Longrightarrow> distinct (filter (\<lambda>y. y \<noteq> x) xs)"
  by simp

lemma length_filter_neq_distinct:
  "distinct xs \<Longrightarrow> x \<in> set xs \<Longrightarrow> length (filter (\<lambda>y. y \<noteq> x) xs) = length xs - 1"
proof (induction xs)
  case Nil
  then show ?case by simp
next
  case (Cons y ys)
  show ?case
  proof (cases "y = x")
    case True
    with Cons.prems have "x \<notin> set ys" by simp
    then have "filter (\<lambda>z. z \<noteq> x) ys = ys" by (induction ys) auto
    with True show ?thesis by simp
  next
    case False
    with Cons have "length (filter (\<lambda>y. y \<noteq> x) ys) = length ys - 1" by simp
    moreover from False Cons.prems have "ys \<noteq> []" by auto
    ultimately show ?thesis using False by simp
  qed
qed

lemma in_set_butlast_decomp:
  "x \<in> set (butlast xs) \<Longrightarrow> \<exists>ys zs. xs = ys @ x # zs \<and> zs \<noteq> []"
proof (induction xs)
  case Nil then show ?case by simp
next
  case (Cons y ys)
  show ?case
  proof (cases "x \<in> set (butlast ys)")
    case True
    with Cons.IH obtain us zs where "ys = us @ x # zs" "zs \<noteq> []" by blast
    then show ?thesis by (metis append_Cons)
  next
    case False
    with Cons.prems have "ys \<noteq> [] \<and> x = y" by (auto split: if_splits)
    then show ?thesis by (metis append_Nil)
  qed
qed

text \<open>Removing the element at a position (a pending task leaves the event-loop queue).\<close>

definition remove_at :: "nat \<Rightarrow> 'a list \<Rightarrow> 'a list" where
  "remove_at i xs = take i xs @ drop (Suc i) xs"

lemma length_remove_at [simp]: "i < length xs \<Longrightarrow> length (remove_at i xs) = length xs - 1"
  by (simp add: remove_at_def)

lemma set_remove_at_subset: "set (remove_at i xs) \<subseteq> set xs"
  by (auto simp: remove_at_def dest: in_set_takeD in_set_dropD)

lemma mset_remove_at:
  "i < length xs \<Longrightarrow> mset (remove_at i xs) = mset xs - {#xs ! i#}"
proof -
  assume i: "i < length xs"
  then have "xs = take i xs @ xs ! i # drop (Suc i) xs"
    by (simp add: Cons_nth_drop_Suc)
  then have "mset xs = mset (take i xs @ drop (Suc i) xs) + {#xs ! i#}"
    by (metis add.commute mset.simps(2) mset_append add_mset_add_single union_assoc add.left_commute)
  then show ?thesis by (simp add: remove_at_def)
qed

text \<open>Enumerations, as \<open>xs.map((x, i) => ...)\<close> numbers the items of a list.\<close>

lemma enumerate_shift: "map (\<lambda>(j, x). (j + k, x)) (enumerate n xs) = enumerate (n + k) xs"
  by (induction xs arbitrary: n) (auto simp: enumerate_simps)

lemma map_fst_enumerate_fun:
  "map (\<lambda>p. h (fst p)) (enumerate n xs) = map h [n..<n + length xs]"
proof -
  have "map (\<lambda>p. h (fst p)) (enumerate n xs) = map h (map fst (enumerate n xs))"
    by (simp only: map_map comp_def)
  also have "\<dots> = map h [n..<n + length xs]" by (simp only: map_fst_enumerate)
  finally show ?thesis .
qed

text \<open>A nested \<open>map\<close> over numbered groups, flattened, is the flat \<open>map\<close> over the renumbered items.\<close>

lemma concat_map_regroup:
  "concat (map (\<lambda>(c, col). concat (map (\<lambda>(j, f). h (g c j, f)) (enumerate 0 col))) E) =
   concat (map h (concat (map (\<lambda>(c, col). map (\<lambda>(j, f). (g c j, f)) (enumerate 0 col)) E)))"
  by (induction E) (auto simp: split_def map_concat comp_def)

lemma count_list_concat: "count_list (concat xss) x = sum_list (map (\<lambda>xs. count_list xs x) xss)"
  by (induction xss) simp_all

lemma map_snd_enumerate_texts:
  "concat (map (\<lambda>p. [snd p]) (enumerate n xs)) = xs"
  by (induction xs arbitrary: n) (simp_all add: enumerate_simps)

end
