(* ===== verification/JsString.thy ===== *)
theory JsString
  imports Prelude
begin

text \<open>
  JavaScript strings as the pages and the route handlers see them. The model keeps a
  string as the UTF-8 bytes that cross the HTTP boundary and the JSON file (a
  \<open>string\<close> of 8-bit \<open>char\<close>s); the JavaScript operations the code applies read it
  as characters or as UTF-16 code units:
  \<^item> \<open>utf8_chars\<close> splits the bytes into the byte sequences of its characters (a new
    character starts at every byte that is not a continuation byte \<open>10xxxxxx\<close>);
  \<^item> \<open>js_ws\<close> is the whitespace of \<open>\s\<close> and of \<open>String.prototype.trim\<close>: the
    ECMAScript WhiteSpace and LineTerminator code points (tab, line feed, vertical
    tab, form feed, carriage return, space, U+00A0, U+1680, U+2000 to U+200A, U+2028,
    U+2029, U+202F, U+205F, U+3000 and U+FEFF), each as its UTF-8 encoding;
  \<^item> \<open>js_trim\<close> is \<open>s.trim()\<close>;
  \<^item> \<open>utf16_units\<close> are the code units \<open>charCodeAt\<close> reads and \<open>js_length\<close> is
    \<open>s.length\<close>: a character of four UTF-8 bytes is a surrogate pair of two units,
    every other character one unit.
  Strings reaching the code are well-formed UTF-8 (the browser and \<open>request.json()\<close>
  decode them); a malformed byte sequence is read as one U+FFFD replacement character.
\<close>

definition utf8_cont :: "char \<Rightarrow> bool" where
  "utf8_cont c = (of_char c div 64 = (2::nat))"

fun utf8_chars :: "string \<Rightarrow> string list" where
  "utf8_chars [] = []"
| "utf8_chars (c # cs) =
     (case utf8_chars cs of
        [] \<Rightarrow> [[c]]
      | d # ds \<Rightarrow> if utf8_cont (hd d) then (c # d) # ds else [c] # d # ds)"

definition js_ws_chars :: "string list" where
  "js_ws_chars =
     [[CHR 0x09], [CHR 0x0A], [CHR 0x0B], [CHR 0x0C], [CHR 0x0D], [CHR 0x20],
      [CHR 0xC2, CHR 0xA0], [CHR 0xE1, CHR 0x9A, CHR 0x80],
      [CHR 0xE2, CHR 0x80, CHR 0x80], [CHR 0xE2, CHR 0x80, CHR 0x81], [CHR 0xE2, CHR 0x80, CHR 0x82],
      [CHR 0xE2, CHR 0x80, CHR 0x83], [CHR 0xE2, CHR 0x80, CHR 0x84], [CHR 0xE2, CHR 0x80, CHR 0x85],
      [CHR 0xE2, CHR 0x80, CHR 0x86], [CHR 0xE2, CHR 0x80, CHR 0x87], [CHR 0xE2, CHR 0x80, CHR 0x88],
      [CHR 0xE2, CHR 0x80, CHR 0x89], [CHR 0xE2, CHR 0x80, CHR 0x8A],
      [CHR 0xE2, CHR 0x80, CHR 0xA8], [CHR 0xE2, CHR 0x80, CHR 0xA9], [CHR 0xE2, CHR 0x80, CHR 0xAF],
      [CHR 0xE2, CHR 0x81, CHR 0x9F], [CHR 0xE3, CHR 0x80, CHR 0x80], [CHR 0xEF, CHR 0xBB, CHR 0xBF]]"

definition js_ws :: "string \<Rightarrow> bool" where
  "js_ws g = (g \<in> set js_ws_chars)"

definition js_trim :: "string \<Rightarrow> string" where
  "js_trim s = concat (rev (dropWhile js_ws (rev (dropWhile js_ws (utf8_chars s)))))"

text \<open>The code point of one character's bytes, and its UTF-16 code units.\<close>

fun utf8_code_point :: "string \<Rightarrow> nat" where
  "utf8_code_point [c0] = (if of_char c0 < (128::nat) then of_char c0 else 0xFFFD)"
| "utf8_code_point [c0, c1] = (of_char c0 mod 32) * 64 + of_char c1 mod 64"
| "utf8_code_point [c0, c1, c2] = (of_char c0 mod 16) * 4096 + (of_char c1 mod 64) * 64 + of_char c2 mod 64"
| "utf8_code_point [c0, c1, c2, c3] =
     (of_char c0 mod 8) * 262144 + (of_char c1 mod 64) * 4096 + (of_char c2 mod 64) * 64 + of_char c3 mod 64"
| "utf8_code_point _ = 0xFFFD"

definition utf16_of_cp :: "nat \<Rightarrow> nat list" where
  "utf16_of_cp cp =
     (if cp < 0x10000 then [cp] else [0xD800 + (cp - 0x10000) div 1024, 0xDC00 + (cp - 0x10000) mod 1024])"

definition utf16_units :: "string \<Rightarrow> nat list" where
  "utf16_units s = concat (map (\<lambda>g. utf16_of_cp (utf8_code_point g)) (utf8_chars s))"

definition js_length :: "string \<Rightarrow> nat" where
  "js_length s = length (utf16_units s)"

subsection \<open>Lemmas\<close>

lemma concat_utf8_chars [simp]: "concat (utf8_chars s) = s"
  by (induction s) (auto split: list.splits)

lemma utf8_chars_nonempty: "g \<in> set (utf8_chars s) \<Longrightarrow> g \<noteq> []"
  by (induction s arbitrary: g) (auto split: list.splits if_splits)

lemma utf8_chars_Nil_iff [simp]: "utf8_chars s = [] \<longleftrightarrow> s = []"
  by (cases s) (auto split: list.splits)

lemma utf16_of_cp_length: "length (utf16_of_cp cp) \<le> 2"
  by (simp add: utf16_of_cp_def)

lemma utf16_of_cp_bound: "cp < 0x200000 \<Longrightarrow> u \<in> set (utf16_of_cp cp) \<Longrightarrow> u < 0x10000"
proof -
  assume cp: "cp < 0x200000" and u: "u \<in> set (utf16_of_cp cp)"
  have "(cp - 65536) div 1024 < 1984" using cp by (intro less_mult_imp_div_less) simp
  moreover have "(cp - 65536) mod 1024 < 1024" by simp
  ultimately show ?thesis using u by (auto simp: utf16_of_cp_def split: if_splits)
qed

lemma mod_bounds: "(x::nat) mod 8 \<le> 7" "(x::nat) mod 16 \<le> 15" "(x::nat) mod 32 \<le> 31" "(x::nat) mod 64 \<le> 63"
  by simp_all

text \<open>One to three bytes give a code point of the basic plane, four bytes one below
  \<open>2^21\<close>.\<close>

lemma utf8_code_point_bmp: "length g \<le> 3 \<Longrightarrow> utf8_code_point g < 0x10000"
  by (cases g rule: utf8_code_point.cases; simp; use mod_bounds in linarith)

lemma utf8_code_point_bound: "utf8_code_point g < 0x200000"
  by (cases g rule: utf8_code_point.cases; simp; use mod_bounds in linarith)

text \<open>A code unit is a 16-bit value.\<close>

lemma utf16_units_bound: "u \<in> set (utf16_units s) \<Longrightarrow> u < 0x10000"
  using utf16_of_cp_bound [OF utf8_code_point_bound] by (auto simp: utf16_units_def)

lemma utf16_units_char_le: "g \<noteq> [] \<Longrightarrow> length (utf16_of_cp (utf8_code_point g)) \<le> length g"
proof (cases "length g \<le> 3")
  case True
  then show "g \<noteq> [] \<Longrightarrow> ?thesis"
    using utf8_code_point_bmp [OF True] by (simp add: utf16_of_cp_def Suc_le_eq)
next
  case False
  then show ?thesis using utf16_of_cp_length [of "utf8_code_point g"] by linarith
qed

text \<open>\<open>s.length\<close> never exceeds the number of bytes of \<open>s\<close>.\<close>

lemma js_length_le: "js_length s \<le> length s"
proof -
  have "js_length s = sum_list (map (\<lambda>g. length (utf16_of_cp (utf8_code_point g))) (utf8_chars s))"
    by (simp add: js_length_def utf16_units_def length_concat comp_def)
  also have "\<dots> \<le> sum_list (map length (utf8_chars s))"
    by (rule sum_list_mono) (simp add: utf16_units_char_le utf8_chars_nonempty)
  also have "\<dots> = length s"
    by (metis concat_utf8_chars length_concat)
  finally show ?thesis .
qed

lemma js_trim_empty_iff: "js_trim s = [] \<longleftrightarrow> list_all js_ws (utf8_chars s)"
proof
  assume "list_all js_ws (utf8_chars s)"
  then have "dropWhile js_ws (utf8_chars s) = []" by (simp add: dropWhile_eq_Nil_conv list_all_iff)
  then show "js_trim s = []" unfolding js_trim_def by (metis concat.simps(1) dropWhile.simps(1) rev.simps(1))
next
  let ?d = "dropWhile js_ws (utf8_chars s)"
  assume t: "js_trim s = []"
  show "list_all js_ws (utf8_chars s)"
  proof (rule ccontr)
    assume "\<not> list_all js_ws (utf8_chars s)"
    then have d: "?d \<noteq> []" by (simp add: dropWhile_eq_Nil_conv list_all_iff)
    then have "\<not> js_ws (hd ?d)" by (rule hd_dropWhile)
    moreover have "hd ?d \<in> set (rev ?d)" using d by simp
    ultimately have r: "dropWhile js_ws (rev ?d) \<noteq> []" by (auto simp: dropWhile_eq_Nil_conv)
    have "g \<noteq> []" if "g \<in> set (dropWhile js_ws (rev ?d))" for g
      using that utf8_chars_nonempty by (metis set_dropWhileD set_rev)
    then have "concat (rev (dropWhile js_ws (rev ?d))) \<noteq> []"
      using r by (metis concat_eq_Nil_conv last_in_set set_rev rev_is_Nil_conv)
    with t show False by (simp add: js_trim_def)
  qed
qed

lemma js_trim_nonempty: "js_trim s \<noteq> [] \<Longrightarrow> s \<noteq> []"
  by (auto simp: js_trim_def)

text \<open>The definitions that evaluate \<open>trim\<close> and \<open>\s\<close> on a literal string.\<close>

lemmas js_string_eval = js_trim_def utf8_cont_def js_ws_def js_ws_chars_def

end
