(* ===== verification/Json.thy ===== *)
theory Json
  imports JsString
begin

text \<open>
  JavaScript values as they cross the HTTP boundary and the JSON file: the values
  \<open>JSON.parse\<close> and \<open>request.json()\<close> produce. Objects are association lists in key
  order (\<open>JSON.parse\<close> keeps the first position of a key and the last value, so a parsed
  object has distinct keys: \<open>json_wf\<close>). Numbers are exact rationals: the handlers only
  ever ask whether a number is zero. The theory gives the three JavaScript operations
  the handlers apply to such values: truthiness (\<open>!x\<close>), property read (\<open>x.f\<close>) and the
  object spread with one extra property (\<open>{...o, f: v}\<close>).
\<close>

datatype json =
    JNull
  | JBool bool
  | JNum rat
  | JStr string
  | JArr "json list"
  | JObj "(string \<times> json) list"

text \<open>
  Truthiness of a property read: \<open>None\<close> is \<open>undefined\<close>. The falsy values are
  \<open>undefined\<close>, \<open>null\<close>, \<open>false\<close>, \<open>0\<close> and \<open>''''\<close>; every array and object is truthy.
\<close>

fun truthy :: "json option \<Rightarrow> bool" where
  "truthy None = False"
| "truthy (Some JNull) = False"
| "truthy (Some (JBool b)) = b"
| "truthy (Some (JNum n)) = (n \<noteq> 0)"
| "truthy (Some (JStr s)) = (s \<noteq> [])"
| "truthy (Some (JArr xs)) = True"
| "truthy (Some (JObj kvs)) = True"

text \<open>
  Reading a data property \<open>v.k\<close>. On \<open>null\<close> it throws a \<open>TypeError\<close>; on an object it
  is the own property; strings, numbers, booleans and arrays have no own property named
  like a form field, so the read gives \<open>undefined\<close>. (Built-in names such as
  \<open>length\<close> are never read by the modelled code.)
\<close>

fun get_prop :: "json \<Rightarrow> string \<Rightarrow> js_error + json option" where
  "get_prop JNull k = Inl TypeError"
| "get_prop (JObj kvs) k = Inr (map_of kvs k)"
| "get_prop (JBool b) k = Inr None"
| "get_prop (JNum n) k = Inr None"
| "get_prop (JStr s) k = Inr None"
| "get_prop (JArr xs) k = Inr None"

text \<open>
  Setting a property on an object literal: a key already present keeps its position and
  takes the new value, a new key goes to the end. This is the key order of
  \<open>{...o, k: v}\<close>.
\<close>

fun obj_set :: "(string \<times> json) list \<Rightarrow> string \<Rightarrow> json \<Rightarrow> (string \<times> json) list" where
  "obj_set [] k v = [(k, v)]"
| "obj_set ((k', v') # kvs) k v = (if k' = k then (k, v) # kvs else (k', v') # obj_set kvs k v)"

text \<open>
  The own enumerable properties the spread copies. Only objects reach a spread in the
  modelled handlers (lemma \<open>any_missing_object\<close> of the store theory); for the other
  values the spread contributes nothing the handlers observe.
\<close>

fun own_props :: "json \<Rightarrow> (string \<times> json) list" where
  "own_props (JObj kvs) = kvs"
| "own_props _ = []"

definition spread_with :: "json \<Rightarrow> string \<Rightarrow> json \<Rightarrow> json" where
  "spread_with v k x = JObj (obj_set (own_props v) k x)"

text \<open>Parsed values: every object, at every depth, has distinct keys.\<close>

fun json_wf :: "json \<Rightarrow> bool" where
  "json_wf (JArr xs) = list_all json_wf xs"
| "json_wf (JObj kvs) = (distinct (map fst kvs) \<and> list_all (\<lambda>kv. json_wf (snd kv)) kvs)"
| "json_wf _ = True"

subsection \<open>Lemmas\<close>

lemma map_of_obj_set [js_simps]: "map_of (obj_set kvs k v) = (map_of kvs)(k \<mapsto> v)"
  by (induction kvs) (auto simp: fun_eq_iff)

lemma keys_obj_set [js_simps]:
  "map fst (obj_set kvs k v) = (if k \<in> set (map fst kvs) then map fst kvs else map fst kvs @ [k])"
  by (induction kvs) force+

lemma distinct_obj_set [intro]: "distinct (map fst kvs) \<Longrightarrow> distinct (map fst (obj_set kvs k v))"
  by (simp add: keys_obj_set)

lemma set_obj_set_other:
  "(k', v') \<in> set kvs \<Longrightarrow> k' \<noteq> k \<Longrightarrow> (k', v') \<in> set (obj_set kvs k v)"
  by (induction kvs) auto

lemma obj_set_absent [js_simps]: "k \<notin> set (map fst kvs) \<Longrightarrow> obj_set kvs k v = kvs @ [(k, v)]"
  by (induction kvs) auto

lemma get_prop_not_null: "v \<noteq> JNull \<Longrightarrow> \<exists>p. get_prop v k = Inr p"
  by (cases v) auto

lemma get_prop_truthy_obj:
  "get_prop v k = Inr p \<Longrightarrow> truthy p \<Longrightarrow> \<exists>kvs. v = JObj kvs \<and> p = map_of kvs k"
  by (cases v) auto

end
