(* ===== verification/FormStore.thy ===== *)
theory FormStore
  imports Json
begin

text \<open>
  The submission store: the two Next.js route handlers
  \<open>src/Tech crm/src/app/api/submit-form/route.ts\<close> (\<open>POST\<close>) and
  \<open>src/Tech crm/src/app/api/get-submissions/route.ts\<close> (\<open>GET\<close>), which share the file
  \<open>data/submissions.json\<close>. The state is the part of the file system they touch: whether
  the directory \<open>data\<close> exists, what the file holds (absent, a parsed JSON value, or
  content that cannot be read or parsed), and whether the process may write there. The
  clock reading \<open>new Date().toISOString()\<close> is a parameter \<open>now\<close> of the handler.
  Logging (\<open>console.log\<close>, \<open>console.error\<close>) has no effect on the state and is left out.
\<close>

datatype file_content =
    Content json \<comment> \<open>the file exists and \<open>JSON.parse\<close> of its text gives this value\<close>
  | Unreadable \<comment> \<open>the file exists but \<open>readFileSync\<close> or \<open>JSON.parse\<close> throws\<close>

record fs =
  data_dir :: bool
  db_file :: "file_content option"
  writable :: bool

datatype response = Response (status: nat) (resp_body: json)

subsection \<open>Helpers of \<open>submit-form/route.ts\<close>\<close>

text \<open>\<open>ensureDirectoryExists(path.dirname(DB_PATH))\<close>: \<open>mkdirSync\<close> only when missing.\<close>

definition ensureDirectoryExists :: "(fs, unit) io" where
  "ensureDirectoryExists =
     (\<lambda>s. if data_dir s then (s, Inr ())
          else if writable s then (s\<lparr>data_dir := True\<rparr>, Inr ())
          else (s, Inl IOError))"

text \<open>
  \<open>readSubmissions\<close>: the parsed content if the file exists and parses, and \<open>[]\<close> both
  when it is absent and when reading or parsing throws (the \<open>catch\<close> returns \<open>[]\<close>).
  The parsed value is returned whatever its shape; the type annotation \<open>FormData[]\<close> is
  not checked at run time.
\<close>

definition readSubmissions :: "fs \<Rightarrow> json" where
  "readSubmissions s =
     (case db_file s of
        None \<Rightarrow> JArr []
      | Some (Content v) \<Rightarrow> v
      | Some Unreadable \<Rightarrow> JArr [])"

text \<open>
  \<open>writeSubmissions\<close>: make the directory, then replace the whole file by
  \<open>JSON.stringify(submissions, null, 2)\<close>, which parses back to the same array.
\<close>

definition writeFileSync :: "json \<Rightarrow> (fs, unit) io" where
  "writeFileSync v =
     (\<lambda>s. if data_dir s \<and> writable s then (s\<lparr>db_file := Some (Content v)\<rparr>, Inr ())
          else (s, Inl IOError))"

definition writeSubmissions :: "json list \<Rightarrow> (fs, unit) io" where
  "writeSubmissions subs = io_bind ensureDirectoryExists (\<lambda>_. writeFileSync (JArr subs))"

text \<open>
  The guard \<open>!formData.fullName || !formData.email || !formData.companyName ||
  !formData.companySize\<close>, evaluated left to right with short circuit: \<open>Inr True\<close> as
  soon as a read is falsy, a \<open>TypeError\<close> if the body is \<open>null\<close>.
\<close>

definition required_fields :: "string list" where
  "required_fields = [''fullName'', ''email'', ''companyName'', ''companySize'']"

fun any_missing :: "json \<Rightarrow> string list \<Rightarrow> js_error + bool" where
  "any_missing v [] = Inr False"
| "any_missing v (k # ks) =
     (case get_prop v k of
        Inl e \<Rightarrow> Inl e
      | Inr p \<Rightarrow> (if \<not> truthy p then Inr True else any_missing v ks))"

text \<open>\<open>submissions.push(x)\<close>: arrays grow; any other parsed value has no \<open>push\<close> method.\<close>

fun js_push :: "json \<Rightarrow> json \<Rightarrow> js_error + json list" where
  "js_push (JArr xs) x = Inr (xs @ [x])"
| "js_push _ x = Inl TypeError"

text \<open>\<open>submissionWithTimestamp = {...formData, timestamp: new Date().toISOString()}\<close>.\<close>

definition submissionWithTimestamp :: "json \<Rightarrow> string \<Rightarrow> json" where
  "submissionWithTimestamp formData now = spread_with formData ''timestamp'' (JStr now)"

subsection \<open>The handlers\<close>

definition submit_ok :: response where
  "submit_ok = Response 200
     (JObj [(''success'', JBool True), (''message'', JStr ''Form submitted successfully'')])"

definition submit_missing :: response where
  "submit_missing = Response 400 (JObj [(''error'', JStr ''Missing required fields'')])"

definition submit_failed :: response where
  "submit_failed = Response 500
     (JObj [(''success'', JBool False), (''error'', JStr ''Failed to process form submission'')])"

text \<open>
  The \<open>try\<close> block of \<open>POST\<close>. The body is \<open>None\<close> when \<open>request.json()\<close> rejects
  (the request text is not JSON). The new entry is \<open>{...formData, timestamp}\<close>.
\<close>

definition submit_try :: "string \<Rightarrow> json option \<Rightarrow> (fs, response) io" where
  "submit_try now body =
     (case body of
        None \<Rightarrow> io_throw SyntaxError
      | Some formData \<Rightarrow>
          (case any_missing formData required_fields of
             Inl e \<Rightarrow> io_throw e
           | Inr True \<Rightarrow> io_return submit_missing
           | Inr False \<Rightarrow>
               (\<lambda>s. case js_push (readSubmissions s) (submissionWithTimestamp formData now) of
                      Inl e \<Rightarrow> (s, Inl e)
                    | Inr subs \<Rightarrow> io_bind (writeSubmissions subs) (\<lambda>_. io_return submit_ok) s)))"

text \<open>\<open>POST\<close>: every exception of the \<open>try\<close> block becomes the fixed 500 response.\<close>

definition POST :: "string \<Rightarrow> json option \<Rightarrow> fs \<Rightarrow> fs \<times> response" where
  "POST now body s =
     (case io_catch (submit_try now body) (\<lambda>_. io_return submit_failed) s of
        (s', Inr r) \<Rightarrow> (s', r)
      | (s', Inl e) \<Rightarrow> (s', submit_failed))"

text \<open>
  \<open>get-submissions/route.ts\<close> has its own copy of \<open>readSubmissions\<close>. Its \<open>GET\<close>
  cannot throw inside the \<open>try\<close>: the copy catches every read and parse error itself,
  and serialising a parsed value does not fail; the 500 branch is dead code.
\<close>

definition readSubmissions_get :: "fs \<Rightarrow> json" where
  "readSubmissions_get s =
     (case db_file s of
        Some (Content v) \<Rightarrow> v
      | Some Unreadable \<Rightarrow> JArr []
      | None \<Rightarrow> JArr [])"

definition GET :: "fs \<Rightarrow> response" where
  "GET s = Response 200 (JObj [(''success'', JBool True), (''submissions'', readSubmissions_get s)])"

text \<open>
  What the spec asks of every persisted submission: an object whose four required
  fields are present (here: truthy, which is what the code checks) and which carries a
  string timestamp. A store is valid when the file is absent or holds an array of such
  entries (and then the directory exists).
\<close>

fun entry_ok :: "json \<Rightarrow> bool" where
  "entry_ok (JObj kvs) =
     (list_all (\<lambda>k. truthy (map_of kvs k)) required_fields \<and>
      (case map_of kvs ''timestamp'' of Some (JStr t) \<Rightarrow> True | _ \<Rightarrow> False))"
| "entry_ok _ = False"

definition store_valid :: "fs \<Rightarrow> bool" where
  "store_valid s =
     (case db_file s of
        None \<Rightarrow> True
      | Some (Content (JArr xs)) \<Rightarrow> data_dir s \<and> list_all entry_ok xs
      | Some _ \<Rightarrow> False)"

subsection \<open>Concrete inputs used by the witnesses\<close>

abbreviation jane_body :: json where
  "jane_body \<equiv> JObj [(''fullName'', JStr ''Jane Doe''), (''email'', JStr ''jane@acme.com''),
                      (''companyName'', JStr ''Acme''), (''companySize'', JStr ''11-50'')]"

abbreviation john_body :: json where
  "john_body \<equiv> JObj [(''fullName'', JStr ''John Roe''), (''email'', JStr ''john@roe.io''),
                      (''companyName'', JStr ''Roe Ltd''), (''companySize'', JStr ''1-10'')]"

abbreviation empty_store :: fs where
  "empty_store \<equiv> \<lparr>data_dir = True, db_file = Some (Content (JArr [])), writable = True\<rparr>"

subsection \<open>Lemmas\<close>

lemma any_missing_JObj [store_simps]:
  "any_missing (JObj kvs) ks = Inr (\<not> list_all (\<lambda>k. truthy (map_of kvs k)) ks)"
  by (induction ks) auto

lemma any_missing_JNull: "ks \<noteq> [] \<Longrightarrow> any_missing JNull ks = Inl TypeError"
  by (cases ks) auto

lemma any_missing_non_object:
  "v \<noteq> JNull \<Longrightarrow> (\<And>kvs. v \<noteq> JObj kvs) \<Longrightarrow> ks \<noteq> [] \<Longrightarrow> any_missing v ks = Inr True"
  by (cases ks; cases v) auto

lemma any_missing_object:
  assumes "any_missing v required_fields = Inr False"
  shows "\<exists>kvs. v = JObj kvs \<and> list_all (\<lambda>k. truthy (map_of kvs k)) required_fields"
proof (cases v)
  case (JObj kvs)
  with assms show ?thesis by (simp add: any_missing_JObj)
qed (use assms in \<open>auto simp: required_fields_def\<close>)

lemma writeSubmissions_writable [store_simps]:
  "writable s \<Longrightarrow> writeSubmissions subs s =
     (s\<lparr>data_dir := True, db_file := Some (Content (JArr subs))\<rparr>, Inr ())"
  by (cases s) (auto simp: writeSubmissions_def ensureDirectoryExists_def writeFileSync_def)

lemma writeSubmissions_readonly [store_simps]:
  "\<not> writable s \<Longrightarrow> writeSubmissions subs s = (s, Inl IOError)"
  by (simp add: writeSubmissions_def ensureDirectoryExists_def writeFileSync_def)

lemma POST_accept:
  assumes "any_missing v required_fields = Inr False" "readSubmissions s = JArr xs" "writable s"
  shows "POST now (Some v) s =
    (s\<lparr>data_dir := True, db_file := Some (Content (JArr (xs @ [submissionWithTimestamp v now])))\<rparr>,
     submit_ok)"
  using assms by (simp add: POST_def submit_try_def writeSubmissions_writable)

lemma POST_missing:
  "any_missing v required_fields = Inr True \<Longrightarrow> POST now (Some v) s = (s, submit_missing)"
  by (simp add: POST_def submit_try_def)

lemma POST_null: "POST now (Some JNull) s = (s, submit_failed)"
  by (simp add: POST_def submit_try_def required_fields_def)

lemma POST_unparsable: "POST now None s = (s, submit_failed)"
  by (simp add: POST_def submit_try_def)

lemma POST_not_array:
  assumes "any_missing v required_fields = Inr False" "\<And>xs. readSubmissions s \<noteq> JArr xs"
  shows "POST now (Some v) s = (s, submit_failed)"
proof -
  have "js_push (readSubmissions s) x = Inl TypeError" for x
    using assms(2) by (cases "readSubmissions s") auto
  with assms(1) show ?thesis by (simp add: POST_def submit_try_def)
qed

lemma POST_readonly:
  assumes "any_missing v required_fields = Inr False" "readSubmissions s = JArr xs" "\<not> writable s"
  shows "POST now (Some v) s = (s, submit_failed)"
  using assms by (simp add: POST_def submit_try_def writeSubmissions_readonly)

lemma readSubmissions_get_eq [store_simps]: "readSubmissions_get = readSubmissions"
  by (rule ext) (simp add: readSubmissions_get_def readSubmissions_def split: option.splits file_content.splits)


lemma map_of_submissionWithTimestamp [store_simps]:
  "submissionWithTimestamp (JObj kvs) now = JObj (obj_set kvs ''timestamp'' (JStr now))"
  by (simp add: submissionWithTimestamp_def spread_with_def)

lemma entry_ok_submissionWithTimestamp:
  assumes "any_missing v required_fields = Inr False"
  shows "entry_ok (submissionWithTimestamp v now)"
proof -
  from any_missing_object [OF assms] obtain kvs where
    v: "v = JObj kvs" and req: "list_all (\<lambda>k. truthy (map_of kvs k)) required_fields"
    by blast
  from req have "list_all (\<lambda>k. truthy (((map_of kvs)(''timestamp'' \<mapsto> JStr now)) k)) required_fields"
    by (simp add: required_fields_def)
  then show ?thesis by (simp add: v map_of_submissionWithTimestamp map_of_obj_set)
qed

lemma POST_invalid:
  assumes "any_missing v required_fields \<noteq> Inr False"
  shows "POST now (Some v) s = (s, submit_missing) \<or> POST now (Some v) s = (s, submit_failed)"
proof -
  consider (err) e where "any_missing v required_fields = Inl e" | (miss) "any_missing v required_fields = Inr True"
    using assms by (metis (full_types) sumE)
  then show ?thesis by cases (simp_all add: POST_missing POST_def submit_try_def)
qed

lemma POST_cases:
  obtains (accept) v xs where "body = Some v" "any_missing v required_fields = Inr False"
      "readSubmissions s = JArr xs" "writable s"
      "POST now body s =
         (s\<lparr>data_dir := True, db_file := Some (Content (JArr (xs @ [submissionWithTimestamp v now])))\<rparr>,
          submit_ok)"
  | (unchanged) r where "POST now body s = (s, r)" "r = submit_missing \<or> r = submit_failed"
proof (cases body)
  case None
  then show ?thesis using POST_unparsable unchanged by blast
next
  case (Some v)
  consider (err) e where "any_missing v required_fields = Inl e"
    | (miss) "any_missing v required_fields = Inr True"
    | (ok) "any_missing v required_fields = Inr False"
    by (metis (full_types) sumE)
  then show ?thesis
  proof cases
    case err
    then have "POST now body s = (s, submit_failed)"
      using Some by (simp add: POST_def submit_try_def)
    then show ?thesis using unchanged by blast
  next
    case miss
    then show ?thesis using Some POST_missing unchanged by blast
  next
    case ok
    show ?thesis
    proof (cases "\<exists>xs. readSubmissions s = JArr xs")
      case True
      then obtain xs where xs: "readSubmissions s = JArr xs" by blast
      show ?thesis
      proof (cases "writable s")
        case True
        then show ?thesis using accept Some ok xs POST_accept by blast
      next
        case False
        then show ?thesis using unchanged Some ok xs POST_readonly by blast
      qed
    next
      case False
      then show ?thesis using unchanged Some ok POST_not_array by blast
    qed
  qed
qed

lemma POST_valid_response:
  assumes "any_missing v required_fields = Inr False"
  shows "snd (POST now (Some v) s) = submit_ok \<or> snd (POST now (Some v) s) = submit_failed"
proof (cases "\<exists>xs. readSubmissions s = JArr xs")
  case True
  then obtain xs where xs: "readSubmissions s = JArr xs" by blast
  then show ?thesis
    using POST_accept [OF assms xs] POST_readonly [OF assms xs] by (cases "writable s") auto
next
  case False
  then show ?thesis using POST_not_array [OF assms] by auto
qed

lemma store_valid_readSubmissions:
  "store_valid s \<Longrightarrow> \<exists>xs. readSubmissions s = JArr xs \<and> list_all entry_ok xs"
  by (auto simp: store_valid_def readSubmissions_def split: option.splits file_content.splits json.splits)

subsection \<open>Properties of the store\<close>

text \<open>
  C1. The spec's first testable property: for a body whose required fields are all
  present, a \<open>POST\<close> on a store holding the array \<open>xs\<close> answers 200, and a
  following \<open>GET\<close> returns \<open>xs\<close> with the body, stamped with the server's time, appended.
\<close>

theorem post_then_get:
  assumes "any_missing v required_fields = Inr False" "readSubmissions s = JArr xs" "writable s"
  shows "snd (POST now (Some v) s) = submit_ok \<and>
         GET (fst (POST now (Some v) s)) =
           Response 200 (JObj [(''success'', JBool True),
                               (''submissions'', JArr (xs @ [submissionWithTimestamp v now]))])"
  using POST_accept [OF assms]
  by (simp add: GET_def readSubmissions_get_def)

theorem post_then_get_witness:
  "snd (POST ''2024-05-01T10:00:00.000Z''
          (Some (JObj [(''fullName'', JStr ''Jane Doe''), (''email'', JStr ''jane@acme.com''),
                       (''companyName'', JStr ''Acme''), (''companySize'', JStr ''11-50'')]))
          \<lparr>data_dir = False, db_file = None, writable = True\<rparr>) = submit_ok \<and>
   GET (fst (POST ''2024-05-01T10:00:00.000Z''
          (Some (JObj [(''fullName'', JStr ''Jane Doe''), (''email'', JStr ''jane@acme.com''),
                       (''companyName'', JStr ''Acme''), (''companySize'', JStr ''11-50'')]))
          \<lparr>data_dir = False, db_file = None, writable = True\<rparr>)) =
     Response 200 (JObj [(''success'', JBool True),
       (''submissions'', JArr [JObj [(''fullName'', JStr ''Jane Doe''), (''email'', JStr ''jane@acme.com''),
          (''companyName'', JStr ''Acme''), (''companySize'', JStr ''11-50''),
          (''timestamp'', JStr ''2024-05-01T10:00:00.000Z'')]])])"
  using post_then_get [of "JObj [(''fullName'', JStr ''Jane Doe''), (''email'', JStr ''jane@acme.com''),
                       (''companyName'', JStr ''Acme''), (''companySize'', JStr ''11-50'')]"
      "\<lparr>data_dir = False, db_file = None, writable = True\<rparr>" "[]" "''2024-05-01T10:00:00.000Z''"]
  by (simp add: required_fields_def readSubmissions_def submissionWithTimestamp_def spread_with_def)

text \<open>
  C2. An object body is answered 400 exactly when one of the four required fields is
  falsy (absent, \<open>null\<close>, \<open>false\<close>, \<open>0\<close> or the empty string), and then the store is
  left as it was. The answer does not say which field is missing.
\<close>

theorem post_rejects_iff_missing:
  "(snd (POST now (Some (JObj kvs)) s) = submit_missing) =
     (\<not> list_all (\<lambda>k. truthy (map_of kvs k)) required_fields) \<and>
   (\<not> list_all (\<lambda>k. truthy (map_of kvs k)) required_fields \<longrightarrow>
     fst (POST now (Some (JObj kvs)) s) = s)"
proof -
  have distinct: "submit_ok \<noteq> submit_missing" "submit_failed \<noteq> submit_missing"
    by (simp_all add: submit_ok_def submit_missing_def submit_failed_def)
  show ?thesis
  proof (cases "list_all (\<lambda>k. truthy (map_of kvs k)) required_fields")
    case True
    then have ok: "any_missing (JObj kvs) required_fields = Inr False"
      by (simp add: any_missing_JObj)
    show ?thesis
      using POST_valid_response [OF ok, of now s] distinct True by auto
  next
    case False
    then have "any_missing (JObj kvs) required_fields = Inr True"
      by (simp add: any_missing_JObj)
    with False show ?thesis by (simp add: POST_missing)
  qed
qed

theorem post_rejects_iff_missing_witness:
  "snd (POST ''2024-05-01T10:00:00.000Z'' (Some (JObj [(''fullName'', JStr ''Jane Doe''), (''email'', JStr [])]))
          \<lparr>data_dir = True, db_file = Some (Content (JArr [])), writable = True\<rparr>) = submit_missing \<and>
   fst (POST ''2024-05-01T10:00:00.000Z'' (Some (JObj [(''fullName'', JStr ''Jane Doe''), (''email'', JStr [])]))
          \<lparr>data_dir = True, db_file = Some (Content (JArr [])), writable = True\<rparr>) =
     \<lparr>data_dir = True, db_file = Some (Content (JArr [])), writable = True\<rparr>"
  using post_rejects_iff_missing [of "''2024-05-01T10:00:00.000Z''"
      "[(''fullName'', JStr ''Jane Doe''), (''email'', JStr [])]"
      "\<lparr>data_dir = True, db_file = Some (Content (JArr [])), writable = True\<rparr>"]
  by (simp add: required_fields_def)


text \<open>
  C5. The data-model invariant of the spec, as far as the code keeps it: if every
  stored entry is an object with its four required fields truthy and a string
  timestamp, then so is every entry after any \<open>POST\<close>, whatever the request.
\<close>

theorem store_valid_preserved:
  assumes "store_valid s"
  shows "store_valid (fst (POST now body s))"
proof (rule POST_cases [of body s now])
  fix v xs
  assume ok: "any_missing v required_fields = Inr False" and xs: "readSubmissions s = JArr xs"
    and post: "POST now body s =
         (s\<lparr>data_dir := True, db_file := Some (Content (JArr (xs @ [submissionWithTimestamp v now])))\<rparr>,
          submit_ok)"
  from assms xs have "list_all entry_ok xs"
    using store_valid_readSubmissions by fastforce
  with entry_ok_submissionWithTimestamp [OF ok] show ?thesis
    by (simp add: post store_valid_def)
next
  fix r assume "POST now body s = (s, r)"
  with assms show ?thesis by simp
qed

theorem store_valid_preserved_witness:
  "store_valid empty_store \<and>
   store_valid (fst (POST ''2024-05-01T10:00:00.000Z'' (Some jane_body) empty_store))"
proof -
  have v: "store_valid empty_store" by (simp add: store_valid_def)
  show ?thesis
    using v store_valid_preserved [OF v, of "''2024-05-01T10:00:00.000Z''" "Some jane_body"] by simp
qed

text \<open>
  C6. A file that exists but cannot be read or parsed is read as the empty array, so
  the next accepted \<open>POST\<close> replaces it by an array holding only the new entry: every
  earlier submission is lost without an error (the spec requires \<open>CorruptData\<close>).
\<close>

theorem corrupt_store_overwritten:
  assumes "db_file s = Some Unreadable" "writable s" "any_missing v required_fields = Inr False"
  shows "db_file (fst (POST now (Some v) s)) = Some (Content (JArr [submissionWithTimestamp v now]))"
proof -
  from assms(1) have "readSubmissions s = JArr []" by (simp add: readSubmissions_def)
  from POST_accept [OF assms(3) this assms(2)] show ?thesis by simp
qed

theorem corrupt_store_overwritten_witness:
  "db_file (fst (POST ''2024-05-01T10:00:00.000Z'' (Some jane_body)
      \<lparr>data_dir = True, db_file = Some Unreadable, writable = True\<rparr>)) =
   Some (Content (JArr [JObj [(''fullName'', JStr ''Jane Doe''), (''email'', JStr ''jane@acme.com''),
      (''companyName'', JStr ''Acme''), (''companySize'', JStr ''11-50''),
      (''timestamp'', JStr ''2024-05-01T10:00:00.000Z'')]]))"
  using corrupt_store_overwritten [of "\<lparr>data_dir = True, db_file = Some Unreadable, writable = True\<rparr>"
      jane_body "''2024-05-01T10:00:00.000Z''"]
  by (simp add: required_fields_def submissionWithTimestamp_def spread_with_def)

text \<open>
  C7. \<open>GET\<close> always answers 200, and a corrupt file gives exactly the answer of an
  absent one (an empty list): a reader cannot tell data loss from an empty store.
\<close>

theorem get_corrupt_like_absent:
  "status (GET s) = 200 \<and>
   (db_file s = Some Unreadable \<longrightarrow> GET s = GET (s\<lparr>db_file := None\<rparr>))"
  by (simp add: GET_def readSubmissions_get_def)

theorem get_corrupt_like_absent_witness:
  "status (GET \<lparr>data_dir = True, db_file = Some Unreadable, writable = True\<rparr>) = 200 \<and>
   GET \<lparr>data_dir = True, db_file = Some Unreadable, writable = True\<rparr> =
     GET \<lparr>data_dir = True, db_file = None, writable = True\<rparr>"
proof -
  have h: "status (GET \<lparr>data_dir = True, db_file = Some Unreadable, writable = True\<rparr>) = 200 \<and>
    (db_file \<lparr>data_dir = True, db_file = Some Unreadable, writable = True\<rparr> = Some Unreadable \<longrightarrow>
     GET \<lparr>data_dir = True, db_file = Some Unreadable, writable = True\<rparr> =
     GET (\<lparr>data_dir = True, db_file = Some Unreadable, writable = True\<rparr>\<lparr>db_file := None\<rparr>))"
    by (rule get_corrupt_like_absent)
  show ?thesis
  proof
    show "status (GET \<lparr>data_dir = True, db_file = Some Unreadable, writable = True\<rparr>) = 200"
      using h by (rule conjunct1)
    show "GET \<lparr>data_dir = True, db_file = Some Unreadable, writable = True\<rparr> =
      GET \<lparr>data_dir = True, db_file = None, writable = True\<rparr>"
      using h by simp
  qed
qed

end
