(* ===== verification/EventLoop.thy ===== *)
theory EventLoop
  imports FormStore
begin

text \<open>
  Concurrency of the submission store. The handler \<open>POST\<close> of
  \<open>submit-form/route.ts\<close> has one \<open>await\<close> (\<open>request.json()\<close>); everything after it
  (validation, \<open>readSubmissions\<close>, \<open>push\<close>, \<open>writeSubmissions\<close>) is synchronous
  \<open>fs\<close> code. In one Node.js process the event loop therefore runs that part of each
  request without interruption, however many requests are waiting for their bodies.
  The model is a step relation over the server: requests arrive (their bodies are being
  read) and the loop resumes any one of them, running the synchronous remainder as one
  step. Several server processes sharing \<open>data/submissions.json\<close> do not share an
  event loop: there the read phase and the write phase of two requests can interleave.
  The handler is split into these two phases, \<open>submit_prepare\<close> (source lines 48 to
  68) and \<open>submit_commit\<close> (lines 70 to 81), and \<open>POST\<close> is shown to be the one
  followed by the other.
\<close>

subsection \<open>The two phases of \<open>POST\<close>\<close>

definition submit_prepare :: "string \<Rightarrow> json option \<Rightarrow> fs \<Rightarrow> response + json list" where
  "submit_prepare now body s =
     (case body of
        None \<Rightarrow> Inl submit_failed
      | Some formData \<Rightarrow>
          (case any_missing formData required_fields of
             Inl e \<Rightarrow> Inl submit_failed
           | Inr True \<Rightarrow> Inl submit_missing
           | Inr False \<Rightarrow>
               (case js_push (readSubmissions s) (submissionWithTimestamp formData now) of
                  Inl e \<Rightarrow> Inl submit_failed
                | Inr subs \<Rightarrow> Inr subs)))"

definition submit_commit :: "json list \<Rightarrow> fs \<Rightarrow> fs \<times> response" where
  "submit_commit subs s =
     (case writeSubmissions subs s of
        (s', Inl e) \<Rightarrow> (s', submit_failed)
      | (s', Inr u) \<Rightarrow> (s', submit_ok))"

subsection \<open>One process: the event loop\<close>

text \<open>
  The server: the file system, the requests whose bodies are being awaited, and the
  requests answered so far with the clock reading their continuation took and the
  response. Which waiting request resumes next, and when new ones arrive, is up to the
  environment, so the steps form a relation.
\<close>

record server =
  disk :: fs
  waiting :: "json option list"
  served :: "(json option \<times> string \<times> response) list"

inductive loop_step :: "server \<Rightarrow> server \<Rightarrow> bool" where
  arrive: "loop_step S (S\<lparr>waiting := waiting S @ [body]\<rparr>)"
| resume: "i < length (waiting S) \<Longrightarrow> POST now (waiting S ! i) (disk S) = (d', r) \<Longrightarrow>
    loop_step S \<lparr>disk = d', waiting = remove_at i (waiting S),
                 served = served S @ [(waiting S ! i, now, r)]\<rparr>"

inductive loop_reach :: "fs \<Rightarrow> server \<Rightarrow> bool" for d0 :: fs where
  start: "loop_reach d0 \<lparr>disk = d0, waiting = [], served = []\<rparr>"
| step: "loop_reach d0 S \<Longrightarrow> loop_step S S' \<Longrightarrow> loop_reach d0 S'"

inductive_cases loop_stepE: "loop_step S S'"

text \<open>A request whose body \<open>POST\<close> accepts, and the entry an answered request left.\<close>

definition body_valid :: "json option \<Rightarrow> bool" where
  "body_valid b = (case b of None \<Rightarrow> False | Some v \<Rightarrow> any_missing v required_fields = Inr False)"

fun stored_entry :: "json option \<times> string \<times> response \<Rightarrow> json list" where
  "stored_entry (Some v, now, r) = (if r = submit_ok then [submissionWithTimestamp v now] else [])"
| "stored_entry (None, now, r) = []"

definition loop_inv :: "json list \<Rightarrow> server \<Rightarrow> bool" where
  "loop_inv xs0 S =
     (writable (disk S) \<and>
      readSubmissions (disk S) = JArr (xs0 @ concat (map stored_entry (served S))) \<and>
      list_all (\<lambda>(b, now, r). (r = submit_ok) = body_valid b) (served S))"

subsection \<open>Lemmas\<close>

lemma submit_ok_ne [simp]: "submit_failed \<noteq> submit_ok" "submit_missing \<noteq> submit_ok"
  by (simp_all add: submit_ok_def submit_failed_def submit_missing_def)

lemma POST_array_store:
  assumes "readSubmissions s = JArr xs" "writable s"
  shows "POST now b s =
    (if body_valid b
     then (s\<lparr>data_dir := True,
             db_file := Some (Content (JArr (xs @ [submissionWithTimestamp (the b) now])))\<rparr>, submit_ok)
     else (s, snd (POST now b s))) \<and>
    (snd (POST now b s) = submit_ok) = body_valid b"
proof (cases b)
  case None
  then show ?thesis by (simp add: POST_unparsable body_valid_def)
next
  case (Some v)
  show ?thesis
  proof (cases "any_missing v required_fields = Inr False")
    case True
    with Some show ?thesis using POST_accept [OF True assms] by (simp add: body_valid_def)
  next
    case False
    then have "fst (POST now (Some v) s) = s \<and> snd (POST now (Some v) s) \<noteq> submit_ok"
      using POST_invalid [of v now s] by auto
    with Some False show ?thesis
      by (cases "POST now (Some v) s") (simp add: body_valid_def)
  qed
qed

lemma loop_step_inv:
  assumes "loop_step S S'" "loop_inv xs0 S"
  shows "loop_inv xs0 S'"
  using assms(1)
proof cases
  case (arrive body)
  with assms(2) show ?thesis by (simp add: loop_inv_def)
next
  case (resume i now d' r)
  from assms(2) have w: "writable (disk S)"
    and arr: "readSubmissions (disk S) = JArr (xs0 @ concat (map stored_entry (served S)))"
    by (simp_all add: loop_inv_def)
  note post = POST_array_store [OF arr w, of now "waiting S ! i"]
  show ?thesis
  proof (cases "body_valid (waiting S ! i)")
    case True
    then obtain v where "waiting S ! i = Some v" by (cases "waiting S ! i") (auto simp: body_valid_def)
    with True post resume assms(2) show ?thesis
      by (auto simp: loop_inv_def readSubmissions_def)
  next
    case False
    with post resume assms(2) show ?thesis
      by (cases "waiting S ! i") (auto simp: loop_inv_def)
  qed
qed

subsection \<open>Properties\<close>

text \<open>
  C3. No lost update within one server process. Whatever the order in which requests
  arrive and the event loop resumes them, the store holds the initial array followed
  by exactly the entries of the requests answered 200, in the order they were
  answered, and a request is answered 200 exactly when its body passes validation.
\<close>

theorem no_lost_update:
  assumes "loop_reach d0 S" "readSubmissions d0 = JArr xs0" "writable d0"
  shows "readSubmissions (disk S) = JArr (xs0 @ concat (map stored_entry (served S))) \<and>
         list_all (\<lambda>(b, now, r). (r = submit_ok) = body_valid b) (served S)"
proof -
  from assms(1) have "loop_inv xs0 S"
  proof induction
    case start
    with assms(2,3) show ?case by (simp add: loop_inv_def)
  next
    case (step S S')
    from step.hyps(2) step.IH show ?case by (rule loop_step_inv)
  qed
  then show ?thesis by (simp add: loop_inv_def)
qed

theorem no_lost_update_witness:
  "\<exists>S. loop_reach empty_store S \<and>
       served S = [(Some john_body, ''T1'', submit_ok), (Some jane_body, ''T2'', submit_ok)] \<and>
       readSubmissions (disk S) =
         JArr [submissionWithTimestamp john_body ''T1'', submissionWithTimestamp jane_body ''T2'']"
proof -
  define S0 where "S0 = \<lparr>disk = empty_store, waiting = [], served = []\<rparr>"
  define S1 where "S1 = S0\<lparr>waiting := waiting S0 @ [Some jane_body]\<rparr>"
  define S2 where "S2 = S1\<lparr>waiting := waiting S1 @ [Some john_body]\<rparr>"
  define S3 where "S3 = \<lparr>disk = fst (POST ''T1'' (waiting S2 ! 1) (disk S2)),
      waiting = remove_at 1 (waiting S2),
      served = served S2 @ [(waiting S2 ! 1, ''T1'', snd (POST ''T1'' (waiting S2 ! 1) (disk S2)))]\<rparr>"
  define S4 where "S4 = \<lparr>disk = fst (POST ''T2'' (waiting S3 ! 0) (disk S3)),
      waiting = remove_at 0 (waiting S3),
      served = served S3 @ [(waiting S3 ! 0, ''T2'', snd (POST ''T2'' (waiting S3 ! 0) (disk S3)))]\<rparr>"
  have r0: "loop_reach empty_store S0" unfolding S0_def by (rule loop_reach.start)
  have r1: "loop_reach empty_store S1" unfolding S1_def by (rule loop_reach.step [OF r0 loop_step.arrive])
  have r2: "loop_reach empty_store S2" unfolding S2_def by (rule loop_reach.step [OF r1 loop_step.arrive])
  have l3: "1 < length (waiting S2)" by (simp add: S2_def S1_def S0_def)
  have r3: "loop_reach empty_store S3"
    unfolding S3_def by (rule loop_reach.step [OF r2 loop_step.resume [OF l3 prod.collapse [symmetric]]])
  have l4: "0 < length (waiting S3)" by (simp add: S3_def S2_def S1_def S0_def remove_at_def)
  have r4: "loop_reach empty_store S4"
    unfolding S4_def by (rule loop_reach.step [OF r3 loop_step.resume [OF l4 prod.collapse [symmetric]]])
  have sv: "served S4 = [(Some john_body, ''T1'', submit_ok), (Some jane_body, ''T2'', submit_ok)]"
    by (simp add: S4_def S3_def S2_def S1_def S0_def remove_at_def POST_def submit_try_def
        required_fields_def readSubmissions_def writeSubmissions_writable)
  have "readSubmissions (disk S4) = JArr ([] @ concat (map stored_entry (served S4)))"
    using no_lost_update [OF r4] by (simp add: readSubmissions_def)
  with r4 sv show ?thesis by auto
qed

text \<open>
  C4. Across two server processes the same handler loses an update: two valid
  requests that both read the store before either writes are both answered 200, yet
  the store ends with only the entry of the one that wrote last.
\<close>

theorem lost_update_interleaved:
  assumes "any_missing a required_fields = Inr False" "any_missing b required_fields = Inr False"
    "readSubmissions s = JArr xs" "writable s"
  shows "submit_prepare t1 (Some a) s = Inr (xs @ [submissionWithTimestamp a t1]) \<and>
         submit_prepare t2 (Some b) s = Inr (xs @ [submissionWithTimestamp b t2]) \<and>
         snd (submit_commit (xs @ [submissionWithTimestamp a t1]) s) = submit_ok \<and>
         snd (submit_commit (xs @ [submissionWithTimestamp b t2])
                (fst (submit_commit (xs @ [submissionWithTimestamp a t1]) s))) = submit_ok \<and>
         readSubmissions (fst (submit_commit (xs @ [submissionWithTimestamp b t2])
                (fst (submit_commit (xs @ [submissionWithTimestamp a t1]) s)))) =
           JArr (xs @ [submissionWithTimestamp b t2])"
  using assms
  by (simp add: submit_prepare_def submit_commit_def writeSubmissions_writable readSubmissions_def)

theorem lost_update_interleaved_witness:
  "snd (submit_commit [submissionWithTimestamp john_body ''T2'']
          (fst (submit_commit [submissionWithTimestamp jane_body ''T1''] empty_store))) = submit_ok \<and>
   snd (submit_commit [submissionWithTimestamp jane_body ''T1''] empty_store) = submit_ok \<and>
   readSubmissions (fst (submit_commit [submissionWithTimestamp john_body ''T2'']
          (fst (submit_commit [submissionWithTimestamp jane_body ''T1''] empty_store)))) =
     JArr [submissionWithTimestamp john_body ''T2'']"
  using lost_update_interleaved [of jane_body john_body empty_store "[]" "''T1''" "''T2''"]
  by (simp add: required_fields_def readSubmissions_def)

end
