(* ===== verification/DemoForm.thy ===== *)
theory DemoForm
  imports FormStore
begin

text \<open>
  The client side of the submission path: \<open>src/Tech crm/src/components/DemoForm.tsx\<close>.
  The component keeps the seven form fields, the per-field error messages, and three
  flags of the submit cycle. \<open>validateForm\<close> checks the required fields (after
  \<open>trim()\<close>) and the e-mail pattern \<open>/^[^\s@]+@[^\s@]+\.[^\s@]+$/\<close>;
  \<open>handleChange\<close> stores an input's value under its \<open>name\<close>; \<open>handleSubmit\<close>
  validates, posts \<open>JSON.stringify(formData)\<close> to \<open>/api/submit-form\<close> and reacts to
  the answer. The asynchronous submit is split at its \<open>await\<close>s into the part before
  the request (\<open>handleSubmit_start\<close>) and the part after the answer
  (\<open>handleSubmit_finish\<close>). Whitespace is the Unicode whitespace of JavaScript's
  \<open>\s\<close> and \<open>trim()\<close>, read over the string's characters (theory \<open>JsString\<close>).
\<close>

datatype form_field = FullName | Email | CompanyName | PhoneNumber | JobTitle | CompanySize | Message

record form_data =
  fullName :: string
  email :: string
  companyName :: string
  phoneNumber :: string
  jobTitle :: string
  companySize :: string
  message :: string

type_synonym form_errors = "form_field \<Rightarrow> string option"

record demo_state =
  formData :: form_data
  errors :: form_errors
  isSubmitting :: bool
  isSubmitted :: bool
  submitError :: string

subsection \<open>The e-mail pattern\<close>

text \<open>
  The pattern \<open>/^[^\s@]+@[^\s@]+\.[^\s@]+$/\<close> as the test the component runs,
  read over the characters of the string (\<open>utf8_chars\<close>; a character outside the
  basic plane is two code units, both matched by \<open>[^\s@]\<close>, so reading it as one
  character does not change the outcome): no whitespace, exactly one \<open>@\<close>, a
  non-empty local part, and a dot in the domain that is neither its first nor its last
  character.
\<close>

definition not_space_at :: "string \<Rightarrow> bool" where
  "not_space_at g = (\<not> js_ws g \<and> g \<noteq> ''@'')"

definition email_test :: "string \<Rightarrow> bool" where
  "email_test w =
     (let cs = utf8_chars w; a = takeWhile (\<lambda>g. g \<noteq> ''@'') cs; d = drop (Suc (length a)) cs in
      length a < length cs \<and> a \<noteq> [] \<and>
      list_all not_space_at a \<and> list_all not_space_at d \<and>
      ''.'' \<in> set (butlast (tl d)))"

subsection \<open>The component's functions\<close>

fun get_field :: "form_data \<Rightarrow> form_field \<Rightarrow> string" where
  "get_field fd FullName = fullName fd"
| "get_field fd Email = email fd"
| "get_field fd CompanyName = companyName fd"
| "get_field fd PhoneNumber = phoneNumber fd"
| "get_field fd JobTitle = jobTitle fd"
| "get_field fd CompanySize = companySize fd"
| "get_field fd Message = message fd"

fun set_field :: "form_data \<Rightarrow> form_field \<Rightarrow> string \<Rightarrow> form_data" where
  "set_field fd FullName v = fd\<lparr>fullName := v\<rparr>"
| "set_field fd Email v = fd\<lparr>email := v\<rparr>"
| "set_field fd CompanyName v = fd\<lparr>companyName := v\<rparr>"
| "set_field fd PhoneNumber v = fd\<lparr>phoneNumber := v\<rparr>"
| "set_field fd JobTitle v = fd\<lparr>jobTitle := v\<rparr>"
| "set_field fd CompanySize v = fd\<lparr>companySize := v\<rparr>"
| "set_field fd Message v = fd\<lparr>message := v\<rparr>"

definition empty_form :: form_data where
  "empty_form = \<lparr>fullName = [], email = [], companyName = [], phoneNumber = [], jobTitle = [],
                  companySize = [], message = []\<rparr>"

definition init_demo :: demo_state where
  "init_demo = \<lparr>formData = empty_form, errors = Map.empty, isSubmitting = False,
                 isSubmitted = False, submitError = []\<rparr>"

text \<open>
  \<open>validateForm\<close>: the object \<open>newErrors\<close> as an association list in assignment
  order, and whether it has no keys.
\<close>

definition validateForm :: "form_data \<Rightarrow> (form_field \<times> string) list \<times> bool" where
  "validateForm fd =
     (let e1 = (if js_trim (fullName fd) = [] then [(FullName, ''Required'')] else []);
          e2 = (if js_trim (email fd) = [] then e1 @ [(Email, ''Required'')]
                else if \<not> email_test (email fd) then e1 @ [(Email, ''Enter valid email'')]
                else e1);
          e3 = (if js_trim (companyName fd) = [] then e2 @ [(CompanyName, ''Required'')] else e2);
          e4 = (if companySize fd = [] then e3 @ [(CompanySize, ''Select company size'')] else e3)
      in (e4, e4 = []))"

text \<open>
  \<open>handleChange\<close>: store the value under the input's name, and if that field showed
  an error, clear it (the key is set to \<open>undefined\<close>).
\<close>

definition handleChange :: "form_field \<Rightarrow> string \<Rightarrow> demo_state \<Rightarrow> demo_state" where
  "handleChange name value st =
     st\<lparr>formData := set_field (formData st) name value,
        errors := (if errors st name \<noteq> None then (errors st)(name := None) else errors st)\<rparr>"

text \<open>The request body: \<open>JSON.stringify(formData)\<close> as the server parses it.\<close>

definition form_json :: "form_data \<Rightarrow> json" where
  "form_json fd = JObj [(''fullName'', JStr (fullName fd)), (''email'', JStr (email fd)),
      (''companyName'', JStr (companyName fd)), (''phoneNumber'', JStr (phoneNumber fd)),
      (''jobTitle'', JStr (jobTitle fd)), (''companySize'', JStr (companySize fd)),
      (''message'', JStr (message fd))]"

text \<open>
  \<open>handleSubmit\<close> up to the request: if validation fails the errors are shown and
  nothing is sent; otherwise the submit flags are set and the body is sent.
\<close>

definition handleSubmit_start :: "demo_state \<Rightarrow> demo_state \<times> json option" where
  "handleSubmit_start st =
     (let (errs, ok) = validateForm (formData st) in
      if \<not> ok then (st\<lparr>errors := map_of errs\<rparr>, None)
      else (st\<lparr>errors := map_of errs, isSubmitting := True, submitError := []\<rparr>,
            Some (form_json (formData st))))"

text \<open>What \<open>fetch\<close> gives back: a rejection (network failure) or an HTTP answer.\<close>

datatype fetch_result = FetchRejected string | FetchResponse response

text \<open>\<open>data.error || 'Failed to submit form'\<close>.\<close>

definition error_message :: "json \<Rightarrow> string" where
  "error_message body =
     (case body of
        JObj kvs \<Rightarrow> (case map_of kvs ''error'' of
                      Some (JStr m) \<Rightarrow> if m \<noteq> [] then m else ''Failed to submit form''
                    | _ \<Rightarrow> ''Failed to submit form'')
      | _ \<Rightarrow> ''Failed to submit form'')"

text \<open>
  \<open>handleSubmit\<close> after the answer: \<open>response.ok\<close> is a status in 200..299; on
  success the form is reset and the thank-you view is shown; otherwise the message of
  the thrown \<open>Error\<close> is shown; \<open>finally\<close> clears \<open>isSubmitting\<close>.
\<close>

definition handleSubmit_finish :: "demo_state \<Rightarrow> fetch_result \<Rightarrow> demo_state" where
  "handleSubmit_finish st res =
     (case res of
        FetchRejected msg \<Rightarrow> st\<lparr>submitError := msg, isSubmitting := False\<rparr>
      | FetchResponse (Response code body) \<Rightarrow>
          if 200 \<le> code \<and> code \<le> 299
          then st\<lparr>formData := empty_form, isSubmitted := True, isSubmitting := False\<rparr>
          else st\<lparr>submitError := error_message body, isSubmitting := False\<rparr>)"

definition companySizeOptions :: "(string \<times> string) list" where
  "companySizeOptions = [([], ''Select size''), (''1-10'', ''1-10''), (''11-50'', ''11-50''),
     (''51-200'', ''51-200''), (''201-500'', ''201-500''), (''501+'', ''501+'')]"

abbreviation jane_form :: form_data where
  "jane_form \<equiv> \<lparr>fullName = ''Jane Doe'', email = ''jane@acme.com'', companyName = ''Acme'',
                  phoneNumber = [], jobTitle = ''CTO'', companySize = ''11-50'', message = []\<rparr>"

subsection \<open>Lemmas\<close>

lemma validateForm_snd: "snd (validateForm fd) = (fst (validateForm fd) = [])"
  by (simp add: validateForm_def Let_def)

lemma validateForm_ok_iff:
  "snd (validateForm fd) \<longleftrightarrow>
     js_trim (fullName fd) \<noteq> [] \<and> js_trim (email fd) \<noteq> [] \<and> email_test (email fd) \<and>
     js_trim (companyName fd) \<noteq> [] \<and> companySize fd \<noteq> []"
  by (simp add: validateForm_def Let_def)

subsection \<open>Properties of the client form\<close>

text \<open>
  C8. The client check refines the server check: a form that \<open>validateForm\<close>
  accepts is sent as a body whose four required fields are all truthy, so the server's
  guard lets it through.
\<close>

theorem client_valid_server_accepts:
  assumes "snd (validateForm fd)"
  shows "any_missing (form_json fd) required_fields = Inr False"
proof -
  from assms have "fullName fd \<noteq> []" "email fd \<noteq> []" "companyName fd \<noteq> []" "companySize fd \<noteq> []"
    by (auto simp: validateForm_ok_iff dest: js_trim_nonempty)
  then show ?thesis by (simp add: any_missing_JObj form_json_def required_fields_def)
qed

theorem client_valid_server_accepts_witness:
  "snd (validateForm jane_form) \<and> any_missing (form_json jane_form) required_fields = Inr False"
proof -
  have v: "snd (validateForm jane_form)"
    by (simp add: validateForm_def js_string_eval email_test_def not_space_at_def)
  from v client_valid_server_accepts [OF v] show ?thesis by simp
qed

end
