(* ===== verification/Ui.thy ===== *)
theory Ui
  imports JsString
begin

text \<open>
  The shape of a React render. A component's JSX is modelled as a tree of elements,
  each with its tag (\<open>''div''\<close>, \<open>''motion.div''\<close>, a component name such as
  \<open>''ChevronDownIcon''\<close>), its attributes and its children, and text leaves. An
  attribute is a name with a string value (\<open>className\<close>, \<open>href\<close>, \<open>key\<close>, and the
  animation props whose value depends on state) or an event handler, given as the
  message the component's update function receives (\<open>onClick={() => toggleItem(i)}\<close>
  is \<open>On ''click'' (ToggleItem i)\<close>). Animation timing constants (durations, easing,
  spring parameters) are not modelled. A conditional \<open>{c && <X/>}\<close> is \<open>X\<close> or
  nothing in the child list; \<open>xs.map(f)\<close> is \<open>map f xs\<close>.
\<close>

datatype 'm attr = Attr string string | On string 'm

datatype 'm view = El string "'m attr list" "'m view list" | Txt string

text \<open>Queries over a rendered tree, in document order.\<close>

fun view_texts :: "'m view \<Rightarrow> string list" where
  "view_texts (Txt s) = [s]"
| "view_texts (El tag as cs) = concat (map view_texts cs)"

fun attr_msgs :: "'m attr list \<Rightarrow> 'm list" where
  "attr_msgs [] = []"
| "attr_msgs (Attr n v # as) = attr_msgs as"
| "attr_msgs (On ev m # as) = m # attr_msgs as"

fun view_msgs :: "'m view \<Rightarrow> 'm list" where
  "view_msgs (Txt s) = []"
| "view_msgs (El tag as cs) = attr_msgs as @ concat (map view_msgs cs)"

fun attr_value :: "string \<Rightarrow> 'm attr list \<Rightarrow> string option" where
  "attr_value n [] = None"
| "attr_value n (Attr n' v # as) = (if n = n' then Some v else attr_value n as)"
| "attr_value n (On ev m # as) = attr_value n as"

text \<open>All elements of a tree (pre-order) with a given tag.\<close>

fun elems_tagged :: "string \<Rightarrow> 'm view \<Rightarrow> 'm view list" where
  "elems_tagged t (Txt s) = []"
| "elems_tagged t (El tag as cs) =
     (if tag = t then [El tag as cs] else []) @ concat (map (elems_tagged t) cs)"

text \<open>Tailwind class lists are written as the source's strings and template literals.\<close>

definition cls :: "string \<Rightarrow> 'm attr" where
  "cls c = Attr ''className'' c"

text \<open>All elements of a tree in pre-order, and an element's tag and attributes.\<close>

fun all_elems :: "'m view \<Rightarrow> 'm view list" where
  "all_elems (Txt s) = []"
| "all_elems (El tag as cs) = El tag as cs # concat (map all_elems cs)"

fun el_tag :: "'m view \<Rightarrow> string" where
  "el_tag (El tag as cs) = tag"
| "el_tag (Txt s) = []"

fun el_attrs :: "'m view \<Rightarrow> 'm attr list" where
  "el_attrs (El tag as cs) = as"
| "el_attrs (Txt s) = []"

text \<open>A number interpolated into markup (\<open>{n}\<close>, \<open>custom={i}\<close>), in decimal.\<close>

fun string_of_nat :: "nat \<Rightarrow> string" where
  "string_of_nat n =
     (if n < 10 then [char_of (48 + n)] else string_of_nat (n div 10) @ [char_of (48 + n mod 10)])"

declare string_of_nat.simps [simp del]

text \<open>A double quote character in rendered text.\<close>

definition dq :: string where
  "dq = [CHR 0x22]"

text \<open>Rendered text is a string of bytes in UTF-8, the encoding of the source files; the
  non-ASCII characters the pages print are named here.\<close>

definition utf8_degree :: string where
  "utf8_degree = [CHR 0xC2, CHR 0xB0]"

definition utf8_rarr :: string where
  "utf8_rarr = [CHR 0xE2, CHR 0x86, CHR 0x92]"

definition utf8_ndash :: string where
  "utf8_ndash = [CHR 0xE2, CHR 0x80, CHR 0x93]"

definition utf8_mdash :: string where
  "utf8_mdash = [CHR 0xE2, CHR 0x80, CHR 0x94]"

text \<open>\<open>s.charAt(0)\<close>: the first character, or the empty string.\<close>

definition charAt0 :: "string \<Rightarrow> string" where
  "charAt0 s = take 1 s"

text \<open>The form controls of a rendered tree: its \<open>input\<close>, \<open>select\<close> and \<open>textarea\<close> elements.\<close>

definition is_control :: "string \<Rightarrow> bool" where
  "is_control tag = (tag \<in> {''input'', ''select'', ''textarea''})"

definition form_controls :: "'m view \<Rightarrow> 'm view list" where
  "form_controls v = filter (\<lambda>e. is_control (el_tag e)) (all_elems v)"

lemma attr_msgs_append [simp]: "attr_msgs (as @ bs) = attr_msgs as @ attr_msgs bs"
  by (induction as rule: attr_msgs.induct) auto

lemma attr_value_append [simp]:
  "attr_value n (as @ bs) = (case attr_value n as of None \<Rightarrow> attr_value n bs | Some v \<Rightarrow> Some v)"
  by (induction n as rule: attr_value.induct) auto

lemma form_controls_El [simp]:
  "form_controls (El tag as cs) = (if is_control tag then [El tag as cs] else []) @ concat (map form_controls cs)"
  by (simp add: form_controls_def filter_concat comp_def cong: map_cong)

lemma form_controls_Txt [simp]: "form_controls (Txt s) = []"
  by (simp add: form_controls_def)

lemma string_of_nat_digits:
  "c \<in> set (string_of_nat n) \<Longrightarrow> 48 \<le> (of_char c :: nat) \<and> (of_char c :: nat) < 58"
proof (induction n rule: string_of_nat.induct)
  case (1 n)
  show ?case
  proof (cases "n < 10")
    case True
    with "1.prems" show ?thesis by (subst (asm) string_of_nat.simps) (auto simp: of_char_of)
  next
    case False
    with "1.prems" have "c \<in> set (string_of_nat (n div 10)) \<or> c = char_of (48 + n mod 10)"
      by (subst (asm) string_of_nat.simps) auto
    with 1 False show ?thesis by (auto simp: of_char_of)
  qed
qed

end
