(* ===== verification/DemoFormView.thy ===== *)
theory DemoFormView
  imports DemoForm Ui
begin

text \<open>
  The render of \<open>src/Tech crm/src/components/DemoForm.tsx\<close>: the \<open>FormInput\<close>
  component (a label, one control bound to a field, and the field's error message) and
  the section \<open>DemoForm\<close> returns, which shows either the thank-you card or the form.
  The events the rendered page can raise are \<open>demo_event\<close>s; \<open>demo_handle\<close> runs the
  handler each of them is bound to. The animation wrappers of
  \<open>components/ui/animations.tsx\<close> (\<open>FadeIn\<close>, \<open>SlideUp\<close>, \<open>SlideDown\<close>) are
  elements with their tag.
\<close>

datatype demo_event = OnChange form_field | OnSubmit | OnSubmitAnother

text \<open>The \<open>name\<close> of each field's control, the key \<open>handleChange\<close> writes.\<close>

fun field_name :: "form_field \<Rightarrow> string" where
  "field_name FullName = ''fullName''"
| "field_name Email = ''email''"
| "field_name CompanyName = ''companyName''"
| "field_name PhoneNumber = ''phoneNumber''"
| "field_name JobTitle = ''jobTitle''"
| "field_name CompanySize = ''companySize''"
| "field_name Message = ''message''"

definition input_class :: "string option \<Rightarrow> string" where
  "input_class error =
     ''w-full rounded-lg border '' @
     (if truthy (map_option JStr error) then ''border-rose-300 ring-1 ring-rose-300'' else ''border-slate-200'') @
     '' px-4 py-2.5 bg-white focus:outline-none focus:ring-2 focus:ring-primary-400 focus:border-transparent transition-all duration-200''"

text \<open>
  \<open>FormInput\<close>: \<open>type\<close> selects a \<open>textarea\<close>, a \<open>select\<close> over \<open>options\<close>, or an
  \<open>input\<close>; \<open>placeholder\<close> is absent when the caller gives none; the error paragraph
  is rendered when \<open>error\<close> is truthy.
\<close>

definition FormInput ::
  "string \<Rightarrow> form_field \<Rightarrow> string \<Rightarrow> string \<Rightarrow> string option \<Rightarrow> string option \<Rightarrow> bool \<Rightarrow>
   (string \<times> string) list \<Rightarrow> nat \<Rightarrow> demo_event view" where
  "FormInput label name type value placeholder error required options index =
     (let n = field_name name;
          ph = (case placeholder of Some p \<Rightarrow> [Attr ''placeholder'' p] | None \<Rightarrow> []);
          control =
            (if type = ''textarea'' then
               El ''textarea'' ([Attr ''id'' n, Attr ''name'' n, Attr ''rows'' ''4'', Attr ''value'' value,
                                 On ''change'' (OnChange name), cls (input_class error)] @ ph) []
             else if type = ''select'' then
               El ''select'' [Attr ''id'' n, Attr ''name'' n, Attr ''value'' value,
                              On ''change'' (OnChange name), cls (input_class error)]
                 (map (\<lambda>(v, l). El ''option'' [Attr ''key'' v, Attr ''value'' v] [Txt l]) options)
             else
               El ''input'' ([Attr ''type'' type, Attr ''id'' n, Attr ''name'' n, Attr ''value'' value,
                              On ''change'' (OnChange name), cls (input_class error)] @ ph) [])
      in El ''motion.div'' [cls ''mb-4'', Attr ''variants'' ''slideUp'', Attr ''custom'' (string_of_nat index)]
           [El ''label'' [Attr ''htmlFor'' n, cls ''block text-sm font-medium text-slate-700 mb-1'']
              ([Txt label, Txt '' ''] @
               (if required then [El ''span'' [cls ''text-primary-500''] [Txt ''*'']] else [])),
            control,
            El ''AnimatePresence'' []
              (if truthy (map_option JStr error)
               then [El ''motion.p'' [cls ''mt-1 text-xs text-rose-500''] [Txt (the error)]] else [])])"

text \<open>The seven \<open>FormInput\<close>s of the form, in source order, with their arguments.\<close>

definition demo_inputs :: "demo_state \<Rightarrow> demo_event view list" where
  "demo_inputs st =
     (let fd = formData st; er = errors st in
      [El ''div'' [cls ''grid grid-cols-1 md:grid-cols-2 gap-x-6'']
         [FormInput ''Full Name'' FullName ''text'' (fullName fd) (Some ''John Doe'') (er FullName) True [] 0,
          FormInput ''Email'' Email ''email'' (email fd) (Some ''john@example.com'') (er Email) True [] 1],
       El ''div'' [cls ''grid grid-cols-1 md:grid-cols-2 gap-x-6'']
         [FormInput ''Company Name'' CompanyName ''text'' (companyName fd) (Some ''Acme Inc.'')
            (er CompanyName) True [] 2,
          FormInput ''Phone Number'' PhoneNumber ''tel'' (phoneNumber fd) (Some ''+91 (742) 100-0303'')
            (er PhoneNumber) False [] 3],
       El ''div'' [cls ''grid grid-cols-1 md:grid-cols-2 gap-x-6'']
         [FormInput ''Job Title'' JobTitle ''text'' (jobTitle fd) (Some ''Marketing Manager'')
            (er JobTitle) False [] 4,
          FormInput ''Company Size'' CompanySize ''select'' (companySize fd) None
            (er CompanySize) True companySizeOptions 5],
       FormInput ''Message (Optional)'' Message ''textarea'' (message fd)
         (Some ''What are your specific needs?'') (er Message) False [] 6])"

definition submit_button :: "bool \<Rightarrow> demo_event view" where
  "submit_button submitting =
     El ''button'' [Attr ''type'' ''submit'', Attr ''disabled'' (if submitting then ''true'' else ''false''),
                    cls ''w-full sm:w-auto px-8 py-3 bg-primary-600 hover:bg-primary-700 text-white font-medium rounded-lg transition-colors flex items-center justify-center space-x-2 disabled:opacity-70 disabled:cursor-not-allowed'']
       (if submitting
        then [El ''Spinner'' [cls ''w-4 h-4''] [], El ''span'' [] [Txt ''Processing...'']]
        else [El ''span'' [] [Txt ''Start Free Trial'']])"

definition demo_success :: "demo_event view" where
  "demo_success =
     El ''motion.div'' [Attr ''key'' ''success'',
                        cls ''p-8 bg-white shadow-sm rounded-2xl text-center border border-slate-100'']
       [El ''motion.div'' [cls ''w-16 h-16 bg-teal-50 text-teal-500 rounded-full flex items-center justify-center mx-auto mb-6'']
          [El ''svg'' [cls ''w-8 h-8''] [El ''path'' [Attr ''d'' ''M5 13l4 4L19 7''] []]],
        El ''SlideUp'' [cls ''text-xl font-semibold text-slate-800 mb-3''] [Txt ''Thank You!''],
        El ''SlideUp'' [cls ''text-slate-600 mb-6''] [Txt ''Request submitted. We'll contact you soon.''],
        El ''motion.button'' [On ''click'' OnSubmitAnother,
                              cls ''px-5 py-2.5 bg-indigo-50 text-indigo-600 rounded-lg hover:bg-indigo-100 transition-colors font-medium text-sm'']
          [Txt ''Submit Another Request'']]"

definition demo_form_card :: "demo_state \<Rightarrow> demo_event view" where
  "demo_form_card st =
     El ''motion.div'' [Attr ''key'' ''form'', cls ''p-8 bg-white shadow-sm rounded-2xl border border-slate-100'']
       [El ''AnimatePresence'' []
          (if submitError st \<noteq> []
           then [El ''motion.div'' [cls ''p-4 mb-6 bg-rose-50 border border-rose-100 rounded-lg text-rose-600 text-sm'']
                   [Txt (submitError st)]]
           else []),
        El ''motion.form'' [On ''submit'' OnSubmit, cls ''space-y-2'', Attr ''variants'' ''staggerContainer'']
          (demo_inputs st @
           [El ''motion.div'' [cls ''pt-4 flex flex-col sm:flex-row items-center justify-between gap-4'',
                               Attr ''variants'' ''slideUp'', Attr ''custom'' ''7'']
              [El ''div'' [cls ''text-xs text-slate-500'']
                 [Txt ''By submitting, you agree to our'', Txt '' '',
                  El ''Link'' [Attr ''href'' ''/privacy'', cls ''text-primary-600 hover:text-primary-700 font-medium'']
                    [Txt ''Privacy Policy'']],
               submit_button (isSubmitting st)]])]"

definition DemoForm_view :: "demo_state \<Rightarrow> bool \<Rightarrow> demo_event view" where
  "DemoForm_view st inView =
     El ''section'' [Attr ''id'' ''demo-form'', cls ''py-16 bg-gray-50'']
       [El ''div'' [cls ''container px-4 mx-auto max-w-6xl'']
          [El ''div'' [cls ''max-w-3xl mx-auto'']
             [El ''motion.div'' [Attr ''animate'' (if inView then ''{ opacity: 1, y: 0 }'' else ''{}''),
                                 cls ''rounded-2xl overflow-hidden'']
                [El ''FadeIn'' [cls ''p-8 bg-white shadow-sm rounded-2xl mb-6 border border-slate-100'']
                   [El ''div'' [cls ''flex items-center gap-3 mb-3'']
                      [El ''motion.div'' [cls ''w-8 h-8 rounded-full bg-indigo-100 flex items-center justify-center'']
                         [El ''svg'' [cls ''h-5 w-5 text-indigo-600''] []],
                       El ''SlideDown'' [cls ''text-xl font-semibold text-slate-800''] [Txt ''Request a Demo'']],
                    El ''SlideUp'' [cls ''text-slate-600 max-w-lg'']
                      [Txt ''See how T-CRM can transform your business. Fill out the form below to schedule a personalized demo.'']],
                 El ''AnimatePresence'' [Attr ''mode'' ''wait'']
                   [if isSubmitted st then demo_success else demo_form_card st]]]]]"

text \<open>
  The handler each event is bound to: \<open>handleChange\<close> with the control's value,
  \<open>handleSubmit\<close> up to its request (the body to send, if any), and the thank-you
  card's \<open>() => setIsSubmitted(false)\<close>.
\<close>

fun demo_handle :: "demo_event \<Rightarrow> string \<Rightarrow> demo_state \<Rightarrow> demo_state \<times> json option" where
  "demo_handle (OnChange f) v st = (handleChange f v st, None)"
| "demo_handle OnSubmit v st = handleSubmit_start st"
| "demo_handle OnSubmitAnother v st = (st\<lparr>isSubmitted := False\<rparr>, None)"

definition all_fields :: "form_field list" where
  "all_fields = [FullName, Email, CompanyName, PhoneNumber, JobTitle, CompanySize, Message]"


text \<open>
  What a control is bound to: its \<open>name\<close>, its displayed \<open>value\<close>, and the events
  its handlers raise. The error messages a tree shows are the texts of its
  \<open>motion.p\<close> elements; a field's message is shown when it is truthy.
\<close>

definition control_binding :: "'m view \<Rightarrow> string option \<times> string option \<times> 'm list" where
  "control_binding e = (attr_value ''name'' (el_attrs e), attr_value ''value'' (el_attrs e), attr_msgs (el_attrs e))"

definition error_texts :: "'m view \<Rightarrow> string list" where
  "error_texts v = concat (map view_texts (elems_tagged ''motion.p'' v))"

definition shown_error :: "form_errors \<Rightarrow> form_field \<Rightarrow> string list" where
  "shown_error er f = (case er f of Some m \<Rightarrow> if m \<noteq> [] then [m] else [] | None \<Rightarrow> [])"

subsection \<open>Lemmas\<close>

lemma error_texts_El [simp]:
  "error_texts (El tag as cs) =
     (if tag = ''motion.p'' then view_texts (El tag as cs) else []) @ concat (map error_texts cs)"
  by (induction cs) (simp_all add: error_texts_def)

lemma error_texts_Txt [simp]: "error_texts (Txt s) = []"
  by (simp add: error_texts_def)

lemma FormInput_controls:
  "map control_binding (form_controls (FormInput label name type value placeholder error required options index)) =
   [(Some (field_name name), Some value, [OnChange name])]"
  by (simp add: FormInput_def control_binding_def Let_def cls_def is_control_def split_def split: option.split)

lemma FormInput_errors:
  "error_texts (FormInput label name type value placeholder error required options index) =
   (case error of Some m \<Rightarrow> if m \<noteq> [] then [m] else [] | None \<Rightarrow> [])"
  by (simp add: FormInput_def Let_def cls_def split_def split: option.split)

lemma demo_inputs_controls:
  "concat (map (map control_binding \<circ> form_controls) (demo_inputs st)) =
   map (\<lambda>f. (Some (field_name f), Some (get_field (formData st) f), [OnChange f])) all_fields"
  by (simp add: demo_inputs_def all_fields_def Let_def FormInput_controls is_control_def map_concat)

lemma demo_inputs_errors:
  "concat (map error_texts (demo_inputs st)) = concat (map (shown_error (errors st)) all_fields)"
  by (simp add: demo_inputs_def all_fields_def Let_def FormInput_errors shown_error_def cls_def)

text \<open>
  C15. Every control of the rendered form is bound to its own field: the form shows,
  in source order, one control per field of \<open>FormData\<close>, whose \<open>name\<close> is the
  field's key, whose value is the field's current value, and whose \<open>onChange\<close> raises
  \<open>handleChange\<close> for that field; the thank-you card shows no control.
\<close>

theorem controls_bound:
  "map control_binding (form_controls (DemoForm_view st inView)) =
   (if isSubmitted st then []
    else map (\<lambda>f. (Some (field_name f), Some (get_field (formData st) f), [OnChange f])) all_fields)"
  by (simp add: DemoForm_view_def demo_form_card_def demo_success_def submit_button_def cls_def
      is_control_def map_concat demo_inputs_controls)

theorem errors_shown:
  "error_texts (DemoForm_view st inView) =
   (if isSubmitted st then [] else concat (map (shown_error (errors st)) all_fields))"
  by (simp add: DemoForm_view_def demo_form_card_def demo_success_def submit_button_def cls_def
      demo_inputs_errors)

lemma get_set_field [simp]: "get_field (set_field fd f v) g = (if g = f then v else get_field fd g)"
  by (cases f; cases g) simp_all

lemma validateForm_shown:
  "concat (map (shown_error (map_of (fst (validateForm fd)))) all_fields) = map snd (fst (validateForm fd))"
  by (cases "js_trim (fullName fd) = []"; cases "js_trim (email fd) = []"; cases "email_test (email fd)";
      cases "js_trim (companyName fd) = []"; cases "companySize fd = []")
     (simp_all add: validateForm_def all_fields_def shown_error_def)

lemma DemoForm_view_errors:
  "error_texts (DemoForm_view st inView) =
   (if isSubmitted st then [] else concat (map (shown_error (errors st)) all_fields))"
  by (simp add: DemoForm_view_def demo_form_card_def demo_success_def submit_button_def cls_def
      demo_inputs_errors)

text \<open>
  C16. When \<open>handleSubmit\<close> rejects the form (validation fails, nothing is sent), the
  rendered form shows exactly the messages \<open>validateForm\<close> produced, in its order.
\<close>

theorem rejected_submit_shows_errors:
  assumes "\<not> isSubmitted st" "handleSubmit_start st = (st', None)"
  shows "error_texts (DemoForm_view st' inView) = map snd (fst (validateForm (formData st)))"
proof -
  have "st' = st\<lparr>errors := map_of (fst (validateForm (formData st)))\<rparr>"
    using assms(2) by (cases "validateForm (formData st)") (auto simp: handleSubmit_start_def split: if_splits)
  then show ?thesis using assms(1) by (simp add: DemoForm_view_errors validateForm_shown)
qed

text \<open>
  C17. Typing \<open>v\<close> into the control of field \<open>f\<close> and rendering again: the control
  of \<open>f\<close> shows \<open>v\<close>, every other control keeps its value, and the error message of
  \<open>f\<close> disappears while the others stay.
\<close>

theorem change_then_render:
  "map control_binding (form_controls (DemoForm_view (fst (demo_handle (OnChange f) v st)) inView)) =
     (if isSubmitted st then []
      else map (\<lambda>g. (Some (field_name g), Some (if g = f then v else get_field (formData st) g), [OnChange g]))
             all_fields) \<and>
   error_texts (DemoForm_view (fst (demo_handle (OnChange f) v st)) inView) =
     (if isSubmitted st then []
      else concat (map (\<lambda>g. if g = f then [] else shown_error (errors st) g) all_fields))"
proof
  show "map control_binding (form_controls (DemoForm_view (fst (demo_handle (OnChange f) v st)) inView)) =
     (if isSubmitted st then []
      else map (\<lambda>g. (Some (field_name g), Some (if g = f then v else get_field (formData st) g), [OnChange g]))
             all_fields)"
    by (simp add: DemoForm_view_def demo_form_card_def demo_success_def submit_button_def cls_def
        is_control_def map_concat demo_inputs_controls handleChange_def)
  have "shown_error (if errors st f \<noteq> None then (errors st)(f := None) else errors st) =
        (\<lambda>g. if g = f then [] else shown_error (errors st) g)"
    by (auto simp: shown_error_def)
  then show "error_texts (DemoForm_view (fst (demo_handle (OnChange f) v st)) inView) =
     (if isSubmitted st then []
      else concat (map (\<lambda>g. if g = f then [] else shown_error (errors st) g) all_fields))"
    by (simp add: DemoForm_view_errors handleChange_def)
qed

theorem rejected_submit_shows_errors_witness:
  "error_texts (DemoForm_view (fst (handleSubmit_start init_demo)) True) =
     [''Required'', ''Required'', ''Required'', ''Select company size'']"
proof -
  have v: "validateForm (formData init_demo) =
     ([(FullName, ''Required''), (Email, ''Required''), (CompanyName, ''Required''),
       (CompanySize, ''Select company size'')], False)"
    by (simp add: validateForm_def init_demo_def empty_form_def js_string_eval)
  have s: "handleSubmit_start init_demo = (fst (handleSubmit_start init_demo), None)"
    by (simp add: handleSubmit_start_def v)
  have n: "\<not> isSubmitted init_demo" by (simp add: init_demo_def)
  from rejected_submit_shows_errors [OF n s, of True] show ?thesis by (simp add: v)
qed

end
