(* ===== verification/Faq.thy ===== *)
theory Faq
  imports Ui
begin

text \<open>
  The FAQ accordion, \<open>src/Tech crm/src/components/FAQSection.tsx\<close>. State: the list
  \<open>openItems\<close> of the indices whose answers are shown; the only operation is
  \<open>toggleItem\<close>. The section renders the questions twice: one column for small
  screens and two columns for wide screens, where each item's index into \<open>faqs\<close> is
  recomputed from its column and row (\<open>globalIndex\<close>). \<open>inView\<close> (from
  \<open>useInView\<close>) is an input of the render.
\<close>

record faq =
  question :: string
  answer :: string

definition faqs :: "faq list" where
  "faqs = [
    \<lparr>question = ''How does the free trial work?'',
     answer = ''Our free trial gives you full access to all T-CRM features for 14 days with no credit card required. You can explore all features, add your team members, and import your data. At the end of the trial, you can choose a plan that fits your needs or extend your trial if you need more time to evaluate.''\<rparr>,
    \<lparr>question = ''Can I switch plans later?'',
     answer = ''Yes, you can upgrade or downgrade your plan at any time. When upgrading, the new features will be immediately available and we'll prorate the cost. When downgrading, the changes will take effect at the start of your next billing cycle.''\<rparr>,
    \<lparr>question = ''Is there a limit to how many team members I can add?'',
     answer = ''The number of team members depends on your plan. The Starter plan supports up to 5 team members, the Professional plan supports up to 20, and the Enterprise plan offers unlimited team members. Each team member gets their own login credentials and permissions can be customized based on their role.''\<rparr>,
    \<lparr>question = ''How does T-CRM handle data security and privacy?'',
     answer = ''We take data security and privacy very seriously. T-CRM is GDPR and CCPA compliant, and we use industry-standard encryption for all data both in transit and at rest. We implement regular security audits, two-factor authentication, and role-based access controls. For Enterprise customers, we also offer custom security configurations and data residency options.''\<rparr>,
    \<lparr>question = ''Can I import my existing customer data?'',
     answer = ''Absolutely! T-CRM supports importing data from CSV files, Excel spreadsheets, and direct integrations with many popular CRM systems. Our import wizard makes it easy to map your existing fields to T-CRM, and our support team is available to help with more complex migrations or large datasets.''\<rparr>,
    \<lparr>question = ''What kind of support do you offer?'',
     answer = ''All plans include email support with response times based on your plan level. The Professional plan adds live chat support during business hours, while Enterprise customers receive 24/7 priority support, a dedicated account manager, and regular strategy sessions. We also provide extensive documentation, video tutorials, and monthly webinars for all customers.''\<rparr>,
    \<lparr>question = ''Does T-CRM integrate with other tools?'',
     answer = ''Yes, T-CRM integrates with a wide range of business tools including email platforms (Gmail, Outlook), marketing automation tools (Mailchimp, HubSpot), accounting software (QuickBooks, Xero), communication tools (Slack, Microsoft Teams), and many more. We also offer an API for custom integrations and support Zapier for connecting with 3,000+ other applications.''\<rparr>,
    \<lparr>question = ''What happens to my data if I cancel my subscription?'',
     answer = ''If you cancel your subscription, you'll have 30 days to export your data before it's permanently removed from our systems. We provide export tools to help you retrieve your data in standard formats like CSV or JSON. After the 30-day period, all your data will be securely deleted according to our data retention policy.''\<rparr>]"

text \<open>\<open>[xs.slice(0, Math.ceil(n / 2)), xs.slice(Math.ceil(n / 2))]\<close>.\<close>

definition faqColumns_of :: "'a list \<Rightarrow> 'a list list" where
  "faqColumns_of xs = [take ((length xs + 1) div 2) xs, drop ((length xs + 1) div 2) xs]"

definition faqColumns :: "faq list list" where
  "faqColumns = faqColumns_of faqs"

definition toggleItem :: "nat \<Rightarrow> nat list \<Rightarrow> nat list" where
  "toggleItem index prevOpenItems =
     (if index \<in> set prevOpenItems then filter (\<lambda>i. i \<noteq> index) prevOpenItems
      else prevOpenItems @ [index])"

datatype faq_msg = ToggleItem nat

fun faq_update :: "faq_msg \<Rightarrow> nat list \<Rightarrow> nat list" where
  "faq_update (ToggleItem index) openItems = toggleItem index openItems"

definition faq_run :: "faq_msg list \<Rightarrow> nat list \<Rightarrow> nat list" where
  "faq_run ms openItems = fold faq_update ms openItems"

text \<open>One accordion item (the same markup in both layouts but for its class).\<close>

definition faq_item :: "string \<Rightarrow> nat list \<Rightarrow> nat \<Rightarrow> faq \<Rightarrow> faq_msg view" where
  "faq_item itemClass openItems index f =
     El ''motion.div'' [cls itemClass, Attr ''variants'' ''itemVariants'']
       [El ''button'' [On ''click'' (ToggleItem index),
                       cls ''flex justify-between items-center w-full text-left py-4'']
          [El ''h3'' [cls ''text-lg font-semibold text-gray-900 pr-8''] [Txt (question f)],
           El ''motion.div'' [Attr ''animate.rotate'' (if index \<in> set openItems then ''180'' else ''0'')]
             [El ''ChevronDownIcon'' [cls ''h-5 w-5 text-gray-500''] []]],
        El ''AnimatePresence'' []
          (if index \<in> set openItems
           then [El ''motion.div'' [cls ''overflow-hidden'']
                   [El ''p'' [cls ''text-gray-600 pb-4''] [Txt (answer f)]]]
           else [])]"

definition animate_in :: "bool \<Rightarrow> faq_msg attr" where
  "animate_in inView = Attr ''animate'' (if inView then ''visible'' else ''hidden'')"

definition faq_mobile_of :: "faq list \<Rightarrow> bool \<Rightarrow> nat list \<Rightarrow> faq_msg view" where
  "faq_mobile_of fs inView openItems =
     El ''motion.div'' [cls ''md:hidden'', Attr ''variants'' ''containerVariants'',
                        Attr ''initial'' ''hidden'', animate_in inView]
       (map (\<lambda>(index, f). faq_item ''mb-4 border-b border-gray-200 pb-4 last:border-b-0 last:pb-0''
                                  openItems index f)
            (enumerate 0 fs))"

definition globalIndex_of :: "'a list \<Rightarrow> nat \<Rightarrow> nat \<Rightarrow> nat" where
  "globalIndex_of fs colIndex faqIndex =
     (if colIndex = 0 then faqIndex else faqIndex + length (faqColumns_of fs ! 0))"

definition faq_desktop_of :: "faq list \<Rightarrow> bool \<Rightarrow> nat list \<Rightarrow> faq_msg view" where
  "faq_desktop_of fs inView openItems =
     El ''motion.div'' [cls ''hidden md:grid md:grid-cols-2 gap-x-12 gap-y-4 max-w-6xl mx-auto'',
                        Attr ''variants'' ''containerVariants'', Attr ''initial'' ''hidden'',
                        animate_in inView]
       (map (\<lambda>(colIndex, column).
               El ''div'' [cls ''space-y-4'']
                 (map (\<lambda>(faqIndex, f).
                         faq_item ''border-b border-gray-200 pb-4 last:border-b-0 last:pb-0''
                           openItems (globalIndex_of fs colIndex faqIndex) f)
                      (enumerate 0 column)))
            (enumerate 0 (faqColumns_of fs)))"

definition faq_cta :: "bool \<Rightarrow> faq_msg view" where
  "faq_cta inView =
     El ''motion.div'' [cls ''mt-16 text-center bg-gray-50 rounded-2xl p-8 max-w-3xl mx-auto'',
                        Attr ''animate'' (if inView then ''{ opacity: 1, y: 0 }'' else ''{}'')]
       [El ''h3'' [cls ''text-lg font-semibold text-gray-900 mb-2''] [Txt ''Still have questions?''],
        El ''p'' [cls ''text-gray-600 mb-6''] [Txt ''Our support team is here to help''],
        El ''a'' [Attr ''href'' ''/contact'',
                  cls ''inline-flex items-center px-6 py-3 bg-primary-600 text-white font-medium rounded-lg hover:bg-primary-700 transition-colors duration-200'']
          [Txt ''Contact Support'',
           El ''svg'' [cls ''ml-2 w-5 h-5'']
             [El ''path'' [Attr ''d'' ''M14 5l7 7m0 0l-7 7m7-7H3''] []]]]"

definition faq_view_of :: "faq list \<Rightarrow> bool \<Rightarrow> nat list \<Rightarrow> faq_msg view" where
  "faq_view_of fs inView openItems =
     El ''section'' [Attr ''id'' ''faq'', cls ''py-20 bg-white'']
       [El ''div'' [cls ''container mx-auto px-4 sm:px-6 lg:px-8'']
          [El ''div'' [cls ''max-w-3xl mx-auto text-center mb-16'']
             [El ''motion.div'' [Attr ''variants'' ''headerVariants'', Attr ''initial'' ''hidden'',
                                 animate_in inView]
                [El ''h2'' [cls ''text-3xl sm:text-4xl font-bold text-gray-900 mb-4'']
                   [Txt ''Frequently Asked Questions''],
                 El ''p'' [cls ''text-xl text-gray-600''] [Txt ''Everything you need to know about T-CRM'']]],
           faq_mobile_of fs inView openItems,
           faq_desktop_of fs inView openItems,
           faq_cta inView]]"

definition FAQSection :: "bool \<Rightarrow> nat list \<Rightarrow> faq_msg view" where
  "FAQSection inView openItems = faq_view_of faqs inView openItems"

text \<open>What one item shows: its question, and its answer when it is open.\<close>

definition faq_item_texts :: "nat list \<Rightarrow> nat \<times> faq \<Rightarrow> string list" where
  "faq_item_texts openItems = (\<lambda>(i, f). question f # (if i \<in> set openItems then [answer f] else []))"

subsection \<open>The accordion state\<close>

lemma distinct_toggleItem [intro]: "distinct xs \<Longrightarrow> distinct (toggleItem i xs)"
  by (simp add: toggleItem_def)

lemma in_set_toggleItem:
  "i \<in> set (toggleItem j xs) \<longleftrightarrow> (if i = j then j \<notin> set xs else i \<in> set xs)"
  by (auto simp: toggleItem_def)

lemma faq_run_Cons: "faq_run (m # ms) xs = faq_run ms (faq_update m xs)"
  by (simp add: faq_run_def)

lemma faq_run_open:
  "distinct xs \<Longrightarrow> distinct (faq_run ms xs) \<and>
     (i \<in> set (faq_run ms xs) \<longleftrightarrow> (i \<in> set xs \<longleftrightarrow> even (count (mset ms) (ToggleItem i))))"
proof (induction ms arbitrary: xs)
  case Nil
  then show ?case by (simp add: faq_run_def)
next
  case (Cons m ms)
  obtain j where m: "m = ToggleItem j" by (cases m)
  have "distinct (toggleItem j xs)" using Cons.prems ..
  from Cons.IH [OF this] show ?case
    by (auto simp: m faq_run_Cons in_set_toggleItem)
qed

subsection \<open>The two layouts\<close>

lemma faq_item_view_texts:
  "view_texts (faq_item c openItems i f) = faq_item_texts openItems (i, f)"
  by (simp add: faq_item_def faq_item_texts_def)

lemma faq_item_msgs: "view_msgs (faq_item c openItems i f) = [ToggleItem i]"
  by (simp add: faq_item_def cls_def)

text \<open>The desktop columns, renumbered by \<open>globalIndex\<close>, list the items of \<open>faqs\<close> in order.\<close>

lemma desktop_items:
  "concat (map (\<lambda>(colIndex, column). map (\<lambda>(faqIndex, f). (globalIndex_of fs colIndex faqIndex, f))
             (enumerate 0 column)) (enumerate 0 (faqColumns_of fs))) = enumerate 0 fs"
proof -
  let ?k = "(length fs + 1) div 2"
  have k: "length (take ?k fs) = ?k" by simp
  have "enumerate 0 fs = enumerate 0 (take ?k fs) @ enumerate ?k (drop ?k fs)"
    using enumerate_append_eq [of 0 "take ?k fs" "drop ?k fs"] k by simp
  moreover have "map (\<lambda>(j, f). (j + ?k, f)) (enumerate 0 (drop ?k fs)) = enumerate ?k (drop ?k fs)"
    using enumerate_shift [of ?k 0 "drop ?k fs"] by simp
  ultimately show ?thesis
    by (simp add: faqColumns_of_def globalIndex_of_def enumerate_simps cong: map_cong split_beta)
qed

lemma toggle_msgs: "concat (map (\<lambda>p. [ToggleItem (fst p)]) (enumerate 0 fs)) = map ToggleItem [0..<length fs]"
  using map_fst_enumerate_fun [of ToggleItem 0 fs] by (simp add: concat_map_singleton)

text \<open>
  C13. From the initial state, after any sequence of clicks, \<open>openItems\<close> has no
  duplicate and an item is open exactly when it was clicked an odd number of times.
\<close>

theorem faq_open_parity:
  "distinct (faq_run ms []) \<and> (i \<in> set (faq_run ms []) \<longleftrightarrow> odd (count (mset ms) (ToggleItem i)))"
  using faq_run_open [of "[]" ms i] by simp

text \<open>
  C14. The mobile and the desktop layouts show the same texts and send the same
  messages in the same order: each question of the list, followed by its answer when
  its index is open, and a click on the \<open>i\<close>-th button toggles index \<open>i\<close>; that is, the
  desktop's \<open>globalIndex\<close> numbers the second column after the first.
\<close>

theorem faq_layouts_agree:
  "view_texts (faq_desktop_of fs inView openItems) = view_texts (faq_mobile_of fs inView openItems) \<and>
   view_msgs (faq_desktop_of fs inView openItems) = view_msgs (faq_mobile_of fs inView openItems) \<and>
   view_texts (faq_mobile_of fs inView openItems) =
     concat (map (\<lambda>(i, f). question f # (if i \<in> set openItems then [answer f] else [])) (enumerate 0 fs)) \<and>
   view_msgs (faq_mobile_of fs inView openItems) = map ToggleItem [0..<length fs]"
proof -
  have dt: "view_texts (faq_desktop_of fs inView openItems) =
    concat (map (\<lambda>(c, col). concat (map (\<lambda>(j, f). faq_item_texts openItems (globalIndex_of fs c j, f))
       (enumerate 0 col))) (enumerate 0 (faqColumns_of fs)))"
    by (simp add: faq_desktop_of_def comp_def split_def faq_item_view_texts)
  have dm: "view_msgs (faq_desktop_of fs inView openItems) =
    concat (map (\<lambda>(c, col). concat (map (\<lambda>(j, f). [ToggleItem (fst (globalIndex_of fs c j, f))])
       (enumerate 0 col))) (enumerate 0 (faqColumns_of fs)))"
    by (simp add: faq_desktop_of_def animate_in_def cls_def comp_def split_def faq_item_msgs)
  have mt: "view_texts (faq_mobile_of fs inView openItems) =
      concat (map (faq_item_texts openItems) (enumerate 0 fs))"
    by (simp add: faq_mobile_of_def comp_def split_def faq_item_view_texts)
  have mm: "view_msgs (faq_mobile_of fs inView openItems) = concat (map (\<lambda>p. [ToggleItem (fst p)]) (enumerate 0 fs))"
    by (simp add: faq_mobile_of_def animate_in_def cls_def comp_def split_def faq_item_msgs)
  have "view_texts (faq_desktop_of fs inView openItems) = concat (map (faq_item_texts openItems) (enumerate 0 fs))"
    unfolding dt concat_map_regroup [where h = "faq_item_texts openItems"] desktop_items ..
  moreover have "view_msgs (faq_desktop_of fs inView openItems) = concat (map (\<lambda>p. [ToggleItem (fst p)]) (enumerate 0 fs))"
    unfolding dm concat_map_regroup [where h = "\<lambda>p. [ToggleItem (fst p)]"] desktop_items ..
  ultimately show ?thesis using mt mm toggle_msgs [of fs] by (simp add: faq_item_texts_def)
qed

end
