(* ===== verification/Pricing.thy ===== *)
theory Pricing
  imports Ui
begin

text \<open>
  The pricing section, \<open>src/Tech crm/src/components/PricingSection.tsx\<close>: the three
  \<open>plans\<close>, the state (\<open>isAnnual\<close>, \<open>selectedPlan\<close>) with its two handlers
  \<open>togglePricingPeriod\<close> and \<open>handleSelectPlan\<close>, and the render. Each plan card is
  wrapped in the \<open>Card3D\<close> of \<open>components/ui/Card3D.tsx\<close> (theory \<open>Card3D\<close>),
  written here as an element with its \<open>className\<close> and \<open>depth\<close>. Prices are whole
  dollars, rendered by \<open>string_of_nat\<close>.
\<close>

record price =
  monthly :: nat
  annual :: nat

record plan =
  plan_id :: string
  plan_name :: string
  plan_price :: price
  description :: string
  features :: "string list"
  cta :: string
  popular :: bool
  color :: string
  depth :: nat

definition plans :: "plan list" where
  "plans =
    [\<lparr>plan_id = ''starter'', plan_name = ''Starter'', plan_price = \<lparr>monthly = 49, annual = 39\<rparr>,
      description = ''Perfect for small businesses and startups'',
      features = [''Up to 1,000 contacts'', ''Email campaigns'', ''Basic lead management'',
                  ''Contact tracking'', ''Email templates'', ''Mobile app''],
      cta = ''Start Free Trial'', popular = False, color = ''bg-white'', depth = 15\<rparr>,
     \<lparr>plan_id = ''professional'', plan_name = ''Professional'', plan_price = \<lparr>monthly = 99, annual = 79\<rparr>,
      description = ''For growing teams needing more features'',
      features = [''Up to 10,000 contacts'', ''Advanced reporting'', ''Sales automation'',
                  ''Multiple pipelines'', ''Custom fields'', ''API access'', ''Email campaigns'',
                  ''Lead scoring''],
      cta = ''Start Free Trial'', popular = True, color = ''bg-primary-50'', depth = 25\<rparr>,
     \<lparr>plan_id = ''enterprise'', plan_name = ''Enterprise'', plan_price = \<lparr>monthly = 199, annual = 159\<rparr>,
      description = ''For large organizations with complex needs'',
      features = [''Unlimited contacts'', ''Dedicated account manager'', ''Advanced security'',
                  ''Custom integrations'', ''Advanced automations'', ''Priority support'',
                  ''Training sessions'', ''User roles & permissions'', ''Workflow customization''],
      cta = ''Contact Sales'', popular = False, color = ''bg-white'', depth = 15\<rparr>]"

record pricing_state =
  isAnnual :: bool
  selectedPlan :: string

definition init_pricing :: pricing_state where
  "init_pricing = \<lparr>isAnnual = True, selectedPlan = ''professional''\<rparr>"

datatype pricing_msg = TogglePricingPeriod bool | HandleSelectPlan string

definition togglePricingPeriod :: "bool \<Rightarrow> pricing_state \<Rightarrow> pricing_state" where
  "togglePricingPeriod a st = st\<lparr>isAnnual := a\<rparr>"

definition handleSelectPlan :: "string \<Rightarrow> pricing_state \<Rightarrow> pricing_state" where
  "handleSelectPlan planId st = st\<lparr>selectedPlan := planId\<rparr>"

fun pricing_update :: "pricing_msg \<Rightarrow> pricing_state \<Rightarrow> pricing_state" where
  "pricing_update (TogglePricingPeriod a) st = togglePricingPeriod a st"
| "pricing_update (HandleSelectPlan planId) st = handleSelectPlan planId st"

definition js_bool :: "bool \<Rightarrow> string" where
  "js_bool b = (if b then ''true'' else ''false'')"

definition period_class :: "bool \<Rightarrow> string" where
  "period_class active =
     ''px-4 py-2 rounded-full text-sm font-medium transition-colors duration-200 '' @
     (if active then ''bg-white text-gray-900 shadow-sm'' else ''text-gray-600 hover:text-gray-900'')"

text \<open>One plan card (lines 160--245): the outer \<open>motion.div\<close> selects the plan on click.\<close>

definition plan_card :: "pricing_state \<Rightarrow> plan \<Rightarrow> pricing_msg view" where
  "plan_card st plan =
     (let isSelected = (selectedPlan st = plan_id plan) in
      El ''motion.div''
        [Attr ''key'' (plan_name plan),
         cls ((if popular plan then ''md:-mt-4 md:mb-4 z-10'' else []) @ '' '' @
              (if isSelected then ''scale-105 z-20'' else []) @ '' transition-transform duration-300''),
         On ''click'' (HandleSelectPlan (plan_id plan))]
        [El ''Card3D''
           [cls (color plan @ '' rounded-2xl overflow-hidden border '' @
                 (if isSelected then ''border-primary-500 ring-2 ring-primary-500 shadow-lg''
                  else if popular plan then ''border-primary-300'' else ''border-gray-200'') @
                 '' h-full shadow-sm cursor-pointer transition-all duration-300''),
            Attr ''depth'' (string_of_nat (if isSelected then depth plan + 10 else depth plan))]
           [El ''div'' [cls (''p-8 h-full flex flex-col '' @
                            (if popular plan then ''border-t-4 border-primary-500'' else []))]
              ((if popular plan
                then [El ''div'' [cls ''py-1 px-3 bg-primary-100 text-primary-800 text-xs font-medium rounded-full self-start mb-4'']
                        [Txt ''Most Popular'']] else []) @
               (if isSelected
                then [El ''div'' [cls ''py-1 px-3 bg-accent-orange-light text-accent-orange-dark text-xs font-medium rounded-full self-start mb-4'']
                        [Txt ''Selected'']] else []) @
               [El ''h3'' [cls ''text-xl font-bold text-gray-900 mb-2''] [Txt (plan_name plan)],
                El ''p'' [cls ''text-gray-600 text-sm mb-6''] [Txt (description plan)],
                El ''div'' [cls ''mb-6'']
                  ([El ''div'' [cls ''flex items-end'']
                      [El ''span'' [cls ''text-4xl font-bold text-gray-900'']
                         [Txt ''$'', Txt (string_of_nat (if isAnnual st then annual (plan_price plan)
                                                         else monthly (plan_price plan)))],
                       El ''span'' [cls ''text-gray-600 ml-2 mb-1''] [Txt ''/mo'']]] @
                   (if isAnnual st
                    then [El ''div'' [cls ''text-sm text-accent-orange font-medium mt-1''] [Txt ''Billed annually'']]
                    else [])),
                El ''div'' [cls ''border-t border-gray-200 pt-6 mb-8'']
                  [El ''ul'' [cls ''space-y-3'']
                     (map (\<lambda>(idx, feature).
                             El ''li'' [Attr ''key'' (string_of_nat idx), cls ''flex items-start'']
                               [El ''CheckIcon'' [cls ''w-5 h-5 text-primary-600 mr-2 flex-shrink-0 mt-0.5''] [],
                                El ''span'' [cls ''text-gray-700''] [Txt feature]])
                          (enumerate 0 (features plan)))],
                El ''div'' [cls ''mt-auto'']
                  [El ''button''
                     [cls (''w-full py-3 rounded-lg text-center font-medium transition-colors duration-200 '' @
                           (if isSelected then ''bg-accent-orange text-white hover:bg-accent-orange-dark''
                            else if popular plan then ''bg-primary-600 text-white hover:bg-primary-700''
                            else ''bg-gray-100 text-gray-900 hover:bg-gray-200''))]
                     [Txt (cta plan)]]])]])"

definition PricingSection_view :: "pricing_state \<Rightarrow> bool \<Rightarrow> pricing_msg view" where
  "PricingSection_view st inView =
     El ''section'' [Attr ''id'' ''pricing'', cls ''py-20 bg-gradient-to-b from-blue-50 to-white'']
       [El ''div'' [cls ''container mx-auto px-4 sm:px-6 lg:px-8'']
          [El ''div'' [cls ''text-center max-w-3xl mx-auto mb-16'']
             [El ''motion.span'' [cls ''px-4 py-1.5 rounded-full bg-blue-100 text-blue-800 text-sm font-medium inline-block mb-5'',
                                  Attr ''animate'' (if inView then ''{ opacity: 1, y: 0 }'' else ''{}'')]
                [Txt ''Simple Pricing''],
              El ''motion.h2'' [cls ''text-3xl md:text-4xl font-bold text-gray-900 mb-4'',
                                Attr ''animate'' (if inView then ''{ opacity: 1, y: 0 }'' else ''{}'')]
                [Txt ''Pricing Plans for Every Business''],
              El ''motion.p'' [cls ''text-xl text-gray-600 mb-10'',
                               Attr ''animate'' (if inView then ''{ opacity: 1, y: 0 }'' else ''{}'')]
                [Txt ''Choose the perfect plan that fits your business needs''],
              El ''motion.div'' [cls ''inline-flex items-center p-1 bg-gray-100 rounded-full mb-10'',
                                 Attr ''animate'' (if inView then ''{ opacity: 1, scale: 1 }'' else ''{}'')]
                [El ''button'' [On ''click'' (TogglePricingPeriod False), cls (period_class (\<not> isAnnual st)),
                                Attr ''aria-pressed'' (js_bool (\<not> isAnnual st))]
                   [Txt ''Monthly''],
                 El ''button'' [On ''click'' (TogglePricingPeriod True), cls (period_class (isAnnual st)),
                                Attr ''aria-pressed'' (js_bool (isAnnual st))]
                   [Txt ''Annual '', El ''span'' [cls ''text-accent-orange font-medium''] [Txt ''Save 20%'']]]],
           El ''div'' [cls ''grid grid-cols-1 md:grid-cols-3 gap-8 max-w-7xl mx-auto'']
             (map (plan_card st) plans),
           El ''motion.div'' [cls ''mt-20 max-w-3xl mx-auto text-center'',
                              Attr ''animate'' (if inView then ''{ opacity: 1, y: 0 }'' else ''{}'')]
             [El ''p'' [cls ''text-gray-700 mb-4''] [Txt ''Have questions about our pricing or features?''],
              El ''a'' [Attr ''href'' ''#faq'', cls ''text-primary-600 font-medium hover:text-primary-700 transition-colors duration-200'']
                [Txt ''Check out our FAQ section'']]]]"

text \<open>
  The states the section reaches from its initial state when the user clicks what the
  page shows: every event of a step is one the current render is bound to.
\<close>

inductive pricing_reach :: "bool \<Rightarrow> pricing_state \<Rightarrow> bool" for inView where
  init: "pricing_reach inView init_pricing"
| step: "pricing_reach inView st \<Longrightarrow> m \<in> set (view_msgs (PricingSection_view st inView)) \<Longrightarrow>
         pricing_reach inView (pricing_update m st)"


subsection \<open>Lemmas\<close>

lemma plan_card_msgs: "view_msgs (plan_card st p) = [HandleSelectPlan (plan_id p)]"
  by (simp add: plan_card_def Let_def cls_def split_def)

lemma pricing_msgs:
  "view_msgs (PricingSection_view st inView) =
     [TogglePricingPeriod False, TogglePricingPeriod True] @ map (\<lambda>p. HandleSelectPlan (plan_id p)) plans"
  by (simp add: PricingSection_view_def cls_def comp_def plan_card_msgs concat_map_singleton)

lemma plan_card_texts:
  "view_texts (plan_card st p) =
     (if popular p then [''Most Popular''] else []) @
     (if selectedPlan st = plan_id p then [''Selected''] else []) @
     [plan_name p, description p, ''$'',
      string_of_nat (if isAnnual st then annual (plan_price p) else monthly (plan_price p)), ''/mo''] @
     (if isAnnual st then [''Billed annually''] else []) @ features p @ [cta p]"
  by (simp add: plan_card_def Let_def split_def comp_def map_snd_enumerate_texts)

lemma string_of_nat_ne_Selected [simp]: "string_of_nat n \<noteq> ''Selected''"
proof
  assume "string_of_nat n = ''Selected''"
  then have "CHR ''S'' \<in> set (string_of_nat n)" by simp
  from string_of_nat_digits [OF this] show False by simp
qed

lemma plan_card_selected:
  "p \<in> set plans \<Longrightarrow>
   count_list (view_texts (plan_card st p)) ''Selected'' = (if selectedPlan st = plan_id p then 1 else 0)"
  by (auto simp: plans_def plan_card_texts)

lemma section_selected_count:
  "count_list (view_texts (PricingSection_view st inView)) ''Selected'' =
   sum_list (map (\<lambda>p. if selectedPlan st = plan_id p then 1 else 0) plans)"
  by (simp add: PricingSection_view_def count_list_concat comp_def plan_card_selected cong: map_cong)

lemma pricing_reach_selected:
  "pricing_reach inView st \<Longrightarrow> selectedPlan st \<in> plan_id ` set plans"
proof (induction rule: pricing_reach.induct)
  case init
  then show ?case by (simp add: init_pricing_def plans_def)
next
  case (step st m)
  then show ?case
    by (auto simp: pricing_msgs togglePricingPeriod_def handleSelectPlan_def)
qed

text \<open>
  C18. In every state the section reaches by clicks on what it renders, exactly one
  plan card shows the "Selected" badge: \<open>selectedPlan\<close> always names a plan.
\<close>

theorem one_plan_selected:
  assumes "pricing_reach inView st"
  shows "count_list (view_texts (PricingSection_view st inView)) ''Selected'' = 1"
proof -
  have "selectedPlan st \<in> {''starter'', ''professional'', ''enterprise''}"
    using pricing_reach_selected [OF assms] by (simp add: plans_def)
  then show ?thesis by (auto simp: section_selected_count plans_def)
qed

theorem one_plan_selected_witness:
  "count_list (view_texts (PricingSection_view (handleSelectPlan ''starter'' init_pricing) True)) ''Selected'' = 1"
proof -
  have m: "HandleSelectPlan ''starter'' \<in> set (view_msgs (PricingSection_view init_pricing True))"
    by (simp add: pricing_msgs plans_def)
  have "pricing_reach True (pricing_update (HandleSelectPlan ''starter'') init_pricing)"
    by (rule pricing_reach.step [OF pricing_reach.init m])
  then have r: "pricing_reach True (handleSelectPlan ''starter'' init_pricing)" by simp
  show ?thesis by (rule one_plan_selected [OF r])
qed

end
