(* ===== verification/Card3D.thy ===== *)
theory Card3D
  imports Ui
begin

text \<open>
  The two tilt cards. \<open>src/Tech crm/src/components/ui/Card3D.tsx\<close> (used by the
  pricing cards) keeps the rotations and the scale as state; \<open>handleMouseMove\<close>
  tilts the card by the pointer's offset from the card's centre, as a fraction of the
  half-width and half-height, times \<open>depth/3\<close>; \<open>handleMouseLeave\<close> resets it and
  \<open>handleMouseEnter\<close> scales it up. \<open>src/Tech crm/src/components/Card3D.tsx\<close> tilts
  by the offset divided by \<open>intensity\<close>. Pixel coordinates and angles are rationals;
  the bounding box is \<open>getBoundingClientRect()\<close>, and \<open>cardRef.current\<close> is \<open>None\<close>
  before the card is mounted. The style strings are the numbers below.
\<close>

record rect =
  rect_left :: rat
  rect_top :: rat
  rect_width :: rat
  rect_height :: rat

record card3d =
  rotateX :: rat
  rotateY :: rat
  scale :: rat

definition card3d_init :: card3d where
  "card3d_init = \<lparr>rotateX = 0, rotateY = 0, scale = 1\<rparr>"

definition handleMouseMove :: "rat \<Rightarrow> rect option \<Rightarrow> rat \<Rightarrow> rat \<Rightarrow> card3d \<Rightarrow> card3d" where
  "handleMouseMove depth cardRef clientX clientY st =
     (case cardRef of
        None \<Rightarrow> st
      | Some rect \<Rightarrow>
          (let cardWidth = rect_width rect; cardHeight = rect_height rect;
               centerX = rect_left rect + cardWidth / 2; centerY = rect_top rect + cardHeight / 2;
               mouseX = clientX - centerX; mouseY = clientY - centerY;
               rotateXValue = (mouseY / (cardHeight / 2)) * - depth / 3;
               rotateYValue = (mouseX / (cardWidth / 2)) * depth / 3
           in \<lparr>rotateX = rotateXValue, rotateY = rotateYValue, scale = 102 / 100\<rparr>))"

definition handleMouseLeave_card3d :: "card3d \<Rightarrow> card3d" where
  "handleMouseLeave_card3d st = \<lparr>rotateX = 0, rotateY = 0, scale = 1\<rparr>"

definition handleMouseEnter_card3d :: "card3d \<Rightarrow> card3d" where
  "handleMouseEnter_card3d st = st\<lparr>scale := 102 / 100\<rparr>"

text \<open>The shadow's \<open>opacity\<close> style, \<open>0.5 + (|rotateX| + |rotateY|) / 50\<close>.\<close>

definition shadow_opacity :: "card3d \<Rightarrow> rat" where
  "shadow_opacity st = 1 / 2 + (\<bar>rotateX st\<bar> + \<bar>rotateY st\<bar>) / 50"

datatype card3d_event = MouseMove rat rat | MouseLeave | MouseEnter

fun card3d_step :: "rat \<Rightarrow> rect option \<Rightarrow> card3d_event \<Rightarrow> card3d \<Rightarrow> card3d" where
  "card3d_step depth r (MouseMove x y) st = handleMouseMove depth r x y st"
| "card3d_step depth r MouseLeave st = handleMouseLeave_card3d st"
| "card3d_step depth r MouseEnter st = handleMouseEnter_card3d st"

text \<open>The other card: \<open>animate\<close> switches the handlers off.\<close>

record card3d_simple =
  rotX :: rat
  rotY :: rat

definition simple_mouse_move :: "bool \<Rightarrow> rat \<Rightarrow> rect \<Rightarrow> rat \<Rightarrow> rat \<Rightarrow> card3d_simple \<Rightarrow> card3d_simple" where
  "simple_mouse_move animate intensity rect clientX clientY st =
     (if \<not> animate then st
      else (let x = clientX - rect_left rect; y = clientY - rect_top rect;
                centerX = rect_width rect / 2; centerY = rect_height rect / 2
            in \<lparr>rotX = - ((y - centerY) / intensity), rotY = (x - centerX) / intensity\<rparr>))"

definition simple_mouse_leave :: "bool \<Rightarrow> card3d_simple \<Rightarrow> card3d_simple" where
  "simple_mouse_leave animate st = (if \<not> animate then st else \<lparr>rotX = 0, rotY = 0\<rparr>)"

text \<open>The pointer is over the card's box.\<close>

definition inside :: "rect \<Rightarrow> rat \<Rightarrow> rat \<Rightarrow> bool" where
  "inside r x y =
     (rect_left r \<le> x \<and> x \<le> rect_left r + rect_width r \<and> rect_top r \<le> y \<and> y \<le> rect_top r + rect_height r)"

subsection \<open>Rendering\<close>

text \<open>The \<open>transform\<close> style strings interpolate three numbers, rotations in degrees and
  a scale factor; they are kept as numbers. \<open>ui/Card3D\<close> renders
  \<open>rotateX(rx) rotateY(ry) scale(s)\<close> on the card and, on the shadow,
  \<open>translateZ(-20px) rotateX(1.2 rx) rotateY(1.2 ry) scale(0.98)\<close>.\<close>

record transform3d =
  t3_rotateX :: rat
  t3_rotateY :: rat
  t3_scale :: rat

definition card3d_transform :: "card3d \<Rightarrow> transform3d" where
  "card3d_transform st = \<lparr>t3_rotateX = rotateX st, t3_rotateY = rotateY st, t3_scale = scale st\<rparr>"

definition shadow_transform :: "card3d \<Rightarrow> transform3d" where
  "shadow_transform st = \<lparr>t3_rotateX = rotateX st * 6 / 5, t3_rotateY = rotateY st * 6 / 5, t3_scale = 98 / 100\<rparr>"

text \<open>The handlers a rendered card raises; the pointer coordinates come with the event
  (\<open>card3d_event\<close>).\<close>

datatype card3d_msg = C3MouseMove | C3MouseLeave | C3MouseEnter

definition Card3D_ui_view :: "(card3d_msg \<Rightarrow> 'm) \<Rightarrow> nat \<Rightarrow> bool \<Rightarrow> string \<Rightarrow> 'm view list \<Rightarrow> 'm view" where
  "Card3D_ui_view lift depth shadow className children =
     El ''motion.div''
       [Attr ''ref'' ''cardRef'', cls (''relative preserve-3d perspective-'' @ string_of_nat (depth * 50) @ '' '' @ className),
        On ''mousemove'' (lift C3MouseMove), On ''mouseleave'' (lift C3MouseLeave), On ''mouseenter'' (lift C3MouseEnter),
        Attr ''style.transformStyle'' ''preserve-3d'', Attr ''style.transition'' ''transform 0.15s ease-out'']
       ([El ''div'' [Attr ''style.transform'' ''translateZ(0px)''] children] @
        (if shadow then [El ''motion.div'' [cls ''absolute inset-0 rounded-xl bg-black/10 -z-10'', Attr ''style.filter'' ''blur(15px)''] []]
         else []))"

text \<open>\<open>components/Card3D.tsx\<close> renders \<open>rotateX(rx) rotateY(ry) scale(initialScale)\<close>
  and, when \<open>animate\<close>, scales to \<open>initialScale * 1.05\<close> on hover.\<close>

definition simple_transform :: "rat \<Rightarrow> card3d_simple \<Rightarrow> transform3d" where
  "simple_transform initialScale st = \<lparr>t3_rotateX = rotX st, t3_rotateY = rotY st, t3_scale = initialScale\<rparr>"

definition simple_hover_scale :: "bool \<Rightarrow> rat \<Rightarrow> rat option" where
  "simple_hover_scale animate initialScale = (if animate then Some (initialScale * 105 / 100) else None)"

definition Card3D_view :: "(card3d_msg \<Rightarrow> 'm) \<Rightarrow> bool \<Rightarrow> string \<Rightarrow> 'm view list \<Rightarrow> 'm view" where
  "Card3D_view lift animate className children =
     El ''motion.div''
       ([cls (''perspective-1000 '' @ className), On ''mousemove'' (lift C3MouseMove), On ''mouseleave'' (lift C3MouseLeave),
         Attr ''style.transition'' ''transform 0.2s ease''] @
        (if animate then [Attr ''whileHover'' ''scale''] else []))
       children"

text \<open>A pointer event the browser can deliver to a card whose box is \<open>r\<close>: \<open>mousemove\<close>
  fires only while the pointer is over the element.\<close>

fun event_inside :: "rect \<Rightarrow> card3d_event \<Rightarrow> bool" where
  "event_inside r (MouseMove x y) = inside r x y"
| "event_inside r MouseLeave = True"
| "event_inside r MouseEnter = True"

definition card3d_inv :: "rat \<Rightarrow> card3d \<Rightarrow> bool" where
  "card3d_inv depth st =
     (\<bar>rotateX st\<bar> \<le> depth / 3 \<and> \<bar>rotateY st\<bar> \<le> depth / 3 \<and> (scale st = 1 \<or> scale st = 102 / 100))"

subsection \<open>Bounds\<close>

lemma frac_offset_bound:
  fixes p l w :: rat
  assumes "0 < w" "l \<le> p" "p \<le> l + w"
  shows "\<bar>(p - (l + w / 2)) / (w / 2)\<bar> \<le> 1"
proof -
  have w: "0 < w / 2" using assms(1) by simp
  have "-(w / 2) \<le> p - (l + w / 2)" "p - (l + w / 2) \<le> w / 2" using assms by simp_all
  then have "-1 \<le> (p - (l + w / 2)) / (w / 2)" "(p - (l + w / 2)) / (w / 2) \<le> 1"
    using w by (simp_all add: pos_le_divide_eq pos_divide_le_eq)
  then show ?thesis by (simp add: abs_le_iff)
qed

lemma abs_scale_le:
  fixes a d :: rat
  assumes "\<bar>a\<bar> \<le> 1" "0 \<le> d"
  shows "\<bar>a * d\<bar> \<le> d"
proof -
  have "\<bar>a * d\<bar> = \<bar>a\<bar> * d" using assms(2) by (simp add: abs_mult)
  also have "\<dots> \<le> 1 * d" using assms by (intro mult_right_mono) simp_all
  finally show ?thesis by simp
qed

text \<open>\<open>handleMouseMove\<close> with the pointer over a mounted card of positive size tilts it
  by at most \<open>depth/3\<close> degrees about each axis.\<close>

lemma mouse_move_tilt:
  assumes "0 < rect_width r" "0 < rect_height r" "inside r x y" "0 \<le> depth"
  shows "\<bar>rotateX (handleMouseMove depth (Some r) x y st)\<bar> \<le> depth / 3 \<and>
         \<bar>rotateY (handleMouseMove depth (Some r) x y st)\<bar> \<le> depth / 3"
proof -
  let ?fy = "(y - (rect_top r + rect_height r / 2)) / (rect_height r / 2)"
  let ?fx = "(x - (rect_left r + rect_width r / 2)) / (rect_width r / 2)"
  have fy: "\<bar>?fy\<bar> \<le> 1" using assms by (intro frac_offset_bound) (auto simp: inside_def)
  have fx: "\<bar>?fx\<bar> \<le> 1" using assms by (intro frac_offset_bound) (auto simp: inside_def)
  have d: "0 \<le> depth / 3" using assms(4) by simp
  have rx: "\<bar>?fy * - depth / 3\<bar> \<le> depth / 3"
    using abs_scale_le [OF fy d] by (simp add: abs_mult)
  have ry: "\<bar>?fx * depth / 3\<bar> \<le> depth / 3"
    using abs_scale_le [OF fx d] by simp
  have "rotateX (handleMouseMove depth (Some r) x y st) = ?fy * - depth / 3"
       "rotateY (handleMouseMove depth (Some r) x y st) = ?fx * depth / 3"
    by (simp_all add: handleMouseMove_def Let_def)
  with rx ry show ?thesis by simp
qed

text \<open>
  C19. While the pointer is over a mounted card of positive size, the card's tilt about
  each axis is at most \<open>depth/3\<close> degrees, and its shadow's opacity at most
  \<open>1/2 + depth/75\<close>; the pricing cards pass a depth of at most 35, so they tilt at
  most 35/3 degrees.
\<close>

theorem tilt_bounded:
  assumes "0 < rect_width r" "0 < rect_height r" "inside r x y" "0 \<le> depth"
  shows "\<bar>rotateX (handleMouseMove depth (Some r) x y st)\<bar> \<le> depth / 3 \<and>
         \<bar>rotateY (handleMouseMove depth (Some r) x y st)\<bar> \<le> depth / 3 \<and>
         shadow_opacity (handleMouseMove depth (Some r) x y st) \<le> 1 / 2 + depth / 75"
  using mouse_move_tilt [OF assms, of st] by (simp add: shadow_opacity_def)

theorem tilt_bounded_witness:
  "\<bar>rotateX (handleMouseMove 35 (Some \<lparr>rect_left = 0, rect_top = 0, rect_width = 100, rect_height = 50\<rparr>) 100 50 card3d_init)\<bar> \<le> 35 / 3"
proof -
  let ?r = "\<lparr>rect_left = 0, rect_top = 0, rect_width = 100, rect_height = 50\<rparr> :: rect"
  have i: "inside ?r 100 50" by (simp add: inside_def)
  from tilt_bounded [of ?r 100 50 35 card3d_init] i show ?thesis by simp
qed

subsection \<open>Runs of pointer events\<close>

text \<open>Over any run of events the browser can deliver, \<open>ui/Card3D\<close> stays tilted by at
  most \<open>depth/3\<close> degrees about each axis and scaled by 1 or 1.02, so the shadow's
  rotations stay within \<open>1.2 \<cdot> depth/3\<close> degrees.\<close>

lemma card3d_step_inv:
  assumes "0 < rect_width r" "0 < rect_height r" "0 \<le> depth" "event_inside r e" "card3d_inv depth st"
  shows "card3d_inv depth (card3d_step depth (Some r) e st)"
proof (cases e)
  case (MouseMove x y)
  with assms mouse_move_tilt [of r x y depth st] show ?thesis
    by (simp add: card3d_inv_def handleMouseMove_def Let_def)
next
  case MouseLeave
  with assms(3) show ?thesis by (simp add: card3d_inv_def handleMouseLeave_card3d_def)
next
  case MouseEnter
  with assms(5) show ?thesis by (simp add: card3d_inv_def handleMouseEnter_card3d_def)
qed

lemma card3d_run_inv:
  assumes "0 < rect_width r" "0 < rect_height r" "0 \<le> depth" "list_all (event_inside r) es" "card3d_inv depth st"
  shows "card3d_inv depth (fold (card3d_step depth (Some r)) es st)"
  using assms(4,5)
proof (induction es arbitrary: st)
  case Nil
  then show ?case by simp
next
  case (Cons e es)
  then show ?case using card3d_step_inv [OF assms(1-3)] by simp
qed

text \<open>
  C30. Over every run of pointer events inside a mounted card of positive size, starting
  from rest, the transform \<open>ui/Card3D\<close> renders tilts the card by at most
  \<open>depth/3\<close> degrees about each axis and scales it by a factor between 1 and 1.02,
  and the shadow layer's rotations stay within \<open>2 * depth / 5\<close> degrees.
\<close>

theorem card3d_run_render_bounded:
  assumes "0 < rect_width r" "0 < rect_height r" "0 \<le> depth" "list_all (event_inside r) es"
  defines "st \<equiv> fold (card3d_step depth (Some r)) es card3d_init"
  shows "\<bar>t3_rotateX (card3d_transform st)\<bar> \<le> depth / 3 \<and> \<bar>t3_rotateY (card3d_transform st)\<bar> \<le> depth / 3 \<and>
         1 \<le> t3_scale (card3d_transform st) \<and> t3_scale (card3d_transform st) \<le> 102 / 100 \<and>
         \<bar>t3_rotateX (shadow_transform st)\<bar> \<le> 2 * depth / 5 \<and> \<bar>t3_rotateY (shadow_transform st)\<bar> \<le> 2 * depth / 5"
proof -
  have "card3d_inv depth card3d_init" using assms(3) by (simp add: card3d_inv_def card3d_init_def)
  then have i: "card3d_inv depth st" unfolding st_def using card3d_run_inv [OF assms(1-4)] by blast
  then have "\<bar>rotateX st * 6 / 5\<bar> \<le> 2 * depth / 5" "\<bar>rotateY st * 6 / 5\<bar> \<le> 2 * depth / 5"
    by (auto simp: card3d_inv_def abs_mult)
  with i show ?thesis by (auto simp: card3d_inv_def card3d_transform_def shadow_transform_def)
qed

theorem card3d_run_render_bounded_witness:
  "\<bar>t3_rotateX (card3d_transform (fold (card3d_step 15 (Some \<lparr>rect_left = 0, rect_top = 0, rect_width = 100, rect_height = 50\<rparr>))
       [MouseEnter, MouseMove 100 0, MouseMove 0 50] card3d_init))\<bar> \<le> 15 / 3"
proof -
  let ?r = "\<lparr>rect_left = 0, rect_top = 0, rect_width = 100, rect_height = 50\<rparr> :: rect"
  have e: "list_all (event_inside ?r) [MouseEnter, MouseMove 100 0, MouseMove 0 50]" by (simp add: inside_def)
  from card3d_run_render_bounded [of ?r 15 "[MouseEnter, MouseMove 100 0, MouseMove 0 50]"] e
  show ?thesis by simp
qed

text \<open>\<open>components/Card3D.tsx\<close> has no such bound: its tilt is the pointer's offset from
  the centre divided by \<open>intensity\<close>, at most half the card's size over
  \<open>intensity\<close>, and that maximum is reached at the card's edge. A card 1000 pixels wide
  with the default intensity 20 turns by 25 degrees.\<close>

lemma div_abs_le:
  fixes a b i :: rat
  assumes "0 < i" "\<bar>a\<bar> \<le> b"
  shows "\<bar>a / i\<bar> \<le> b / i"
proof -
  have "\<bar>a / i\<bar> = \<bar>a\<bar> / i" using assms(1) by (simp add: abs_divide)
  also have "\<dots> \<le> b / i" using assms by (simp add: divide_right_mono)
  finally show ?thesis .
qed

lemma simple_tilt_bound:
  assumes "0 < intensity" "inside r x y"
  shows "\<bar>rotX (simple_mouse_move True intensity r x y st)\<bar> \<le> rect_height r / (2 * intensity) \<and>
         \<bar>rotY (simple_mouse_move True intensity r x y st)\<bar> \<le> rect_width r / (2 * intensity)"
proof -
  have hy: "\<bar>y - rect_top r - rect_height r / 2\<bar> \<le> rect_height r / 2"
    using assms(2) unfolding inside_def abs_le_iff by (intro conjI) linarith+
  have hx: "\<bar>x - rect_left r - rect_width r / 2\<bar> \<le> rect_width r / 2"
    using assms(2) unfolding inside_def abs_le_iff by (intro conjI) linarith+
  have "\<bar>rotX (simple_mouse_move True intensity r x y st)\<bar> = \<bar>(y - rect_top r - rect_height r / 2) / intensity\<bar>"
    by (simp add: simple_mouse_move_def Let_def)
  also have "\<dots> \<le> rect_height r / 2 / intensity" using div_abs_le [OF assms(1) hy] .
  finally have 1: "\<bar>rotX (simple_mouse_move True intensity r x y st)\<bar> \<le> rect_height r / (2 * intensity)" by simp
  have "\<bar>rotY (simple_mouse_move True intensity r x y st)\<bar> = \<bar>(x - rect_left r - rect_width r / 2) / intensity\<bar>"
    by (simp add: simple_mouse_move_def Let_def)
  also have "\<dots> \<le> rect_width r / 2 / intensity" using div_abs_le [OF assms(1) hx] .
  finally have 2: "\<bar>rotY (simple_mouse_move True intensity r x y st)\<bar> \<le> rect_width r / (2 * intensity)" by simp
  from 1 2 show ?thesis ..
qed

lemma simple_tilt_at_edge:
  "rotY (simple_mouse_move True intensity r (rect_left r + rect_width r) y st) = rect_width r / (2 * intensity)"
proof -
  have "rotY (simple_mouse_move True intensity r (rect_left r + rect_width r) y st) =
          (rect_left r + rect_width r - rect_left r - rect_width r / 2) / intensity"
    by (simp add: simple_mouse_move_def Let_def)
  also have "\<dots> = rect_width r / (2 * intensity)" by simp
  finally show ?thesis .
qed

end
