(* ===== verification/AdminLogin.thy ===== *)
theory AdminLogin
  imports Ui
begin

text \<open>
  The admin sign-in, \<open>src/Tech crm/src/app/admin/login/page.tsx\<close>, and the admin
  entry page \<open>src/Tech crm/src/app/admin/page.tsx\<close>. The browser's
  \<open>localStorage\<close> is a map from keys to strings; \<open>router.push(p)\<close> is the path
  \<open>p\<close> returned beside the new state. \<open>handleLogin\<close> compares the form with the
  credentials written in the page and, on a match, stores the flag
  \<open>'t-crm-admin-auth'\<close> that every admin page checks. The two non-ASCII glyphs of the page
  (the password placeholder and the arrow of the back link) are written in ASCII.
\<close>

type_synonym storage = "string \<rightharpoonup> string"

definition auth_key :: string where
  "auth_key = ''t-crm-admin-auth''"

text \<open>\<open>if (authToken)\<close> on the result of \<open>localStorage.getItem\<close>: a non-empty string.\<close>

definition token_truthy :: "storage \<Rightarrow> bool" where
  "token_truthy ls = (case ls auth_key of Some t \<Rightarrow> t \<noteq> [] | None \<Rightarrow> False)"

record login_state =
  username :: string
  password :: string
  error :: string
  isLoading :: bool

definition init_login :: login_state where
  "init_login = \<lparr>username = [], password = [], error = [], isLoading = False\<rparr>"

definition handleLogin :: "login_state \<Rightarrow> storage \<Rightarrow> login_state \<times> storage \<times> string option" where
  "handleLogin st ls =
     (let st1 = st\<lparr>isLoading := True, error := []\<rparr> in
      if username st = [] \<or> password st = []
      then (st1\<lparr>error := ''Please enter both username and password'', isLoading := False\<rparr>, ls, None)
      else if username st = ''admin'' \<and> password st = ''admin123''
      then (st1, ls(auth_key \<mapsto> ''true''), Some ''/admin/dashboard'')
      else (st1\<lparr>error := ''Invalid credentials'', isLoading := False\<rparr>, ls, None))"

datatype login_msg = SetUsername | SetPassword | HandleLogin

text \<open>The two inputs' \<open>onChange\<close> handlers, with the typed value.\<close>

fun login_input :: "login_msg \<Rightarrow> string \<Rightarrow> login_state \<Rightarrow> login_state" where
  "login_input SetUsername v st = st\<lparr>username := v\<rparr>"
| "login_input SetPassword v st = st\<lparr>password := v\<rparr>"
| "login_input HandleLogin v st = st"

definition login_view :: "login_state \<Rightarrow> login_msg view" where
  "login_view st =
     El ''div'' [cls ''min-h-screen flex items-center justify-center bg-gray-100 p-4'']
       [El ''div'' [cls ''w-full max-w-md'']
          [El ''div'' [cls ''bg-white rounded-lg shadow-sm p-8'']
             ([El ''div'' [cls ''text-center mb-8'']
                 [El ''h1'' [cls ''text-2xl font-bold text-gray-900 mb-2''] [Txt ''T-CRM Admin''],
                  El ''p'' [cls ''text-gray-600''] [Txt ''Log in to access the admin dashboard'']]] @
              (if error st \<noteq> []
               then [El ''div'' [cls ''mb-6 p-4 bg-rose-50 text-rose-500 rounded-md border border-rose-100 text-sm'']
                       [Txt (error st)]]
               else []) @
              [El ''form'' [On ''submit'' HandleLogin]
                 [El ''div'' [cls ''mb-4'']
                    [El ''label'' [Attr ''htmlFor'' ''username'', cls ''block text-sm font-medium text-gray-700 mb-1'']
                       [Txt ''Username''],
                     El ''input'' [Attr ''id'' ''username'', Attr ''type'' ''text'', Attr ''value'' (username st),
                                   On ''change'' SetUsername,
                                   cls ''w-full rounded-lg border border-gray-300 px-4 py-2.5 focus:ring-2 focus:ring-indigo-500 focus:border-transparent transition-all duration-200'',
                                   Attr ''placeholder'' ''admin''] []],
                  El ''div'' [cls ''mb-6'']
                    [El ''label'' [Attr ''htmlFor'' ''password'', cls ''block text-sm font-medium text-gray-700 mb-1'']
                       [Txt ''Password''],
                     El ''input'' [Attr ''id'' ''password'', Attr ''type'' ''password'', Attr ''value'' (password st),
                                   On ''change'' SetPassword,
                                   cls ''w-full rounded-lg border border-gray-300 px-4 py-2.5 focus:ring-2 focus:ring-indigo-500 focus:border-transparent transition-all duration-200'',
                                   Attr ''placeholder'' ''********''] []],
                  El ''button'' [Attr ''type'' ''submit'', Attr ''disabled'' (if isLoading st then ''true'' else ''false''),
                                 cls ''w-full py-2.5 px-4 bg-indigo-600 hover:bg-indigo-700 text-white font-medium rounded-lg transition-colors disabled:opacity-70'']
                    [Txt (if isLoading st then ''Logging in...'' else ''Log In'')]],
               El ''div'' [cls ''mt-6 text-center'']
                 [El ''Link'' [Attr ''href'' ''/'', cls ''text-sm text-indigo-600 hover:text-indigo-800'']
                    [Txt ''<- Back to Website'']]])]]"

text \<open>\<open>AdminIndex\<close>'s effect: where the entry page sends the browser.\<close>

definition adminIndex_effect :: "storage \<Rightarrow> string" where
  "adminIndex_effect ls = (if token_truthy ls then ''/admin/dashboard'' else ''/admin/login'')"

end
