(* ===== verification/AdminDashboard.thy ===== *)
theory AdminDashboard
  imports AdminLogin DemoForm
begin

text \<open>
  The admin dashboard, \<open>src/Tech crm/src/app/admin/dashboard/page.tsx\<close>. Its effect
  checks the \<open>localStorage\<close> flag of \<open>AdminLogin\<close>, then fetches
  \<open>/api/get-submissions\<close> (the \<open>GET\<close> handler of \<open>FormStore\<close>); the effect is split at
  its \<open>await\<close> into \<open>dashboard_effect\<close> and \<open>fetchSubmissions_finish\<close>. The state
  keeps \<open>submissions\<close> as the JSON value the response carried, because the code
  stores \<open>data.submissions || []\<close> without checking that it is an array. The render
  can throw (a property read or \<open>.map\<close> on a value that does not have it, or a plain
  object given to React as a child), so it returns \<open>js_error + view\<close>. How
  \<open>new Date(t).toLocaleString()\<close> prints a time and how React prints a number depend
  on the browser: they are the parameters \<open>date_text\<close> and \<open>num_text\<close>.
\<close>

record dash_state =
  submissions :: json
  isLoading :: bool
  error :: "string option"
  isAuthenticated :: bool

definition init_dash :: dash_state where
  "init_dash = \<lparr>submissions = JArr [], isLoading = True, error = None, isAuthenticated = False\<rparr>"

text \<open>
  The effect up to the request: without the flag the browser is sent to the login page
  and nothing is fetched; otherwise the page is marked authenticated and the request is
  sent (the result's last component).
\<close>

definition dashboard_effect :: "storage \<Rightarrow> dash_state \<Rightarrow> dash_state \<times> string option \<times> bool" where
  "dashboard_effect ls st =
     (if \<not> token_truthy ls then (st, Some ''/admin/login'', False)
      else (st\<lparr>isAuthenticated := True, isLoading := True\<rparr>, None, True))"

text \<open>\<open>data.error || 'Failed to fetch submissions'\<close>.\<close>

definition fetch_error_message :: "json \<Rightarrow> string" where
  "fetch_error_message body =
     (case body of
        JObj kvs \<Rightarrow> (case map_of kvs ''error'' of
                      Some (JStr m) \<Rightarrow> if m \<noteq> [] then m else ''Failed to fetch submissions''
                    | _ \<Rightarrow> ''Failed to fetch submissions'')
      | _ \<Rightarrow> ''Failed to fetch submissions'')"

text \<open>
  \<open>fetchSubmissions\<close> after the answer: on a status outside 200..299 the error is
  shown; otherwise \<open>data.submissions || []\<close> is stored (a \<open>TypeError\<close> of the read
  if the body is \<open>null\<close> is caught like the thrown error); \<open>finally\<close> clears
  \<open>isLoading\<close>.
\<close>

definition fetchSubmissions_finish :: "dash_state \<Rightarrow> fetch_result \<Rightarrow> dash_state" where
  "fetchSubmissions_finish st res =
     (case res of
        FetchRejected msg \<Rightarrow> st\<lparr>error := Some msg, isLoading := False\<rparr>
      | FetchResponse (Response code body) \<Rightarrow>
          if \<not> (200 \<le> code \<and> code \<le> 299)
          then st\<lparr>error := Some (fetch_error_message body), isLoading := False\<rparr>
          else (case get_prop body ''submissions'' of
                  Inl e \<Rightarrow> st\<lparr>error := Some ''Cannot read properties of null'', isLoading := False\<rparr>
                | Inr v \<Rightarrow> st\<lparr>submissions := (if truthy v then the v else JArr []),
                             error := None, isLoading := False\<rparr>))"

definition handleLogout :: "storage \<Rightarrow> storage \<times> string" where
  "handleLogout ls = (ls(auth_key := None), ''/admin/login'')"

datatype dash_msg = Logout

text \<open>A JSON value given to React as a child: strings and numbers are text, \<open>null\<close>,
  \<open>undefined\<close> and booleans render nothing, arrays render their items, objects throw.\<close>

fun react_child :: "(rat \<Rightarrow> string) \<Rightarrow> json \<Rightarrow> js_error + dash_msg view list"
and react_children :: "(rat \<Rightarrow> string) \<Rightarrow> json list \<Rightarrow> js_error + dash_msg view list" where
  "react_child num_text JNull = Inr []"
| "react_child num_text (JBool b) = Inr []"
| "react_child num_text (JStr s) = Inr [Txt s]"
| "react_child num_text (JNum n) = Inr [Txt (num_text n)]"
| "react_child num_text (JArr xs) = react_children num_text xs"
| "react_child num_text (JObj kvs) = Inl ReactError"
| "react_children num_text [] = Inr []"
| "react_children num_text (x # xs) =
     sum_bind (react_child num_text x) (\<lambda>a. sum_bind (react_children num_text xs) (\<lambda>b. Inr (a @ b)))"

text \<open>A property value as a child: \<open>undefined\<close> renders nothing.\<close>

definition react_child_opt :: "(rat \<Rightarrow> string) \<Rightarrow> json option \<Rightarrow> js_error + dash_msg view list" where
  "react_child_opt num_text v = (case v of None \<Rightarrow> Inr [] | Some j \<Rightarrow> react_child num_text j)"

definition td_class :: string where
  "td_class = ''px-6 py-4 whitespace-nowrap text-sm text-gray-500''"

text \<open>One table row (lines 134--153).\<close>

definition submission_row ::
  "(json option \<Rightarrow> string) \<Rightarrow> (rat \<Rightarrow> string) \<Rightarrow> nat \<times> json \<Rightarrow> js_error + dash_msg view" where
  "submission_row date_text num_text = (\<lambda>(index, sub).
     sum_bind (get_prop sub ''timestamp'') (\<lambda>ts.
     sum_bind (get_prop sub ''fullName'') (\<lambda>fullName.
     sum_bind (react_child_opt num_text fullName) (\<lambda>nameC.
     sum_bind (get_prop sub ''jobTitle'') (\<lambda>jobTitle.
     sum_bind (if truthy jobTitle
               then sum_bind (react_child_opt num_text jobTitle) (\<lambda>c. Inr [El ''div'' [cls ''text-xs text-gray-500''] c])
               else react_child_opt num_text jobTitle) (\<lambda>jobC.
     sum_bind (get_prop sub ''email'') (\<lambda>email.
     sum_bind (react_child_opt num_text email) (\<lambda>emailC.
     sum_bind (get_prop sub ''companyName'') (\<lambda>companyName.
     sum_bind (react_child_opt num_text companyName) (\<lambda>companyC.
     sum_bind (get_prop sub ''companySize'') (\<lambda>companySize.
     sum_bind (react_child_opt num_text companySize) (\<lambda>sizeC.
     Inr (El ''tr'' [Attr ''key'' (string_of_nat index), cls ''hover:bg-gray-50'']
       [El ''td'' [cls td_class] [Txt (date_text ts)],
        El ''td'' [cls ''px-6 py-4 whitespace-nowrap'']
          (El ''div'' [cls ''text-sm font-medium text-gray-900''] nameC # jobC),
        El ''td'' [cls td_class] emailC,
        El ''td'' [cls td_class] companyC,
        El ''td'' [cls td_class] sizeC])))))))))))))"

definition th_class :: string where
  "th_class = ''px-6 py-3 text-left text-xs font-medium text-gray-500 uppercase tracking-wider''"

definition spinner :: "string \<Rightarrow> dash_msg view" where
  "spinner extra = El ''div'' [cls (''animate-spin rounded-full h-12 w-12 border-b-2 border-indigo-500'' @ extra)] []"

text \<open>\<open>submissions.length === 0\<close>: the \<open>length\<close> of an array or a string (a string is
  empty exactly when it has no code unit, whatever the encoding), the own \<open>length\<close>
  property of an object (strictly equal to \<open>0\<close> only when it is the number zero), and
  \<open>undefined\<close> for numbers and booleans; reading it on \<open>null\<close> throws.\<close>

definition length_is_zero :: "json \<Rightarrow> js_error + bool" where
  "length_is_zero v =
     (case v of JArr xs \<Rightarrow> Inr (xs = []) | JStr s \<Rightarrow> Inr (s = []) | JNull \<Rightarrow> Inl TypeError
      | JObj kvs \<Rightarrow> Inr (map_of kvs ''length'' = Some (JNum 0)) | _ \<Rightarrow> Inr False)"

text \<open>\<open>submissions.map(...)\<close>: only arrays have \<open>map\<close>.\<close>

definition submissions_map ::
  "(nat \<times> json \<Rightarrow> js_error + dash_msg view) \<Rightarrow> json \<Rightarrow> js_error + dash_msg view list" where
  "submissions_map f v = (case v of JArr xs \<Rightarrow> sum_map_all f (enumerate 0 xs) | _ \<Rightarrow> Inl TypeError)"

definition dashboard_table ::
  "(json option \<Rightarrow> string) \<Rightarrow> (rat \<Rightarrow> string) \<Rightarrow> dash_state \<Rightarrow> js_error + dash_msg view list" where
  "dashboard_table date_text num_text st =
     sum_bind (length_is_zero (submissions st)) (\<lambda>z.
       if z then Inr [El ''div'' [cls ''text-center py-8 text-gray-500''] [Txt ''No submissions yet.'']]
       else sum_bind (submissions_map (submission_row date_text num_text) (submissions st)) (\<lambda>rows.
         Inr [El ''div'' [cls ''overflow-x-auto'']
                [El ''table'' [cls ''min-w-full divide-y divide-gray-200'']
                   [El ''thead'' [cls ''bg-gray-50'']
                      [El ''tr'' []
                         (map (\<lambda>h. El ''th'' [Attr ''scope'' ''col'', cls th_class] [Txt h])
                            [''Date/Time'', ''Name'', ''Email'', ''Company'', ''Size''])],
                    El ''tbody'' [cls ''bg-white divide-y divide-gray-200''] rows]]]))"

text \<open>The panel's content: loading, the error (when truthy), the empty notice, or the table.\<close>

definition dashboard_body ::
  "(json option \<Rightarrow> string) \<Rightarrow> (rat \<Rightarrow> string) \<Rightarrow> dash_state \<Rightarrow> js_error + dash_msg view list" where
  "dashboard_body date_text num_text st =
     (if isLoading st then
        Inr [El ''div'' [cls ''text-center py-8'']
               [spinner '' mx-auto'', El ''p'' [cls ''mt-4 text-gray-600''] [Txt ''Loading submissions...'']]]
      else if (case error st of Some e \<Rightarrow> e \<noteq> [] | None \<Rightarrow> False) then
        Inr [El ''div'' [cls ''bg-rose-50 text-rose-500 p-4 rounded-md border border-rose-100''] [Txt (the (error st))]]
      else dashboard_table date_text num_text st)"

definition AdminDashboard_view ::
  "(json option \<Rightarrow> string) \<Rightarrow> (rat \<Rightarrow> string) \<Rightarrow> dash_state \<Rightarrow> js_error + dash_msg view" where
  "AdminDashboard_view date_text num_text st =
     (if \<not> isAuthenticated st then Inr (El ''div'' [cls ''min-h-screen flex items-center justify-center''] [spinner []])
      else sum_bind (dashboard_body date_text num_text st) (\<lambda>body.
        Inr (El ''div'' [cls ''min-h-screen bg-gray-100 pt-0'']
          [El ''header'' [cls ''bg-indigo-600 shadow-md sticky top-0 z-50'']
             [El ''div'' [cls ''container mx-auto px-4 py-4'']
                [El ''div'' [cls ''flex flex-wrap justify-between items-center gap-2'']
                   [El ''h1'' [cls ''text-white text-xl md:text-2xl font-bold''] [Txt ''T-CRM Admin Dashboard''],
                    El ''div'' [cls ''flex items-center space-x-4'']
                      [El ''Link'' [Attr ''href'' ''/'', cls ''text-white hover:text-indigo-100 text-sm font-medium'']
                         [Txt ''Back to Website''],
                       El ''button'' [On ''click'' Logout, cls ''text-indigo-100 hover:text-white text-sm font-medium'']
                         [Txt ''Logout'']]]]],
           El ''main'' [cls ''container mx-auto px-4 py-8'']
             [El ''div'' [cls ''bg-white rounded-lg shadow-sm p-6 mb-6'']
                (El ''h2'' [cls ''text-xl font-semibold text-gray-800 mb-4''] [Txt ''Form Submissions''] # body)]])))"

text \<open>
  Entries as \<open>POST\<close> stores them: objects whose six displayed fields are strings; the
  texts a row shows for such an entry, and the texts of a rendered table body.
\<close>

definition row_fields :: "string list" where
  "row_fields = [''timestamp'', ''fullName'', ''jobTitle'', ''email'', ''companyName'', ''companySize'']"

fun entry_strings :: "json \<Rightarrow> bool" where
  "entry_strings (JObj kvs) =
     list_all (\<lambda>k. case map_of kvs k of Some (JStr s) \<Rightarrow> True | _ \<Rightarrow> False) row_fields"
| "entry_strings _ = False"

definition str_field :: "json \<Rightarrow> string \<Rightarrow> string" where
  "str_field v k = (case v of JObj kvs \<Rightarrow> (case map_of kvs k of Some (JStr s) \<Rightarrow> s | _ \<Rightarrow> []) | _ \<Rightarrow> [])"

definition row_texts :: "(json option \<Rightarrow> string) \<Rightarrow> json \<Rightarrow> string list" where
  "row_texts date_text x =
     [date_text (Some (JStr (str_field x ''timestamp''))), str_field x ''fullName'', str_field x ''jobTitle'',
      str_field x ''email'', str_field x ''companyName'', str_field x ''companySize'']"

definition tbody_texts :: "'m view \<Rightarrow> string list" where
  "tbody_texts v = concat (map view_texts (elems_tagged ''tbody'' v))"

subsection \<open>Lemmas\<close>

lemma entry_stringsE:
  assumes "entry_strings x" "k \<in> set row_fields"
  obtains kvs where "x = JObj kvs" "map_of kvs k = Some (JStr (str_field x k))"
proof -
  obtain kvs where x: "x = JObj kvs" using assms(1) by (cases x) auto
  with assms have "case map_of kvs k of Some (JStr s) \<Rightarrow> True | _ \<Rightarrow> False"
    by (auto simp: list_all_iff)
  then have "map_of kvs k = Some (JStr (str_field x k))"
    by (auto simp: x str_field_def split: option.splits json.splits)
  with x that show ?thesis by blast
qed

lemma submission_row_ok:
  assumes "entry_strings x"
  shows "\<exists>r. submission_row date_text num_text (i, x) = Inr r \<and> view_texts r = row_texts date_text x \<and>
             elems_tagged ''tbody'' r = []"
proof -
  obtain kvs where x: "x = JObj kvs" using assms by (cases x) auto
  have f: "map_of kvs k = Some (JStr (str_field x k))" if "k \<in> set row_fields" for k
    using entry_stringsE [OF assms that] x by auto
  have t: "map_of kvs ''timestamp'' = Some (JStr (str_field x ''timestamp''))"
   and n: "map_of kvs ''fullName'' = Some (JStr (str_field x ''fullName''))"
   and j: "map_of kvs ''jobTitle'' = Some (JStr (str_field x ''jobTitle''))"
   and e: "map_of kvs ''email'' = Some (JStr (str_field x ''email''))"
   and c: "map_of kvs ''companyName'' = Some (JStr (str_field x ''companyName''))"
   and z: "map_of kvs ''companySize'' = Some (JStr (str_field x ''companySize''))"
    by (simp_all add: f row_fields_def)
  show ?thesis
    by (simp add: submission_row_def x t n j e c z react_child_opt_def row_texts_def cls_def)
qed

lemma rows_ok:
  assumes "list_all entry_strings xs"
  shows "\<exists>rows. sum_map_all (submission_row date_text num_text) (enumerate n xs) = Inr rows \<and>
           concat (map view_texts rows) = concat (map (row_texts date_text) xs) \<and>
           concat (map (elems_tagged ''tbody'') rows) = []"
  using assms
proof (induction xs arbitrary: n)
  case Nil
  then show ?case by simp
next
  case (Cons x xs)
  then obtain r where r: "submission_row date_text num_text (n, x) = Inr r" "view_texts r = row_texts date_text x"
      "elems_tagged ''tbody'' r = []"
    using submission_row_ok [of x date_text num_text n] by auto
  from Cons obtain rows where
    "sum_map_all (submission_row date_text num_text) (enumerate (Suc n) xs) = Inr rows"
    "concat (map view_texts rows) = concat (map (row_texts date_text) xs)"
    "concat (map (elems_tagged ''tbody'') rows) = []" by auto
  with r show ?case by (simp add: enumerate_simps)
qed

lemma GET_fetched:
  "token_truthy ls \<Longrightarrow>
   fetchSubmissions_finish (fst (dashboard_effect ls st)) (FetchResponse (GET s)) =
   st\<lparr>isAuthenticated := True, isLoading := False,
      submissions := (if truthy (Some (readSubmissions_get s)) then readSubmissions_get s else JArr []),
      error := None\<rparr>"
  by (simp add: dashboard_effect_def fetchSubmissions_finish_def GET_def)

text \<open>
  Signed in, the dashboard answered by \<open>GET\<close> on a store holding a non-empty array of
  entries with string fields renders without error, one row per entry in store order.
\<close>

lemma dashboard_view_rows:
  assumes "token_truthy ls" "readSubmissions_get s = JArr xs" "list_all entry_strings xs" "xs \<noteq> []"
  shows "\<exists>v. AdminDashboard_view date_text num_text
                (fetchSubmissions_finish (fst (dashboard_effect ls st)) (FetchResponse (GET s))) = Inr v \<and>
             tbody_texts v = concat (map (row_texts date_text) xs)"
proof -
  obtain rows where r: "sum_map_all (submission_row date_text num_text) (enumerate 0 xs) = Inr rows"
      "concat (map view_texts rows) = concat (map (row_texts date_text) xs)"
      "concat (map (elems_tagged ''tbody'') rows) = []"
    using rows_ok [OF assms(3)] by blast
  show ?thesis
    using assms(4) r
    by (simp add: GET_fetched [OF assms(1)] assms(2) AdminDashboard_view_def dashboard_body_def
        dashboard_table_def length_is_zero_def submissions_map_def tbody_texts_def spinner_def cls_def)
qed

text \<open>
  C12. If the store file holds a truthy value that is not an array (an object, a
  number, a non-empty string, \<open>true\<close>), \<open>GET\<close> passes it on and the dashboard stores
  it as \<open>submissions\<close>. Its render then throws, with one exception: an object whose
  own \<open>length\<close> property is the number \<open>0\<close> passes \<open>submissions.length === 0\<close> and
  shows the empty notice.
\<close>

theorem dashboard_crashes_on_non_array:
  assumes "token_truthy ls" "truthy (Some (readSubmissions_get s))"
    "case readSubmissions_get s of JArr xs \<Rightarrow> False | _ \<Rightarrow> True"
  shows "(\<exists>e. AdminDashboard_view date_text num_text
                (fetchSubmissions_finish (fst (dashboard_effect ls st)) (FetchResponse (GET s))) = Inl e) \<longleftrightarrow>
         \<not> (case readSubmissions_get s of JObj kvs \<Rightarrow> map_of kvs ''length'' = Some (JNum 0) | _ \<Rightarrow> False)"
  using assms(2,3)
  by (cases "readSubmissions_get s")
     (simp_all add: GET_fetched [OF assms(1)] AdminDashboard_view_def dashboard_body_def
        dashboard_table_def length_is_zero_def submissions_map_def)

text \<open>
  C11. After a sign-in attempt, the dashboard fetches the submissions exactly when the
  attempt used the credentials written in the login page or the browser already held
  the flag: the check is made in the browser only.
\<close>

theorem login_gate:
  "snd (snd (dashboard_effect (fst (snd (handleLogin st ls))) d)) \<longleftrightarrow>
   token_truthy ls \<or> (username st = ''admin'' \<and> password st = ''admin123'')"
  by (auto simp: handleLogin_def Let_def dashboard_effect_def token_truthy_def auth_key_def)

theorem dashboard_crashes_on_non_array_witness:
  "(\<exists>e. AdminDashboard_view (\<lambda>_. ''date'') (\<lambda>_. ''n'')
         (fetchSubmissions_finish (fst (dashboard_effect [auth_key \<mapsto> ''true''] init_dash))
            (FetchResponse (GET \<lparr>data_dir = True, db_file = Some (Content (JObj [])), writable = True\<rparr>))) = Inl e) \<and>
   \<not> (\<exists>e. AdminDashboard_view (\<lambda>_. ''date'') (\<lambda>_. ''n'')
         (fetchSubmissions_finish (fst (dashboard_effect [auth_key \<mapsto> ''true''] init_dash))
            (FetchResponse (GET \<lparr>data_dir = True, db_file = Some (Content (JObj [(''length'', JNum 0)])), writable = True\<rparr>))) = Inl e)"
proof -
  have t: "token_truthy [auth_key \<mapsto> ''true'']" by (simp add: token_truthy_def)
  have r1: "readSubmissions_get \<lparr>data_dir = True, db_file = Some (Content (JObj [])), writable = True\<rparr> = JObj []"
   and r2: "readSubmissions_get \<lparr>data_dir = True, db_file = Some (Content (JObj [(''length'', JNum 0)])), writable = True\<rparr>
              = JObj [(''length'', JNum 0)]"
    by (simp_all add: readSubmissions_get_def)
  show ?thesis
    using dashboard_crashes_on_non_array [OF t, of "\<lparr>data_dir = True, db_file = Some (Content (JObj [])), writable = True\<rparr>"]
          dashboard_crashes_on_non_array [OF t, of "\<lparr>data_dir = True, db_file = Some (Content (JObj [(''length'', JNum 0)])), writable = True\<rparr>"]
          r1 r2
    by simp
qed

end
