(* ===== verification/Animations.thy ===== *)
theory Animations
  imports Ui
begin

text \<open>
  The animation library \<open>src/Tech crm/src/components/ui/animations.tsx\<close>: framer-motion
  \<open>Variants\<close> and the wrapper components built on them. A variant maps animated
  properties to keyframes (one value, or a list for the looping ones) and carries a
  transition; \<open>slideUp.visible\<close> is a function of the element's \<open>custom\<close> index. The
  wrappers are \<open>motion.div\<close> elements whose attributes name the variant.
\<close>

datatype anim_transition =
    Tween rat rat
  | TweenEase rat rat "rat list"
  | Spring rat rat
  | Loop rat
  | Stagger rat
  | StaggerDelay rat rat

record anim_target =
  t_props :: "(string \<times> rat list) list"
  t_transition :: "anim_transition option"

record variants =
  v_hidden :: "(string \<times> rat list) list"
  v_visible :: "nat \<Rightarrow> anim_target"
  v_exit :: "anim_target option"

text \<open>\<open>Tween duration delay\<close>, \<open>Spring damping stiffness\<close>, \<open>Loop duration\<close> (repeated
  forever), \<open>Stagger staggerChildren\<close>; \<open>TweenEase duration delay ease\<close> has a
  cubic-bezier easing, \<open>StaggerDelay staggerChildren delayChildren\<close> a first delay.\<close>

definition fadeIn :: variants where
  "fadeIn = \<lparr>v_hidden = [(''opacity'', [0])],
             v_visible = (\<lambda>i. \<lparr>t_props = [(''opacity'', [1])], t_transition = Some (Tween (8 / 10) 0)\<rparr>),
             v_exit = Some \<lparr>t_props = [(''opacity'', [0])], t_transition = Some (Tween (3 / 10) 0)\<rparr>\<rparr>"

definition slideUp :: variants where
  "slideUp = \<lparr>v_hidden = [(''opacity'', [0]), (''y'', [20])],
              v_visible = (\<lambda>i. \<lparr>t_props = [(''opacity'', [1]), (''y'', [0])],
                                 t_transition = Some (Tween (1 / 2) (of_nat i / 10))\<rparr>),
              v_exit = None\<rparr>"

definition slideDown :: variants where
  "slideDown = \<lparr>v_hidden = [(''y'', [-20]), (''opacity'', [0])],
                v_visible = (\<lambda>i. \<lparr>t_props = [(''y'', [0]), (''opacity'', [1])], t_transition = Some (Spring 25 500)\<rparr>),
                v_exit = Some \<lparr>t_props = [(''y'', [-20]), (''opacity'', [0])], t_transition = Some (Tween (2 / 10) 0)\<rparr>\<rparr>"

definition slideLeft :: variants where
  "slideLeft = \<lparr>v_hidden = [(''x'', [20]), (''opacity'', [0])],
                v_visible = (\<lambda>i. \<lparr>t_props = [(''x'', [0]), (''opacity'', [1])], t_transition = Some (Spring 30 400)\<rparr>),
                v_exit = Some \<lparr>t_props = [(''x'', [20]), (''opacity'', [0])], t_transition = Some (Tween (2 / 10) 0)\<rparr>\<rparr>"

definition slideRight :: variants where
  "slideRight = \<lparr>v_hidden = [(''x'', [-20]), (''opacity'', [0])],
                 v_visible = (\<lambda>i. \<lparr>t_props = [(''x'', [0]), (''opacity'', [1])], t_transition = Some (Spring 30 400)\<rparr>),
                 v_exit = Some \<lparr>t_props = [(''x'', [-20]), (''opacity'', [0])], t_transition = Some (Tween (2 / 10) 0)\<rparr>\<rparr>"

definition staggerContainer :: variants where
  "staggerContainer = \<lparr>v_hidden = [(''opacity'', [0])],
                       v_visible = (\<lambda>i. \<lparr>t_props = [(''opacity'', [1])], t_transition = Some (Stagger (1 / 10))\<rparr>),
                       v_exit = None\<rparr>"

definition rotate_variant :: variants where
  "rotate_variant = \<lparr>v_hidden = [(''rotate'', [-5]), (''opacity'', [0])],
                     v_visible = (\<lambda>i. \<lparr>t_props = [(''rotate'', [0]), (''opacity'', [1])], t_transition = Some (Spring 15 400)\<rparr>),
                     v_exit = None\<rparr>"

definition scale_variant :: variants where
  "scale_variant = \<lparr>v_hidden = [(''scale'', [9 / 10]), (''opacity'', [0])],
                    v_visible = (\<lambda>i. \<lparr>t_props = [(''scale'', [1]), (''opacity'', [1])], t_transition = Some (Spring 25 300)\<rparr>),
                    v_exit = Some \<lparr>t_props = [(''scale'', [9 / 10]), (''opacity'', [0])], t_transition = Some (Tween (2 / 10) 0)\<rparr>\<rparr>"

definition pulse :: variants where
  "pulse = \<lparr>v_hidden = [(''scale'', [1])],
            v_visible = (\<lambda>i. \<lparr>t_props = [(''scale'', [1, 105 / 100, 1])], t_transition = Some (Loop 2)\<rparr>),
            v_exit = None\<rparr>"

definition bounce :: variants where
  "bounce = \<lparr>v_hidden = [(''y'', [0])],
             v_visible = (\<lambda>i. \<lparr>t_props = [(''y'', [0, -10, 0])], t_transition = Some (Loop (12 / 10))\<rparr>),
             v_exit = None\<rparr>"

subsection \<open>The wrapper components\<close>

text \<open>\<open>FadeIn\<close> and \<open>SlideUp\<close> animate once when 100 pixels inside the viewport
  (\<open>whileInView\<close>); the others on mount, through a named variant. As in the section
  theories, the \<open>delay\<close> and \<open>duration\<close> props only set the \<open>transition\<close> timing,
  which is not part of the rendered tree.\<close>

definition in_view_wrapper :: "string \<Rightarrow> string \<Rightarrow> 'm view list \<Rightarrow> 'm view" where
  "in_view_wrapper from className children =
     El ''motion.div'' [Attr ''initial'' from, Attr ''whileInView'' ''rest'', Attr ''viewport'' ''once, -100px'', cls className] children"

definition FadeIn_view :: "string \<Rightarrow> 'm view list \<Rightarrow> 'm view" where
  "FadeIn_view className children = in_view_wrapper ''opacity 0'' className children"

definition SlideUp_view :: "string \<Rightarrow> 'm view list \<Rightarrow> 'm view" where
  "SlideUp_view className children = in_view_wrapper ''opacity 0, y 20'' className children"

definition variant_wrapper :: "string \<Rightarrow> bool \<Rightarrow> string \<Rightarrow> 'm view list \<Rightarrow> 'm view" where
  "variant_wrapper name hasExit className children =
     El ''motion.div'' ([Attr ''initial'' ''hidden'', Attr ''animate'' ''visible''] @
                        (if hasExit then [Attr ''exit'' ''exit''] else []) @ [Attr ''variants'' name, cls className]) children"

definition SlideDown_view :: "string \<Rightarrow> 'm view list \<Rightarrow> 'm view" where
  "SlideDown_view className children = variant_wrapper ''slideDown'' True className children"

definition SlideLeft_view :: "string \<Rightarrow> 'm view list \<Rightarrow> 'm view" where
  "SlideLeft_view className children = variant_wrapper ''slideLeft'' True className children"

definition SlideRight_view :: "string \<Rightarrow> 'm view list \<Rightarrow> 'm view" where
  "SlideRight_view className children = variant_wrapper ''slideRight'' True className children"

definition StaggerChildren_view :: "string \<Rightarrow> 'm view list \<Rightarrow> 'm view" where
  "StaggerChildren_view className children = variant_wrapper ''staggerContainer'' False className children"

definition AnimatedScale_view :: "string \<Rightarrow> 'm view list \<Rightarrow> 'm view" where
  "AnimatedScale_view className children = variant_wrapper ''scale'' True className children"

subsection \<open>\<open>ParallaxScroll\<close>\<close>

text \<open>\<open>src/Tech crm/src/components/ui/ParallaxScroll.tsx\<close>: the child moves along one
  axis by \<open>useTransform(scrollYProgress, [0, 1], [from, to])\<close>, where
  \<open>scrollYProgress\<close> runs from 0 (the element's top enters at the bottom of the
  viewport) to 1 (its bottom leaves at the top). framer-motion clamps the progress to
  \<open>[0, 1]\<close>. \<open>up\<close> and \<open>left\<close> give the same range, as do \<open>down\<close> and \<open>right\<close>.\<close>

datatype parallax_direction = PUp | PDown | PLeft | PRight

fun parallax_range :: "rat \<Rightarrow> rat \<Rightarrow> parallax_direction \<Rightarrow> rat \<times> rat" where
  "parallax_range speed offset PUp = (100 * speed + offset, -100 * speed + offset)"
| "parallax_range speed offset PDown = (-100 * speed + offset, 100 * speed + offset)"
| "parallax_range speed offset PLeft = (100 * speed + offset, -100 * speed + offset)"
| "parallax_range speed offset PRight = (-100 * speed + offset, 100 * speed + offset)"

definition clamp01 :: "rat \<Rightarrow> rat" where
  "clamp01 p = max 0 (min 1 p)"

definition parallax_offset :: "rat \<Rightarrow> rat \<Rightarrow> parallax_direction \<Rightarrow> rat \<Rightarrow> rat" where
  "parallax_offset speed offset direction progress =
     (case parallax_range speed offset direction of (a, b) \<Rightarrow> a + (b - a) * clamp01 progress)"

definition isHorizontal :: "parallax_direction \<Rightarrow> bool" where
  "isHorizontal direction = (direction = PLeft \<or> direction = PRight)"

definition ParallaxScroll_view :: "string \<Rightarrow> parallax_direction \<Rightarrow> 'm view list \<Rightarrow> 'm view" where
  "ParallaxScroll_view className direction children =
     El ''div'' [Attr ''ref'' ''target'', cls (''overflow-hidden '' @ className)]
       [El ''motion.div'' [Attr ''style.axis'' (if isHorizontal direction then ''x'' else ''y''),
                           Attr ''style.willChange'' ''transform''] children]"

subsection \<open>Properties\<close>

text \<open>The pose an element rests in: fully opaque, not moved, scaled or rotated.\<close>

definition rest_value :: "string \<Rightarrow> rat" where
  "rest_value k = (if k = ''opacity'' \<or> k = ''scale'' then 1 else 0)"

definition ends_at_rest :: "(string \<times> rat list) list \<Rightarrow> bool" where
  "ends_at_rest ps = list_all (\<lambda>(k, vs). vs \<noteq> [] \<and> last vs = rest_value k) ps"

definition entrance_variants :: "variants list" where
  "entrance_variants = [fadeIn, slideUp, slideDown, slideLeft, slideRight, staggerContainer, rotate_variant, scale_variant]"

text \<open>Every entrance variant ends, for every \<open>custom\<close> index, at the rest pose and
  starts from a pose that differs from it in every property it animates; each exit
  returns to the hidden pose; the loops start and end at rest.\<close>

lemma entrance_variants_rest:
  "v \<in> set entrance_variants \<Longrightarrow>
     ends_at_rest (t_props (v_visible v i)) \<and> map fst (v_hidden v) = map fst (t_props (v_visible v i)) \<and>
     list_all (\<lambda>(k, vs). vs \<noteq> [] \<and> last vs \<noteq> rest_value k) (v_hidden v) \<and>
     (case v_exit v of Some e \<Rightarrow> t_props e = v_hidden v | None \<Rightarrow> True)"
  by (auto simp: entrance_variants_def fadeIn_def slideUp_def slideDown_def slideLeft_def slideRight_def
                 staggerContainer_def rotate_variant_def scale_variant_def ends_at_rest_def rest_value_def)

lemma loops_rest:
  "v \<in> {pulse, bounce} \<Longrightarrow> t_props (v_visible v i) = [(k, vs)] \<Longrightarrow>
     v_hidden v = [(k, [hd vs])] \<and> hd vs = rest_value k \<and> last vs = rest_value k \<and> t_transition (v_visible v i) \<noteq> None"
  by (auto simp: pulse_def bounce_def rest_value_def)

text \<open>The parallax offset stays within \<open>100 * speed\<close> pixels of \<open>offset\<close>, whatever the
  scroll position.\<close>

lemma parallax_offset_bounded:
  assumes "0 \<le> speed"
  shows "\<bar>parallax_offset speed offset d p - offset\<bar> \<le> 100 * speed"
proof -
  have c: "0 \<le> clamp01 p" "clamp01 p \<le> 1" by (simp_all add: clamp01_def)
  have m: "0 \<le> 100 * speed * clamp01 p" "100 * speed * clamp01 p \<le> 100 * speed"
    using assms c by (simp_all add: mult_left_le)
  show ?thesis
    using m c by (cases d) (auto simp: parallax_offset_def algebra_simps abs_if)
qed

end
