(* ===== verification/Testimonials.thy ===== *)
theory Testimonials
  imports Animations
begin

text \<open>
  The testimonials section, \<open>src/Tech crm/src/components/TestimonialsSection.tsx\<close>:
  the four \<open>testimonials\<close>, the carousel index \<open>activeIndex\<close>, the autoplay
  interval (every 8 seconds, \<open>(prev + 1) % testimonials.length\<close>) and the dots that
  jump to an index. The desktop grid shows every card; the carousel shows
  \<open>testimonials[activeIndex]\<close>, a read that is \<open>undefined\<close> out of range, so the
  carousel's render returns \<open>js_error + view\<close>. Timing is not modelled: a tick is
  one firing of the interval.
\<close>

record testimonial =
  t_id :: nat
  content :: string
  author :: string
  title :: string
  company :: string
  avatar :: string
  rating :: nat
  increase :: string

definition testimonials :: "testimonial list" where
  "testimonials =
    [\<lparr>t_id = 1, content = ''T-CRM transformed our sales process completely. We've increased our conversion rates by 42% and reduced our sales cycle by over a month.'',
      author = ''Sarah Johnson'', title = ''Sales Director'', company = ''TechGrowth Solutions'',
      avatar = ''/images/testimonials/avatar-1.png'', rating = 5, increase = ''42%''\<rparr>,
     \<lparr>t_id = 2, content = ''The customer segmentation features allow us to target our marketing with incredible precision. Our ROI on campaigns has more than doubled since implementation.'',
      author = ''Michael Chen'', title = ''Marketing Manager'', company = ''InnovateCorp'',
      avatar = ''/images/testimonials/avatar-2.png'', rating = 5, increase = ''115%''\<rparr>,
     \<lparr>t_id = 3, content = ''What impressed me most was how quickly our team adopted the platform. The intuitive interface meant minimal training and maximum productivity from day one.'',
      author = ''Priya Patel'', title = ''Operations Lead'', company = ''Quantum Retail'',
      avatar = ''/images/testimonials/avatar-3.png'', rating = 5, increase = ''89%''\<rparr>,
     \<lparr>t_id = 4, content = ''The automation workflows have freed up our support team to focus on complex issues. Customer satisfaction is up and response times are down dramatically.'',
      author = ''James Rodriguez'', title = ''Customer Success Manager'', company = ''Elevate Services'',
      avatar = ''/images/testimonials/avatar-4.png'', rating = 5, increase = ''67%''\<rparr>]"

datatype testimonial_msg = AutoplayTick | SetActiveIndex nat

text \<open>The interval's callback and the dots' \<open>onClick\<close>.\<close>

definition autoplay_tick :: "nat \<Rightarrow> nat" where
  "autoplay_tick prev = (prev + 1) mod length testimonials"

fun testimonial_update :: "testimonial_msg \<Rightarrow> nat \<Rightarrow> nat" where
  "testimonial_update AutoplayTick activeIndex = autoplay_tick activeIndex"
| "testimonial_update (SetActiveIndex index) activeIndex = index"

text \<open>The section's animation variants.\<close>

definition headerVariants :: variants where
  "headerVariants =
     \<lparr>v_hidden = [(''opacity'', [0]), (''y'', [-20])],
      v_visible = (\<lambda>i. \<lparr>t_props = [(''opacity'', [1]), (''y'', [0])], t_transition = Some (TweenEase (6 / 10) 0 [22 / 100, 1, 36 / 100, 1])\<rparr>),
      v_exit = None\<rparr>"

definition testimonials_containerVariants :: variants where
  "testimonials_containerVariants =
     \<lparr>v_hidden = [(''opacity'', [0])],
      v_visible = (\<lambda>i. \<lparr>t_props = [(''opacity'', [1])], t_transition = Some (StaggerDelay (2 / 10) (3 / 10))\<rparr>),
      v_exit = None\<rparr>"

definition itemVariants :: variants where
  "itemVariants =
     \<lparr>v_hidden = [(''opacity'', [0]), (''y'', [20])],
      v_visible = (\<lambda>i. \<lparr>t_props = [(''opacity'', [1]), (''y'', [0])], t_transition = Some (TweenEase (1 / 2) 0 [22 / 100, 1, 36 / 100, 1])\<rparr>),
      v_exit = None\<rparr>"

definition renderStars :: "nat \<Rightarrow> testimonial_msg view list" where
  "renderStars r =
     map (\<lambda>index. El ''svg'' [Attr ''key'' (string_of_nat index),
                             cls (''w-5 h-5 '' @ (if index < r then ''text-yellow-400'' else ''text-gray-300'')),
                             Attr ''fill'' ''currentColor'', Attr ''viewBox'' ''0 0 20 20''] [])
         [0..<5]"

text \<open>The body of a card, the same markup in the grid and in the carousel (but for a class).\<close>

definition card_body :: "string \<Rightarrow> testimonial \<Rightarrow> testimonial_msg view list" where
  "card_body pClass t =
     [El ''div'' [cls ''mb-4 flex''] (renderStars (rating t)),
      El ''p'' [cls pClass] [Txt dq, Txt (content t), Txt dq],
      El ''div'' [cls ''flex items-center justify-between'']
        [El ''div'' [cls ''flex items-center'']
           [El ''div'' [cls ''w-12 h-12 rounded-full bg-blue-100 overflow-hidden mr-4 relative'']
              [El ''div'' [cls ''absolute inset-0 flex items-center justify-center text-primary-500 font-bold text-lg'']
                 [Txt (charAt0 (author t))]],
            El ''div'' []
              [El ''p'' [cls ''font-semibold text-gray-900''] [Txt (author t)],
               El ''p'' [cls ''text-sm text-gray-600''] [Txt (title t), Txt '', '', Txt (company t)]]],
         El ''div'' [cls ''bg-accent-orange-light px-3 py-1 rounded-full flex items-center'']
           [El ''svg'' [cls ''w-4 h-4 text-accent-orange mr-1''] [],
            El ''span'' [cls ''text-accent-orange-dark font-medium text-sm''] [Txt (increase t)]]]]"

definition desktop_grid :: "testimonial_msg view" where
  "desktop_grid =
     El ''div'' [cls ''hidden lg:grid grid-cols-2 gap-8'']
       (map (\<lambda>(index, t). El ''motion.div'' [Attr ''key'' (string_of_nat (t_id t)), Attr ''variants'' ''itemVariants'',
                                             Attr ''custom'' (string_of_nat index)]
                            [El ''Card3D'' [cls ''bg-white rounded-xl p-6 h-full'', Attr ''depth'' ''15'']
                               (card_body ''text-gray-700 mb-6 italic'' t)])
            (enumerate 0 testimonials))"

definition nth_opt :: "'a list \<Rightarrow> nat \<Rightarrow> 'a option" where
  "nth_opt xs i = (if i < length xs then Some (xs ! i) else None)"

definition dot :: "nat \<Rightarrow> nat \<Rightarrow> testimonial_msg view" where
  "dot activeIndex index =
     El ''button'' [Attr ''key'' (string_of_nat index), On ''click'' (SetActiveIndex index),
                    cls (''w-3 h-3 mx-1 rounded-full '' @
                         (if index = activeIndex then ''bg-primary-600'' else ''bg-gray-300'') @
                         '' transition-colors duration-200''),
                    Attr ''aria-label'' (''Go to testimonial '' @ string_of_nat (index + 1))] []"

text \<open>The carousel: reading a field of \<open>testimonials[activeIndex]\<close> throws when it is \<open>undefined\<close>.\<close>

definition carousel :: "nat \<Rightarrow> js_error + testimonial_msg view" where
  "carousel activeIndex =
     (case nth_opt testimonials activeIndex of
        None \<Rightarrow> Inl TypeError
      | Some t \<Rightarrow> Inr
          (El ''div'' [cls ''lg:hidden'']
             [El ''div'' [cls ''relative'']
                [El ''motion.div'' [cls ''overflow-hidden relative'']
                   [El ''div'' [cls ''flex justify-center'']
                      [El ''Card3D'' [cls ''bg-white rounded-xl p-6 max-w-md w-full'']
                         (card_body ''text-gray-700 mb-6 italic min-h-[100px]'' t)]],
                 El ''div'' [cls ''flex justify-center mt-8'']
                   (map (\<lambda>(index, x). dot activeIndex index) (enumerate 0 testimonials))]]))"

definition stats_banner :: "bool \<Rightarrow> testimonial_msg view" where
  "stats_banner inView =
     El ''motion.div'' [cls ''mt-20 bg-primary-600 rounded-2xl p-8 md:p-12 text-white shadow-xl'',
                        Attr ''animate'' (if inView then ''{ opacity: 1, y: 0 }'' else ''{}'')]
       [El ''div'' [cls ''grid grid-cols-1 md:grid-cols-3 gap-8 md:gap-16'']
          [El ''div'' [cls ''text-center'']
             [El ''div'' [cls ''text-4xl md:text-5xl font-bold mb-2''] [Txt ''99%''],
              El ''div'' [cls ''text-primary-100''] [Txt ''Customer Satisfaction'']],
           El ''div'' [cls ''text-center'']
             [El ''div'' [cls ''text-4xl md:text-5xl font-bold mb-2''] [Txt ''4,200+''],
              El ''div'' [cls ''text-primary-100''] [Txt ''Active Businesses'']],
           El ''div'' [cls ''text-center'']
             [El ''div'' [cls ''text-4xl md:text-5xl font-bold mb-2''] [Txt ''53%''],
              El ''div'' [cls ''text-primary-100''] [Txt ''Average Revenue Growth'']]]]"

definition TestimonialsSection_view :: "nat \<Rightarrow> bool \<Rightarrow> js_error + testimonial_msg view" where
  "TestimonialsSection_view activeIndex inView =
     sum_bind (carousel activeIndex) (\<lambda>c.
       Inr (El ''section'' [cls ''py-20 bg-gradient-to-b from-white to-blue-50 overflow-hidden'']
         [El ''div'' [cls ''container mx-auto px-4 sm:px-6 lg:px-8'']
            [El ''div'' [cls ''max-w-3xl mx-auto text-center mb-16'']
               [El ''motion.div'' [Attr ''variants'' ''headerVariants'']
                  [El ''span'' [cls ''px-4 py-1.5 rounded-full bg-blue-100 text-blue-800 text-sm font-medium inline-block mb-5'']
                     [Txt ''Testimonials''],
                   El ''h2'' [cls ''text-3xl sm:text-4xl font-bold text-gray-900 mb-4''] [Txt ''Trusted by Business Leaders''],
                   El ''p'' [cls ''text-xl text-gray-600'']
                     [Txt ''See how companies like yours have achieved remarkable results with our platform'']]],
             El ''motion.div'' [cls ''flex justify-center'', Attr ''variants'' ''containerVariants'']
               [El ''div'' [cls ''max-w-6xl w-full''] [desktop_grid, c]],
             stats_banner inView]]))"

text \<open>
  The indices the carousel reaches from its initial index 0: the interval fires, or a
  dot the current render shows is clicked.
\<close>

inductive carousel_reach :: "nat \<Rightarrow> bool" where
  init: "carousel_reach 0"
| tick: "carousel_reach i \<Longrightarrow> carousel_reach (autoplay_tick i)"
| click: "carousel_reach i \<Longrightarrow> carousel i = Inr v \<Longrightarrow> m \<in> set (view_msgs v) \<Longrightarrow>
          carousel_reach (testimonial_update m i)"

subsection \<open>Lemmas\<close>

lemma length_testimonials [simp]: "length testimonials = 4"
  by (simp add: testimonials_def)

lemma carousel_Inr:
  "i < length testimonials \<Longrightarrow> \<exists>v. carousel i = Inr v \<and> author (testimonials ! i) \<in> set (view_texts v) \<and>
     view_msgs v = map SetActiveIndex [0..<length testimonials]"
  by (simp add: carousel_def nth_opt_def card_body_def cls_def dot_def renderStars_def split_def
      map_fst_enumerate_fun [where h = SetActiveIndex] comp_def concat_map_singleton)

lemma carousel_reach_bound: "carousel_reach i \<Longrightarrow> i < length testimonials"
proof (induction rule: carousel_reach.induct)
  case init
  then show ?case by simp
next
  case (tick i)
  then show ?case by (simp add: autoplay_tick_def)
next
  case (click i v m)
  then obtain v' where "carousel i = Inr v'" "view_msgs v' = map SetActiveIndex [0..<length testimonials]"
    using carousel_Inr by blast
  with click show ?case by (cases m) auto
qed

text \<open>
  C20. In every index the carousel reaches from 0, by the autoplay interval or by the
  dots it renders, the section renders without throwing and the carousel shows the
  testimonial at that index: \<open>testimonials[activeIndex]\<close> is never \<open>undefined\<close>.
\<close>

theorem carousel_never_crashes:
  assumes "carousel_reach i"
  shows "\<exists>v. TestimonialsSection_view i inView = Inr v \<and> author (testimonials ! i) \<in> set (view_texts v)"
proof -
  obtain c where "carousel i = Inr c" "author (testimonials ! i) \<in> set (view_texts c)"
    using carousel_Inr [OF carousel_reach_bound [OF assms]] by blast
  then show ?thesis by (simp add: TestimonialsSection_view_def)
qed

lemma autoplay_funpow:
  "i < length testimonials \<Longrightarrow> (autoplay_tick ^^ k) i = (i + k) mod length testimonials"
  by (induction k) (simp_all add: autoplay_tick_def mod_Suc_eq)

text \<open>
  C21. From any valid index, the autoplay interval reaches every testimonial within
  \<open>testimonials.length\<close> ticks, in cyclic order.
\<close>

theorem autoplay_reaches_every_testimonial:
  assumes "i < length testimonials" "j < length testimonials"
  shows "(autoplay_tick ^^ ((j + length testimonials - i) mod length testimonials)) i = j"
proof -
  have "(i + (j + 4 - i) mod 4) mod 4 = (i + (j + 4 - i)) mod 4" by (simp add: mod_add_right_eq)
  also have "i + (j + 4 - i) = j + 4" using assms(1) by simp
  finally show ?thesis using assms by (simp add: autoplay_funpow)
qed

theorem carousel_never_crashes_witness:
  "\<exists>v. TestimonialsSection_view (autoplay_tick 0) True = Inr v \<and> ''Michael Chen'' \<in> set (view_texts v)"
proof -
  have r: "carousel_reach (autoplay_tick 0)" by (rule carousel_reach.tick [OF carousel_reach.init])
  have a: "author (testimonials ! autoplay_tick 0) = ''Michael Chen''"
    by (simp add: autoplay_tick_def testimonials_def)
  from carousel_never_crashes [OF r, of True] show ?thesis unfolding a .
qed

theorem autoplay_reaches_every_testimonial_witness:
  "(autoplay_tick ^^ ((1 + length testimonials - 3) mod length testimonials)) 3 = 1"
  using autoplay_reaches_every_testimonial [of 3 1] by simp

end
