(* ===== verification/Signup.thy ===== *)
theory Signup
  imports Ui DemoForm
begin

text \<open>
  The sign-up page, \<open>src/Tech crm/src/app/signup/page.tsx\<close>. State: the form (five
  strings and the terms checkbox), one error string per field, \<open>isLoading\<close> and
  \<open>signupSuccess\<close>. \<open>validate\<close> is modelled as the pair of the errors it sets and
  the \<open>isValid\<close> it returns, each branch clearing \<open>isValid\<close> as the code does. Its
  e-mail test is the unanchored pattern \<open>/\S+@\S+\.\S+/\<close> (a match anywhere in the
  string) read over the string's characters, \<open>signup_email_test\<close>; its password test
  reads \<open>password.length\<close> in UTF-16 code units (\<open>js_length\<close>), so a password of four
  two-byte characters has length 4. The submit handler has no request: after a 1.5 s
  timer it reports success; it is split at that \<open>await\<close>. Whitespace is \<open>js_ws\<close> of
  \<open>JsString\<close>.\<close>

record signup_form =
  s_fullName :: string
  s_email :: string
  s_password :: string
  s_confirmPassword :: string
  s_companyName :: string
  s_agreeToTerms :: bool

record signup_errors =
  e_fullName :: string
  e_email :: string
  e_password :: string
  e_confirmPassword :: string
  e_companyName :: string
  e_agreeToTerms :: string

record signup_state =
  s_formData :: signup_form
  s_errors :: signup_errors
  s_isLoading :: bool
  signupSuccess :: bool

definition no_errors :: signup_errors where
  "no_errors = \<lparr>e_fullName = [], e_email = [], e_password = [], e_confirmPassword = [],
                 e_companyName = [], e_agreeToTerms = []\<rparr>"

definition init_signup :: signup_state where
  "init_signup = \<lparr>s_formData = \<lparr>s_fullName = [], s_email = [], s_password = [], s_confirmPassword = [],
                                 s_companyName = [], s_agreeToTerms = False\<rparr>,
                   s_errors = no_errors, s_isLoading = False, signupSuccess = False\<rparr>"

text \<open>
  The unanchored pattern over the characters \<open>gs\<close>: some \<open>@\<close> at a position
  \<open>i > 0\<close> preceded by a non-space character (\<open>\S\<close> matches \<open>@\<close> too), and a dot
  strictly inside the run of non-space characters after it.
\<close>

definition at_match :: "string list \<Rightarrow> nat \<Rightarrow> bool" where
  "at_match gs i =
     (gs ! i = ''@'' \<and> 0 < i \<and> \<not> js_ws (gs ! (i - 1)) \<and>
      ''.'' \<in> set (butlast (tl (takeWhile (\<lambda>x. \<not> js_ws x) (drop (Suc i) gs)))))"

definition signup_email_test :: "string \<Rightarrow> bool" where
  "signup_email_test w = (let gs = utf8_chars w in list_ex (at_match gs) [0..<length gs])"

definition validate :: "signup_form \<Rightarrow> signup_errors \<times> bool" where
  "validate fd =
     (let e1 = (if s_fullName fd = [] then ''Full name is required'' else []);
          e2 = (if s_email fd = [] then ''Email is required''
                else if \<not> signup_email_test (s_email fd) then ''Email is invalid'' else []);
          e3 = (if s_password fd = [] then ''Password is required''
                else if js_length (s_password fd) < 8 then ''Password must be at least 8 characters'' else []);
          e4 = (if s_confirmPassword fd = [] then ''Please confirm your password''
                else if s_confirmPassword fd \<noteq> s_password fd then ''Passwords do not match'' else []);
          e5 = (if s_companyName fd = [] then ''Company name is required'' else []);
          e6 = (if \<not> s_agreeToTerms fd then ''You must agree to the terms and conditions'' else [])
      in (\<lparr>e_fullName = e1, e_email = e2, e_password = e3, e_confirmPassword = e4,
           e_companyName = e5, e_agreeToTerms = e6\<rparr>,
          s_fullName fd \<noteq> [] \<and> s_email fd \<noteq> [] \<and> signup_email_test (s_email fd) \<and>
          s_password fd \<noteq> [] \<and> \<not> js_length (s_password fd) < 8 \<and>
          s_confirmPassword fd \<noteq> [] \<and> s_confirmPassword fd = s_password fd \<and>
          s_companyName fd \<noteq> [] \<and> s_agreeToTerms fd))"

datatype signup_field = SFullName | SEmail | SPassword | SConfirmPassword | SCompanyName | SAgreeToTerms

text \<open>\<open>handleChange\<close>: the checkbox stores \<open>checked\<close>, every other input its \<open>value\<close>.\<close>

fun signup_handleChange :: "signup_field \<Rightarrow> string \<Rightarrow> bool \<Rightarrow> signup_state \<Rightarrow> signup_state" where
  "signup_handleChange SFullName v c st = st\<lparr>s_formData := (s_formData st)\<lparr>s_fullName := v\<rparr>\<rparr>"
| "signup_handleChange SEmail v c st = st\<lparr>s_formData := (s_formData st)\<lparr>s_email := v\<rparr>\<rparr>"
| "signup_handleChange SPassword v c st = st\<lparr>s_formData := (s_formData st)\<lparr>s_password := v\<rparr>\<rparr>"
| "signup_handleChange SConfirmPassword v c st = st\<lparr>s_formData := (s_formData st)\<lparr>s_confirmPassword := v\<rparr>\<rparr>"
| "signup_handleChange SCompanyName v c st = st\<lparr>s_formData := (s_formData st)\<lparr>s_companyName := v\<rparr>\<rparr>"
| "signup_handleChange SAgreeToTerms v c st = st\<lparr>s_formData := (s_formData st)\<lparr>s_agreeToTerms := c\<rparr>\<rparr>"

text \<open>\<open>handleSubmit\<close> before the timer (the result says whether the timer was started) and after it.\<close>

definition signup_submit_start :: "signup_state \<Rightarrow> signup_state \<times> bool" where
  "signup_submit_start st =
     (let (errs, ok) = validate (s_formData st) in
      if ok then (st\<lparr>s_errors := errs, s_isLoading := True\<rparr>, True) else (st\<lparr>s_errors := errs\<rparr>, False))"

definition signup_submit_finish :: "signup_state \<Rightarrow> signup_state" where
  "signup_submit_finish st = st\<lparr>signupSuccess := True, s_isLoading := False\<rparr>"

datatype signup_msg = SChange signup_field | SSubmit

definition signup_input ::
  "signup_field \<Rightarrow> string \<Rightarrow> string \<Rightarrow> string \<Rightarrow> string option \<Rightarrow> string \<Rightarrow> string \<Rightarrow> string \<Rightarrow> signup_msg view" where
  "signup_input f name label type autoComplete placeholder value err =
     El ''div'' []
       ([El ''label'' [Attr ''htmlFor'' name, cls ''block text-sm font-medium text-gray-700''] [Txt label],
         El ''input'' ([Attr ''id'' name, Attr ''name'' name, Attr ''type'' type] @
                       (case autoComplete of Some a \<Rightarrow> [Attr ''autoComplete'' a] | None \<Rightarrow> []) @
                       [cls ''form-input mt-1'', Attr ''placeholder'' placeholder, Attr ''value'' value,
                        On ''change'' (SChange f)]) []] @
        (if err \<noteq> [] then [El ''p'' [cls ''mt-1 text-sm text-red-600''] [Txt err]] else []))"

definition signup_success_card :: "signup_msg view" where
  "signup_success_card =
     El ''motion.div'' [cls ''bg-white py-8 px-6 shadow-soft-xl rounded-lg text-center'']
       [El ''h2'' [cls ''text-2xl font-bold text-gray-900 mb-4''] [Txt ''Sign Up Successful!''],
        El ''p'' [cls ''text-gray-600 mb-6'']
          [Txt ''Your account has been created successfully. Please check your email for verification.''],
        El ''Link'' [Attr ''href'' ''/login'', cls ''w-full inline-flex justify-center py-3 px-6 border border-transparent rounded-md shadow-sm text-base font-medium text-white bg-indigo-600 hover:bg-indigo-700 focus:outline-none focus:ring-2 focus:ring-offset-2 focus:ring-indigo-500'']
          [Txt ''Go to Login'']]"

definition signup_form_card :: "signup_state \<Rightarrow> signup_msg view" where
  "signup_form_card st =
     (let fd = s_formData st; er = s_errors st in
      El ''motion.div'' [cls ''bg-white py-8 px-6 shadow-soft-xl rounded-lg'']
        [El ''div'' [cls ''text-center mb-6'']
           [El ''h2'' [cls ''text-3xl font-bold text-gray-900''] [Txt ''Create Your Account''],
            El ''p'' [cls ''mt-2 text-gray-600''] [Txt ''Join T-CRM to manage your customer relationships effectively'']],
         El ''form'' [cls ''mt-8 space-y-6'', On ''submit'' SSubmit]
           [El ''div'' [cls ''space-y-4'']
              [signup_input SFullName ''fullName'' ''Full Name'' ''text'' (Some ''name'') ''Your full name''
                 (s_fullName fd) (e_fullName er),
               signup_input SEmail ''email'' ''Email Address'' ''email'' (Some ''email'') ''your.email@example.com''
                 (s_email fd) (e_email er),
               signup_input SPassword ''password'' ''Password'' ''password'' (Some ''new-password'') ''********''
                 (s_password fd) (e_password er),
               signup_input SConfirmPassword ''confirmPassword'' ''Confirm Password'' ''password'' (Some ''new-password'')
                 ''********'' (s_confirmPassword fd) (e_confirmPassword er),
               signup_input SCompanyName ''companyName'' ''Company Name'' ''text'' None ''Your company name''
                 (s_companyName fd) (e_companyName er),
               El ''div'' [cls ''flex items-start'']
                 [El ''div'' [cls ''flex items-center h-5'']
                    [El ''input'' [Attr ''id'' ''agreeToTerms'', Attr ''name'' ''agreeToTerms'', Attr ''type'' ''checkbox'',
                                   cls ''h-4 w-4 text-indigo-600 focus:ring-indigo-500 border-gray-300 rounded'',
                                   Attr ''checked'' (if s_agreeToTerms fd then ''true'' else ''false''),
                                   On ''change'' (SChange SAgreeToTerms)] []],
                  El ''div'' [cls ''ml-3 text-sm'']
                    ([El ''label'' [Attr ''htmlFor'' ''agreeToTerms'', cls ''font-medium text-gray-700'']
                        [Txt ''I agree to the '',
                         El ''Link'' [Attr ''href'' ''/terms'', cls ''text-indigo-600 hover:text-indigo-500''] [Txt ''Terms of Service''],
                         Txt '' and '',
                         El ''Link'' [Attr ''href'' ''/privacy'', cls ''text-indigo-600 hover:text-indigo-500''] [Txt ''Privacy Policy'']]] @
                     (if e_agreeToTerms er \<noteq> []
                      then [El ''p'' [cls ''mt-1 text-sm text-red-600''] [Txt (e_agreeToTerms er)]] else []))]],
            El ''div'' []
              [El ''button'' [Attr ''type'' ''submit'', Attr ''disabled'' (if s_isLoading st then ''true'' else ''false''),
                              cls ''w-full flex justify-center py-3 px-4 border border-transparent rounded-md shadow-sm text-base font-medium text-white bg-indigo-600 hover:bg-indigo-700 focus:outline-none focus:ring-2 focus:ring-offset-2 focus:ring-indigo-500 disabled:opacity-50 disabled:cursor-not-allowed'']
                 (if s_isLoading st then [El ''svg'' [cls ''animate-spin -ml-1 mr-3 h-5 w-5 text-white''] []]
                  else [Txt ''Create Account''])]],
         El ''div'' [cls ''mt-6 text-center'']
           [El ''p'' [cls ''text-sm text-gray-600'']
              [Txt ''Already have an account?'', Txt '' '',
               El ''Link'' [Attr ''href'' ''/login'', cls ''font-medium text-indigo-600 hover:text-indigo-500''] [Txt ''Log in'']]]])"

definition SignupPage_view :: "signup_state \<Rightarrow> signup_msg view" where
  "SignupPage_view st =
     El ''div'' [cls ''min-h-screen bg-gray-50 py-12 px-4 sm:px-6 lg:px-8 flex flex-col md:flex-row items-center justify-center'']
       [El ''div'' [cls ''md:w-1/2 flex justify-center mb-12 md:mb-0'']
          [El ''Page3D'' []
             [El ''div'' [cls ''w-full max-w-md'']
                [El ''img'' [Attr ''src'' ''/images/signup-illustration.svg'', Attr ''alt'' ''T-CRM Platform'',
                             cls ''w-full h-auto''] []]]],
        El ''div'' [cls ''md:w-1/2 max-w-md w-full space-y-8'']
          [if signupSuccess st then signup_success_card else signup_form_card st]]"

text \<open>The messages a rendered page shows as field errors (the red paragraphs under the
  inputs), in document order, and the six messages of an error record in field order.\<close>

fun red_texts :: "'m view \<Rightarrow> string list" where
  "red_texts (Txt s) = []"
| "red_texts (El tag as cs) =
     (if tag = ''p'' \<and> attr_value ''className'' as = Some ''mt-1 text-sm text-red-600''
      then view_texts (El tag as cs) else []) @ concat (map red_texts cs)"

definition signup_error_list :: "signup_errors \<Rightarrow> string list" where
  "signup_error_list er =
     [e_fullName er, e_email er, e_password er, e_confirmPassword er, e_companyName er, e_agreeToTerms er]"

subsection \<open>Lemmas\<close>

lemma signup_input_red_texts [simp]:
  "red_texts (signup_input f name label type ac ph value err) = (if err \<noteq> [] then [err] else [])"
  by (simp add: signup_input_def cls_def split: option.splits)

text \<open>The form shows exactly the non-empty messages of its error record, in field order.\<close>

lemma signup_view_red_texts:
  "\<not> signupSuccess st \<Longrightarrow> red_texts (SignupPage_view st) = filter (\<lambda>m. m \<noteq> []) (signup_error_list (s_errors st))"
  by (simp add: SignupPage_view_def signup_form_card_def signup_error_list_def cls_def Let_def)

text \<open>Every branch of \<open>validate\<close> that records a message also clears \<open>isValid\<close>, and
  every message is non-empty.\<close>

lemma validate_ok_no_message:
  "snd (validate fd) \<longleftrightarrow> filter (\<lambda>m. m \<noteq> []) (signup_error_list (fst (validate fd))) = []"
  by (simp add: validate_def Let_def signup_error_list_def)

lemma signup_submit_start_state:
  "fst (signup_submit_start st) = st\<lparr>s_errors := fst (validate (s_formData st)), s_isLoading := snd (validate (s_formData st)) \<or> s_isLoading st\<rparr>"
  "snd (signup_submit_start st) = snd (validate (s_formData st))"
  by (cases "validate (s_formData st)"; simp add: signup_submit_start_def)+

text \<open>
  C22. A submit of the sign-up form re-renders it with exactly the messages
  \<open>validate\<close> recorded, in field order, and starts the 1.5 s sign-up timer exactly when
  it shows none: a form the page flags is never signed up, and a form it does not
  flag always is.
\<close>

theorem signup_submit_flags_errors:
  assumes "\<not> signupSuccess st"
  shows "red_texts (SignupPage_view (fst (signup_submit_start st))) =
           filter (\<lambda>m. m \<noteq> []) (signup_error_list (fst (validate (s_formData st)))) \<and>
         (snd (signup_submit_start st) \<longleftrightarrow> red_texts (SignupPage_view (fst (signup_submit_start st))) = [])"
  using assms by (simp add: signup_submit_start_state signup_view_red_texts validate_ok_no_message)

theorem signup_submit_flags_errors_witness:
  "red_texts (SignupPage_view (fst (signup_submit_start
      (init_signup\<lparr>s_formData := \<lparr>s_fullName = ''Ann'', s_email = ''a@b.io'',
          s_password = [CHR 0xC3, CHR 0xA9, CHR 0xC3, CHR 0xA9, CHR 0xC3, CHR 0xA9, CHR 0xC3, CHR 0xA9],
          s_confirmPassword = [CHR 0xC3, CHR 0xA9, CHR 0xC3, CHR 0xA9, CHR 0xC3, CHR 0xA9, CHR 0xC3, CHR 0xA9],
          s_companyName = ''Acme'', s_agreeToTerms = True\<rparr>\<rparr>)))) = [''Password must be at least 8 characters''] \<and>
   \<not> snd (signup_submit_start
      (init_signup\<lparr>s_formData := \<lparr>s_fullName = ''Ann'', s_email = ''a@b.io'',
          s_password = [CHR 0xC3, CHR 0xA9, CHR 0xC3, CHR 0xA9, CHR 0xC3, CHR 0xA9, CHR 0xC3, CHR 0xA9],
          s_confirmPassword = [CHR 0xC3, CHR 0xA9, CHR 0xC3, CHR 0xA9, CHR 0xC3, CHR 0xA9, CHR 0xC3, CHR 0xA9],
          s_companyName = ''Acme'', s_agreeToTerms = True\<rparr>\<rparr>))"
proof -
  let ?st = "init_signup\<lparr>s_formData := \<lparr>s_fullName = ''Ann'', s_email = ''a@b.io'',
          s_password = [CHR 0xC3, CHR 0xA9, CHR 0xC3, CHR 0xA9, CHR 0xC3, CHR 0xA9, CHR 0xC3, CHR 0xA9],
          s_confirmPassword = [CHR 0xC3, CHR 0xA9, CHR 0xC3, CHR 0xA9, CHR 0xC3, CHR 0xA9, CHR 0xC3, CHR 0xA9],
          s_companyName = ''Acme'', s_agreeToTerms = True\<rparr>\<rparr>"
  have n: "\<not> signupSuccess ?st" by (simp add: init_signup_def)
  have l: "js_length [CHR 0xC3, CHR 0xA9, CHR 0xC3, CHR 0xA9, CHR 0xC3, CHR 0xA9, CHR 0xC3, CHR 0xA9] = 4"
    by (simp add: js_length_def utf16_units_def utf8_cont_def utf16_of_cp_def)
  have e: "signup_email_test ''a@b.io''"
    by (simp add: signup_email_test_def at_match_def js_string_eval upt_rec)
  have v: "validate (s_formData ?st) =
             (no_errors\<lparr>e_password := ''Password must be at least 8 characters''\<rparr>, False)"
    using l e by (simp add: validate_def Let_def no_errors_def)
  show ?thesis
    using signup_submit_flags_errors [OF n] v by (simp add: signup_error_list_def no_errors_def)
qed

end
