(* ===== verification/PlaceholderImage.thy ===== *)
theory PlaceholderImage
  imports Ui
begin

text \<open>
  The image with fallbacks, \<open>src/Tech crm/src/components/ui/PlaceholderImage.tsx\<close>.
  State: \<open>imgSrc\<close>, \<open>error\<close>, \<open>loaded\<close>. A load failure first switches to
  \<open>fallbackSrc\<close> and then, if that fails too, shows a gradient box whose colours come
  from a hash of the \<open>alt\<close> text. The hash folds
  \<open>acc => char.charCodeAt(0) + ((acc << 5) - acc)\<close> over the string: \<open><<\<close> works on
  the 32-bit two's-complement value of \<open>acc\<close> (\<open>ToInt32\<close>, here
  \<open>word_of_int\<close> into \<open>32 word\<close> and back with \<open>sint\<close>), while \<open>-\<close> and \<open>+\<close> are
  double-precision arithmetic on the unwrapped \<open>acc\<close>, which the model writes as
  \<open>int\<close>; \<open>hash_bound\<close> shows the values stay far below \<open>2^53\<close>, where doubles
  are exact, for every string shorter than a million code units. \<open>text.split('')\<close>
  splits the string into UTF-16 code units (\<open>utf16_units\<close> of \<open>JsString\<close>) and
  \<open>charCodeAt(0)\<close> reads each unit.
\<close>

unbundle bit_operations_syntax

definition hash_step :: "int \<Rightarrow> nat \<Rightarrow> int" where
  "hash_step acc u = int u + (sint (push_bit 5 (word_of_int acc :: 32 word)) - acc)"

definition generateHash :: "string \<Rightarrow> int" where
  "generateHash text = fold (\<lambda>u acc. hash_step acc u) (utf16_units text) 0"

text \<open>\<open>Math.abs(hash) % 360\<close> and the second hue, \<open>(Math.abs(hash) % 360 + 40) % 360\<close>.\<close>

definition hue1 :: "int \<Rightarrow> nat" where
  "hue1 hash = nat \<bar>hash\<bar> mod 360"

definition hue2 :: "int \<Rightarrow> nat" where
  "hue2 hash = (nat \<bar>hash\<bar> mod 360 + 40) mod 360"

definition generateGradient :: "string \<Rightarrow> string" where
  "generateGradient text =
     (let hash = generateHash text in
      ''linear-gradient(135deg, hsl('' @ string_of_nat (hue1 hash) @ '', 70%, 85%), hsl('' @
      string_of_nat (hue2 hash) @ '', 80%, 75%))'')"

record pimg_state =
  imgSrc :: string
  error :: bool
  loaded :: bool

definition init_pimg :: "string \<Rightarrow> pimg_state" where
  "init_pimg src = \<lparr>imgSrc = src, error = False, loaded = False\<rparr>"

definition handleError :: "string \<Rightarrow> pimg_state \<Rightarrow> pimg_state" where
  "handleError fallbackSrc st =
     (if imgSrc st \<noteq> fallbackSrc then st\<lparr>imgSrc := fallbackSrc\<rparr> else st\<lparr>error := True\<rparr>)"

definition handleLoad :: "pimg_state \<Rightarrow> pimg_state" where
  "handleLoad st = st\<lparr>loaded := True\<rparr>"

datatype pimg_msg = ImgError | ImgLoad

fun pimg_update :: "string \<Rightarrow> pimg_msg \<Rightarrow> pimg_state \<Rightarrow> pimg_state" where
  "pimg_update fallbackSrc ImgError st = handleError fallbackSrc st"
| "pimg_update fallbackSrc ImgLoad st = handleLoad st"

definition PlaceholderImage_view ::
  "string \<Rightarrow> nat \<Rightarrow> nat \<Rightarrow> string \<Rightarrow> pimg_state \<Rightarrow> pimg_msg view" where
  "PlaceholderImage_view alt width height className st =
     (if error st then
        El ''motion.div'' [cls (className @ '' overflow-hidden flex items-center justify-center rounded-xl''),
                           Attr ''style.background'' (generateGradient alt),
                           Attr ''style.height'' (string_of_nat height), Attr ''style.width'' ''100%'']
          [El ''div'' [cls ''p-4 text-center'']
             [El ''div'' [cls ''bg-white/80 backdrop-blur-sm px-4 py-3 rounded-lg shadow-sm'']
                [El ''p'' [cls ''text-lg font-medium text-gray-800 mb-1''] [Txt alt],
                 El ''p'' [cls ''text-xs text-gray-500''] [Txt ''Image Preview'']]]]
      else
        El ''motion.div'' [cls ''relative'']
          ([El ''Image'' [Attr ''src'' (imgSrc st), Attr ''alt'' alt, Attr ''width'' (string_of_nat width),
                          Attr ''height'' (string_of_nat height), cls className,
                          On ''error'' ImgError, On ''load'' ImgLoad, Attr ''style.objectFit'' ''cover''] []] @
           (if \<not> loaded st
            then [El ''div'' [cls ''absolute inset-0 bg-gray-100 flex items-center justify-center rounded-xl'']
                    [El ''div'' [cls ''w-12 h-12 rounded-full border-4 border-t-indigo-500 border-indigo-200 animate-spin''] []]]
            else [])))"

definition pimg_run :: "string \<Rightarrow> pimg_msg list \<Rightarrow> pimg_state \<Rightarrow> pimg_state" where
  "pimg_run fallbackSrc ms st = fold (pimg_update fallbackSrc) ms st"

definition failures_needed :: "string \<Rightarrow> pimg_state \<Rightarrow> nat" where
  "failures_needed fallbackSrc st = (if error st then 0 else if imgSrc st = fallbackSrc then 1 else 2)"

subsection \<open>Lemmas\<close>

lemma hash_step_bound: "u < 0x10000 \<Longrightarrow> \<bar>hash_step acc u\<bar> \<le> \<bar>acc\<bar> + 2 ^ 31 + 65535"
proof -
  assume "u < 0x10000"
  then have c: "int u \<le> 65535" by linarith
  have s: "\<bar>sint (push_bit 5 (word_of_int acc :: 32 word))\<bar> \<le> 2 ^ 31"
    using sint_ge [of "push_bit 5 (word_of_int acc :: 32 word)"] sint_lt [of "push_bit 5 (word_of_int acc :: 32 word)"]
    by simp
  show ?thesis unfolding hash_step_def using c s by linarith
qed

lemma fold_hash_bound:
  "\<forall>u \<in> set us. u < 0x10000 \<Longrightarrow>
   \<bar>fold (\<lambda>u acc. hash_step acc u) us acc\<bar> \<le> \<bar>acc\<bar> + int (length us) * (2 ^ 31 + 65535)"
proof (induction us arbitrary: acc)
  case Nil
  then show ?case by simp
next
  case (Cons u us)
  have "\<bar>fold (\<lambda>u acc. hash_step acc u) us (hash_step acc u)\<bar> \<le>
        \<bar>hash_step acc u\<bar> + int (length us) * (2 ^ 31 + 65535)" using Cons by simp
  with hash_step_bound [of u acc] Cons.prems show ?case by (simp add: algebra_simps)
qed

text \<open>
  C24. For every string shorter than a million UTF-16 code units the hash stays below
  \<open>2^53\<close> in absolute value, so the double-precision arithmetic of the code is
  exact and the \<open>int\<close> model is faithful.
\<close>

theorem hash_bound:
  "js_length str < 1000000 \<Longrightarrow> \<bar>generateHash str\<bar> < 2 ^ 53"
proof -
  assume "js_length str < 1000000"
  then have "int (length (utf16_units str)) * (2 ^ 31 + 65535) \<le> 1000000 * (2 ^ 31 + 65535)"
    by (simp add: js_length_def)
  then show ?thesis using fold_hash_bound [of "utf16_units str" 0] utf16_units_bound [of _ str]
    by (simp add: generateHash_def)
qed

lemma pimg_run_Cons: "pimg_run fb (m # ms) st = pimg_run fb ms (pimg_update fb m st)"
  by (simp add: pimg_run_def)

lemma pimg_run_error:
  "error (pimg_run fb ms st) \<longleftrightarrow> failures_needed fb st \<le> count_list ms ImgError"
proof (induction ms arbitrary: st)
  case Nil
  then show ?case by (simp add: pimg_run_def failures_needed_def)
next
  case (Cons m ms)
  show ?case
  proof (cases m)
    case ImgError
    have "failures_needed fb (handleError fb st) = failures_needed fb st - 1"
      by (simp add: failures_needed_def handleError_def)
    then show ?thesis using Cons.IH [of "handleError fb st"] by (simp add: pimg_run_Cons ImgError) arith
  next
    case ImgLoad
    have "failures_needed fb (handleLoad st) = failures_needed fb st"
      by (simp add: failures_needed_def handleLoad_def)
    then show ?thesis using Cons.IH [of "handleLoad st"] by (simp add: pimg_run_Cons ImgLoad)
  qed
qed

text \<open>
  C25. Starting from \<open>src\<close>, the gradient box is shown exactly when the image has
  failed to load twice (once, when \<open>src\<close> is already the fallback), whatever loads
  happen in between.
\<close>

theorem gradient_after_failures:
  "error (pimg_run fallbackSrc ms (init_pimg src)) \<longleftrightarrow>
   (if src = fallbackSrc then 1 else 2) \<le> count_list ms ImgError"
  using pimg_run_error [of fallbackSrc ms "init_pimg src"] by (simp add: failures_needed_def init_pimg_def)


theorem hash_bound_witness: "js_length ''T-CRM Platform'' < 1000000 \<and> \<bar>generateHash ''T-CRM Platform''\<bar> < 2 ^ 53"
  using hash_bound [of "''T-CRM Platform''"] js_length_le [of "''T-CRM Platform''"] by simp

end
