(* ===== verification/AnimatedTooltip.thy ===== *)
theory AnimatedTooltip
  imports Ui
begin

text \<open>
  The tooltip of \<open>src/Tech crm/src/components/ui/AnimatedTooltip.tsx\<close>. The component
  keeps \<open>isOpen\<close>, \<open>hasMounted\<close> and the ref \<open>timeoutRef\<close> of its pending timer;
  \<open>handleMouseEnter\<close> (also the \<open>onFocus\<close> handler) cancels that timer and starts a
  new one that opens the tooltip after \<open>delay\<close>; \<open>handleMouseLeave\<close> (also
  \<open>onBlur\<close>) cancels it and closes the tooltip. The browser is part of the state:
  the list of timers that have been started and neither fired nor been cleared, and the
  next timer id (browsers hand out positive ids, so a stored id is truthy). Whether the
  last pointer or focus event was an enter is recorded as \<open>hovered\<close>. The step
  relation \<open>tooltip_step\<close> interleaves the user's events with the firing of any
  pending timer.
\<close>

record tooltip_state =
  isOpen :: bool
  hasMounted :: bool
  timeoutRef :: "nat option"

record tooltip_env =
  comp :: tooltip_state
  pending :: "nat list"
  next_id :: nat
  hovered :: bool

definition init_tooltip :: tooltip_env where
  "init_tooltip = \<lparr>comp = \<lparr>isOpen = False, hasMounted = False, timeoutRef = None\<rparr>,
                    pending = [], next_id = 1, hovered = False\<rparr>"

text \<open>\<open>if (timeoutRef.current) clearTimeout(timeoutRef.current)\<close>.\<close>

definition clear_pending :: "tooltip_env \<Rightarrow> tooltip_env" where
  "clear_pending env =
     (case timeoutRef (comp env) of
        Some t \<Rightarrow> if t \<noteq> 0 then env\<lparr>pending := removeAll t (pending env)\<rparr> else env
      | None \<Rightarrow> env)"

definition handleMouseEnter :: "tooltip_env \<Rightarrow> tooltip_env" where
  "handleMouseEnter env =
     (let env1 = clear_pending env; t = next_id env1 in
      env1\<lparr>pending := pending env1 @ [t], next_id := Suc t,
           comp := (comp env1)\<lparr>timeoutRef := Some t\<rparr>\<rparr>)"

definition handleMouseLeave :: "tooltip_env \<Rightarrow> tooltip_env" where
  "handleMouseLeave env = (let env1 = clear_pending env in env1\<lparr>comp := (comp env1)\<lparr>isOpen := False\<rparr>\<rparr>)"

text \<open>A pending timer fires: its callback opens the tooltip.\<close>

definition timer_fire :: "nat \<Rightarrow> tooltip_env \<Rightarrow> tooltip_env" where
  "timer_fire t env =
     env\<lparr>pending := removeAll t (pending env), comp := (comp env)\<lparr>isOpen := True, hasMounted := True\<rparr>\<rparr>"

inductive tooltip_step :: "tooltip_env \<Rightarrow> tooltip_env \<Rightarrow> bool" where
  enter: "tooltip_step env ((handleMouseEnter env)\<lparr>hovered := True\<rparr>)"
| leave: "tooltip_step env ((handleMouseLeave env)\<lparr>hovered := False\<rparr>)"
| fire: "t \<in> set (pending env) \<Longrightarrow> tooltip_step env (timer_fire t env)"

inductive tooltip_reach :: "tooltip_env \<Rightarrow> bool" where
  init: "tooltip_reach init_tooltip"
| step: "tooltip_reach env \<Longrightarrow> tooltip_step env env' \<Longrightarrow> tooltip_reach env'"

datatype tooltip_direction = Top | Bottom | Left | Right

datatype tooltip_msg = MouseEnter | MouseLeave

text \<open>The \<open>switch (direction)\<close>: the tooltip's and the arrow's position styles and the entry offset.\<close>

fun tooltip_position :: "tooltip_direction \<Rightarrow> (string \<times> string) list" where
  "tooltip_position Top = [(''bottom'', ''100%''), (''left'', ''50%''), (''transform'', ''translateX(-50%) translateY(-8px)'')]"
| "tooltip_position Bottom = [(''top'', ''100%''), (''left'', ''50%''), (''transform'', ''translateX(-50%) translateY(8px)'')]"
| "tooltip_position Left = [(''right'', ''100%''), (''top'', ''50%''), (''transform'', ''translateY(-50%) translateX(-8px)'')]"
| "tooltip_position Right = [(''left'', ''100%''), (''top'', ''50%''), (''transform'', ''translateY(-50%) translateX(8px)'')]"

fun arrow_position :: "tooltip_direction \<Rightarrow> (string \<times> string) list" where
  "arrow_position Top = [(''bottom'', ''-6px''), (''left'', ''50%''), (''transform'', ''translateX(-50%) rotate(45deg)'')]"
| "arrow_position Bottom = [(''top'', ''-6px''), (''left'', ''50%''), (''transform'', ''translateX(-50%) rotate(45deg)'')]"
| "arrow_position Left = [(''right'', ''-6px''), (''top'', ''50%''), (''transform'', ''translateY(-50%) rotate(45deg)'')]"
| "arrow_position Right = [(''left'', ''-6px''), (''top'', ''50%''), (''transform'', ''translateY(-50%) rotate(45deg)'')]"

fun tooltip_offset :: "tooltip_direction \<Rightarrow> string \<times> int" where
  "tooltip_offset Top = (''y'', -10)"
| "tooltip_offset Bottom = (''y'', 10)"
| "tooltip_offset Left = (''x'', -10)"
| "tooltip_offset Right = (''x'', 10)"

definition style_attrs :: "(string \<times> string) list \<Rightarrow> 'm attr list" where
  "style_attrs ps = map (\<lambda>(k, v). Attr (''style.'' @ k) v) ps"

text \<open>The view is generic in the message type of the page that renders it: \<open>lift\<close> sends
  the tooltip's own handlers to the tooltip's instance.\<close>

definition AnimatedTooltip_view ::
  "tooltip_direction \<Rightarrow> string \<Rightarrow> (tooltip_msg \<Rightarrow> 'm) \<Rightarrow> 'm view list \<Rightarrow> 'm view list \<Rightarrow> tooltip_state \<Rightarrow> 'm view" where
  "AnimatedTooltip_view direction className lift children content st =
     El ''div'' [cls (''relative inline-block '' @ className), On ''mouseenter'' (lift MouseEnter),
                 On ''mouseleave'' (lift MouseLeave), On ''focus'' (lift MouseEnter), On ''blur'' (lift MouseLeave)]
       (children @
        [El ''AnimatePresence'' []
           (if isOpen st then
              [El ''motion.div'' ([cls ''absolute z-50 w-64 p-4 text-sm bg-white border border-gray-100 rounded-lg shadow-lg preserve-3d''] @
                                  style_attrs (tooltip_position direction @
                                               [(''transformStyle'', ''preserve-3d''), (''willChange'', ''transform, opacity'')]))
                 [El ''motion.div'' [cls ''relative z-10'',
                                     Attr ''animate.y'' (if hasMounted st then ''[0, 3, 0]'' else ''[0, 0, 0]'')] content,
                  El ''div'' [cls ''absolute inset-0 bg-gradient-to-br from-primary-50/30 to-indigo-50/30 rounded-lg -z-10''] [],
                  El ''div'' ([cls ''absolute w-3 h-3 bg-white border border-gray-100 transform''] @
                              style_attrs (arrow_position direction)) [],
                  El ''motion.div'' [cls ''absolute top-2 right-2 w-2 h-2 rounded-full bg-primary-400/50''] []]]
            else [])])"

text \<open>The invariant: an open tooltip means the last event was an enter; at most the timer
  in \<open>timeoutRef\<close> is pending; ids in use are positive and below \<open>next_id\<close>.\<close>

definition tooltip_inv :: "tooltip_env \<Rightarrow> bool" where
  "tooltip_inv env =
     ((isOpen (comp env) \<longrightarrow> hovered env) \<and> distinct (pending env) \<and>
      set (pending env) \<subseteq> set_option (timeoutRef (comp env)) \<and>
      (case timeoutRef (comp env) of Some t \<Rightarrow> 0 < t | None \<Rightarrow> True) \<and> 0 < next_id env \<and>
      (\<not> hovered env \<longrightarrow> pending env = []))"

subsection \<open>Invariant\<close>

inductive_cases tooltip_stepE: "tooltip_step env env'"

lemma clear_pending_fields [simp]:
  "comp (clear_pending env) = comp env" "next_id (clear_pending env) = next_id env"
  "hovered (clear_pending env) = hovered env"
  by (simp_all add: clear_pending_def split: option.split)

lemma removeAll_singleton_set: "set xs \<subseteq> {t} \<Longrightarrow> removeAll t xs = []"
  by (induction xs) auto

lemma clear_pending_empty: "tooltip_inv env \<Longrightarrow> pending (clear_pending env) = []"
  by (auto simp: tooltip_inv_def clear_pending_def removeAll_singleton_set split: option.splits)

lemma tooltip_step_inv: "tooltip_step env env' \<Longrightarrow> tooltip_inv env \<Longrightarrow> tooltip_inv env'"
proof (induction rule: tooltip_step.induct)
  case (enter env)
  then show ?case
    by (simp add: tooltip_inv_def handleMouseEnter_def Let_def clear_pending_empty)
next
  case (leave env)
  then show ?case
    by (simp add: tooltip_inv_def handleMouseLeave_def Let_def clear_pending_empty)
next
  case (fire t env)
  then show ?case
    by (auto simp: tooltip_inv_def timer_fire_def distinct_removeAll)
qed

lemma tooltip_reach_inv: "tooltip_reach env \<Longrightarrow> tooltip_inv env"
proof (induction rule: tooltip_reach.induct)
  case init
  then show ?case by (simp add: tooltip_inv_def init_tooltip_def)
next
  case (step env env')
  from step.hyps(2) step.IH show ?case by (rule tooltip_step_inv)
qed

text \<open>
  C26. In every state reachable by pointer and focus events and timer firings, the
  tooltip is open only if the last event was an enter, and at most one timer is
  pending: a timer started before a leave never opens the tooltip afterwards.
\<close>

theorem tooltip_open_only_when_hovered:
  assumes "tooltip_reach env"
  shows "(isOpen (comp env) \<longrightarrow> hovered env) \<and> length (pending env) \<le> 1"
proof -
  have i: "tooltip_inv env" using assms by (rule tooltip_reach_inv)
  then have "distinct (pending env)" "set (pending env) \<subseteq> set_option (timeoutRef (comp env))"
    by (simp_all add: tooltip_inv_def)
  moreover have "finite (set_option (timeoutRef (comp env)))" by (cases "timeoutRef (comp env)") simp_all
  ultimately have "length (pending env) \<le> card (set_option (timeoutRef (comp env)))"
    by (metis card_mono distinct_card)
  also have "\<dots> \<le> 1" by (cases "timeoutRef (comp env)") simp_all
  finally show ?thesis using i by (simp add: tooltip_inv_def)
qed

lemma handleMouseEnter_pending:
  "tooltip_inv env \<Longrightarrow> pending ((handleMouseEnter env)\<lparr>hovered := True\<rparr>) = [next_id env]"
  by (simp add: handleMouseEnter_def Let_def clear_pending_empty)

text \<open>
  C27. From every reachable state, an enter starts a timer that is pending, and when it
  fires the tooltip is open, in a reachable state.
\<close>

theorem tooltip_opens_after_delay:
  assumes "tooltip_reach env"
  shows "tooltip_reach (timer_fire (next_id env) ((handleMouseEnter env)\<lparr>hovered := True\<rparr>)) \<and>
         isOpen (comp (timer_fire (next_id env) ((handleMouseEnter env)\<lparr>hovered := True\<rparr>)))"
proof -
  let ?e1 = "(handleMouseEnter env)\<lparr>hovered := True\<rparr>"
  have r1: "tooltip_reach ?e1" by (rule tooltip_reach.step [OF assms tooltip_step.enter])
  have "next_id env \<in> set (pending ?e1)"
    using handleMouseEnter_pending [OF tooltip_reach_inv [OF assms]] by simp
  then have "tooltip_step ?e1 (timer_fire (next_id env) ?e1)" by (rule tooltip_step.fire)
  with r1 have "tooltip_reach (timer_fire (next_id env) ?e1)" by (rule tooltip_reach.step)
  then show ?thesis by (simp add: timer_fire_def)
qed

theorem tooltip_open_only_when_hovered_witness:
  "\<not> isOpen (comp ((handleMouseLeave ((handleMouseEnter init_tooltip)\<lparr>hovered := True\<rparr>))\<lparr>hovered := False\<rparr>)) \<and>
   length (pending ((handleMouseLeave ((handleMouseEnter init_tooltip)\<lparr>hovered := True\<rparr>))\<lparr>hovered := False\<rparr>)) \<le> 1"
proof -
  have "tooltip_reach ((handleMouseEnter init_tooltip)\<lparr>hovered := True\<rparr>)"
    by (rule tooltip_reach.step [OF tooltip_reach.init tooltip_step.enter])
  then have "tooltip_reach ((handleMouseLeave ((handleMouseEnter init_tooltip)\<lparr>hovered := True\<rparr>))\<lparr>hovered := False\<rparr>)"
    by (rule tooltip_reach.step [OF _ tooltip_step.leave])
  from tooltip_open_only_when_hovered [OF this] show ?thesis by simp
qed

theorem tooltip_opens_after_delay_witness:
  "isOpen (comp (timer_fire (next_id init_tooltip) ((handleMouseEnter init_tooltip)\<lparr>hovered := True\<rparr>)))"
  using tooltip_opens_after_delay [OF tooltip_reach.init] by simp

end
