(* ===== verification/Header.thy ===== *)
theory Header
  imports Ui
begin

text \<open>
  The site header, \<open>src/Tech crm/src/components/Header.tsx\<close>. State: whether the
  mobile menu is open and whether the page has scrolled more than 10 pixels (the
  \<open>scroll\<close> listener of the effect reads \<open>window.scrollY\<close>). The render has a desktop
  bar and a mobile menu that list the same \<open>navigation\<close> and the same actions; every
  link of the mobile menu also closes it.
\<close>

record nav_item =
  nav_name :: string
  nav_href :: string

definition navigation :: "nav_item list" where
  "navigation =
    [\<lparr>nav_name = ''Home'', nav_href = ''/''\<rparr>, \<lparr>nav_name = ''Features'', nav_href = ''/#features''\<rparr>,
     \<lparr>nav_name = ''Solutions'', nav_href = ''/#solutions''\<rparr>, \<lparr>nav_name = ''Pricing'', nav_href = ''/#pricing''\<rparr>,
     \<lparr>nav_name = ''Contact'', nav_href = ''/contact''\<rparr>]"

record header_state =
  mobileMenuOpen :: bool
  scrolled :: bool

definition init_header :: header_state where
  "init_header = \<lparr>mobileMenuOpen = False, scrolled = False\<rparr>"

datatype header_msg = ToggleMenu | CloseMenu | WindowScroll int

fun header_update :: "header_msg \<Rightarrow> header_state \<Rightarrow> header_state" where
  "header_update ToggleMenu st = st\<lparr>mobileMenuOpen := \<not> mobileMenuOpen st\<rparr>"
| "header_update CloseMenu st = st\<lparr>mobileMenuOpen := False\<rparr>"
| "header_update (WindowScroll scrollY) st = st\<lparr>scrolled := scrollY > 10\<rparr>"

definition phone_icon :: "header_msg view" where
  "phone_icon = El ''svg'' [cls ''h-4 w-4 mr-1'']
     [El ''path'' [Attr ''d'' ''M3 5a2 2 0 012-2h3.28a1 1 0 01.948.684l1.498 4.493a1 1 0 01-.502 1.21l-2.257 1.13a11.042 11.042 0 005.516 5.516l1.13-2.257a1 1 0 011.21-.502l4.493 1.498a1 1 0 01.684.949V19a2 2 0 01-2 2h-1C9.716 21 3 14.284 3 6V5z''] []]"

definition logo :: "string \<Rightarrow> header_msg view" where
  "logo crmClass =
     El ''Link'' [Attr ''href'' ''/'', cls ''-m-1.5 p-1.5 flex items-center gap-1'']
       [El ''span'' [cls ''text-primary-600 font-bold text-2xl''] [Txt ''T-''],
        El ''span'' [cls crmClass] [Txt ''CRM'']]"

definition desktop_nav :: "header_msg view" where
  "desktop_nav =
     El ''div'' [cls ''hidden lg:flex lg:gap-x-8'']
       (map (\<lambda>item. El ''Link'' [Attr ''key'' (nav_name item), Attr ''href'' (nav_href item),
                                 cls ''font-medium transition-colors duration-200 text-gray-700 hover:text-primary-600'']
                      [Txt (nav_name item)]) navigation)"

definition desktop_actions :: "header_msg view" where
  "desktop_actions =
     El ''div'' [cls ''hidden lg:flex lg:items-center lg:gap-4'']
       [El ''a'' [Attr ''href'' ''tel:+917421000303'',
                  cls ''font-medium transition-colors duration-200 flex items-center text-gray-700 hover:text-primary-600'']
          [phone_icon, Txt ''+91-742-100-0303''],
        El ''Link'' [Attr ''href'' ''/login'', cls ''font-medium transition-colors duration-200 text-gray-700 hover:text-primary-600'']
          [Txt ''Login''],
        El ''Link'' [Attr ''href'' ''/#demo-form'', cls ''btn-primary''] [Txt ''Book a Demo''],
        El ''Link'' [Attr ''href'' ''/signup'', cls ''btn-primary bg-primary-700 text-white''] [Txt ''Free Trial'']]"

definition mobile_menu :: "header_state \<Rightarrow> header_msg view" where
  "mobile_menu st =
     El ''div'' [cls (''lg:hidden '' @ (if mobileMenuOpen st then ''block'' else ''hidden''))]
       [El ''div'' [cls ''fixed inset-0 z-50 bg-white'']
          [El ''div'' [cls ''container mx-auto flex items-center justify-between p-4'']
             [logo ''text-gray-700 font-bold text-2xl'',
              El ''button'' [Attr ''type'' ''button'', cls ''-m-2.5 rounded-md p-2.5 text-gray-700'', On ''click'' CloseMenu]
                [El ''span'' [cls ''sr-only''] [Txt ''Close menu''], El ''XMarkIcon'' [cls ''h-6 w-6''] []]],
           El ''div'' [cls ''mt-6 flow-root'']
             [El ''div'' [cls ''container divide-y divide-gray-200'']
                [El ''div'' [cls ''space-y-2 py-6'']
                   (map (\<lambda>item. El ''Link'' [Attr ''key'' (nav_name item), Attr ''href'' (nav_href item),
                                             cls ''-mx-3 block rounded-lg px-3 py-2 text-base font-medium leading-7 text-gray-700 hover:bg-gray-50'',
                                             On ''click'' CloseMenu]
                                  [Txt (nav_name item)]) navigation),
                 El ''div'' [cls ''py-6 space-y-4'']
                   [El ''a'' [Attr ''href'' ''tel:+917421000303'',
                              cls ''-mx-3 block rounded-lg px-3 py-2.5 text-base font-medium leading-7 text-gray-700 hover:bg-gray-50 flex items-center'',
                              On ''click'' CloseMenu]
                      [phone_icon, Txt ''+91-742-100-0303''],
                    El ''Link'' [Attr ''href'' ''/login'',
                                 cls ''-mx-3 block rounded-lg px-3 py-2.5 text-base font-medium leading-7 text-gray-700 hover:bg-gray-50'',
                                 On ''click'' CloseMenu] [Txt ''Login''],
                    El ''Link'' [Attr ''href'' ''/#demo-form'', cls ''btn-primary w-full justify-center flex py-3'',
                                 On ''click'' CloseMenu] [Txt ''Book a Demo''],
                    El ''Link'' [Attr ''href'' ''/signup'', cls ''btn-primary bg-primary-700 w-full justify-center flex py-3'',
                                 On ''click'' CloseMenu] [Txt ''Free Trial'']]]]]]"

definition Header_view :: "header_state \<Rightarrow> header_msg view" where
  "Header_view st =
     El ''header'' [cls (''fixed w-full z-50 transition-all duration-300 '' @
                         (if scrolled st then ''bg-white/95 backdrop-blur-sm shadow-sm'' else ''bg-transparent''))]
       [El ''nav'' [cls ''container mx-auto flex items-center justify-between p-4'', Attr ''aria-label'' ''Global'']
          [El ''div'' [cls ''flex items-center''] [logo ''font-bold text-2xl text-gray-700''],
           El ''div'' [cls ''flex lg:hidden'']
             [El ''button'' [Attr ''type'' ''button'', cls ''-m-2.5 inline-flex items-center justify-center rounded-md p-2.5 text-gray-700'',
                             On ''click'' ToggleMenu]
                [El ''span'' [cls ''sr-only''] [Txt ''Open main menu''], El ''Bars3Icon'' [cls ''h-6 w-6''] []]],
           desktop_nav,
           desktop_actions],
        mobile_menu st]"

text \<open>Link elements (\<open>Link\<close> of \<open>next/link\<close> and \<open>a\<close>), their targets and the events they raise, in document order.\<close>

definition is_link :: "string \<Rightarrow> bool" where
  "is_link tag = (tag = ''Link'' \<or> tag = ''a'')"

fun link_hrefs :: "'m view \<Rightarrow> string list" where
  "link_hrefs (Txt s) = []"
| "link_hrefs (El tag as cs) =
     (if is_link tag then [case attr_value ''href'' as of Some h \<Rightarrow> h | None \<Rightarrow> []] else []) @
     concat (map link_hrefs cs)"

fun link_msgs :: "'m view \<Rightarrow> 'm list" where
  "link_msgs (Txt s) = []"
| "link_msgs (El tag as cs) = (if is_link tag then attr_msgs as else []) @ concat (map link_msgs cs)"

end
