(* ===== verification/Hero.thy ===== *)
theory Hero
  imports Animations
begin

text \<open>
  The hero section, \<open>src/Tech crm/src/components/HeroSection.tsx\<close>. Its state is
  \<open>highlightIndex\<close>, advanced every 3 seconds by an interval,
  \<open>(prevIndex + 1) % highlights.length\<close>. The render is modelled in full. The four
  \<open>useTransform\<close> scroll values are \<open>hero_parallax\<close> of the scroll progress; no
  element uses them, and \<open>containerRef\<close>, the target of \<open>useScroll\<close>, is attached to
  no element either. The render, as written, never reads \<open>highlightIndex\<close>
  or \<open>highlights\<close>.
\<close>

definition highlights :: "string list" where
  "highlights = [''Generate Leads'', ''Track Prospects'', ''Avail Opportunities'', ''Close Deals'', ''Retain Clients'']"

record stat =
  stat_value :: string
  stat_label :: string

definition stats :: "stat list" where
  "stats = [\<lparr>stat_value = ''10k+'', stat_label = ''Active Users''\<rparr>,
            \<lparr>stat_value = ''85%'', stat_label = ''Retention Rate''\<rparr>,
            \<lparr>stat_value = ''12x'', stat_label = ''ROI Increase''\<rparr>]"

definition hero_tick :: "nat \<Rightarrow> nat" where
  "hero_tick prevIndex = (prevIndex + 1) mod length highlights"

text \<open>\<open>backgroundY\<close> and \<open>contentY\<close> in percent, \<open>decorationScale\<close> and
  \<open>decorationOpacity\<close>, from the scroll progress \<open>p\<close>; \<open>useTransform\<close> clamps to the
  ends of its input range, \<open>[0, 1]\<close> for the first three and \<open>[0, 0.8]\<close> for the last.\<close>

record hero_motion =
  backgroundY :: rat
  contentY :: rat
  decorationScale :: rat
  decorationOpacity :: rat

definition hero_parallax :: "rat \<Rightarrow> hero_motion" where
  "hero_parallax p =
     \<lparr>backgroundY = 30 * clamp01 p, contentY = 20 * clamp01 p, decorationScale = 1 + clamp01 p / 5,
      decorationOpacity = 1 - clamp01 (p * 5 / 4)\<rparr>"

definition stat_card :: "nat \<times> stat \<Rightarrow> 'm view" where
  "stat_card = (\<lambda>(index, s).
     El ''motion.div'' [Attr ''key'' (string_of_nat index),
                        cls ''bg-white shadow-md border border-gray-100 rounded-xl p-4 transition-all duration-300 transform preserve-3d'']
       [El ''div'' [cls ''text-2xl md:text-3xl text-primary-600 font-bold transform translate-z-10'']
          [El ''motion.span'' [] [Txt (stat_value s)]],
        El ''div'' [cls ''text-sm text-gray-500 mt-1 transform translate-z-5''] [Txt (stat_label s)]])"

definition hero_content :: "'m view" where
  "hero_content =
     El ''div'' [cls ''max-w-2xl'']
       [El ''motion.h1'' [cls ''text-4xl md:text-5xl lg:text-6xl font-bold text-gray-900 mb-6 leading-tight'']
          [Txt ''Transform Your Customer Relationships with T-CRM''],
        El ''motion.p'' [cls ''text-xl text-gray-600 mb-8'']
          [Txt ''Streamline your sales process, improve customer satisfaction, and drive growth with our powerful CRM solution designed for modern businesses.''],
        El ''motion.div'' [cls ''flex flex-wrap gap-4 mb-12'']
          [El ''a'' [Attr ''href'' ''#demo-form'',
                     cls ''px-6 py-3 bg-primary-600 hover:bg-primary-700 text-white font-medium rounded-lg transition-colors duration-200 inline-flex items-center shadow-lg hover:shadow-xl transform hover:-translate-y-0.5 transition-all'']
             [Txt ''Start Free Trial'', El ''svg'' [cls ''ml-2 -mr-1 w-5 h-5''] []],
           El ''a'' [Attr ''href'' ''#features'',
                     cls ''px-6 py-3 bg-accent-orange hover:bg-accent-orange-dark text-white font-medium rounded-lg transition-colors duration-200 inline-flex items-center'']
             [Txt ''Explore Features'']],
        El ''div'' [cls ''grid grid-cols-2 sm:grid-cols-3 gap-6 perspective-1000''] (map stat_card (enumerate 0 stats))]"

definition hero_visual :: "'m view" where
  "hero_visual =
     El ''motion.div'' [cls ''relative lg:flex hidden justify-center items-center'']
       [El ''div'' [cls ''relative preserve-3d'']
          [El ''div'' [cls ''absolute inset-0 bg-gradient-to-tr from-primary-600/10 to-accent-orange/5 rounded-xl blur-xl''] [],
           El ''div'' [cls ''relative bg-white border border-gray-100 rounded-xl overflow-hidden shadow-xl transform translate-z-0'']
             [El ''div'' [cls ''aspect-[4/3] w-full max-w-lg bg-gray-50 flex items-center justify-center text-gray-400'']
                [El ''svg'' [cls ''w-24 h-24 opacity-30''] []],
              El ''div'' [cls ''absolute top-0 left-0 right-0 h-12 bg-white border-b border-gray-100 flex items-center px-4'']
                [El ''div'' [cls ''flex space-x-2'']
                   [El ''div'' [cls ''w-3 h-3 rounded-full bg-red-400''] [],
                    El ''div'' [cls ''w-3 h-3 rounded-full bg-yellow-400''] [],
                    El ''div'' [cls ''w-3 h-3 rounded-full bg-green-400''] []],
                 El ''div'' [cls ''mx-auto bg-gray-100 rounded-md h-6 w-64''] []]],
           El ''div'' [cls ''absolute -top-6 -right-6 w-12 h-12 bg-primary-500 rounded-xl shadow-lg transform rotate-12 translate-z-20''] [],
           El ''div'' [cls ''absolute -bottom-6 -left-6 w-16 h-16 bg-accent-orange rounded-full shadow-lg transform rotate-45 translate-z-30''] []],
        El ''div'' [cls ''absolute top-10 -right-16 bg-white rounded-lg shadow-xl p-4 transform rotate-6 animate-float translate-z-15'']
          [El ''div'' [cls ''w-48 h-24 flex flex-col'']
             [El ''div'' [cls ''text-sm font-semibold text-gray-800''] [Txt ''Sales Performance''],
              El ''div'' [cls ''mt-2 flex-1 flex items-end'']
                [El ''div'' [cls ''w-4 h-12 bg-primary-200 rounded-sm''] [],
                 El ''div'' [cls ''w-4 h-16 bg-primary-400 rounded-sm ml-2''] [],
                 El ''div'' [cls ''w-4 h-20 bg-primary-600 rounded-sm ml-2''] [],
                 El ''div'' [cls ''w-4 h-14 bg-primary-800 rounded-sm ml-2''] []]]],
        El ''div'' [cls ''absolute -bottom-4 -left-20 bg-white rounded-lg shadow-xl p-4 transform -rotate-3 animate-float-reverse border border-gray-100 translate-z-25'']
          [El ''div'' [cls ''w-48 flex flex-col'']
             [El ''div'' [cls ''flex items-center'']
                [El ''div'' [cls ''w-8 h-8 rounded-full bg-accent-orange/20 flex items-center justify-center text-accent-orange'']
                   [El ''svg'' [cls ''w-4 h-4''] []],
                 El ''div'' [cls ''ml-3'']
                   [El ''div'' [cls ''text-sm font-semibold text-gray-800''] [Txt ''Task Reminder''],
                    El ''div'' [cls ''text-xs text-gray-500''] [Txt ''Follow up with client'']]]]]]"

definition trusted_companies :: "string list" where
  "trusted_companies = [''Google'', ''Microsoft'', ''Airbnb'', ''Shopify'', ''Stripe'']"

definition HeroSection_view :: "nat \<Rightarrow> 'm view" where
  "HeroSection_view highlightIndex =
     El ''section'' [cls ''relative overflow-hidden bg-gradient-to-b from-primary-50 to-white pt-20 pb-28 lg:pt-28 lg:pb-40'']
       [El ''div'' [cls ''absolute inset-0 overflow-hidden pointer-events-none'']
          [El ''div'' [cls ''absolute top-1/4 -left-24 w-96 h-96 bg-primary-400/10 rounded-full blur-3xl animate-float-slow''] [],
           El ''div'' [cls ''absolute bottom-1/3 -right-20 w-72 h-72 bg-blue-400/10 rounded-full blur-3xl animate-float-slow-reverse''] [],
           El ''div'' [cls ''absolute top-2/3 left-1/4 w-64 h-64 bg-accent-orange/5 rounded-full blur-3xl animate-pulse-slow''] [],
           El ''div'' [cls ''absolute inset-0 bg-grid-white/[0.08] bg-[length:30px_30px]''] [],
           El ''div'' [cls ''absolute bottom-0 left-0 right-0 h-40 bg-gradient-to-t from-white to-transparent''] [],
           El ''div'' [cls ''absolute top-0 left-0 right-0 h-20 bg-gradient-to-b from-primary-50 to-transparent''] []],
        El ''div'' [cls ''container relative z-10 mx-auto px-4 sm:px-6 lg:px-8'']
          [El ''div'' [cls ''grid grid-cols-1 lg:grid-cols-2 gap-12 items-center''] [hero_content, hero_visual],
           El ''motion.div'' [cls ''mt-16 pt-6 border-t border-gray-200'']
             [El ''div'' [cls ''text-center text-sm text-gray-500 mb-4''] [Txt ''TRUSTED BY INNOVATIVE COMPANIES''],
              El ''div'' [cls ''flex flex-wrap justify-center gap-x-12 gap-y-4 mb-4'']
                (map (\<lambda>(index, company). El ''div'' [Attr ''key'' (string_of_nat index), cls ''text-gray-700 font-semibold text-xl''] [Txt company])
                   (enumerate 0 trusted_companies))]]]"

text \<open>The parallax values stay within the ranges given to \<open>useTransform\<close>, whatever the
  scroll position; the decoration is fully transparent from four fifths of the scroll on.\<close>

lemma hero_parallax_ranges:
  "0 \<le> backgroundY (hero_parallax p) \<and> backgroundY (hero_parallax p) \<le> 30 \<and>
   1 \<le> decorationScale (hero_parallax p) \<and> decorationScale (hero_parallax p) \<le> 6 / 5 \<and>
   0 \<le> decorationOpacity (hero_parallax p) \<and> decorationOpacity (hero_parallax p) \<le> 1"
  "4 / 5 \<le> p \<Longrightarrow> decorationOpacity (hero_parallax p) = 0"
  by (auto simp: hero_parallax_def clamp01_def)

end
