(* ===== verification/FeatureCard.thy ===== *)
theory FeatureCard
  imports Card3D AnimatedTooltip Animations
begin

text \<open>
  The feature grid of the home page: \<open>src/Tech crm/src/components/ui/EnhancedFeatureCard.tsx\<close>
  and \<open>src/Tech crm/src/components/EnhancedFeaturesSection.tsx\<close>. A card keeps
  \<open>isHovered\<close> and \<open>mousePosition\<close>, the pointer's offset from the card's centre as a
  fraction of the half-width and half-height; it is rendered inside an
  \<^const>\<open>AnimatedTooltip_view\<close>, whose wrapper \<open>div\<close> holds the card and, while open,
  the tooltip's popup. The composite state \<open>feature_card\<close> pairs the card's state with
  the tooltip's (\<^typ>\<open>tooltip_env\<close>) and the pointer's place, and \<open>card_step\<close> is the
  interleaving of the pointer events, each delivered to the components whose box the
  pointer enters or leaves, with the firing of the tooltip's timers. Coordinates are
  rationals as in the theory Card3D, whose \<open>rect\<close> and \<open>inside\<close> are reused; a style
  string is given by the numbers it prints.
\<close>

record efc_state =
  isHovered :: bool
  mouseX :: rat
  mouseY :: rat

definition efc_init :: efc_state where
  "efc_init = \<lparr>isHovered = False, mouseX = 0, mouseY = 0\<rparr>"

text \<open>\<open>handleMouseMove\<close> of the card; \<open>cardRef.current\<close> is \<open>None\<close> before mounting.\<close>

definition efc_handleMouseMove :: "rect option \<Rightarrow> rat \<Rightarrow> rat \<Rightarrow> efc_state \<Rightarrow> efc_state" where
  "efc_handleMouseMove cardRef clientX clientY st =
     (case cardRef of
        None \<Rightarrow> st
      | Some r \<Rightarrow>
          (let centerX = rect_left r + rect_width r / 2; centerY = rect_top r + rect_height r / 2;
               normalizedX = (clientX - centerX) / (rect_width r / 2);
               normalizedY = (clientY - centerY) / (rect_height r / 2)
           in st\<lparr>mouseX := normalizedX, mouseY := normalizedY\<rparr>))"

definition efc_mouse_enter :: "efc_state \<Rightarrow> efc_state" where
  "efc_mouse_enter st = st\<lparr>isHovered := True\<rparr>"

definition efc_mouse_leave :: "efc_state \<Rightarrow> efc_state" where
  "efc_mouse_leave st = st\<lparr>isHovered := False, mouseX := 0, mouseY := 0\<rparr>"

text \<open>The card's \<open>transform\<close> style: \<open>rotateX\<close>, \<open>rotateY\<close> in degrees and the scale.\<close>

definition efc_transform :: "rat \<Rightarrow> efc_state \<Rightarrow> rat \<times> rat \<times> rat" where
  "efc_transform depth st =
     (if isHovered st then (- mouseY st * depth / 4, mouseX st * depth / 4, 102 / 100) else (0, 0, 1))"

text \<open>The \<open>boxShadow\<close> style: vertical offset and blur radius in pixels.\<close>

definition efc_shadow :: "efc_state \<Rightarrow> rat \<times> rat" where
  "efc_shadow st =
     (if isHovered st then (20 + \<bar>mouseY st\<bar> * 20, 30 + \<bar>mouseX st\<bar> * 20) else (10, 30))"

text \<open>The entry animation's \<open>delay * 0.15\<close> seconds.\<close>

definition efc_entry_delay :: "nat \<Rightarrow> rat" where
  "efc_entry_delay delay = of_nat delay * 15 / 100"

datatype card_msg = TipMsg tooltip_msg | CardMouseMove | CardMouseEnter | CardMouseLeave

definition default_tooltip_content :: "string \<Rightarrow> card_msg view" where
  "default_tooltip_content title =
     El ''div'' []
       [El ''h4'' [cls ''font-semibold text-gray-800 mb-2''] [Txt (title @ '' Features'')],
        El ''ul'' [cls ''space-y-1 text-gray-600'']
          (map (\<lambda>s. El ''li'' [cls ''flex items-center'']
                      [El ''span'' [cls ''w-1.5 h-1.5 bg-primary-500 rounded-full mr-2''] [], El ''span'' [] [Txt s]])
               [''Easy integration with existing systems'', ''Advanced filters and search capabilities'',
                ''Real-time updates and notifications''])]"

definition hover_for_details :: "card_msg view" where
  "hover_for_details =
     El ''motion.div'' [cls ''mt-4 text-primary-600 text-sm font-medium flex items-center'']
       [El ''span'' [] [Txt ''Hover for details''],
        El ''svg'' [Attr ''xmlns'' ''http://www.w3.org/2000/svg'', cls ''h-4 w-4 ml-1'', Attr ''fill'' ''none'',
                    Attr ''viewBox'' ''0 0 24 24'', Attr ''stroke'' ''currentColor'']
          [El ''path'' [Attr ''strokeLinecap'' ''round'', Attr ''strokeLinejoin'' ''round'',
                        Attr ''strokeWidth'' ''2'', Attr ''d'' ''M13 7l5 5m0 0l-5 5m5-5H6''] []]]"

text \<open>The card (lines 113--224): five particles and the indicator only while hovered.\<close>

definition efc_card_view :: "string \<Rightarrow> string \<Rightarrow> card_msg view \<Rightarrow> efc_state \<Rightarrow> card_msg view" where
  "efc_card_view title description icon st =
     El ''motion.div''
       [cls ''h-full bg-white rounded-2xl border border-gray-100 p-6 shadow-soft-md overflow-hidden preserve-3d perspective-1000 cursor-pointer'',
        On ''mousemove'' CardMouseMove, On ''mouseenter'' CardMouseEnter, On ''mouseleave'' CardMouseLeave]
       [El ''AnimatePresence'' []
          (if isHovered st then replicate 5 (El ''motion.div'' [cls ''absolute w-3 h-3 rounded-full bg-primary-100 opacity-70''] []) else []),
        El ''div'' [cls ''relative z-10'']
          ([El ''motion.div'' [cls ''w-14 h-14 rounded-full bg-primary-50 flex items-center justify-center mb-4'',
                              Attr ''animate'' (if isHovered st then ''hover'' else ''initial'')]
              [El ''div'' [cls ''text-primary-600''] [icon]],
            El ''motion.h3'' [cls ''text-xl font-bold text-gray-800 mb-2''] [Txt title],
            El ''motion.p'' [cls ''text-gray-600''] [Txt description]] @
           (if isHovered st then [hover_for_details] else []))]"

definition EnhancedFeatureCard_view ::
  "string \<Rightarrow> string \<Rightarrow> card_msg view \<Rightarrow> card_msg view option \<Rightarrow> efc_state \<Rightarrow> tooltip_state \<Rightarrow> card_msg view" where
  "EnhancedFeatureCard_view title description icon tooltipContent st tip =
     El ''motion.div'' [cls ''col-span-1'', Attr ''initial'' ''hidden'']
       [AnimatedTooltip_view Top '''' TipMsg [efc_card_view title description icon st]
          [case tooltipContent of Some c \<Rightarrow> c | None \<Rightarrow> default_tooltip_content title] tip]"

subsection \<open>The section\<close>

record feature =
  f_title :: string
  f_description :: string
  f_icon :: string
  f_tip_title :: string
  f_tip_items :: "string list"

text \<open>The six custom tooltip contents, \<open>ContactManagementTooltip\<close> to
  \<open>WorkflowAutomationTooltip\<close>: a heading and three bullet points each.\<close>

definition feature_tooltip :: "string \<Rightarrow> string list \<Rightarrow> 'm view" where
  "feature_tooltip heading items =
     El ''div'' []
       [El ''h4'' [cls ''font-semibold text-gray-800 mb-2''] [Txt heading],
        El ''ul'' [cls ''space-y-1 text-gray-600'']
          (map (\<lambda>s. El ''li'' [cls ''flex items-center'']
                      [El ''span'' [cls ''w-1.5 h-1.5 bg-primary-500 rounded-full mr-2''] [], El ''span'' [] [Txt s]])
               items)]"

definition features :: "feature list" where
  "features =
    [\<lparr>f_title = ''Contact Management'',
      f_description = ''Store all your customer data in one place with detailed profiles, interaction history, and smart segmentation.'',
      f_icon = ''UserGroupIcon'', f_tip_title = ''Contact Management Features'',
      f_tip_items = [''Unified contact database with 360'' @ utf8_degree @ '' views'', ''Custom fields and tagging system'',
                     ''AI-powered contact deduplication'']\<rparr>,
     \<lparr>f_title = ''Sales Pipeline'',
      f_description = ''Track deals from lead to close with customizable stages, forecasting, and performance analytics.'',
      f_icon = ''ChartBarIcon'', f_tip_title = ''Sales Pipeline Features'',
      f_tip_items = [''Visual kanban board with drag-and-drop'', ''Revenue forecasting with AI predictions'',
                     ''Conversion rate analytics by stage'']\<rparr>,
     \<lparr>f_title = ''Email Campaigns'',
      f_description = ''Create, automate, and track personalized email campaigns that nurture leads and engage customers.'',
      f_icon = ''EnvelopeIcon'', f_tip_title = ''Email Campaigns Features'',
      f_tip_items = [''Drag-and-drop email builder'', ''Behavioral triggered campaigns'',
                     ''A/B testing and performance analytics'']\<rparr>,
     \<lparr>f_title = ''Account Management'',
      f_description = ''Manage multiple accounts and contacts with hierarchical relationships and account-specific insights.'',
      f_icon = ''BuildingOffice2Icon'', f_tip_title = ''Account Management Features'',
      f_tip_items = [''Hierarchical account structures'', ''Account health scoring'',
                     ''Relationship mapping between contacts'']\<rparr>,
     \<lparr>f_title = ''Call Center Integration'',
      f_description = ''Seamlessly integrate with your call center for complete call tracking, recording, and analysis.'',
      f_icon = ''PhoneIcon'', f_tip_title = ''Call Center Integration'',
      f_tip_items = [''One-click calling from any record'', ''Call recording with AI transcription'',
                     ''Sentiment analysis and call scoring'']\<rparr>,
     \<lparr>f_title = ''Workflow Automation'',
      f_description = ''Automate repetitive tasks and complex business processes with customizable workflows.'',
      f_icon = ''CogIcon'', f_tip_title = ''Workflow Automation'',
      f_tip_items = [''No-code automation builder'', ''Trigger-based workflows'', ''Multi-stage approval processes'']\<rparr>]"

text \<open>
  The section's document-level \<open>mousemove\<close> listener (lines 194--213). It writes the
  refs \<open>centerX\<close>, \<open>mouseX\<close>, ... and the transform of the element in \<open>mouseRef\<close>; it
  returns at once while \<open>mouseRef.current\<close> is \<open>None\<close>.
\<close>

record efs_refs =
  efs_centerX :: rat
  efs_centerY :: rat
  efs_mouseX :: rat
  efs_mouseY :: rat
  efs_transform :: "(rat \<times> rat) option"

definition efs_handleMouseMove :: "rect option \<Rightarrow> rat \<Rightarrow> rat \<Rightarrow> efs_refs \<Rightarrow> efs_refs" where
  "efs_handleMouseMove mouseRef clientX clientY st =
     (case mouseRef of
        None \<Rightarrow> st
      | Some r \<Rightarrow>
          (let cX = rect_left r + rect_width r / 2; cY = rect_top r + rect_height r / 2;
               mX = (clientX - cX) / 1000; mY = (clientY - cY) / 1000
           in \<lparr>efs_centerX = cX, efs_centerY = cY, efs_mouseX = mX, efs_mouseY = mY,
               efs_transform = Some (- mY, mX)\<rparr>))"

text \<open>The rendered section (lines 261--323), given \<open>inView\<close> and each card's state; a
  card's messages are tagged with its index.\<close>

text \<open>The section's \<open>floatingShapes\<close>, meant for \<open>ParallaxScroll\<close> (theory Animations):
  size, colour class, speed, direction and offset. The section never renders them, nor
  its \<open>titleVariants\<close>, \<open>subtitleVariants\<close> and \<open>containerVariants\<close>.\<close>

record floating_shape =
  shape_size :: nat
  shape_color :: string
  shape_speed :: rat
  shape_direction :: parallax_direction
  shape_offset :: rat

definition floatingShapes :: "floating_shape list" where
  "floatingShapes =
     [\<lparr>shape_size = 80, shape_color = ''bg-primary-300/10'', shape_speed = 15 / 100, shape_direction = PUp, shape_offset = -50\<rparr>,
      \<lparr>shape_size = 120, shape_color = ''bg-indigo-300/5'', shape_speed = 2 / 10, shape_direction = PDown, shape_offset = 20\<rparr>,
      \<lparr>shape_size = 60, shape_color = ''bg-blue-300/10'', shape_speed = 1 / 10, shape_direction = PUp, shape_offset = 0\<rparr>,
      \<lparr>shape_size = 100, shape_color = ''bg-purple-300/5'', shape_speed = 25 / 100, shape_direction = PDown, shape_offset = -30\<rparr>,
      \<lparr>shape_size = 70, shape_color = ''bg-primary-400/10'', shape_speed = 18 / 100, shape_direction = PUp, shape_offset = 10\<rparr>,
      \<lparr>shape_size = 90, shape_color = ''bg-indigo-400/5'', shape_speed = 12 / 100, shape_direction = PDown, shape_offset = 40\<rparr>]"

definition titleVariants :: variants where
  "titleVariants =
     \<lparr>v_hidden = [(''opacity'', [0]), (''y'', [-20])],
      v_visible = (\<lambda>i. \<lparr>t_props = [(''opacity'', [1]), (''y'', [0])], t_transition = Some (TweenEase (6 / 10) 0 [22 / 100, 1, 36 / 100, 1])\<rparr>),
      v_exit = None\<rparr>"

definition subtitleVariants :: variants where
  "subtitleVariants =
     \<lparr>v_hidden = [(''opacity'', [0]), (''y'', [-20])],
      v_visible = (\<lambda>i. \<lparr>t_props = [(''opacity'', [1]), (''y'', [0])], t_transition = Some (TweenEase (6 / 10) (2 / 10) [22 / 100, 1, 36 / 100, 1])\<rparr>),
      v_exit = None\<rparr>"

definition efs_containerVariants :: variants where
  "efs_containerVariants =
     \<lparr>v_hidden = [(''opacity'', [0])],
      v_visible = (\<lambda>i. \<lparr>t_props = [(''opacity'', [1])], t_transition = Some (StaggerDelay (1 / 10) (3 / 10))\<rparr>),
      v_exit = None\<rparr>"

definition efs_card :: "(nat \<Rightarrow> efc_state \<times> tooltip_state) \<Rightarrow> nat \<times> feature \<Rightarrow> (nat \<times> card_msg) view" where
  "efs_card sts ixf =
     (case ixf of (i, f) \<Rightarrow>
        map_view (Pair i)
          (EnhancedFeatureCard_view (f_title f) (f_description f) (El (f_icon f) [cls ''w-7 h-7''] [])
             (Some (feature_tooltip (f_tip_title f) (f_tip_items f))) (fst (sts i)) (snd (sts i))))"

definition EnhancedFeaturesSection_view :: "bool \<Rightarrow> (nat \<Rightarrow> efc_state \<times> tooltip_state) \<Rightarrow> (nat \<times> card_msg) view" where
  "EnhancedFeaturesSection_view inView sts =
     El ''section'' [Attr ''id'' ''features'', cls ''relative py-16 bg-white overflow-hidden'']
       [El ''div'' [cls ''absolute inset-0 pointer-events-none overflow-hidden'']
          [El ''div'' [cls ''absolute inset-0 opacity-[0.03] bg-grid-white bg-[length:32px_32px]''] [],
           El ''div'' [cls ''absolute top-20 -left-56 w-96 h-96 bg-primary-100/50 rounded-full blur-3xl animate-pulse-slow''] [],
           El ''div'' [cls ''absolute bottom-20 -right-56 w-96 h-96 bg-blue-100/50 rounded-full blur-3xl animate-pulse-slow''] [],
           El ''div'' [cls ''absolute top-1/4 left-10 w-3 h-3 bg-primary-400 rounded-full animate-float-slow opacity-30''] [],
           El ''div'' [cls ''absolute top-2/3 right-10 w-4 h-4 bg-accent-orange rounded-full animate-float-slow-reverse opacity-30''] [],
           El ''div'' [cls ''absolute bottom-1/3 left-1/3 w-3 h-3 bg-primary-600 rounded-full animate-float opacity-20''] []],
        El ''div'' [cls ''container px-4 mx-auto text-center'']
          [El ''div'' [cls ''max-w-2xl mx-auto mb-20'']
             [El ''motion.span'' [cls ''inline-block px-4 py-1.5 mb-5 text-xs font-semibold text-primary-700 rounded-full bg-primary-50'',
                                  Attr ''animate.opacity'' (if inView then ''1'' else ''0'')] [Txt ''POWERFUL FEATURES''],
              El ''motion.h2'' [cls ''text-3xl md:text-4xl font-bold text-gray-900 mb-5'',
                                Attr ''animate.opacity'' (if inView then ''1'' else ''0'')]
                [Txt ''Everything You Need to Manage Customer Relationships''],
              El ''motion.p'' [cls ''text-lg text-gray-600'', Attr ''animate.opacity'' (if inView then ''1'' else ''0'')]
                [Txt ''Powerful tools to help you track, analyze, and optimize your customer interactions and grow your business.'']],
           El ''div'' [cls ''grid grid-cols-1 sm:grid-cols-2 lg:grid-cols-3 gap-8'']
             (map (efs_card sts) (enumerate 0 features))]]"

text \<open>Where the pointer is: outside the tooltip's wrapper, over the card, or over the
  tooltip's popup, which is a child of the wrapper but not of the card.\<close>

datatype pointer_at = Outside | OnCard | OnPopup

record feature_card =
  card :: efc_state
  tip :: tooltip_env
  pointer :: pointer_at

definition feature_card_init :: feature_card where
  "feature_card_init = \<lparr>card = efc_init, tip = init_tooltip, pointer = Outside\<rparr>"

text \<open>
  One card of the grid with its tooltip, on the card's box \<open>r\<close>. Moving onto the card
  from outside enters both the wrapper and the card; moving between the card and the
  open popup leaves or enters only the card (the wrapper still contains the pointer);
  leaving the card or the popup for the outside leaves the wrapper. A \<open>mousemove\<close>
  reaches the card only while the pointer is over it; any pending timer may fire.
\<close>

inductive card_step :: "rect \<Rightarrow> feature_card \<Rightarrow> feature_card \<Rightarrow> bool" where
  enter_card: "pointer fc = Outside \<Longrightarrow>
    card_step r fc \<lparr>card = efc_mouse_enter (card fc),
                    tip = (handleMouseEnter (tip fc))\<lparr>hovered := True\<rparr>, pointer = OnCard\<rparr>"
| leave_card: "pointer fc = OnCard \<Longrightarrow>
    card_step r fc \<lparr>card = efc_mouse_leave (card fc),
                    tip = (handleMouseLeave (tip fc))\<lparr>hovered := False\<rparr>, pointer = Outside\<rparr>"
| card_to_popup: "pointer fc = OnCard \<Longrightarrow> isOpen (comp (tip fc)) \<Longrightarrow>
    card_step r fc (fc\<lparr>card := efc_mouse_leave (card fc), pointer := OnPopup\<rparr>)"
| popup_to_card: "pointer fc = OnPopup \<Longrightarrow>
    card_step r fc (fc\<lparr>card := efc_mouse_enter (card fc), pointer := OnCard\<rparr>)"
| leave_popup: "pointer fc = OnPopup \<Longrightarrow>
    card_step r fc (fc\<lparr>tip := (handleMouseLeave (tip fc))\<lparr>hovered := False\<rparr>, pointer := Outside\<rparr>)"
| move: "pointer fc = OnCard \<Longrightarrow> inside r x y \<Longrightarrow>
    card_step r fc (fc\<lparr>card := efc_handleMouseMove (Some r) x y (card fc)\<rparr>)"
| fire: "t \<in> set (pending (tip fc)) \<Longrightarrow> card_step r fc (fc\<lparr>tip := timer_fire t (tip fc)\<rparr>)"

inductive card_reach :: "rect \<Rightarrow> feature_card \<Rightarrow> bool" for r where
  init: "card_reach r feature_card_init"
| step: "card_reach r fc \<Longrightarrow> card_step r fc fc' \<Longrightarrow> card_reach r fc'"

text \<open>The invariant: the tooltip's own invariant; the wrapper is hovered exactly when the
  pointer is inside it, the card exactly when the pointer is over the card; the pointer
  is over the popup only while it is shown; the normalised pointer offsets are in
  \<open>[-1, 1]\<close>.\<close>

definition card_inv :: "feature_card \<Rightarrow> bool" where
  "card_inv fc =
     (tooltip_inv (tip fc) \<and> hovered (tip fc) = (pointer fc \<noteq> Outside) \<and>
      isHovered (card fc) = (pointer fc = OnCard) \<and> (pointer fc = OnPopup \<longrightarrow> isOpen (comp (tip fc))) \<and>
      \<bar>mouseX (card fc)\<bar> \<le> 1 \<and> \<bar>mouseY (card fc)\<bar> \<le> 1)"

subsection \<open>The card and its tooltip together\<close>

lemma efc_handleMouseMove_bounds:
  assumes "0 < rect_width r" "0 < rect_height r" "inside r x y"
  shows "\<bar>mouseX (efc_handleMouseMove (Some r) x y st)\<bar> \<le> 1 \<and> \<bar>mouseY (efc_handleMouseMove (Some r) x y st)\<bar> \<le> 1"
  using assms frac_offset_bound [of "rect_width r" "rect_left r" x] frac_offset_bound [of "rect_height r" "rect_top r" y]
  by (simp add: efc_handleMouseMove_def Let_def inside_def)

lemma efc_fields [simp]:
  "isHovered (efc_mouse_enter st) = True" "mouseX (efc_mouse_enter st) = mouseX st" "mouseY (efc_mouse_enter st) = mouseY st"
  "isHovered (efc_mouse_leave st) = False" "mouseX (efc_mouse_leave st) = 0" "mouseY (efc_mouse_leave st) = 0"
  "isHovered (efc_handleMouseMove (Some r) x y st) = isHovered st"
  by (simp_all add: efc_mouse_enter_def efc_mouse_leave_def efc_handleMouseMove_def Let_def)

lemma tooltip_fields [simp]:
  "isOpen (comp (handleMouseEnter env)) = isOpen (comp env)"
  "isOpen (comp (handleMouseLeave env)) = False"
  "isOpen (comp (timer_fire t env)) = True"
  "hovered (timer_fire t env) = hovered env"
  by (simp_all add: handleMouseEnter_def handleMouseLeave_def Let_def timer_fire_def)

lemma card_step_inv:
  assumes "card_step r fc fc'" "card_inv fc" "0 < rect_width r" "0 < rect_height r"
  shows "card_inv fc'"
  using assms(1)
proof cases
  case enter_card
  have "tooltip_step (tip fc) ((handleMouseEnter (tip fc))\<lparr>hovered := True\<rparr>)"
    by (rule tooltip_step.enter)
  with assms(2) enter_card show ?thesis by (auto simp: card_inv_def dest: tooltip_step_inv)
next
  case leave_card
  have "tooltip_step (tip fc) ((handleMouseLeave (tip fc))\<lparr>hovered := False\<rparr>)"
    by (rule tooltip_step.leave)
  with assms(2) leave_card show ?thesis by (auto simp: card_inv_def dest: tooltip_step_inv)
next
  case card_to_popup
  with assms(2) show ?thesis by (auto simp: card_inv_def)
next
  case popup_to_card
  with assms(2) show ?thesis by (auto simp: card_inv_def)
next
  case leave_popup
  have "tooltip_step (tip fc) ((handleMouseLeave (tip fc))\<lparr>hovered := False\<rparr>)"
    by (rule tooltip_step.leave)
  with assms(2) leave_popup show ?thesis by (auto simp: card_inv_def dest: tooltip_step_inv)
next
  case (move x y)
  with assms(2-4) efc_handleMouseMove_bounds [of r x y "card fc"] show ?thesis by (auto simp: card_inv_def)
next
  case (fire t)
  then have "tooltip_step (tip fc) (timer_fire t (tip fc))" by (intro tooltip_step.fire)
  with assms(2) fire show ?thesis by (auto simp: card_inv_def dest: tooltip_step_inv)
qed

lemma card_reach_inv:
  assumes "card_reach r fc" "0 < rect_width r" "0 < rect_height r"
  shows "card_inv fc"
  using assms(1)
proof (induction rule: card_reach.induct)
  case init
  show ?case by (simp add: card_inv_def feature_card_init_def efc_init_def init_tooltip_def tooltip_inv_def)
next
  case (step fc fc')
  then show ?case using assms(2,3) by (blast intro: card_step_inv)
qed

text \<open>
  C28. A card of the feature grid (depth 25) with its tooltip, on a box of positive size,
  in every state reachable by pointer events and timer firings: the tooltip is open only
  while the pointer is over the card or the popup, the card is tilted only while the
  pointer is over it, the tilt about each axis is at most 25/4 degrees, and the shadow's
  offset and blur are at most 40 and 50 pixels.
\<close>

theorem feature_card_tilt_safe:
  assumes "card_reach r fc" "0 < rect_width r" "0 < rect_height r"
  shows "(isOpen (comp (tip fc)) \<longrightarrow> pointer fc \<noteq> Outside) \<and>
         (isHovered (card fc) \<longleftrightarrow> pointer fc = OnCard) \<and>
         \<bar>fst (efc_transform 25 (card fc))\<bar> \<le> 25 / 4 \<and> \<bar>fst (snd (efc_transform 25 (card fc)))\<bar> \<le> 25 / 4 \<and>
         fst (efc_shadow (card fc)) \<le> 40 \<and> snd (efc_shadow (card fc)) \<le> 50"
proof -
  have i: "card_inv fc" using assms by (rule card_reach_inv)
  then have o: "isOpen (comp (tip fc)) \<longrightarrow> hovered (tip fc)" unfolding card_inv_def tooltip_inv_def by blast
  have x: "\<bar>mouseX (card fc)\<bar> \<le> 1" and y: "\<bar>mouseY (card fc)\<bar> \<le> 1" using i by (simp_all add: card_inv_def)
  have "\<bar>mouseY (card fc) * 25\<bar> \<le> 25" "\<bar>mouseX (card fc) * 25\<bar> \<le> 25"
    using abs_scale_le [OF y, of 25] abs_scale_le [OF x, of 25] by simp_all
  then have "\<bar>- mouseY (card fc) * 25 / 4\<bar> \<le> 25 / 4" "\<bar>mouseX (card fc) * 25 / 4\<bar> \<le> 25 / 4"
    by (simp_all add: abs_mult)
  moreover have "isOpen (comp (tip fc)) \<longrightarrow> pointer fc \<noteq> Outside" "isHovered (card fc) \<longleftrightarrow> pointer fc = OnCard"
    using i o unfolding card_inv_def by blast+
  moreover have "\<bar>mouseY (card fc)\<bar> * 20 \<le> 20" "\<bar>mouseX (card fc)\<bar> * 20 \<le> 20" using x y by simp_all
  ultimately show ?thesis by (simp add: efc_transform_def efc_shadow_def)
qed

theorem feature_card_tilt_safe_witness:
  "\<bar>fst (snd (efc_transform 25 \<lparr>isHovered = True, mouseX = 1, mouseY = 0\<rparr>))\<bar> \<le> 25 / 4 \<and>
   snd (efc_shadow \<lparr>isHovered = True, mouseX = 1, mouseY = 0\<rparr>) \<le> 50"
proof -
  let ?r = "\<lparr>rect_left = 0, rect_top = 0, rect_width = 100, rect_height = 100\<rparr> :: rect"
  let ?S1 = "\<lparr>card = \<lparr>isHovered = True, mouseX = 0, mouseY = 0\<rparr>,
              tip = \<lparr>comp = \<lparr>isOpen = False, hasMounted = False, timeoutRef = Some 1\<rparr>,
                     pending = [1], next_id = 2, hovered = True\<rparr>, pointer = OnCard\<rparr>"
  let ?S2 = "\<lparr>card = \<lparr>isHovered = True, mouseX = 1, mouseY = 0\<rparr>,
              tip = \<lparr>comp = \<lparr>isOpen = False, hasMounted = False, timeoutRef = Some 1\<rparr>,
                     pending = [1], next_id = 2, hovered = True\<rparr>, pointer = OnCard\<rparr>"
  have e: "\<lparr>card = efc_mouse_enter (card feature_card_init),
             tip = (handleMouseEnter (tip feature_card_init))\<lparr>hovered := True\<rparr>, pointer = OnCard\<rparr> = ?S1"
    by (simp add: feature_card_init_def efc_init_def init_tooltip_def efc_mouse_enter_def
                  handleMouseEnter_def clear_pending_def)
  have s1: "card_step ?r feature_card_init ?S1"
    using card_step.enter_card [of feature_card_init ?r] unfolding e by (simp add: feature_card_init_def)
  have s2: "card_step ?r ?S1 ?S2"
    using card_step.move [of ?S1 ?r 100 50] by (simp add: inside_def efc_handleMouseMove_def)
  have "card_reach ?r ?S2"
    using card_reach.step [OF card_reach.step [OF card_reach.init s1] s2] .
  from feature_card_tilt_safe [OF this] show ?thesis by simp
qed

end
