(* ===== verification/Tabs.thy ===== *)
theory Tabs
  imports Card3D Animations
begin

text \<open>
  The animated tabs of \<open>src/Tech crm/src/components/ui/TabsWithAnimation.tsx\<close>. The state
  is \<open>activeTab\<close> and the two measured boxes \<open>tabBoundingBox\<close> and
  \<open>wrapperBoundingBox\<close>; the layout engine is a parameter: the box of the button at each
  index (\<open>tabsRef.current[idx]\<close>, \<open>None\<close> when that ref is \<open>null\<close>) and of the wrapper.
  A click sets \<open>activeTab\<close>; the effect on \<open>[activeTab, tabs]\<close> then measures. JavaScript's
  \<open>findIndex\<close> returns \<open>-1\<close> when no tab matches, so it is an \<^typ>\<open>int\<close> here.
\<close>

record 'm tab =
  tab_id :: string
  tab_label :: string
  tab_icon :: "'m view option"
  tab_content :: "'m view list"

record tabs_state =
  activeTab :: string
  tabBoundingBox :: "rect option"
  wrapperBoundingBox :: "rect option"

fun findIndex :: "('a \<Rightarrow> bool) \<Rightarrow> 'a list \<Rightarrow> int" where
  "findIndex P [] = -1"
| "findIndex P (x # xs) = (if P x then 0 else (let i = findIndex P xs in if i < 0 then -1 else i + 1))"

text \<open>\<open>useState(defaultTab || (tabs.length > 0 ? tabs[0].id : ''))\<close>: an empty
  \<open>defaultTab\<close> is falsy.\<close>

definition tabs_init :: "'m tab list \<Rightarrow> string option \<Rightarrow> tabs_state" where
  "tabs_init tabs defaultTab =
     (let dflt = (if 0 < length tabs then tab_id (hd tabs) else '''');
          a = (case defaultTab of Some d \<Rightarrow> if d \<noteq> '''' then d else dflt | None \<Rightarrow> dflt)
      in \<lparr>activeTab = a, tabBoundingBox = None, wrapperBoundingBox = None\<rparr>)"

text \<open>The effect of lines 31--39.\<close>

definition tabs_effect :: "'m tab list \<Rightarrow> (nat \<Rightarrow> rect option) \<Rightarrow> rect option \<Rightarrow> tabs_state \<Rightarrow> tabs_state" where
  "tabs_effect tabs tabsRef wrapperRef st =
     (let activeTabIndex = findIndex (\<lambda>t. tab_id t = activeTab st) tabs;
          st1 = (if 0 \<le> activeTabIndex \<and> tabsRef (nat activeTabIndex) \<noteq> None
                 then st\<lparr>tabBoundingBox := tabsRef (nat activeTabIndex)\<rparr> else st)
      in case wrapperRef of Some w \<Rightarrow> st1\<lparr>wrapperBoundingBox := Some w\<rparr> | None \<Rightarrow> st1)"

text \<open>A click on the tab with id \<open>i\<close>, followed by the effect it triggers.\<close>

definition tabs_click :: "'m tab list \<Rightarrow> (nat \<Rightarrow> rect option) \<Rightarrow> rect option \<Rightarrow> string \<Rightarrow> tabs_state \<Rightarrow> tabs_state" where
  "tabs_click tabs tabsRef wrapperRef i st = tabs_effect tabs tabsRef wrapperRef (st\<lparr>activeTab := i\<rparr>)"

text \<open>The indicator's \<open>translateX\<close> and \<open>width\<close>.\<close>

definition translateX :: "tabs_state \<Rightarrow> rat" where
  "translateX st =
     (case (tabBoundingBox st, wrapperBoundingBox st) of
        (Some t, Some w) \<Rightarrow> rect_left t - rect_left w
      | _ \<Rightarrow> 0)"

definition tabVariants :: variants where
  "tabVariants =
     \<lparr>v_hidden = [(''opacity'', [0]), (''y'', [20])],
      v_visible = (\<lambda>i. \<lparr>t_props = [(''opacity'', [1]), (''y'', [0])], t_transition = Some (TweenEase (1 / 2) 0 [22 / 100, 1, 36 / 100, 1])\<rparr>),
      v_exit = Some \<lparr>t_props = [(''opacity'', [0]), (''y'', [-20])], t_transition = Some (Tween (3 / 10) 0)\<rparr>\<rparr>"

definition tab_button :: "(string \<Rightarrow> 'm) \<Rightarrow> tabs_state \<Rightarrow> 'm tab \<Rightarrow> 'm view" where
  "tab_button lift st t =
     El ''button'' [On ''click'' (lift (tab_id t)),
                    cls (''px-4 py-2 text-sm font-medium transition-colors duration-200 relative whitespace-nowrap flex items-center '' @
                         (if activeTab st = tab_id t then ''text-primary-600'' else ''text-gray-600 hover:text-gray-800''))]
       ((case tab_icon t of Some ic \<Rightarrow> [El ''span'' [cls ''mr-2''] [ic]] | None \<Rightarrow> []) @ [Txt (tab_label t)])"

definition tab_panel :: "'m tab \<Rightarrow> 'm view" where
  "tab_panel t =
     El ''motion.div'' [Attr ''key'' (tab_id t), Attr ''initial'' ''hidden'', Attr ''animate'' ''visible'',
                        Attr ''exit'' ''exit'', cls ''absolute inset-0''] (tab_content t)"

definition tab_panels :: "'m tab list \<Rightarrow> tabs_state \<Rightarrow> 'm view list" where
  "tab_panels tabs st = concat (map (\<lambda>t. if activeTab st = tab_id t then [tab_panel t] else []) tabs)"

definition TabsWithAnimation_view :: "string \<Rightarrow> (string \<Rightarrow> 'm) \<Rightarrow> 'm tab list \<Rightarrow> tabs_state \<Rightarrow> 'm view" where
  "TabsWithAnimation_view className lift tabs st =
     El ''div'' [cls (''w-full '' @ className)]
       [El ''div'' [cls ''relative mb-8'']
          ([El ''div'' [cls ''flex space-x-1 border-b border-gray-200 overflow-x-auto hide-scrollbar pb-px'']
              (map (tab_button lift st) tabs)] @
           (if tabBoundingBox st \<noteq> None then [El ''motion.div'' [cls ''absolute bottom-0 h-0.5 bg-primary-500'']  []] else [])),
        El ''div'' [cls ''relative min-h-[400px]'']
          [El ''AnimatePresence'' [Attr ''mode'' ''wait''] (tab_panels tabs st)]]"

subsection \<open>Properties\<close>

lemma findIndex_nth:
  "distinct (map tab_id tabs) \<Longrightarrow> k < length tabs \<Longrightarrow> findIndex (\<lambda>t. tab_id t = tab_id (tabs ! k)) tabs = int k"
proof (induction tabs arbitrary: k)
  case Nil
  then show ?case by simp
next
  case (Cons t ts)
  show ?case
  proof (cases k)
    case 0
    then show ?thesis by simp
  next
    case (Suc j)
    have "ts ! j \<in> set ts" using Cons.prems Suc by simp
    then have "tab_id t \<noteq> tab_id (ts ! j)" using Cons.prems(1) by auto
    moreover have "findIndex (\<lambda>t. tab_id t = tab_id (ts ! j)) ts = int j" using Cons Suc by simp
    ultimately show ?thesis using Suc by (simp add: Let_def)
  qed
qed

lemma tab_panels_nth:
  "distinct (map tab_id tabs) \<Longrightarrow> k < length tabs \<Longrightarrow> activeTab st = tab_id (tabs ! k) \<Longrightarrow>
   tab_panels tabs st = [tab_panel (tabs ! k)]"
proof (induction tabs arbitrary: k)
  case Nil
  then show ?case by simp
next
  case (Cons t ts)
  show ?case
  proof (cases k)
    case 0
    have "activeTab st \<noteq> tab_id u" if "u \<in> set ts" for u using Cons.prems 0 that by auto
    then have "tab_panels ts st = []" by (simp add: tab_panels_def)
    with Cons.prems 0 show ?thesis by (simp add: tab_panels_def)
  next
    case (Suc j)
    have "ts ! j \<in> set ts" using Cons.prems Suc by simp
    then have m: "tab_id (ts ! j) \<in> tab_id ` set ts" by simp
    have a: "activeTab st = tab_id (ts ! j)" using Cons.prems(3) Suc by simp
    have b: "tab_id t \<notin> tab_id ` set ts" using Cons.prems(1) by simp
    from m a b have "activeTab st \<noteq> tab_id t" by metis
    moreover have "tab_panels ts st = [tab_panel (ts ! j)]" using Cons.prems Suc by (intro Cons.IH) auto
    ultimately show ?thesis using Suc by (simp add: tab_panels_def)
  qed
qed

lemma activeTab_tabs_effect [simp]: "activeTab (tabs_effect tabs tabsRef wrapperRef st) = activeTab st"
  by (simp add: tabs_effect_def Let_def split: option.split)

text \<open>A click on the \<open>k\<close>-th tab shows that tab's content and nothing else, and, once the
  button and the wrapper are mounted, slides the indicator to the button's offset in the
  wrapper.\<close>

lemma tabs_click_shows:
  assumes "distinct (map tab_id tabs)" "k < length tabs"
  shows "tab_panels tabs (tabs_click tabs tabsRef wrapperRef (tab_id (tabs ! k)) st) = [tab_panel (tabs ! k)]"
    and "tabsRef k = Some b \<Longrightarrow> wrapperRef = Some w \<Longrightarrow>
         translateX (tabs_click tabs tabsRef wrapperRef (tab_id (tabs ! k)) st) = rect_left b - rect_left w"
proof -
  show "tab_panels tabs (tabs_click tabs tabsRef wrapperRef (tab_id (tabs ! k)) st) = [tab_panel (tabs ! k)]"
    using assms by (intro tab_panels_nth) (simp_all add: tabs_click_def)
next
  assume "tabsRef k = Some b" "wrapperRef = Some w"
  with findIndex_nth [OF assms] show "translateX (tabs_click tabs tabsRef wrapperRef (tab_id (tabs ! k)) st) = rect_left b - rect_left w"
    by (simp add: tabs_click_def tabs_effect_def translateX_def Let_def)
qed

end
