(* ===== verification/Sections.thy ===== *)
theory Sections
  imports Tabs
begin

text \<open>
  The static sections of the home page between the feature grid and the testimonials:
  \<open>ProductivitySection.tsx\<close>, \<open>UseCases.tsx\<close>, \<open>CLVSection.tsx\<close>,
  \<open>CollaborationSection.tsx\<close> and \<open>LeadManagementSection.tsx\<close> under
  \<open>src/Tech crm/src/components/\<close>. Each renders constant data; the only state is the
  \<open>inView\<close> flag of \<open>useInView\<close> (triggered once) and, in the lead-management section, the
  state of its \<^const>\<open>TabsWithAnimation_view\<close>. Child components are elements with their
  props, as in the other section theories: \<open>Card3D\<close> (theory Card3D) and
  \<open>PlaceholderImage\<close> (theory PlaceholderImage). The element that carries the
  \<open>useInView\<close> ref has the attribute \<open>ref = inView\<close>.
\<close>

definition in_view_ref :: "'m attr" where
  "in_view_ref = Attr ''ref'' ''inView''"

definition fade :: "bool \<Rightarrow> 'm attr" where
  "fade inView = Attr ''animate.opacity'' (if inView then ''1'' else ''0'')"

definition placeholder_image :: "string \<Rightarrow> string \<Rightarrow> string \<Rightarrow> string \<Rightarrow> string \<Rightarrow> string \<Rightarrow> 'm view" where
  "placeholder_image src fallbackSrc alt width height className =
     El ''PlaceholderImage'' [Attr ''src'' src, Attr ''fallbackSrc'' fallbackSrc, Attr ''alt'' alt,
                              Attr ''width'' width, Attr ''height'' height, cls className,
                              Attr ''animationDelay'' ''0.3''] []"

definition floating_badge :: "string \<Rightarrow> string \<Rightarrow> string \<Rightarrow> string \<Rightarrow> string \<Rightarrow> bool \<Rightarrow> 'm view" where
  "floating_badge position iconBg emoji value label inView =
     El ''motion.div'' [cls (''absolute '' @ position @ '' bg-white p-3 rounded-xl shadow-md border border-gray-100 z-10''),
                        fade inView, Attr ''style.transform'' ''translateZ(40px)'']
       [El ''div'' [cls ''flex items-center gap-2'']
          [El ''div'' [cls (''w-8 h-8 '' @ iconBg @ '' rounded-full flex items-center justify-center'')] [Txt emoji],
           El ''div'' []
             [El ''div'' [cls ''text-sm font-bold text-gray-900''] [Txt value],
              El ''div'' [cls ''text-xs text-gray-500''] [Txt label]]]]"

subsection \<open>Productivity\<close>

definition productivity_benefits :: "(string \<times> string) list" where
  "productivity_benefits =
     [(''Targeting new customers'', ''UserGroupIcon''), (''Prioritize your leads better'', ''ChartBarIcon''),
      (''Centralize sales operations'', ''BuildingOffice2Icon''), (''Reduce sales cycle'', ''ArrowPathIcon''),
      (''Improve sales conversions'', ''CurrencyDollarIcon''), (''Improve customer retention'', ''UsersIcon'')]"

text \<open>Every benefit carries the same \<open>ref\<close> (line 74).\<close>

definition ProductivitySection_view :: "bool \<Rightarrow> 'm view" where
  "ProductivitySection_view inView =
     El ''section'' [Attr ''id'' ''productivity'', cls ''py-20 bg-gray-50'']
       [El ''div'' [cls ''container mx-auto'']
          [El ''div'' [cls ''grid grid-cols-1 lg:grid-cols-2 gap-12 items-center'']
             [El ''motion.div'' [fade inView, cls ''space-y-6'']
                [El ''div'' [cls ''inline-block px-4 py-1 bg-primary-100 text-primary-700 rounded-full text-sm font-medium''] [Txt ''Productivity''],
                 El ''h2'' [cls ''text-3xl md:text-4xl font-bold text-gray-900''] [Txt ''Increase Sales''],
                 El ''p'' [cls ''text-lg text-gray-600'']
                   [Txt (''Bring in quality leads, nurture them, and turn them into happy, paying customers. Get a complete view of all customer data'' @
                         utf8_mdash @ ''personal details and communication. With the right offers made to the right customers at the optimal time, you can make better deals, resulting in improved ROI.'')],
                 El ''div'' [cls ''grid grid-cols-1 sm:grid-cols-2 gap-4 pt-4'']
                   (map (\<lambda>(name, icon).
                           El ''motion.div'' [Attr ''key'' name, in_view_ref, fade inView, cls ''flex items-start space-x-3'']
                             [El ''div'' [cls ''flex-shrink-0 h-6 w-6 text-primary-600''] [El icon [Attr ''aria-hidden'' ''true''] []],
                              El ''p'' [cls ''text-gray-700''] [Txt name]])
                        productivity_benefits)],
              El ''motion.div'' [fade inView, cls ''relative'']
                [El ''Card3D'' [cls ''rounded-xl overflow-hidden shadow-xl'']
                   [placeholder_image ''https://images.unsplash.com/photo-1551288049-bebda4e38f71?q=80&w=2070&auto=format&fit=crop''
                      ''https://images.unsplash.com/photo-1460925895917-afdab827c52f?q=80&w=2015&auto=format&fit=crop''
                      ''Productivity Dashboard'' ''600'' ''400'' ''w-full h-auto rounded-xl'',
                    El ''div'' [cls ''absolute inset-0 bg-gradient-to-tr from-primary-600/30 to-transparent rounded-xl pointer-events-none''] []],
                 floating_badge ''-top-6 -right-6'' ''bg-green-100 text-green-600'' [CHR 0xF0, CHR 0x9F, CHR 0x93, CHR 0x88]
                   ''+27%'' ''Conversion Rate'' inView]]]]"

subsection \<open>Use cases\<close>

record use_case =
  industry :: string
  uc_description :: string
  uc_color :: string
  uc_textColor :: string
  uc_borderColor :: string

definition useCases :: "use_case list" where
  "useCases =
    [\<lparr>industry = ''Sales Teams'',
      uc_description = ''Track leads, manage your pipeline, and close more deals with our intuitive sales management tools.'',
      uc_color = ''bg-blue-50'', uc_textColor = ''text-blue-700'', uc_borderColor = ''border-blue-200''\<rparr>,
     \<lparr>industry = ''Marketing Agencies'',
      uc_description = ''Create, manage, and analyze customer-focused marketing campaigns that drive engagement and results.'',
      uc_color = ''bg-purple-50'', uc_textColor = ''text-purple-700'', uc_borderColor = ''border-purple-200''\<rparr>,
     \<lparr>industry = ''Customer Support'',
      uc_description = ''Provide exceptional service with a 360'' @ utf8_degree @ '' view of customer interactions, issues, and resolutions.'',
      uc_color = ''bg-green-50'', uc_textColor = ''text-green-700'', uc_borderColor = ''border-green-200''\<rparr>,
     \<lparr>industry = ''E-commerce'',
      uc_description = ''Manage customer relationships across online channels and improve shopping experiences.'',
      uc_color = ''bg-yellow-50'', uc_textColor = ''text-yellow-700'', uc_borderColor = ''border-yellow-200''\<rparr>,
     \<lparr>industry = ''Financial Services'',
      uc_description = ''Build trust and maintain compliance while managing client relationships and opportunities.'',
      uc_color = ''bg-red-50'', uc_textColor = ''text-red-700'', uc_borderColor = ''border-red-200''\<rparr>,
     \<lparr>industry = ''Healthcare'',
      uc_description = ''Securely manage patient relationships and streamline practice management with HIPAA-compliant tools.'',
      uc_color = ''bg-teal-50'', uc_textColor = ''text-teal-700'', uc_borderColor = ''border-teal-200''\<rparr>]"

definition use_case_card :: "bool \<Rightarrow> nat \<times> use_case \<Rightarrow> 'm view" where
  "use_case_card inView = (\<lambda>(index, u).
     El ''motion.div'' [Attr ''key'' (industry u), fade inView,
                        cls (''p-6 rounded-xl border '' @ uc_borderColor u @ '' '' @ uc_color u @ '' h-full flex flex-col'')]
       [El ''h3'' [cls (''text-xl font-semibold mb-3 '' @ uc_textColor u)] [Txt (industry u)],
        El ''p'' [cls ''text-gray-700 flex-grow''] [Txt (uc_description u)],
        El ''div'' [cls ''mt-4'']
          [El ''a'' [Attr ''href'' ''#'', cls (''font-medium '' @ uc_textColor u @ '' hover:underline'')]
             [Txt (''Learn more '' @ utf8_rarr)]]])"

definition UseCases_view :: "bool \<Rightarrow> 'm view" where
  "UseCases_view inView =
     El ''section'' [Attr ''id'' ''use-cases'', cls ''py-16 md:py-24 bg-gray-50'']
       [El ''div'' [cls ''container'']
          [El ''div'' [cls ''text-center max-w-3xl mx-auto mb-16'']
             [El ''h2'' [cls ''text-3xl md:text-4xl font-bold text-gray-900 mb-4''] [Txt ''Tailored for Your Industry''],
              El ''p'' [cls ''text-lg text-gray-600'']
                [Txt ''T-CRM adapts to your specific industry needs, providing specialized tools and workflows that make sense for your business.'']],
           El ''motion.div'' [in_view_ref, fade inView, cls ''grid grid-cols-1 md:grid-cols-2 lg:grid-cols-3 gap-6'']
             (map (use_case_card inView) (enumerate 0 useCases))]]"

subsection \<open>Customer lifetime value\<close>

definition strategies :: "string list" where
  "strategies =
     [''Offer a Referral Program'', ''Provide Targeted, Personalized Campaigns'',
      ''Put Them First '' @ utf8_ndash @ '' Listen Your Customers'', ''Optimize Your Customer Service'',
      ''Reward Your Most Loyal Clients'', ''Benefit from Cross-Selling and Upselling Strategies'']"

definition CLVSection_view :: "bool \<Rightarrow> 'm view" where
  "CLVSection_view inView =
     El ''section'' [Attr ''id'' ''clv'', cls ''py-20 bg-white'']
       [El ''div'' [cls ''container mx-auto'']
          [El ''div'' [cls ''grid grid-cols-1 lg:grid-cols-2 gap-12 items-center'']
             [El ''motion.div'' [fade inView, cls ''relative order-2 lg:order-1'']
                [El ''Card3D'' [cls ''rounded-xl overflow-hidden shadow-xl'']
                   [placeholder_image ''https://images.unsplash.com/photo-1504868584819-f8e8b4b6d7e3?q=80&w=2076&auto=format&fit=crop''
                      ''https://images.unsplash.com/photo-1551288049-bebda4e38f71?q=80&w=2070&auto=format&fit=crop''
                      ''Customer Lifetime Value'' ''600'' ''350'' ''w-full rounded-xl'',
                    El ''div'' [cls ''absolute inset-0 bg-gradient-to-bl from-blue-600/30 to-transparent rounded-xl pointer-events-none''] []],
                 floating_badge ''-bottom-6 -left-6'' ''bg-blue-100 text-blue-600'' [CHR 0xF0, CHR 0x9F, CHR 0x94, CHR 0x8D]
                   ''+92%'' ''Retention Rate'' inView],
              El ''motion.div'' [in_view_ref, fade inView, cls ''space-y-6 order-1 lg:order-2'']
                [El ''div'' [cls ''inline-block px-4 py-1 bg-blue-100 text-blue-700 rounded-full text-sm font-medium''] [Txt ''Experience''],
                 El ''h2'' [cls ''text-3xl md:text-4xl font-bold text-gray-900''] [Txt ''Maximize CLV''],
                 El ''p'' [cls ''text-lg text-gray-600'']
                   [Txt ''Maximizing customer lifetime value (CLV) is a continuous process that requires dedication and a focus on long-term customer relationships. By implementing effective strategies and utilizing data-driven insights, businesses can reap the rewards of a loyal and profitable customer base.''],
                 El ''div'' [cls ''space-y-4 pt-4'']
                   (map (\<lambda>strategy.
                           El ''motion.div'' [Attr ''key'' strategy, fade inView, cls ''flex items-start space-x-3'']
                             [El ''CheckCircleIcon'' [cls ''h-6 w-6 flex-shrink-0 text-blue-500'', Attr ''aria-hidden'' ''true''] [],
                              El ''p'' [cls ''text-gray-700''] [Txt strategy]])
                        strategies)]]]]"

subsection \<open>Collaboration\<close>

definition collaboration_benefits :: "string list" where
  "collaboration_benefits =
     [''Automate repetitive tasks'', ''Manage prospects within your sales funnel'', ''Improved data consolidation'',
      ''Monitor progress with reporting and analytics tools'', ''Generate sales leaderboards and productivity reports'',
      ''Facilitated marketing campaigns'']"

definition collaboration_features :: "string list" where
  "collaboration_features =
     [''Lead Capture'', ''Import Data'', ''Data Allotment'', ''Task Assignment'', ''Follow-up Reminders'',
      ''Workflow and Approvals'', ''Marketing Automation'', ''Sales Performance'', ''Client Services'', ''Payment Tracking'']"

text \<open>The same \<open>ref\<close> is passed to both columns (lines 58 and 95).\<close>

definition CollaborationSection_view :: "bool \<Rightarrow> 'm view" where
  "CollaborationSection_view inView =
     El ''section'' [Attr ''id'' ''collaboration'', cls ''py-20 bg-gray-50'']
       [El ''div'' [cls ''container mx-auto'']
          [El ''div'' [cls ''grid grid-cols-1 lg:grid-cols-2 gap-12 items-center'']
             [El ''motion.div'' [in_view_ref, fade inView, cls ''space-y-6'']
                [El ''div'' [cls ''inline-block px-4 py-1 bg-green-100 text-green-700 rounded-full text-sm font-medium''] [Txt ''Collaboration''],
                 El ''h2'' [cls ''text-3xl md:text-4xl font-bold text-gray-900''] [Txt ''Streamline Processes''],
                 El ''p'' [cls ''text-lg text-gray-600'']
                   [Txt ''From managing leads to simplifying and streamlining the sales pipeline, T-CRM platform allows you to automate repetitive tasks, eliminate manual work, and boost performance. It incorporates a variety of functions across sales, marketing, and service operations to help sales team organize their work.''],
                 El ''div'' [cls ''space-y-4 pt-2'']
                   (map (\<lambda>benefit.
                           El ''motion.div'' [Attr ''key'' benefit, fade inView, cls ''flex items-center space-x-3'']
                             [El ''svg'' [cls ''h-5 w-5 text-green-500'', Attr ''viewBox'' ''0 0 20 20'', Attr ''fill'' ''currentColor''] [],
                              El ''p'' [cls ''text-gray-700''] [Txt benefit]])
                        collaboration_benefits)],
              El ''div'' [cls ''relative'']
                [El ''motion.div'' [in_view_ref, Attr ''animate'' (if inView then ''visible'' else ''hidden''),
                                    cls ''bg-white p-6 md:p-8 rounded-xl shadow-lg'']
                   [El ''h3'' [cls ''text-xl font-bold text-gray-900 mb-6''] [Txt ''Key Features''],
                    El ''div'' [cls ''grid grid-cols-1 sm:grid-cols-2 gap-4'']
                      (map (\<lambda>feature.
                              El ''motion.div'' [Attr ''key'' feature, cls ''flex items-center space-x-2'']
                                [El ''div'' [cls ''flex-shrink-0 w-2 h-2 bg-green-500 rounded-full''] [],
                                 El ''p'' [cls ''text-gray-700''] [Txt feature]])
                           collaboration_features),
                    El ''motion.div'' [fade inView, cls ''mt-8'']
                      [El ''a'' [Attr ''href'' ''/#demo-form'', cls ''inline-flex items-center text-green-600 font-medium'']
                         [Txt ''Discover all features'', El ''svg'' [cls ''h-5 w-5 ml-1'', Attr ''viewBox'' ''0 0 20 20'', Attr ''fill'' ''currentColor''] []]]],
                 El ''div'' [cls ''absolute -z-10 top-10 left-10 right-10 bottom-10 bg-gradient-to-r from-green-200 to-green-100 rounded-xl''] []]]]]"

subsection \<open>Lead management\<close>

text \<open>One feature card of a tab: an icon (a heroicon or an inline \<open>svg\<close> of paths), a
  title and a text, inside a \<open>Card3D\<close>.\<close>

definition lm_card :: "'m view \<Rightarrow> string \<Rightarrow> string \<Rightarrow> 'm view" where
  "lm_card icon title description =
     El ''Card3D'' [cls ''bg-white rounded-xl p-6 border border-gray-100 h-full shadow-soft-md'']
       [El ''div'' [cls ''bg-indigo-50 rounded-xl w-16 h-16 flex items-center justify-center mb-4''] [icon],
        El ''h3'' [cls ''text-lg font-semibold text-gray-900 mb-2''] [Txt title],
        El ''p'' [cls ''text-gray-600''] [Txt description]]"

definition hero_icon :: "string \<Rightarrow> 'm view" where
  "hero_icon name = El name [cls ''w-8 h-8 text-indigo-600''] []"

definition path_icon :: "string list \<Rightarrow> 'm view" where
  "path_icon ds =
     El ''svg'' [Attr ''xmlns'' ''http://www.w3.org/2000/svg'', cls ''w-8 h-8 text-indigo-600'', Attr ''fill'' ''none'',
                 Attr ''viewBox'' ''0 0 24 24'', Attr ''stroke'' ''currentColor'']
       (map (\<lambda>d. El ''path'' [Attr ''strokeLinecap'' ''round'', Attr ''strokeLinejoin'' ''round'', Attr ''strokeWidth'' ''2'', Attr ''d'' d] []) ds)"

definition lm_grid :: "'m view list \<Rightarrow> 'm view" where
  "lm_grid cards = El ''div'' [cls ''grid grid-cols-1 md:grid-cols-3 gap-8''] cards"

text \<open>The title of the first customer-management card is stored in the source file as the
  bytes of the degree sign encoded twice (\<open>C3 82 C2 B0\<close>), so the page prints them.\<close>

text \<open>The lead-management section's heading and content variants.\<close>

definition headingVariants :: variants where
  "headingVariants =
     \<lparr>v_hidden = [(''opacity'', [0]), (''y'', [-20])],
      v_visible = (\<lambda>i. \<lparr>t_props = [(''opacity'', [1]), (''y'', [0])], t_transition = Some (TweenEase (6 / 10) 0 [22 / 100, 1, 36 / 100, 1])\<rparr>),
      v_exit = None\<rparr>"

definition contentVariants :: variants where
  "contentVariants =
     \<lparr>v_hidden = [(''opacity'', [0]), (''y'', [30])],
      v_visible = (\<lambda>i. \<lparr>t_props = [(''opacity'', [1]), (''y'', [0])], t_transition = Some (TweenEase (8 / 10) (2 / 10) [22 / 100, 1, 36 / 100, 1])\<rparr>),
      v_exit = None\<rparr>"

definition LeadManagementFeatures :: "'m view" where
  "LeadManagementFeatures =
     lm_grid
        [lm_card (hero_icon ''InboxArrowDownIcon'') ''Automated Lead Capture''
           ''Capture leads from various sources like website forms, social media, and email campaigns automatically.'',
         lm_card (hero_icon ''CursorArrowRaysIcon'') ''Lead Scoring''
           ''Prioritize leads based on their engagement and likelihood to convert using our AI-driven scoring system.'',
         lm_card (hero_icon ''ChartBarIcon'') ''Pipeline Visualization''
           ''Visual representation of your sales pipeline with drag-and-drop functionality for easy management.'']"

definition CustomerManagementFeatures :: "'m view" where
  "CustomerManagementFeatures =
     lm_grid
        [lm_card (hero_icon ''UsersIcon'') (''360'' @ [CHR 0xC3, CHR 0x82] @ utf8_degree @ '' Customer View'')
           ''Get a complete view of customer interactions, purchase history, support tickets, and communication in one place.'',
         lm_card (path_icon [''M19 9l-7 7-7-7'', ''M5 12h14'']) ''Customer Segmentation''
           ''Group customers based on behavior, demographics, purchase patterns, and engagement levels for targeted marketing.'',
         lm_card (path_icon [''M9 5H7a2 2 0 00-2 2v12a2 2 0 002 2h10a2 2 0 002-2V7a2 2 0 00-2-2h-2M9 5a2 2 0 002 2h2a2 2 0 002-2M9 5a2 2 0 012-2h2a2 2 0 012 2''])
           ''Activity Tracking''
           ''Automatically log all customer touchpoints including emails, calls, meetings, and support interactions.'']"

definition AutomationFeatures :: "'m view" where
  "AutomationFeatures =
     lm_grid
        [lm_card (hero_icon ''CogIcon'') ''Workflow Automation''
           ''Create custom workflows to automate repetitive tasks and ensure consistent follow-ups.'',
         lm_card (path_icon [''M8 7V3m8 4V3m-9 8h10M5 21h14a2 2 0 002-2V7a2 2 0 00-2-2H5a2 2 0 00-2 2v12a2 2 0 002 2z''])
           ''Automated Scheduling''
           ''Let customers book appointments directly into your calendar with automatic reminders and follow-ups.'',
         lm_card (path_icon [''M20 13V6a2 2 0 00-2-2H6a2 2 0 00-2 2v7m16 0v5a2 2 0 01-2 2H6a2 2 0 01-2-2v-5m16 0h-2.586a1 1 0 00-.707.293l-2.414 2.414a1 1 0 01-.707.293h-3.172a1 1 0 01-.707-.293l-2.414-2.414A1 1 0 006.586 13H4''])
           ''Email Automation''
           ''Send personalized emails based on customer behavior, engagement triggers, and journey stage.'']"

definition AnalyticsFeatures :: "'m view" where
  "AnalyticsFeatures =
     lm_grid
        [lm_card (hero_icon ''ChartPieIcon'') ''Custom Dashboards''
           ''Create personalized dashboards with key metrics and KPIs that matter most to your business.'',
         lm_card (path_icon [''M9 19v-6a2 2 0 00-2-2H5a2 2 0 00-2 2v6a2 2 0 002 2h2a2 2 0 002-2zm0 0V9a2 2 0 012-2h2a2 2 0 012 2v10m-6 0a2 2 0 002 2h2a2 2 0 002-2m0 0V5a2 2 0 012-2h2a2 2 0 012 2v14a2 2 0 01-2 2h-2a2 2 0 01-2-2z''])
           ''Performance Reporting''
           ''Generate detailed reports on sales performance, team activity, conversion rates, and revenue forecasts.'',
         lm_card (path_icon [''M13 7h8m0 0v8m0-8l-8 8-4-4-6 6'']) ''Trend Analysis''
           ''Identify patterns and trends in customer behavior, sales cycles, and market dynamics with AI-powered analytics.'']"

definition lm_tabs :: "'m tab list" where
  "lm_tabs =
    [\<lparr>tab_id = ''lead-management'', tab_label = ''Lead Management'',
      tab_icon = Some (El ''InboxArrowDownIcon'' [cls ''w-4 h-4''] []),
      tab_content = [LeadManagementFeatures]\<rparr>,
     \<lparr>tab_id = ''customer-management'', tab_label = ''Customer Management'',
      tab_icon = Some (El ''UsersIcon'' [cls ''w-4 h-4''] []),
      tab_content = [CustomerManagementFeatures]\<rparr>,
     \<lparr>tab_id = ''automation'', tab_label = ''Automation'',
      tab_icon = Some (El ''CogIcon'' [cls ''w-4 h-4''] []),
      tab_content = [AutomationFeatures]\<rparr>,
     \<lparr>tab_id = ''analytics'', tab_label = ''Analytics & Reporting'',
      tab_icon = Some (El ''ChartPieIcon'' [cls ''w-4 h-4''] []),
      tab_content = [AnalyticsFeatures]\<rparr>]"

text \<open>\<open>controls.start('visible')\<close> runs once \<open>inView\<close> holds; the tabs start on
  \<open>defaultTab = 'lead-management'\<close>.\<close>

definition lm_tabs_init :: tabs_state where
  "lm_tabs_init = tabs_init (lm_tabs :: unit tab list) (Some ''lead-management'')"

definition LeadManagementSection_view :: "bool \<Rightarrow> (string \<Rightarrow> 'm) \<Rightarrow> tabs_state \<Rightarrow> 'm view" where
  "LeadManagementSection_view inView lift tabs =
     El ''section'' [Attr ''id'' ''lead-management'', cls ''py-20 bg-gray-50'']
       [El ''div'' [cls ''container mx-auto px-4 sm:px-6 lg:px-8'']
          [El ''div'' [cls ''max-w-4xl mx-auto'', in_view_ref]
             [El ''motion.div'' [cls ''text-center mb-12'', Attr ''animate'' (if inView then ''visible'' else ''hidden'')]
                [El ''h2'' [cls ''text-3xl font-bold text-gray-900 md:text-4xl''] [Txt ''Comprehensive CRM Tools''],
                 El ''p'' [cls ''mt-4 text-xl text-gray-600'']
                   [Txt ''Everything you need to manage your sales process from lead generation to customer retention'']],
              El ''motion.div'' [Attr ''animate'' (if inView then ''visible'' else ''hidden'')]
                [TabsWithAnimation_view '''' lift lm_tabs tabs]]]]"


subsection \<open>Product overview\<close>

text \<open>\<open>ProductOverview.tsx\<close>, commented out on the home page. It also has the id
  \<open>features\<close>.\<close>

definition overview_features :: "(string \<times> string \<times> string) list" where
  "overview_features =
     [(''Contact Management'', ''Store all your customer data in one place with detailed profiles, interaction history, and smart segmentation.'', ''UsersIcon''),
      (''Sales Pipeline'', ''Track deals from lead to close with customizable stages, forecasting, and performance analytics.'', ''ChartBarIcon''),
      (''Email Campaigns'', ''Create, automate, and track personalized email campaigns that nurture leads and engage customers.'', ''EnvelopeIcon''),
      (''Account Management'', ''Manage multiple accounts and contacts with hierarchical relationships and account-specific insights.'', ''BuildingOffice2Icon''),
      (''Call Center Integration'', ''Seamlessly integrate with your call center for complete call tracking, recording, and analysis.'', ''PhoneIcon''),
      (''Workflow Automation'', ''Automate repetitive tasks and complex business processes with customizable workflows.'', ''CogIcon'')]"

definition ProductOverview_view :: "bool \<Rightarrow> 'm view" where
  "ProductOverview_view inView =
     El ''section'' [Attr ''id'' ''features'', cls ''py-16 md:py-24 bg-white'']
       [El ''div'' [cls ''container'']
          [El ''div'' [cls ''text-center max-w-3xl mx-auto mb-16'']
             [El ''h2'' [cls ''text-3xl md:text-4xl font-bold text-gray-900 mb-4''] [Txt ''Everything You Need in One Platform''],
              El ''p'' [cls ''text-lg text-gray-600'']
                [Txt ''Our comprehensive CRM system provides all the tools you need to manage customer relationships, streamline sales processes, and grow your business.'']],
           El ''motion.div'' [in_view_ref, Attr ''animate'' (if inView then ''visible'' else ''hidden''),
                              cls ''grid grid-cols-1 md:grid-cols-2 lg:grid-cols-3 gap-8'']
             (map (\<lambda>(name, description, icon).
                     El ''motion.div'' [Attr ''key'' name, cls ''bg-gray-50 rounded-xl p-6 shadow-sm hover:shadow-md transition-shadow duration-300'']
                       [El ''div'' [cls ''rounded-lg bg-primary-100 p-3 w-12 h-12 flex items-center justify-center mb-4'']
                          [El icon [cls ''h-6 w-6 text-primary-600'', Attr ''aria-hidden'' ''true''] []],
                        El ''h3'' [cls ''text-xl font-semibold text-gray-900 mb-2''] [Txt name],
                        El ''p'' [cls ''text-gray-600''] [Txt description]])
                  overview_features)]]"

end
