(* ===== verification/Footer.thy ===== *)
theory Footer
  imports Ui
begin

text \<open>
  The site footer, \<open>src/Tech crm/src/components/Footer.tsx\<close>: the company block, four
  columns of \<open>footerLinks\<close>, the newsletter form, the social links and the bottom bar.
  It has no state; \<open>new Date().getFullYear()\<close> is the parameter \<open>year\<close>. The
  newsletter \<open>form\<close> has no \<open>onSubmit\<close> and its \<open>input\<close> no \<open>name\<close>.
\<close>

record footer_link =
  fl_name :: string
  fl_href :: string

record footer_column =
  fc_title :: string
  fc_links :: "footer_link list"

definition footerLinks :: "footer_column list" where
  "footerLinks =
    [\<lparr>fc_title = ''Product'', fc_links =
       [\<lparr>fl_name = ''Features'', fl_href = ''/features''\<rparr>, \<lparr>fl_name = ''Pricing'', fl_href = ''/pricing''\<rparr>,
        \<lparr>fl_name = ''Integrations'', fl_href = ''/integrations''\<rparr>, \<lparr>fl_name = ''Updates'', fl_href = ''/updates''\<rparr>,
        \<lparr>fl_name = ''Roadmap'', fl_href = ''/roadmap''\<rparr>]\<rparr>,
     \<lparr>fc_title = ''Company'', fc_links =
       [\<lparr>fl_name = ''About Us'', fl_href = ''/about''\<rparr>, \<lparr>fl_name = ''Careers'', fl_href = ''/careers''\<rparr>,
        \<lparr>fl_name = ''Blog'', fl_href = ''/blog''\<rparr>, \<lparr>fl_name = ''Press'', fl_href = ''/press''\<rparr>,
        \<lparr>fl_name = ''Partners'', fl_href = ''/partners''\<rparr>]\<rparr>,
     \<lparr>fc_title = ''Resources'', fc_links =
       [\<lparr>fl_name = ''Documentation'', fl_href = ''/docs''\<rparr>, \<lparr>fl_name = ''Tutorials'', fl_href = ''/tutorials''\<rparr>,
        \<lparr>fl_name = ''Support'', fl_href = ''/support''\<rparr>, \<lparr>fl_name = ''API Reference'', fl_href = ''/api''\<rparr>,
        \<lparr>fl_name = ''Demo'', fl_href = ''/#demo-form''\<rparr>]\<rparr>,
     \<lparr>fc_title = ''Legal'', fc_links =
       [\<lparr>fl_name = ''Privacy Policy'', fl_href = ''/privacy''\<rparr>, \<lparr>fl_name = ''Terms of Service'', fl_href = ''/terms''\<rparr>,
        \<lparr>fl_name = ''Cookie Policy'', fl_href = ''/cookies''\<rparr>, \<lparr>fl_name = ''GDPR'', fl_href = ''/gdpr''\<rparr>,
        \<lparr>fl_name = ''Security'', fl_href = ''/security''\<rparr>]\<rparr>]"

definition socialLinks :: "(string \<times> string \<times> string) list" where
  "socialLinks =
     [(''Facebook'', ''FacebookIcon'', ''https://facebook.com''), (''Twitter'', ''TwitterIcon'', ''https://twitter.com''),
      (''Instagram'', ''InstagramIcon'', ''https://instagram.com''), (''LinkedIn'', ''LinkedinIcon'', ''https://linkedin.com''),
      (''GitHub'', ''GithubIcon'', ''https://github.com'')]"

definition footer_company :: "'m view" where
  "footer_company =
     El ''div'' [cls ''lg:col-span-1'']
       [El ''motion.div'' []
          [El ''Link'' [Attr ''href'' ''/'', cls ''inline-block'']
             [El ''h2'' [cls ''text-2xl font-bold text-white mb-4''] [Txt ''T-CRM'']],
           El ''p'' [cls ''text-gray-400 mb-6 max-w-xs'']
             [Txt ''Empowering businesses to efficiently manage leads, customer engagement, sales processes, and post-sale support.''],
           El ''div'' [cls ''space-y-2'']
             [El ''a'' [Attr ''href'' ''tel:+917421000303'', cls ''flex items-center gap-2 text-gray-400 hover:text-white transition-colors'']
                [El ''PhoneIcon'' [Attr ''size'' ''16''] [], El ''span'' [] [Txt ''+91-742-100-0303'']],
              El ''a'' [Attr ''href'' ''mailto:info@t-crm.com'', cls ''flex items-center gap-2 text-gray-400 hover:text-white transition-colors'']
                [El ''MailIcon'' [Attr ''size'' ''16''] [], El ''span'' [] [Txt ''info@t-crm.com'']],
              El ''div'' [cls ''flex items-start gap-2 text-gray-400'']
                [El ''MapPinIcon'' [Attr ''size'' ''16'', cls ''mt-1 flex-shrink-0''] [],
                 El ''span'' [] [Txt ''T-CRM Headquarters, 123 Tech Park, Bangalore, India 560001'']]]]]"

definition footer_column_view :: "footer_column \<Rightarrow> 'm view" where
  "footer_column_view c =
     El ''div'' [Attr ''key'' (fc_title c)]
       [El ''motion.div'' []
          [El ''h3'' [cls ''text-lg font-semibold text-white mb-4''] [Txt (fc_title c)],
           El ''ul'' [cls ''space-y-2'']
             (map (\<lambda>l. El ''li'' [Attr ''key'' (fl_name l)]
                         [El ''Link'' [Attr ''href'' (fl_href l), cls ''text-gray-400 hover:text-white transition-colors''] [Txt (fl_name l)]])
                  (fc_links c))]]"

definition newsletter :: "'m view" where
  "newsletter =
     El ''motion.div'' [cls ''border-t border-gray-800 pt-8 pb-6 mb-6'']
       [El ''div'' [cls ''max-w-xl mx-auto text-center mb-6'']
          [El ''h3'' [cls ''text-xl font-semibold mb-2''] [Txt ''Subscribe to our newsletter''],
           El ''p'' [cls ''text-gray-400 mb-4''] [Txt ''Stay updated with the latest CRM trends, tips, and product updates''],
           El ''form'' [cls ''flex flex-col sm:flex-row gap-2 max-w-md mx-auto'']
             [El ''input'' [Attr ''type'' ''email'', Attr ''placeholder'' ''Your email address'',
                            cls ''px-4 py-2.5 rounded-lg bg-gray-800 border border-gray-700 focus:outline-none focus:ring-2 focus:ring-indigo-500 focus:border-transparent flex-grow text-white'',
                            Attr ''required'' ''true''] [],
              El ''button'' [Attr ''type'' ''submit'', cls ''bg-indigo-600 hover:bg-indigo-700 text-white font-medium rounded-lg px-4 py-2.5 transition-colors'']
                [Txt ''Subscribe'']]],
        El ''div'' [cls ''flex justify-center space-x-5 mb-6'']
          (map (\<lambda>(name, icon, href).
                  El ''a'' [Attr ''key'' name, Attr ''href'' href, Attr ''target'' ''_blank'', Attr ''rel'' ''noopener noreferrer'',
                            cls ''text-gray-400 hover:text-white transition-colors'', Attr ''aria-label'' name]
                    [El icon [Attr ''size'' ''20''] []])
               socialLinks)]"

definition Footer_view :: "nat \<Rightarrow> 'm view" where
  "Footer_view year =
     El ''footer'' [cls ''bg-gray-900 text-white pt-16 pb-8'']
       [El ''div'' [cls ''container px-4 mx-auto'']
          [El ''div'' [cls ''grid grid-cols-1 md:grid-cols-2 lg:grid-cols-5 gap-8 mb-12'']
             (footer_company # map footer_column_view footerLinks),
           newsletter,
           El ''div'' [cls ''border-t border-gray-800 pt-6 text-center text-gray-500 text-sm'']
             [El ''div'' [cls ''flex flex-col md:flex-row justify-center items-center gap-2 md:gap-6'']
                [El ''div'' [] [Txt ([CHR 0xC2, CHR 0xA9] @ '' '' @ string_of_nat year @ '' T-CRM. All rights reserved.'')],
                 El ''div'' [cls ''flex items-center gap-4'']
                   [El ''Link'' [Attr ''href'' ''/privacy'', cls ''hover:text-white transition-colors''] [Txt ''Privacy Policy''],
                    El ''span'' [] [Txt ''|''],
                    El ''Link'' [Attr ''href'' ''/terms'', cls ''hover:text-white transition-colors''] [Txt ''Terms of Service''],
                    El ''span'' [] [Txt ''|''],
                    El ''Link'' [Attr ''href'' ''/cookies'', cls ''hover:text-white transition-colors''] [Txt ''Cookies'']]]]]]"

end
