(* ===== verification/Page3D.thy ===== *)
theory Page3D
  imports Ui "HOL-Library.Sublist"
begin

text \<open>
  The 3D page wrapper \<open>src/Tech crm/src/components/ui/Page3D.tsx\<close>. State: the scroll
  position, the normalised pointer position and the window size. Three window
  listeners write it: \<open>scroll\<close>, \<open>resize\<close>, and \<open>mousemove\<close>, which is subscribed by
  an effect that depends on the window size and so closes over the size of the render
  that ran it. JavaScript's division yields \<open>Infinity\<close> or \<open>NaN\<close> for a zero divisor;
  those values are \<open>None\<close> here (\<open>js_div\<close>), and a style built from them is ignored
  by the browser. The wrapper puts each child that is a \<open>section\<close> into a
  \<open>motion.div\<close> transformed by \<open>calculateTransform\<close>.
\<close>

record page3d_state =
  p3_scrollY :: rat
  p3_mouseX :: "rat option"
  p3_mouseY :: "rat option"
  p3_windowWidth :: rat
  p3_windowHeight :: rat

definition page3d_init :: page3d_state where
  "page3d_init = \<lparr>p3_scrollY = 0, p3_mouseX = Some 0, p3_mouseY = Some 0, p3_windowWidth = 0, p3_windowHeight = 0\<rparr>"

definition js_div :: "rat \<Rightarrow> rat \<Rightarrow> rat option" where
  "js_div a b = (if b = 0 then None else Some (a / b))"

definition page3d_handleScroll :: "rat \<Rightarrow> page3d_state \<Rightarrow> page3d_state" where
  "page3d_handleScroll scrollY st = st\<lparr>p3_scrollY := scrollY\<rparr>"

text \<open>The \<open>mousemove\<close> listener reads \<open>windowWidth\<close> and \<open>windowHeight\<close> from the
  render whose effect subscribed it: they are its first two arguments, not the state's.\<close>

definition page3d_handleMouseMove :: "rat \<Rightarrow> rat \<Rightarrow> rat \<Rightarrow> rat \<Rightarrow> page3d_state \<Rightarrow> page3d_state" where
  "page3d_handleMouseMove windowWidth windowHeight clientX clientY st =
     st\<lparr>p3_mouseX := map_option (\<lambda>q. q * 2 - 1) (js_div clientX windowWidth),
        p3_mouseY := map_option (\<lambda>q. q * 2 - 1) (js_div clientY windowHeight)\<rparr>"

definition page3d_handleResize :: "rat \<Rightarrow> rat \<Rightarrow> page3d_state \<Rightarrow> page3d_state" where
  "page3d_handleResize innerWidth innerHeight st = st\<lparr>p3_windowWidth := innerWidth, p3_windowHeight := innerHeight\<rparr>"

definition alt_sign :: "nat \<Rightarrow> nat \<Rightarrow> rat" where
  "alt_sign m index = (if index mod m = 0 then 1 else -1)"

text \<open>\<open>calculateTransform(depth, index)\<close>: translate in pixels and rotate in degrees.\<close>

definition calculateTransform :: "page3d_state \<Rightarrow> rat \<Rightarrow> nat \<Rightarrow> rat option \<times> rat option \<times> rat option \<times> rat option" where
  "calculateTransform st d index =
     (map_option (\<lambda>x. x * d * alt_sign 2 index) (p3_mouseX st),
      map_option (\<lambda>y. y * d * alt_sign 3 index) (p3_mouseY st),
      map_option (\<lambda>q. q * (1 / 2) * alt_sign 2 index) (js_div (p3_scrollY st) (p3_windowHeight st)),
      map_option (\<lambda>q. q * (1 / 2) * alt_sign 3 index) (js_div (p3_scrollY st) (p3_windowHeight st)))"

text \<open>A child of \<open>Page3D\<close>: a host element, or a component with its name and its
  rendering. \<open>Header\<close> and \<open>Footer\<close> take no props, so the \<open>className\<close> and
  \<open>style\<close> that \<open>cloneElement\<close> injects do not reach their markup.\<close>

datatype 'm p3d_child = P3Elem "'m view" | P3Comp string "'m view"

definition is_section_child :: "'m p3d_child \<Rightarrow> bool" where
  "is_section_child c =
     (case c of P3Elem v \<Rightarrow> el_tag v = ''section'' \<or>
                           (case attr_value ''className'' (el_attrs v) of Some s \<Rightarrow> sublist ''section'' s | None \<Rightarrow> False)
              | P3Comp n v \<Rightarrow> False)"

definition enhance_child :: "nat \<times> 'm p3d_child \<Rightarrow> 'm view" where
  "enhance_child ic =
     (case ic of (index, c) \<Rightarrow>
        if is_section_child c
        then El ''motion.div'' [cls ''preserve-3d'', Attr ''transition.delay.index'' (string_of_nat index)]
               [case c of P3Elem v \<Rightarrow> v | P3Comp n v \<Rightarrow> v]
        else (case c of P3Elem v \<Rightarrow> v | P3Comp n v \<Rightarrow> v))"

definition Page3D_view :: "'m p3d_child list \<Rightarrow> 'm view" where
  "Page3D_view children = El ''div'' [cls ''perspective-2000''] (map enhance_child (enumerate 0 children))"


subsection \<open>The listeners over time\<close>

text \<open>The wrapper at run time: its state, the window's \<open>(innerWidth, innerHeight)\<close>, and
  the size the current \<open>mousemove\<close> listener closed over. The effect subscribes the
  listener with the size of the render it runs after and calls \<open>handleResize\<close>;
  React runs its cleanup and body again after a render whose size differs from the
  one it closed over. On mount the state's size is still 0.\<close>

record p3_runtime =
  p3_state :: page3d_state
  p3_inner :: "rat \<times> rat"
  p3_listener :: "(rat \<times> rat) option"

definition p3_render_size :: "page3d_state \<Rightarrow> rat \<times> rat" where
  "p3_render_size st = (p3_windowWidth st, p3_windowHeight st)"

definition p3_effect :: "p3_runtime \<Rightarrow> p3_runtime" where
  "p3_effect rt =
     rt\<lparr>p3_state := page3d_handleResize (fst (p3_inner rt)) (snd (p3_inner rt)) (p3_state rt),
        p3_listener := Some (p3_render_size (p3_state rt))\<rparr>"

definition p3_mount :: "rat \<Rightarrow> rat \<Rightarrow> p3_runtime" where
  "p3_mount w h = p3_effect \<lparr>p3_state = page3d_init, p3_inner = (w, h), p3_listener = None\<rparr>"

inductive p3_step :: "p3_runtime \<Rightarrow> p3_runtime \<Rightarrow> bool" where
  rerun: "p3_listener rt = Some c \<Longrightarrow> c \<noteq> p3_render_size (p3_state rt) \<Longrightarrow> p3_step rt (p3_effect rt)"
| move: "p3_listener rt = Some (w, h) \<Longrightarrow>
           p3_step rt (rt\<lparr>p3_state := page3d_handleMouseMove w h x y (p3_state rt)\<rparr>)"
| resize: "0 < w \<Longrightarrow> 0 < h \<Longrightarrow>
           p3_step rt (rt\<lparr>p3_inner := (w, h), p3_state := page3d_handleResize w h (p3_state rt)\<rparr>)"
| scroll: "p3_step rt (rt\<lparr>p3_state := page3d_handleScroll y (p3_state rt)\<rparr>)"

inductive p3_reach :: "rat \<Rightarrow> rat \<Rightarrow> p3_runtime \<Rightarrow> bool" for w h where
  init: "p3_reach w h (p3_mount w h)"
| step: "p3_reach w h rt \<Longrightarrow> p3_step rt rt' \<Longrightarrow> p3_reach w h rt'"

text \<open>The main section of the layout is the second child of \<open>Page3D\<close> (index 1), so its
  tilt about the horizontal axis is \<open>-(scrollY / innerHeight) / 2\<close> degrees: it grows
  with the scroll position without bound, by half a degree per screen height.\<close>

lemma page3d_main_section_tilt:
  assumes "0 < p3_windowHeight st"
  shows "fst (snd (snd (calculateTransform st 5 1))) = Some (- (p3_scrollY st / p3_windowHeight st) / 2)"
  using assms by (simp add: calculateTransform_def js_div_def alt_sign_def)

subsection \<open>The stale listener\<close>

text \<open>In every reachable state a listener is subscribed and the state's size is the
  window's.\<close>

lemma p3_step_inv:
  assumes "p3_step rt rt'" "p3_listener rt \<noteq> None" "p3_render_size (p3_state rt) = p3_inner rt"
  shows "p3_listener rt' \<noteq> None \<and> p3_render_size (p3_state rt') = p3_inner rt'"
  using assms
  by (cases rule: p3_step.cases)
     (auto simp: p3_effect_def p3_render_size_def page3d_handleResize_def page3d_handleMouseMove_def page3d_handleScroll_def)

lemma p3_reach_inv:
  "p3_reach w h rt \<Longrightarrow> p3_listener rt \<noteq> None \<and> p3_render_size (p3_state rt) = p3_inner rt"
proof (induction rule: p3_reach.induct)
  case init
  show ?case by (simp add: p3_mount_def p3_effect_def p3_render_size_def page3d_handleResize_def)
next
  case (step rt rt')
  then show ?case using p3_step_inv by blast
qed

text \<open>Once the listener has closed over the current window size, a pointer inside the
  window gives a position in \<open>[-1, 1]\<close>, as the code's comment intends.\<close>

lemma p3_settled_normalised:
  assumes "p3_listener rt = Some (w, h)" "0 < w" "0 \<le> x" "x \<le> w"
  shows "\<exists>q. p3_mouseX (page3d_handleMouseMove w h x y (p3_state rt)) = Some q \<and> -1 \<le> q \<and> q \<le> 1"
proof -
  have "0 \<le> x * 2 / w" "x * 2 / w \<le> 2" using assms(2-4) by (simp_all add: pos_divide_le_eq)
  then show ?thesis using assms(2) by (simp add: page3d_handleMouseMove_def js_div_def)
qed

text \<open>
  C31. In every state the wrapper reaches, a \<open>mousemove\<close> listener that closed over a
  size other than the window's can be brought up to date: React's re-run of the effect
  is a step that subscribes a listener closing over the current window size and leaves
  the state as it was.
\<close>

theorem p3_rerun_settles:
  assumes "p3_reach w h rt" "p3_listener rt \<noteq> Some (p3_inner rt)"
  shows "\<exists>rt'. p3_step rt rt' \<and> p3_listener rt' = Some (p3_inner rt') \<and> p3_state rt' = p3_state rt"
proof -
  obtain c where c: "p3_listener rt = Some c" and s: "p3_render_size (p3_state rt) = p3_inner rt"
    using p3_reach_inv [OF assms(1)] by auto
  have "c \<noteq> p3_render_size (p3_state rt)" using assms(2) c s by simp
  then have "p3_step rt (p3_effect rt)" by (rule p3_step.rerun [OF c])
  moreover have "p3_listener (p3_effect rt) = Some (p3_inner (p3_effect rt)) \<and> p3_state (p3_effect rt) = p3_state rt"
  proof -
    have i: "p3_inner rt = (p3_windowWidth (p3_state rt), p3_windowHeight (p3_state rt))"
      using s by (simp add: p3_render_size_def)
    show ?thesis by (simp add: i p3_effect_def p3_render_size_def page3d_handleResize_def)
  qed
  ultimately show ?thesis by blast
qed

theorem p3_rerun_settles_witness:
  "\<exists>rt'. p3_step (p3_mount 1000 800) rt' \<and> p3_listener rt' = Some (p3_inner rt') \<and>
         p3_state rt' = p3_state (p3_mount 1000 800)"
proof -
  have "p3_listener (p3_mount 1000 800) \<noteq> Some (p3_inner (p3_mount 1000 800))"
    by (simp add: p3_mount_def p3_effect_def p3_render_size_def page3d_init_def)
  with p3_rerun_settles [OF p3_reach.init] show ?thesis by blast
qed

text \<open>
  C32. Until that re-run the pointer position is wrong in states the wrapper reaches:
  right after mounting, the listener divides by the initial size 0, so the position is
  \<open>NaN\<close> or infinite; and after the window grows from 500 to 1000 pixels, a pointer
  900 pixels from the left edge gives the normalised position 2.6, outside \<open>[-1, 1]\<close>.
\<close>

theorem p3_stale_positions:
  "(\<exists>rt. p3_reach 1000 800 rt \<and> p3_mouseX (p3_state rt) = None) \<and>
   (\<exists>rt. p3_reach 500 400 rt \<and> p3_inner rt = (1000, 800) \<and> p3_mouseX (p3_state rt) = Some (13 / 5))"
proof
  have "p3_listener (p3_mount 1000 800) = Some (0, 0)"
    by (simp add: p3_mount_def p3_effect_def p3_render_size_def page3d_init_def)
  then have "p3_step (p3_mount 1000 800)
               (p3_mount 1000 800\<lparr>p3_state := page3d_handleMouseMove 0 0 500 400 (p3_state (p3_mount 1000 800))\<rparr>)"
    by (rule p3_step.move)
  then have "p3_reach 1000 800
               (p3_mount 1000 800\<lparr>p3_state := page3d_handleMouseMove 0 0 500 400 (p3_state (p3_mount 1000 800))\<rparr>)"
    by (rule p3_reach.step [OF p3_reach.init])
  moreover have "p3_mouseX (page3d_handleMouseMove 0 0 500 400 (p3_state (p3_mount 1000 800))) = None"
    by (simp add: page3d_handleMouseMove_def js_div_def)
  ultimately show "\<exists>rt. p3_reach 1000 800 rt \<and> p3_mouseX (p3_state rt) = None"
    by (metis p3_runtime.select_convs(1) p3_runtime.surjective p3_runtime.update_convs(1))
next
  let ?m = "p3_mount 500 400"
  have l0: "p3_listener ?m = Some (0, 0)" "p3_render_size (p3_state ?m) = (500, 400)"
    by (simp_all add: p3_mount_def p3_effect_def p3_render_size_def page3d_init_def page3d_handleResize_def)
  have "(0, 0) \<noteq> p3_render_size (p3_state ?m)" using l0(2) by simp
  then have s1: "p3_step ?m (p3_effect ?m)" by (rule p3_step.rerun [OF l0(1)])
  let ?r1 = "p3_effect ?m"
  have l1: "p3_listener ?r1 = Some (500, 400)" using l0 by (simp add: p3_effect_def)
  let ?r2 = "?r1\<lparr>p3_inner := (1000, 800), p3_state := page3d_handleResize 1000 800 (p3_state ?r1)\<rparr>"
  have s2: "p3_step ?r1 ?r2" by (rule p3_step.resize) simp_all
  have l2: "p3_listener ?r2 = Some (500, 400)" using l1 by simp
  let ?r3 = "?r2\<lparr>p3_state := page3d_handleMouseMove 500 400 900 0 (p3_state ?r2)\<rparr>"
  have s3: "p3_step ?r2 ?r3" by (rule p3_step.move [OF l2])
  have "p3_reach 500 400 ?r3" using p3_reach.init s1 s2 s3 by (blast intro: p3_reach.step)
  moreover have "p3_inner ?r3 = (1000, 800)" by simp
  moreover have "p3_mouseX (p3_state ?r3) = Some (13 / 5)" by (simp add: page3d_handleMouseMove_def js_div_def)
  ultimately show "\<exists>rt. p3_reach 500 400 rt \<and> p3_inner rt = (1000, 800) \<and> p3_mouseX (p3_state rt) = Some (13 / 5)"
    by blast
qed

end
