(* ===== verification/Home.thy ===== *)
theory Home
  imports Header Hero FeatureCard Sections Testimonials Pricing Faq DemoFormView Footer Page3D
begin

text \<open>
  The site as one page: \<open>src/Tech crm/src/app/page.tsx\<close> (\<open>Home\<close>, the sections in
  order), \<open>src/Tech crm/src/components/RootLayoutWrapper.tsx\<close> (the header, the page in a
  \<open>section.section\<close>, the footer), all inside \<open>Page3D\<close> (theory Page3D). Each section's messages are tagged with the section (\<open>home_msg\<close>), so
  the page's events reach the component that raised them.
\<close>

subsection \<open>The home page and the layout\<close>

datatype home_msg =
    HeaderMsg header_msg | FeaturesMsg "nat \<times> card_msg" | LeadTabsMsg string
  | TestimonialsMsg testimonial_msg | PricingMsg pricing_msg | FaqMsg faq_msg | DemoMsg demo_event

text \<open>The state of every component on the page; \<open>inView\<close> gives each section's
  \<open>useInView\<close> flag by the section's name.\<close>

record home_state =
  h_header :: header_state
  h_highlight :: nat
  h_cards :: "nat \<Rightarrow> efc_state \<times> tooltip_state"
  h_tabs :: tabs_state
  h_testimonial :: nat
  h_pricing :: pricing_state
  h_faq :: "nat list"
  h_demo :: demo_state
  h_inView :: "string \<Rightarrow> bool"
  h_page3d :: page3d_state
  h_year :: nat

text \<open>\<open>Home\<close>: the fragment of sections of \<open>app/page.tsx\<close>, in order. The testimonials
  section can throw (theory Testimonials), and so can the page.\<close>

definition Home_view :: "home_state \<Rightarrow> js_error + home_msg view list" where
  "Home_view s =
     sum_bind (TestimonialsSection_view (h_testimonial s) (h_inView s ''testimonials'')) (\<lambda>tv.
       Inr [HeroSection_view (h_highlight s),
            map_view FeaturesMsg (EnhancedFeaturesSection_view (h_inView s ''features'') (h_cards s)),
            ProductivitySection_view (h_inView s ''productivity''),
            UseCases_view (h_inView s ''use-cases''),
            CLVSection_view (h_inView s ''clv''),
            CollaborationSection_view (h_inView s ''collaboration''),
            LeadManagementSection_view (h_inView s ''lead-management'') LeadTabsMsg (h_tabs s),
            map_view TestimonialsMsg tv,
            map_view PricingMsg (PricingSection_view (h_pricing s) (h_inView s ''pricing'')),
            map_view FaqMsg (FAQSection (h_inView s ''faq'') (h_faq s)),
            map_view DemoMsg (DemoForm_view (h_demo s) (h_inView s ''demo-form''))])"

definition RootLayoutWrapper_view :: "(header_msg \<Rightarrow> 'm) \<Rightarrow> header_state \<Rightarrow> nat \<Rightarrow> 'm view list \<Rightarrow> 'm view" where
  "RootLayoutWrapper_view lift hs year children =
     Page3D_view [P3Comp ''Header'' (map_view lift (Header_view hs)),
                  P3Elem (El ''section'' [cls ''section''] children),
                  P3Comp ''Footer'' (Footer_view year)]"

definition Site_view :: "home_state \<Rightarrow> js_error + home_msg view" where
  "Site_view s = sum_bind (Home_view s) (\<lambda>page. Inr (RootLayoutWrapper_view HeaderMsg (h_header s) (h_year s) page))"

text \<open>\<open>app/admin/layout.tsx\<close>. Next.js nests a segment's layout inside the root layout,
  so every admin page is rendered as \<open>RootLayoutWrapper_view \<dots> [AdminLayout_view \<dots>]\<close>.\<close>

definition AdminLayout_view :: "'m view list \<Rightarrow> 'm view" where
  "AdminLayout_view children = El ''div'' [cls ''admin-layout''] children"

subsection \<open>Links and anchors\<close>

text \<open>The \<open>id\<close>s of a rendered tree in document order, the fragment an in-page link
  (\<open>/#x\<close> on the home page, or \<open>#x\<close>) scrolls to, and the links whose fragment names no
  element of the page: the browser stays at the top instead of scrolling.\<close>

fun elem_ids :: "'m view \<Rightarrow> string list" where
  "elem_ids (Txt s) = []"
| "elem_ids (El tag as cs) =
     (case attr_value ''id'' as of Some i \<Rightarrow> [i] | None \<Rightarrow> []) @ concat (map elem_ids cs)"

definition hash_target :: "string \<Rightarrow> string option" where
  "hash_target h =
     (if take 2 h = ''/#'' then Some (drop 2 h) else if take 1 h = ''#'' then Some (drop 1 h) else None)"

definition dead_anchors :: "'m view \<Rightarrow> string list" where
  "dead_anchors v =
     filter (\<lambda>h. case hash_target h of Some x \<Rightarrow> x \<noteq> [] \<and> x \<notin> set (elem_ids v) | None \<Rightarrow> False) (link_hrefs v)"


subsection \<open>The links and ids of each part of the page\<close>

lemma attr_value_map_attr [simp]: "attr_value n (map (map_attr f) as) = attr_value n as"
  by (induction as rule: attr_value.induct) simp_all

lemma link_hrefs_map_view [simp]: "link_hrefs (map_view f v) = link_hrefs v"
  by (induction v) (simp_all cong: map_cong)

lemma elem_ids_map_view [simp]: "elem_ids (map_view f v) = elem_ids v"
  by (induction v) (simp_all cong: map_cong)

lemma link_hrefs_comp_map_view [simp]: "link_hrefs \<circ> map_view f = link_hrefs"
  by (rule ext) simp

lemma elem_ids_comp_map_view [simp]: "elem_ids \<circ> map_view f = elem_ids"
  by (rule ext) simp

lemma header_links:
  "set (link_hrefs (Header_view st)) = {''/'', ''/#features'', ''/#solutions'', ''/#pricing'', ''/contact'', ''tel:+917421000303'', ''/login'', ''/#demo-form'', ''/signup''}"
  by (cases "mobileMenuOpen st") (auto simp: Header_view_def mobile_menu_def desktop_nav_def desktop_actions_def logo_def navigation_def phone_icon_def is_link_def cls_def)

lemma header_ids: "elem_ids (Header_view st) = []"
  by (cases "mobileMenuOpen st") (simp_all add: Header_view_def mobile_menu_def desktop_nav_def desktop_actions_def logo_def navigation_def phone_icon_def cls_def)

lemma hero_links: "link_hrefs (HeroSection_view i :: 'm view) = [''#demo-form'', ''#features'']"
  by (simp add: HeroSection_view_def hero_content_def hero_visual_def stat_card_def stats_def is_link_def cls_def trusted_companies_def split_def)

lemma hero_ids: "elem_ids (HeroSection_view i :: 'm view) = []"
  by (simp add: HeroSection_view_def hero_content_def hero_visual_def stat_card_def stats_def cls_def trusted_companies_def split_def)

lemma tooltip_links_ids:
  "link_hrefs (AnimatedTooltip_view d c lift chs cont st) = concat (map link_hrefs chs) @ (if isOpen st then concat (map link_hrefs cont) else [])"
  "elem_ids (AnimatedTooltip_view d c lift chs cont st) = concat (map elem_ids chs) @ (if isOpen st then concat (map elem_ids cont) else [])"
  by (cases d; simp add: AnimatedTooltip_view_def is_link_def cls_def style_attrs_def)+

lemma feature_card_links_ids:
  "link_hrefs (EnhancedFeatureCard_view t d i (Some c) st tp) = link_hrefs i @ (if isOpen tp then link_hrefs c else [])"
  "elem_ids (EnhancedFeatureCard_view t d i (Some c) st tp) = elem_ids i @ (if isOpen tp then elem_ids c else [])"
  by (simp_all add: EnhancedFeatureCard_view_def tooltip_links_ids efc_card_view_def hover_for_details_def is_link_def cls_def)

lemma features_links_ids:
  "link_hrefs (EnhancedFeaturesSection_view b sts) = []"
  "elem_ids (EnhancedFeaturesSection_view b sts) = [''features'']"
  by (simp_all add: EnhancedFeaturesSection_view_def efs_card_def feature_card_links_ids FeatureCard.features_def feature_tooltip_def is_link_def cls_def)

lemma static_sections_links_ids:
  "link_hrefs (ProductivitySection_view b :: 'm view) = []" "elem_ids (ProductivitySection_view b :: 'm view) = [''productivity'']"
  "link_hrefs (UseCases_view b :: 'm view) = [''#'', ''#'', ''#'', ''#'', ''#'', ''#'']" "elem_ids (UseCases_view b :: 'm view) = [''use-cases'']"
  "link_hrefs (CLVSection_view b :: 'm view) = []" "elem_ids (CLVSection_view b :: 'm view) = [''clv'']"
  "link_hrefs (CollaborationSection_view b :: 'm view) = [''/#demo-form'']"
  "elem_ids (CollaborationSection_view b :: 'm view) = [''collaboration'']"
  by (simp_all add: ProductivitySection_view_def UseCases_view_def CLVSection_view_def CollaborationSection_view_def
                    productivity_benefits_def useCases_def strategies_def collaboration_benefits_def collaboration_features_def
                    use_case_card_def floating_badge_def placeholder_image_def in_view_ref_def fade_def is_link_def cls_def)

lemma tab_panels_links_ids:
  "set (link_hrefs (El t as (tab_panels tabs st))) \<subseteq> set (link_hrefs (El t as (map tab_panel tabs)))"
  "set (elem_ids (El t as (tab_panels tabs st))) \<subseteq> set (elem_ids (El t as (map tab_panel tabs)))"
  by (induction tabs) (auto simp: tab_panels_def)

lemma lead_management_links_ids:
  "link_hrefs (LeadManagementSection_view b lift st) = []"
  "elem_ids (LeadManagementSection_view b lift st) = [''lead-management'']"
proof -
  have "link_hrefs (El ''AnimatePresence'' [Attr ''mode'' ''wait''] (map tab_panel (lm_tabs :: 'a tab list))) = []"
       "elem_ids (El ''AnimatePresence'' [Attr ''mode'' ''wait''] (map tab_panel (lm_tabs :: 'a tab list))) = []"
    by (simp_all add: lm_tabs_def LeadManagementFeatures_def CustomerManagementFeatures_def AutomationFeatures_def AnalyticsFeatures_def tab_panel_def lm_grid_def lm_card_def hero_icon_def path_icon_def is_link_def cls_def)
  then have "link_hrefs (El ''AnimatePresence'' [Attr ''mode'' ''wait''] (tab_panels (lm_tabs :: 'a tab list) st)) = []"
            "elem_ids (El ''AnimatePresence'' [Attr ''mode'' ''wait''] (tab_panels (lm_tabs :: 'a tab list) st)) = []"
    using tab_panels_links_ids [of "''AnimatePresence''" "[Attr ''mode'' ''wait'']" "lm_tabs :: 'a tab list" st] by auto
  then show "link_hrefs (LeadManagementSection_view b lift st) = []"
            "elem_ids (LeadManagementSection_view b lift st) = [''lead-management'']"
    by (simp_all add: LeadManagementSection_view_def TabsWithAnimation_view_def tab_button_def lm_tabs_def in_view_ref_def
                      is_link_def cls_def)
qed

lemma plan_card_links_ids: "link_hrefs (plan_card st p) = [] \<and> elem_ids (plan_card st p) = []"
  by (simp add: plan_card_def Let_def is_link_def cls_def split_def)

lemma pricing_links_ids:
  "link_hrefs (PricingSection_view st b) = [''#faq'']" "elem_ids (PricingSection_view st b) = [''pricing'']"
  by (simp_all add: PricingSection_view_def plans_def plan_card_links_ids period_class_def is_link_def cls_def)

lemma faq_item_links_ids: "link_hrefs (faq_item c o' i f) = [] \<and> elem_ids (faq_item c o' i f) = []"
  by (simp add: faq_item_def is_link_def cls_def)

lemma faq_links_ids:
  "link_hrefs (FAQSection b o') = [''/contact'']" "elem_ids (FAQSection b o') = [''faq'']"
  by (simp_all add: FAQSection_def faq_view_of_def faq_mobile_of_def faq_desktop_of_def faq_cta_def faq_item_links_ids
                    split_def animate_in_def is_link_def cls_def)

lemma card_body_links_ids:
  "concat (map link_hrefs (card_body c t)) = [] \<and> concat (map elem_ids (card_body c t)) = []"
  by (simp add: card_body_def renderStars_def is_link_def cls_def)

lemma testimonials_links_ids:
  assumes "TestimonialsSection_view i b = Inr tv"
  shows "link_hrefs tv = [] \<and> elem_ids tv = []"
proof -
  obtain t where t: "nth_opt testimonials i = Some t" and
    tv: "tv = El ''section'' [cls ''py-20 bg-gradient-to-b from-white to-blue-50 overflow-hidden'']
         [El ''div'' [cls ''container mx-auto px-4 sm:px-6 lg:px-8'']
            [El ''div'' [cls ''max-w-3xl mx-auto text-center mb-16'']
               [El ''motion.div'' [Attr ''variants'' ''headerVariants'']
                  [El ''span'' [cls ''px-4 py-1.5 rounded-full bg-blue-100 text-blue-800 text-sm font-medium inline-block mb-5'']
                     [Txt ''Testimonials''],
                   El ''h2'' [cls ''text-3xl sm:text-4xl font-bold text-gray-900 mb-4''] [Txt ''Trusted by Business Leaders''],
                   El ''p'' [cls ''text-xl text-gray-600'']
                     [Txt ''See how companies like yours have achieved remarkable results with our platform'']]],
             El ''motion.div'' [cls ''flex justify-center'', Attr ''variants'' ''containerVariants'']
               [El ''div'' [cls ''max-w-6xl w-full''] [desktop_grid, projr (carousel i)]],
             stats_banner b]]"
    using assms by (auto simp: TestimonialsSection_view_def carousel_def split: option.splits)
  have "link_hrefs desktop_grid = [] \<and> elem_ids desktop_grid = []"
    by (simp add: desktop_grid_def card_body_links_ids split_def cls_def is_link_def)
  moreover have "link_hrefs (projr (carousel i)) = [] \<and> elem_ids (projr (carousel i)) = []"
    using t by (simp add: carousel_def card_body_links_ids dot_def split_def cls_def is_link_def)
  ultimately show ?thesis
    by (simp add: tv stats_banner_def cls_def is_link_def)
qed

lemma footer_links_ids:
  "elem_ids (Footer_view y :: 'm view) = []"
  "set (link_hrefs (Footer_view y :: 'm view)) =
     {''/'', ''tel:+917421000303'', ''mailto:info@t-crm.com'', ''/features'', ''/pricing'', ''/integrations'', ''/updates'',
      ''/roadmap'', ''/about'', ''/careers'', ''/blog'', ''/press'', ''/partners'', ''/docs'', ''/tutorials'', ''/support'',
      ''/api'', ''/#demo-form'', ''/privacy'', ''/terms'', ''/cookies'', ''/gdpr'', ''/security'',
      ''https://facebook.com'', ''https://twitter.com'', ''https://instagram.com'', ''https://linkedin.com'', ''https://github.com''}"
  by (simp_all add: Footer_view_def footer_company_def footer_column_view_def footerLinks_def newsletter_def socialLinks_def
                    is_link_def cls_def) auto

lemma FormInput_links_ids:
  "link_hrefs (FormInput l n ty v ph er rq opts i) = [] \<and> elem_ids (FormInput l n ty v ph er rq opts i) = [field_name n]"
  by (simp add: FormInput_def Let_def split_def is_link_def cls_def split: option.split)

lemma demo_form_links_ids:
  "set (link_hrefs (DemoForm_view st b)) \<subseteq> {''/privacy''}"
  "\<exists>ids. elem_ids (DemoForm_view st b) = ''demo-form'' # ids \<and> set ids \<subseteq> set (map field_name all_fields)"
  by (simp_all add: DemoForm_view_def demo_success_def demo_form_card_def demo_inputs_def submit_button_def Let_def
                    FormInput_links_ids all_fields_def is_link_def cls_def)


lemma enhance_child_links_ids:
  "link_hrefs (enhance_child (i, c)) = link_hrefs (case c of P3Elem v \<Rightarrow> v | P3Comp n v \<Rightarrow> v)"
  "elem_ids (enhance_child (i, c)) = elem_ids (case c of P3Elem v \<Rightarrow> v | P3Comp n v \<Rightarrow> v)"
  by (simp_all add: enhance_child_def is_link_def cls_def)

lemma site_links_ids:
  assumes "Site_view s = Inr v"
  shows "link_hrefs v = link_hrefs (Header_view (h_header s)) @ [''#demo-form'', ''#features''] @
                        [''#'', ''#'', ''#'', ''#'', ''#'', ''#''] @ [''/#demo-form'', ''#faq'', ''/contact''] @
                        link_hrefs (DemoForm_view (h_demo s) (h_inView s ''demo-form'')) @ link_hrefs (Footer_view (h_year s) :: home_msg view)"
    and "elem_ids v = [''features'', ''productivity'', ''use-cases'', ''clv'', ''collaboration'', ''lead-management'', ''pricing'', ''faq''] @
                      elem_ids (DemoForm_view (h_demo s) (h_inView s ''demo-form''))"
proof -
  obtain tv where tv: "TestimonialsSection_view (h_testimonial s) (h_inView s ''testimonials'') = Inr tv"
    using assms by (cases "TestimonialsSection_view (h_testimonial s) (h_inView s ''testimonials'')")
                   (simp_all add: Site_view_def Home_view_def)
  have t: "link_hrefs tv = [] \<and> elem_ids tv = []" using tv by (rule testimonials_links_ids)
  have v: "v = RootLayoutWrapper_view HeaderMsg (h_header s) (h_year s) (projr (Home_view s))" using assms tv by (simp add: Site_view_def Home_view_def)
  show "link_hrefs v = link_hrefs (Header_view (h_header s)) @ [''#demo-form'', ''#features''] @
                        [''#'', ''#'', ''#'', ''#'', ''#'', ''#''] @ [''/#demo-form'', ''#faq'', ''/contact''] @
                        link_hrefs (DemoForm_view (h_demo s) (h_inView s ''demo-form'')) @ link_hrefs (Footer_view (h_year s) :: home_msg view)"
    using t tv by (simp add: v Home_view_def RootLayoutWrapper_view_def Page3D_view_def enhance_child_links_ids hero_links
                             features_links_ids static_sections_links_ids lead_management_links_ids pricing_links_ids faq_links_ids
                             is_link_def cls_def)
  show "elem_ids v = [''features'', ''productivity'', ''use-cases'', ''clv'', ''collaboration'', ''lead-management'', ''pricing'', ''faq''] @
                      elem_ids (DemoForm_view (h_demo s) (h_inView s ''demo-form''))"
    using t tv by (simp add: v Home_view_def RootLayoutWrapper_view_def Page3D_view_def enhance_child_links_ids hero_ids header_ids
                             features_links_ids static_sections_links_ids lead_management_links_ids pricing_links_ids faq_links_ids
                             footer_links_ids cls_def)
qed


text \<open>The targets of all links of the home page, whatever the state: the header's, the
  sections' and the footer's (the demo form's one link, \<open>/privacy\<close>, is also the footer's).\<close>

lemma site_link_set:
  assumes "Site_view s = Inr v"
  shows "set (link_hrefs v) =
           {''/'', ''/#features'', ''/#solutions'', ''/#pricing'', ''/contact'', ''tel:+917421000303'', ''/login'', ''/#demo-form'', ''/signup''} \<union>
           ({''#demo-form'', ''#features'', ''#'', ''/#demo-form'', ''#faq'', ''/contact''} \<union>
           {''/'', ''tel:+917421000303'', ''mailto:info@t-crm.com'', ''/features'', ''/pricing'', ''/integrations'', ''/updates'',
            ''/roadmap'', ''/about'', ''/careers'', ''/blog'', ''/press'', ''/partners'', ''/docs'', ''/tutorials'', ''/support'',
            ''/api'', ''/#demo-form'', ''/privacy'', ''/terms'', ''/cookies'', ''/gdpr'', ''/security'',
            ''https://facebook.com'', ''https://twitter.com'', ''https://instagram.com'', ''https://linkedin.com'', ''https://github.com''})"
proof -
  let ?D = "set (link_hrefs (DemoForm_view (h_demo s) (h_inView s ''demo-form'')))"
  let ?F = "set (link_hrefs (Footer_view (h_year s) :: home_msg view))"
  have p: "''/privacy'' \<in> ?F" by (simp only: footer_links_ids(2)) simp
  have D: "?D \<union> ?F = ?F" using demo_form_links_ids(1) p by blast
  have C: "set [''#demo-form'', ''#features'', ''#'', ''#'', ''#'', ''#'', ''#'', ''#'', ''/#demo-form'', ''#faq'', ''/contact''] =
             {''#demo-form'', ''#features'', ''#'', ''/#demo-form'', ''#faq'', ''/contact''}" by auto
  have "set (link_hrefs v) = set (link_hrefs (Header_view (h_header s))) \<union> (set [''#demo-form'', ''#features'', ''#'', ''#'', ''#'', ''#'', ''#'', ''#'', ''/#demo-form'', ''#faq'', ''/contact''] \<union> (?D \<union> ?F))"
    by (simp add: site_links_ids(1) [OF assms])
  then have "set (link_hrefs v) = set (link_hrefs (Header_view (h_header s))) \<union> (set [''#demo-form'', ''#features'', ''#'', ''#'', ''#'', ''#'', ''#'', ''#'', ''/#demo-form'', ''#faq'', ''/contact''] \<union> ?F)"
    by (simp only: D)
  then show ?thesis by (simp only: C header_links footer_links_ids(2))
qed


text \<open>
  C29. On the home page, as the layout renders it with any state of its components that
  renders at all, the only in-page link whose target is missing is the header's
  \<open>Solutions\<close> entry \<open>/#solutions\<close>: no section has the id \<open>solutions\<close>, while every
  other \<open>#\<close>-link of the header, the sections and the footer (\<open>#features\<close>,
  \<open>#pricing\<close>, \<open>#faq\<close>, \<open>#demo-form\<close> and the empty fragment) has its target.
\<close>

theorem dead_anchor_solutions:
  assumes "Site_view s = Inr v"
  shows "set (dead_anchors v) = {''/#solutions''}"
proof -
  let ?I = "set (elem_ids v)"
  let ?P = "\<lambda>h. case hash_target h of Some x \<Rightarrow> x \<noteq> [] \<and> x \<notin> ?I | None \<Rightarrow> False"
  obtain ids where d: "elem_ids (DemoForm_view (h_demo s) (h_inView s ''demo-form'')) = ''demo-form'' # ids"
    and ids: "set ids \<subseteq> set (map field_name all_fields)"
    using demo_form_links_ids(2) by blast
  have "''solutions'' \<notin> set ids" using ids by (auto simp: all_fields_def)
  then have I: "''features'' \<in> ?I" "''pricing'' \<in> ?I" "''faq'' \<in> ?I" "''demo-form'' \<in> ?I" "''solutions'' \<notin> ?I"
    by (simp_all add: site_links_ids(2) [OF assms] d)
  have sol: "''/#solutions'' \<in> set (link_hrefs v)" by (simp only: site_link_set [OF assms]) simp
  have P: "\<forall>h \<in> set (link_hrefs v). ?P h = (h = ''/#solutions'')"
    using I by (simp only: site_link_set [OF assms]) (simp add: hash_target_def)
  have "set (dead_anchors v) = {h \<in> set (link_hrefs v). ?P h}"
    by (simp add: dead_anchors_def)
  also have "\<dots> = {h \<in> set (link_hrefs v). h = ''/#solutions''}"
    using P by auto
  also have "\<dots> = {''/#solutions''}" using sol by blast
  finally show ?thesis .
qed

theorem dead_anchor_solutions_witness:
  "\<exists>v. Site_view \<lparr>h_header = init_header, h_highlight = 0, h_cards = (\<lambda>i. (efc_init, comp init_tooltip)),
                     h_tabs = lm_tabs_init, h_testimonial = 0, h_pricing = init_pricing, h_faq = [], h_demo = init_demo,
                     h_inView = (\<lambda>n. False), h_page3d = page3d_init, h_year = 2025\<rparr> = Inr v \<and>
       set (dead_anchors v) = {''/#solutions''}"
proof -
  let ?s = "\<lparr>h_header = init_header, h_highlight = 0, h_cards = (\<lambda>i. (efc_init, comp init_tooltip)),
             h_tabs = lm_tabs_init, h_testimonial = 0, h_pricing = init_pricing, h_faq = [], h_demo = init_demo,
             h_inView = (\<lambda>n. False), h_page3d = page3d_init, h_year = 2025\<rparr>"
  have "\<exists>c. carousel 0 = Inr c" by (simp add: carousel_def nth_opt_def testimonials_def)
  then obtain v where v: "Site_view ?s = Inr v"
    by (auto simp: Site_view_def Home_view_def TestimonialsSection_view_def)
  with dead_anchor_solutions [OF v] show ?thesis by blast
qed


text \<open>The comment of \<open>app/admin/layout.tsx\<close> says that admin pages do not use the 3D
  effect; but the admin layout only adds a \<open>div\<close> inside the root layout, so an admin
  page is rendered inside \<open>Page3D\<close>'s moving \<open>motion.div\<close> and between the marketing
  header and footer, like every other page.\<close>

lemma admin_pages_in_page3d:
  "RootLayoutWrapper_view lift hs year [AdminLayout_view cs] =
     El ''div'' [cls ''perspective-2000'']
       [map_view lift (Header_view hs),
        El ''motion.div'' [cls ''preserve-3d'', Attr ''transition.delay.index'' (string_of_nat 1)]
          [El ''section'' [cls ''section''] [AdminLayout_view cs]],
        Footer_view year]"
  by (simp add: RootLayoutWrapper_view_def Page3D_view_def enhance_child_def is_section_child_def AdminLayout_view_def
                string_of_nat.simps cls_def)

end
