(* ===== verification/UserLogin.thy ===== *)
theory UserLogin
  imports Ui
begin

text \<open>
  The customer login page, \<open>src/Tech crm/src/app/login/page.tsx\<close>. State: the two
  fields, the error message and \<open>isLoading\<close>. \<open>handleLogin\<close> is split at its
  \<open>await\<close>: \<open>ul_login_start\<close> runs up to the one-second timer (and says whether it
  started it), \<open>ul_login_finish\<close> is what runs when the timer fires: the navigation to
  \<open>/\<close> and the \<open>finally\<close>. The promise of \<open>setTimeout\<close> never rejects, so the
  \<open>catch\<close> branch is unreachable and has no counterpart. Field names carry the prefix
  \<open>ul_\<close>, since the admin login of theory AdminLogin has fields of the same names.
\<close>

record ul_state =
  ul_email :: string
  ul_password :: string
  ul_error :: string
  ul_isLoading :: bool

definition ul_init :: ul_state where
  "ul_init = \<lparr>ul_email = [], ul_password = [], ul_error = [], ul_isLoading = False\<rparr>"

datatype ul_msg = ULSetEmail | ULSetPassword | ULSubmit

fun ul_input :: "ul_msg \<Rightarrow> string \<Rightarrow> ul_state \<Rightarrow> ul_state" where
  "ul_input ULSetEmail v st = st\<lparr>ul_email := v\<rparr>"
| "ul_input ULSetPassword v st = st\<lparr>ul_password := v\<rparr>"
| "ul_input ULSubmit v st = st"

definition ul_login_start :: "ul_state \<Rightarrow> ul_state \<times> bool" where
  "ul_login_start st =
     (let st1 = st\<lparr>ul_isLoading := True, ul_error := []\<rparr> in
      if ul_email st = [] \<or> ul_password st = []
      then (st1\<lparr>ul_error := ''Please enter both email and password'', ul_isLoading := False\<rparr>, False)
      else (st1, True))"

text \<open>The timer's continuation: \<open>router.push('/')\<close>, then \<open>setIsLoading(false)\<close>.\<close>

definition ul_login_finish :: "ul_state \<Rightarrow> ul_state \<times> string" where
  "ul_login_finish st = (st\<lparr>ul_isLoading := False\<rparr>, ''/'')"

text \<open>The whole handler on a state where no other event intervenes during the second:
  the new state and the route it navigates to, if any.\<close>

definition ul_handleLogin :: "ul_state \<Rightarrow> ul_state \<times> string option" where
  "ul_handleLogin st =
     (case ul_login_start st of
        (st1, False) \<Rightarrow> (st1, None)
      | (st1, True) \<Rightarrow> (case ul_login_finish st1 of (st2, r) \<Rightarrow> (st2, Some r)))"

definition ul_field :: "string \<Rightarrow> string \<Rightarrow> string \<Rightarrow> string \<Rightarrow> ul_msg \<Rightarrow> ul_msg view" where
  "ul_field i ty v ph m =
     El ''input'' [Attr ''id'' i, Attr ''type'' ty, Attr ''value'' v, On ''change'' m, cls ''form-input'',
                   Attr ''placeholder'' ph, Attr ''required'' ''true''] []"

definition LoginPage_view :: "ul_state \<Rightarrow> ul_msg view" where
  "LoginPage_view st =
     El ''div'' [cls ''min-h-screen pt-24 pb-16 flex items-center justify-center bg-gradient-to-r from-indigo-700/5 to-purple-500/5'']
       [El ''div'' [cls ''w-full max-w-md px-4'']
          [El ''Card3D'' [cls ''overflow-hidden'']
             [El ''motion.div'' [cls ''bg-white rounded-2xl shadow-soft-xl border border-gray-100'']
                [El ''div'' [cls ''p-8'']
                   ([El ''div'' [cls ''text-center mb-8'']
                       [El ''h1'' [cls ''text-2xl font-bold text-gray-900 mb-2''] [Txt ''Welcome Back''],
                        El ''p'' [cls ''text-gray-600''] [Txt ''Log in to your T-CRM account'']]] @
                    (if ul_error st \<noteq> []
                     then [El ''div'' [cls ''mb-6 p-4 bg-rose-50 text-rose-500 rounded-md border border-rose-100 text-sm''] [Txt (ul_error st)]]
                     else []) @
                    [El ''form'' [On ''submit'' ULSubmit, cls ''space-y-4'']
                       [El ''div'' []
                          [El ''label'' [Attr ''htmlFor'' ''email'', cls ''block text-sm font-medium text-gray-700 mb-1''] [Txt ''Email Address''],
                           ul_field ''email'' ''email'' (ul_email st) ''you@example.com'' ULSetEmail],
                        El ''div'' []
                          [El ''div'' [cls ''flex items-center justify-between mb-1'']
                             [El ''label'' [Attr ''htmlFor'' ''password'', cls ''block text-sm font-medium text-gray-700''] [Txt ''Password''],
                              El ''a'' [Attr ''href'' ''#'', cls ''text-xs text-indigo-600 hover:text-indigo-800''] [Txt ''Forgot password?'']],
                           ul_field ''password'' ''password'' (ul_password st)
                             (concat (replicate 8 [CHR 0xE2, CHR 0x80, CHR 0xA2])) ULSetPassword],
                        El ''div'' [cls ''flex items-center'']
                          [El ''input'' [Attr ''id'' ''remember-me'', Attr ''name'' ''remember-me'', Attr ''type'' ''checkbox'',
                                         cls ''h-4 w-4 text-indigo-600 focus:ring-indigo-500 border-gray-300 rounded''] [],
                           El ''label'' [Attr ''htmlFor'' ''remember-me'', cls ''ml-2 block text-sm text-gray-700''] [Txt ''Remember me'']],
                        El ''button'' [Attr ''type'' ''submit'', Attr ''disabled'' (if ul_isLoading st then ''true'' else ''false''),
                                       cls ''w-full py-3 px-4 bg-indigo-600 hover:bg-indigo-700 text-white font-medium rounded-lg transition-colors disabled:opacity-70'']
                          [Txt (if ul_isLoading st then ''Logging in...'' else ''Log In'')]],
                     El ''div'' [cls ''mt-6 text-center'']
                       [El ''p'' [cls ''text-sm text-gray-600'']
                          [Txt ''Don't have an account? '',
                           El ''Link'' [Attr ''href'' ''/signup'', cls ''text-indigo-600 hover:text-indigo-800 font-medium''] [Txt ''Sign up for free'']]]])]]]]"

subsection \<open>Behaviour\<close>

text \<open>The page checks no credentials: every pair of non-empty fields logs in and lands on
  \<open>/\<close>, and an empty field only shows the message, with the button enabled again.\<close>

lemma ul_handleLogin_cases:
  "ul_handleLogin st =
     (if ul_email st = [] \<or> ul_password st = []
      then (st\<lparr>ul_error := ''Please enter both email and password'', ul_isLoading := False\<rparr>, None)
      else (st\<lparr>ul_error := [], ul_isLoading := False\<rparr>, Some ''/''))"
  by (simp add: ul_handleLogin_def ul_login_start_def ul_login_finish_def Let_def)

end
