(* ===== verification/FeaturesSection.thy ===== *)
theory FeaturesSection
  imports Sections Animations
begin

text \<open>
  The tabbed feature section \<open>src/Tech crm/src/components/FeaturesSection.tsx\<close> (the
  home page has it commented out in favour of \<open>EnhancedFeaturesSection\<close>). State: the
  active category id and the title of the hovered feature card. \<open>getCategory\<close> falls
  back to the first category when the id matches none. Hovering is framer-motion's
  \<open>onHoverStart\<close>/\<open>onHoverEnd\<close>; a click selects a category.
\<close>

record feature_item =
  fi_title :: string
  fi_description :: string
  fi_icon :: string

record feature_category =
  cat_id :: string
  cat_name :: string
  cat_features :: "feature_item list"

definition featureCategories :: "feature_category list" where
  "featureCategories =
    [\<lparr>cat_id = ''lead-management'', cat_name = ''Lead Management'', cat_features =
       [\<lparr>fi_title = ''Automated Lead Capture'',
         fi_description = ''Capture leads from various sources like website forms, social media, and email campaigns automatically.'',
         fi_icon = [CHR 0xF0, CHR 0x9F, CHR 0x93, CHR 0xA5]\<rparr>,
        \<lparr>fi_title = ''Lead Scoring'',
         fi_description = ''Prioritize leads based on their engagement and likelihood to convert using our AI-driven scoring system.'',
         fi_icon = [CHR 0xF0, CHR 0x9F, CHR 0x8E, CHR 0xAF]\<rparr>,
        \<lparr>fi_title = ''Pipeline Visualization'',
         fi_description = ''Visual representation of your sales pipeline with drag-and-drop functionality for easy management.'',
         fi_icon = [CHR 0xF0, CHR 0x9F, CHR 0x93, CHR 0x8A]\<rparr>]\<rparr>,
     \<lparr>cat_id = ''customer-management'', cat_name = ''Customer Management'', cat_features =
       [\<lparr>fi_title = ''Unified Customer View'',
         fi_description = ''Get a 360'' @ utf8_degree @ '' view of each customer, including their history, preferences, and interactions.'',
         fi_icon = [CHR 0xF0, CHR 0x9F, CHR 0x91, CHR 0xA5]\<rparr>,
        \<lparr>fi_title = ''Interaction Tracking'',
         fi_description = ''Log all customer interactions across channels for better relationship management.'',
         fi_icon = [CHR 0xF0, CHR 0x9F, CHR 0x94, CHR 0x84]\<rparr>,
        \<lparr>fi_title = ''Sentiment Analysis'',
         fi_description = ''AI-powered sentiment analysis to understand customer satisfaction and potential issues.'',
         fi_icon = [CHR 0xF0, CHR 0x9F, CHR 0x98, CHR 0x8A]\<rparr>]\<rparr>,
     \<lparr>cat_id = ''automation'', cat_name = ''Automation'', cat_features =
       [\<lparr>fi_title = ''Workflow Automation'',
         fi_description = ''Automate repetitive tasks and complex business processes with our visual workflow builder.'',
         fi_icon = [CHR 0xE2, CHR 0x9A, CHR 0x99, CHR 0xEF, CHR 0xB8, CHR 0x8F]\<rparr>,
        \<lparr>fi_title = ''Email Automation'',
         fi_description = ''Create, schedule, and automate personalized email campaigns to nurture leads and customers.'',
         fi_icon = [CHR 0xF0, CHR 0x9F, CHR 0x93, CHR 0xA7]\<rparr>,
        \<lparr>fi_title = ''Follow-up Reminders'',
         fi_description = ''Never miss a follow-up with automated reminders and task creation based on customer activities.'',
         fi_icon = [CHR 0xE2, CHR 0x8F, CHR 0xB0]\<rparr>]\<rparr>,
     \<lparr>cat_id = ''analytics'', cat_name = ''Analytics & Reporting'', cat_features =
       [\<lparr>fi_title = ''Real-time Dashboards'',
         fi_description = ''Visualize key metrics and KPIs with customizable real-time dashboards.'',
         fi_icon = [CHR 0xF0, CHR 0x9F, CHR 0x93, CHR 0x88]\<rparr>,
        \<lparr>fi_title = ''Sales Forecasting'',
         fi_description = ''Predict future sales trends using AI-powered forecasting based on historical data.'',
         fi_icon = [CHR 0xF0, CHR 0x9F, CHR 0x94, CHR 0xAE]\<rparr>,
        \<lparr>fi_title = ''Custom Reports'',
         fi_description = ''Generate detailed reports on any aspect of your business with our drag-and-drop report builder.'',
         fi_icon = [CHR 0xF0, CHR 0x9F, CHR 0x93, CHR 0x84]\<rparr>]\<rparr>]"

record fs_state =
  activeCategory :: string
  hoveredFeature :: "string option"

definition fs_init :: fs_state where
  "fs_init = \<lparr>activeCategory = cat_id (hd featureCategories), hoveredFeature = None\<rparr>"

datatype fs_msg = SelectCategory string | HoverStart string | HoverEnd

fun fs_update :: "fs_msg \<Rightarrow> fs_state \<Rightarrow> fs_state" where
  "fs_update (SelectCategory i) st = st\<lparr>activeCategory := i\<rparr>"
| "fs_update (HoverStart t) st = st\<lparr>hoveredFeature := Some t\<rparr>"
| "fs_update HoverEnd st = st\<lparr>hoveredFeature := None\<rparr>"

text \<open>\<open>featureCategories.find(c => c.id === activeCategory) || featureCategories[0]\<close>.\<close>

definition getCategory :: "fs_state \<Rightarrow> feature_category" where
  "getCategory st =
     (case find (\<lambda>c. cat_id c = activeCategory st) featureCategories of
        Some c \<Rightarrow> c
      | None \<Rightarrow> hd featureCategories)"

definition category_button :: "fs_state \<Rightarrow> nat \<times> feature_category \<Rightarrow> fs_msg view" where
  "category_button st = (\<lambda>(index, c).
     El ''motion.button'' [Attr ''key'' (cat_id c), Attr ''variants'' ''slideUp'', Attr ''custom'' (string_of_nat index),
                           On ''click'' (SelectCategory (cat_id c)),
                           cls (''relative px-6 py-3 rounded-full font-medium transition-all duration-300 '' @
                                (if activeCategory st = cat_id c then ''text-white shadow-md'' else ''text-gray-600 hover:text-indigo-600''))]
       ((if activeCategory st = cat_id c
         then [El ''motion.div'' [cls ''absolute inset-0 bg-gradient-to-r from-indigo-600 to-indigo-800 rounded-full'',
                                  Attr ''layoutId'' ''activeTab''] []]
         else []) @
        [El ''span'' [cls ''relative z-10''] [Txt (cat_name c)]]))"

definition feature_item_card :: "fs_state \<Rightarrow> feature_item \<Rightarrow> fs_msg view" where
  "feature_item_card st f =
     El ''motion.div'' [Attr ''key'' (fi_title f), cls ''relative group'',
                        On ''hoverstart'' (HoverStart (fi_title f)), On ''hoverend'' HoverEnd]
       ([El ''div'' [cls ''h-full p-6 bg-white rounded-2xl border border-gray-100 shadow-sm hover:shadow-md transition-all duration-300 flex flex-col'']
           [El ''div'' [cls ''mb-4 text-4xl'']
              [El ''div'' [cls ''w-16 h-16 flex items-center justify-center rounded-full bg-indigo-100 text-indigo-600''] [Txt (fi_icon f)]],
            El ''h3'' [cls ''text-xl font-bold mb-2 text-gray-900 group-hover:text-indigo-600 transition-colors''] [Txt (fi_title f)],
            El ''p'' [cls ''text-gray-600 flex-grow''] [Txt (fi_description f)],
            El ''div'' [cls ''h-1 w-12 bg-indigo-500 mt-4 rounded-full group-hover:w-full transition-all duration-300''] []]] @
        (if hoveredFeature st = Some (fi_title f)
         then [El ''motion.div'' [cls ''absolute -z-10 inset-0 bg-indigo-50 rounded-2xl'', Attr ''layoutId'' ''featureHover''] []]
         else []))"

definition feature_highlight :: "fs_msg view" where
  "feature_highlight =
     El ''motion.div'' [cls ''max-w-6xl mx-auto grid grid-cols-1 lg:grid-cols-2 gap-12 items-center'']
       [El ''div'' [cls ''relative'']
          [El ''motion.div'' [cls ''absolute -z-10 -inset-4 bg-indigo-50 rounded-3xl''] [],
           El ''div'' [cls ''relative overflow-hidden rounded-2xl bg-white p-2 shadow-lg border border-gray-100'']
             [placeholder_image ''/images/dashboard-preview.jpg'' ''/images/placeholder.jpg'' ''T-CRM Dashboard'' ''600'' ''400''
                ''w-full h-auto rounded-xl transform group-hover:scale-105 transition-transform duration-300'',
              El ''div'' [cls ''absolute bottom-6 left-6 right-6 bg-white/80 backdrop-blur-sm p-4 rounded-lg shadow-sm border border-white'']
                [El ''div'' [cls ''flex items-center'']
                   [El ''div'' [cls ''w-3 h-3 rounded-full bg-green-500 mr-2''] [],
                    El ''p'' [cls ''text-sm text-gray-700 font-medium''] [Txt ''Live data updates every 30 seconds'']]]],
           floating_badge ''-top-6 -right-6'' ''bg-green-100 text-green-600'' [CHR 0xF0, CHR 0x9F, CHR 0x93, CHR 0x88]
             ''+27%'' ''Conversion Rate'' True,
           floating_badge ''-bottom-6 -left-6'' ''bg-blue-100 text-blue-600'' [CHR 0xF0, CHR 0x9F, CHR 0x94, CHR 0x94]
             ''12 Tasks'' ''Due Today'' True],
        FadeIn_view ''''
          [El ''div'' [cls ''relative z-10'']
             [El ''div'' [cls ''inline-block px-3 py-1 rounded-full bg-indigo-100 text-indigo-800 font-medium text-sm mb-3''] [Txt ''Intuitive Interface''],
              El ''h3'' [cls ''text-3xl font-bold mb-6 text-gray-900'']
                [Txt ''Data-Driven Decisions Made '', El ''span'' [cls ''text-indigo-600''] [Txt ''Simple'']],
              El ''div'' [cls ''text-lg text-gray-600 space-y-4'']
                [El ''p'' [] [Txt ''Our intuitive dashboards give you instant visibility into what matters most for your business. Track KPIs, monitor team performance, and identify trends at a glance.''],
                 El ''p'' [] [Txt (''Customize your views to focus on the metrics that drive your business forward. With T-CRM, you don't just collect data'' @
                                   utf8_mdash @ ''you unlock its potential.'')]],
              El ''div'' [cls ''mt-8'']
                [El ''motion.ul'' [cls ''space-y-3'']
                   (map (\<lambda>(index, item).
                           El ''motion.li'' [Attr ''key'' (string_of_nat index), cls ''flex items-start'']
                             [El ''div'' [cls ''flex-shrink-0 w-5 h-5 mt-1 mr-3''] [El ''svg'' [cls ''text-indigo-500 w-5 h-5''] []],
                              El ''span'' [cls ''text-gray-700''] [Txt item]])
                        (enumerate 0 [''Real-time data synchronization'', ''Customizable widget layouts'',
                                      ''Export reports in multiple formats'', ''Set goals and track progress'']))],
              El ''motion.div'' [cls ''mt-8'']
                [El ''button'' [cls ''inline-flex items-center justify-center px-6 py-3 text-base font-medium rounded-full text-white bg-indigo-600 hover:bg-indigo-700 transition-colors shadow-lg hover:shadow-xl hover:-translate-y-1 transform transition-transform'']
                   [Txt ''Explore All Features'', El ''svg'' [cls ''ml-2 -mr-1 w-5 h-5''] []]]]]]"

definition FeaturesSection_view :: "fs_state \<Rightarrow> fs_msg view" where
  "FeaturesSection_view st =
     El ''section'' [Attr ''id'' ''features'', cls ''py-20 bg-gradient-to-b from-white to-gray-50'']
       [El ''div'' [cls ''container px-4'']
          [El ''motion.div'' [cls ''text-center mb-16'']
             [El ''div'' [cls ''inline-block px-3 py-1 rounded-full bg-indigo-100 text-indigo-800 font-medium text-sm mb-3''] [Txt ''Powerful Features''],
              El ''h2'' [cls ''text-3xl md:text-4xl font-bold mb-4 text-gray-900'']
                [Txt ''Everything You Need to '', El ''span'' [cls ''text-indigo-600''] [Txt ''Excel'']],
              El ''p'' [cls ''text-xl text-gray-600 max-w-3xl mx-auto'']
                [Txt ''Our comprehensive suite of tools streamlines your workflow and helps you build better customer relationships.'']],
           El ''div'' [cls ''max-w-5xl mx-auto mb-16'']
             [El ''motion.div'' [cls ''flex flex-wrap justify-center gap-2 md:gap-4 mb-12 relative'', Attr ''variants'' ''staggerContainer'']
                (map (category_button st) (enumerate 0 featureCategories)),
              El ''div'' [cls ''relative min-h-[400px]'']
                [El ''AnimatePresence'' [Attr ''mode'' ''wait'']
                   [El ''motion.div'' [Attr ''key'' (activeCategory st), cls ''grid grid-cols-1 md:grid-cols-3 gap-6'']
                      (map (feature_item_card st) (cat_features (getCategory st)))]]],
           feature_highlight]]"

subsection \<open>Behaviour\<close>

lemma find_Some_mem: "find P xs = Some x \<Longrightarrow> x \<in> set xs"
  by (induction xs) (auto split: if_splits)

lemma getCategory_member: "getCategory st \<in> set featureCategories"
proof (cases "find (\<lambda>c. cat_id c = activeCategory st) featureCategories")
  case None
  have "featureCategories \<noteq> []" by (simp add: featureCategories_def)
  with None show ?thesis by (simp add: getCategory_def)
next
  case (Some c)
  then show ?thesis by (simp add: getCategory_def find_Some_mem)
qed

lemma category_ids: "map cat_id featureCategories = [''lead-management'', ''customer-management'', ''automation'', ''analytics'']"
  by (simp add: featureCategories_def)

lemma find_distinct_key:
  "distinct (map k xs) \<Longrightarrow> c \<in> set xs \<Longrightarrow> find (\<lambda>c'. k c' = k c) xs = Some c"
  by (induction xs) (auto simp: image_iff)

text \<open>A click selects the category whose button was clicked: its features are the ones
  shown afterwards.\<close>

lemma select_shows_category:
  "c \<in> set featureCategories \<Longrightarrow> getCategory (fs_update (SelectCategory (cat_id c)) st) = c"
  using find_distinct_key [of cat_id featureCategories c] category_ids by (simp add: getCategory_def)

end
