(* ===== verification/StyleGuide.thy ===== *)
theory StyleGuide
  imports Ui
begin

text \<open>
  The design-system page: \<open>src/Tech crm/src/components/StyleGuide.tsx\<close> and its route
  \<open>src/Tech crm/src/app/style-guide/page.tsx\<close>. It renders constant data only: the colour
  swatches, the spacing samples and scale, and sample buttons and inputs.
\<close>

record swatch =
  sw_name :: string
  sw_color :: string
  sw_text :: string

definition swatches :: "string \<Rightarrow> string \<Rightarrow> swatch list" where
  "swatches label prefix =
     map (\<lambda>(n, t). \<lparr>sw_name = label @ ''-'' @ n, sw_color = ''bg-'' @ prefix @ ''-'' @ n, sw_text = t\<rparr>)
       [(''50'', ''text-gray-900''), (''100'', ''text-gray-900''), (''200'', ''text-gray-900''), (''300'', ''text-gray-900''),
        (''400'', ''text-gray-900''), (''500'', ''text-white''), (''600'', ''text-white''), (''700'', ''text-white''),
        (''800'', ''text-white''), (''900'', ''text-white'')]"

definition colors :: "swatch list" where
  "colors = swatches ''Primary'' ''primary''"

definition grays :: "swatch list" where
  "grays = swatches ''Gray'' ''gray''"

definition spacingValues :: "string list" where
  "spacingValues =
     [''0'', ''0.25rem'', ''0.5rem'', ''0.75rem'', ''1rem'', ''1.25rem'', ''1.5rem'', ''1.75rem'', ''2rem'', ''2.25rem'', ''2.5rem'',
      ''3rem'', ''4rem'', ''5rem'', ''6rem'', ''8rem'', ''10rem'', ''12rem'', ''16rem'', ''20rem'']"

definition sample :: "string \<Rightarrow> string \<Rightarrow> string \<Rightarrow> string \<Rightarrow> 'm view" where
  "sample tag c label note =
     El ''div'' [] [El tag [cls c] [Txt label], El ''p'' [cls ''text-sm text-gray-500 mt-1''] [Txt note]]"

text \<open>A titled block of samples: its outer attributes, title, vertical spacing and items.\<close>

definition sample_block :: "'m attr list \<Rightarrow> string \<Rightarrow> string \<Rightarrow> 'm view list \<Rightarrow> 'm view" where
  "sample_block outer title sp items =
     El ''div'' outer [El ''h3'' [cls ''text-lg font-medium text-gray-700 mb-3''] [Txt title],
                       El ''div'' [cls (sp @ '' bg-gray-50 p-6 rounded-lg'')] items]"

definition typography :: "'m view" where
  "typography =
     El ''section'' [cls ''mb-16'']
       [El ''h2'' [cls ''text-2xl font-bold mb-6 text-gray-900''] [Txt ''Typography''],
        El ''div'' [cls ''space-y-6'']
          [sample_block [] ''Headings'' ''space-y-4''
             [sample ''h1'' ''text-5xl font-bold text-gray-900'' ''Heading 1'' ''5xl (3rem) | Font Weight: Bold'',
              sample ''h2'' ''text-4xl font-bold text-gray-900'' ''Heading 2'' ''4xl (2.25rem) | Font Weight: Bold'',
              sample ''h3'' ''text-3xl font-bold text-gray-900'' ''Heading 3'' ''3xl (1.875rem) | Font Weight: Bold'',
              sample ''h4'' ''text-2xl font-semibold text-gray-900'' ''Heading 4'' ''2xl (1.5rem) | Font Weight: Semibold'',
              sample ''h5'' ''text-xl font-semibold text-gray-900'' ''Heading 5'' ''xl (1.25rem) | Font Weight: Semibold'',
              sample ''h6'' ''text-lg font-medium text-gray-900'' ''Heading 6'' ''lg (1.125rem) | Font Weight: Medium''],
           sample_block [] ''Body Text'' ''space-y-4''
             [sample ''p'' ''text-xl text-gray-800'' ''Large Body Text (xl)'' ''Used for hero sections and important paragraphs'',
              sample ''p'' ''text-base text-gray-800'' ''Regular Body Text (base)'' ''Default text size for most content'',
              sample ''p'' ''text-sm text-gray-800'' ''Small Body Text (sm)'' ''Used for secondary information and metadata''],
           sample_block [] ''Font Weights'' ''space-y-4''
             (map (\<lambda>(w, l). El ''p'' [cls (w @ '' text-lg text-gray-900'')] [Txt l])
                [(''font-light'', ''Light (300)''), (''font-normal'', ''Regular (400)''), (''font-medium'', ''Medium (500)''),
                 (''font-semibold'', ''Semibold (600)''), (''font-bold'', ''Bold (700)'')])]]"

definition swatch_grid :: "'m attr list \<Rightarrow> string \<Rightarrow> swatch list \<Rightarrow> 'm view" where
  "swatch_grid outer title ws =
     El ''div'' outer
       [El ''h3'' [cls ''text-lg font-medium text-gray-700 mb-3''] [Txt title],
        El ''div'' [cls ''grid grid-cols-2 md:grid-cols-5 gap-4'']
          (map (\<lambda>w. El ''div'' [Attr ''key'' (sw_name w), cls (sw_color w @ '' p-4 rounded-lg shadow-sm'')]
                      [El ''div'' [cls (sw_text w @ '' font-medium'')] [Txt (sw_name w)]]) ws)]"

text \<open>The spacing scale labels each value with its position in \<open>spacingValues\<close>.\<close>

definition spacing_section :: "'m view" where
  "spacing_section =
     El ''section'' [cls ''mb-16'']
       [El ''h2'' [cls ''text-2xl font-bold mb-6 text-gray-900''] [Txt ''Spacing''],
        El ''div'' [cls ''bg-gray-50 p-6 rounded-lg'']
          [El ''div'' [cls ''flex flex-wrap gap-4'']
             (map (\<lambda>space. El ''div'' [Attr ''key'' (string_of_nat space), cls ''text-center'']
                             [El ''div'' [cls (''w-'' @ string_of_nat space @ '' h-'' @ string_of_nat space @ '' bg-primary-500 mb-2 mx-auto'')] [],
                              El ''p'' [cls ''text-sm text-gray-600''] [Txt (string_of_nat space)]])
                  [1, 2, 3, 4, 6, 8, 12, 16]),
           El ''div'' [cls ''mt-6'']
             [El ''h3'' [cls ''text-lg font-medium text-gray-700 mb-2''] [Txt ''Spacing Scale''],
              El ''p'' [cls ''text-gray-600 mb-4''] [Txt ''We use a 4px (0.25rem) spacing scale. Common values:''],
              El ''div'' [cls ''grid grid-cols-2 md:grid-cols-4 gap-y-2 text-sm'']
                (map (\<lambda>(index, value). El ''div'' [Attr ''key'' (string_of_nat index), cls ''flex items-center gap-2'']
                                        [El ''span'' [cls ''text-gray-500''] [Txt (string_of_nat index @ '':'')],
                                         El ''span'' [cls ''text-gray-900''] [Txt value]])
                     (enumerate 0 spacingValues))]]]"

definition buttons_section :: "'m view" where
  "buttons_section =
     sample_block [cls ''mb-8''] ''Buttons'' ''space-y-6''
       [El ''div'' [cls ''space-y-4'']
          [El ''h4'' [cls ''text-base font-medium text-gray-700''] [Txt ''Primary Buttons''],
           El ''div'' [cls ''flex flex-wrap gap-4'']
             (map (\<lambda>(c, l). El ''button'' [cls c] [Txt l])
                [(''btn-primary'', ''Primary Button''), (''btn-primary bg-primary-700'', ''Primary Dark''),
                 (''btn-primary bg-primary-500'', ''Primary Light''), (''btn-primary opacity-50 cursor-not-allowed'', ''Disabled'')])],
        El ''div'' [cls ''space-y-4'']
          [El ''h4'' [cls ''text-base font-medium text-gray-700''] [Txt ''Secondary Buttons''],
           El ''div'' [cls ''flex flex-wrap gap-4'']
             (map (\<lambda>(c, l). El ''button'' [cls c] [Txt l])
                [(''btn-secondary'', ''Secondary Button''), (''btn-secondary border-gray-400'', ''Secondary Dark''),
                 (''btn-secondary bg-gray-50'', ''Secondary Light''), (''btn-secondary opacity-50 cursor-not-allowed'', ''Disabled'')])],
        El ''div'' [cls ''space-y-4'']
          [El ''h4'' [cls ''text-base font-medium text-gray-700''] [Txt ''Button Sizes''],
           El ''div'' [cls ''flex flex-wrap items-center gap-4'']
             (map (\<lambda>(c, l). El ''button'' [cls c] [Txt l])
                [(''btn-primary text-sm px-3 py-1.5'', ''Small''), (''btn-primary'', ''Medium (Default)''),
                 (''btn-primary text-lg px-5 py-2.5'', ''Large'')])]]"

definition form_samples :: "'m view" where
  "form_samples =
     sample_block [] ''Form Elements'' ''space-y-6''
       [El ''div'' [cls ''space-y-4'']
          [El ''h4'' [cls ''text-base font-medium text-gray-700''] [Txt ''Text Inputs''],
           El ''div'' [cls ''space-y-4 max-w-md'']
             [El ''div'' []
                [El ''label'' [Attr ''htmlFor'' ''demo-input'', cls ''block text-sm font-medium text-gray-700 mb-1''] [Txt ''Input Label''],
                 El ''input'' [Attr ''type'' ''text'', Attr ''id'' ''demo-input'',
                               cls ''w-full rounded-lg border border-gray-300 px-4 py-3 focus:outline-none focus:ring-2 focus:ring-primary-500 focus:border-transparent'',
                               Attr ''placeholder'' ''Placeholder text''] []],
              El ''div'' []
                [El ''label'' [Attr ''htmlFor'' ''demo-input-error'', cls ''block text-sm font-medium text-gray-700 mb-1''] [Txt ''Input with Error''],
                 El ''input'' [Attr ''type'' ''text'', Attr ''id'' ''demo-input-error'',
                               cls ''w-full rounded-lg border border-red-300 px-4 py-3 focus:outline-none focus:ring-2 focus:ring-red-500 focus:border-transparent'',
                               Attr ''placeholder'' ''Placeholder text''] [],
                 El ''p'' [cls ''mt-1 text-sm text-red-600''] [Txt ''This field is required'']]]]]"

definition StyleGuide_view :: "'m view" where
  "StyleGuide_view =
     El ''div'' [cls ''py-16 md:py-24 bg-white'']
       [El ''div'' [cls ''container'']
          [El ''div'' [cls ''max-w-5xl mx-auto'']
             [El ''h1'' [cls ''text-4xl md:text-5xl font-bold mb-12 text-gray-900''] [Txt ''T-CRM Style Guide''],
              typography,
              El ''section'' [cls ''mb-16'']
                [El ''h2'' [cls ''text-2xl font-bold mb-6 text-gray-900''] [Txt ''Colors''],
                 swatch_grid [cls ''mb-8''] ''Primary Colors'' colors,
                 swatch_grid [] ''Grayscale'' grays],
              spacing_section,
              El ''section'' [cls ''mb-16'']
                [El ''h2'' [cls ''text-2xl font-bold mb-6 text-gray-900''] [Txt ''Components''],
                 buttons_section,
                 form_samples]]]]"

definition StyleGuidePage_view :: "'m view" where
  "StyleGuidePage_view = El ''main'' [cls ''flex min-h-screen flex-col''] [El ''div'' [cls ''pt-24''] [StyleGuide_view]]"

end
