(* ===== verification/App.thy ===== *)
theory App
  imports Home UserLogin Signup AdminDashboard StyleGuide
begin

text \<open>
  The application as Next.js serves it: the root layout \<open>src/Tech crm/src/app/layout.tsx\<close>
  (the \<open>html\<close> document, its metadata and viewport, and the \<open>RootLayoutWrapper\<close>
  around every page), the pages of \<open>src/Tech crm/src/app\<close> with the admin layout around
  the three admin pages, and the navigation between them: the links of the rendered
  pages and the \<open>router.push\<close> targets of the handlers; and, on the form pages, the
  controls the labels name. A page exists when its
  directory under \<open>app/\<close> has a \<open>page.tsx\<close>; the route handlers under \<open>app/api\<close>
  answer their own paths.
\<close>

subsection \<open>The document\<close>

record site_metadata =
  md_title_template :: string
  md_title_default :: string
  md_description :: string
  md_keywords :: "string list"
  md_authors :: "string list"
  md_creator :: string
  md_publisher :: string

definition metadata :: site_metadata where
  "metadata =
     \<lparr>md_title_template = ''%s | T-CRM'',
      md_title_default = ''T-CRM - Modern Customer Relationship Management'',
      md_description = ''Enterprise-grade CRM solution for growing businesses - manage leads, track sales, and build customer relationships.'',
      md_keywords = [''CRM'', ''customer relationship management'', ''sales management'', ''lead tracking'', ''customer data'', ''sales automation''],
      md_authors = [''T-CRM Team''],
      md_creator = ''T-CRM'',
      md_publisher = ''T-CRM Solutions''\<rparr>"

record viewport_cfg =
  vp_themeColor :: "(string \<times> string) list"
  vp_width :: string
  vp_initialScale :: nat

definition viewport :: viewport_cfg where
  "viewport =
     \<lparr>vp_themeColor = [(''(prefers-color-scheme: light)'', ''#ffffff''), (''(prefers-color-scheme: dark)'', ''#0f172a'')],
      vp_width = ''device-width'', vp_initialScale = 1\<rparr>"

text \<open>\<open>next/font\<close> gives each font object a generated class name in \<open>variable\<close>; the three
  names are a parameter of the document.\<close>

record font_vars =
  poppins_variable :: string
  montserrat_variable :: string
  inter_variable :: string

definition RootLayout_view :: "font_vars \<Rightarrow> 'm view list \<Rightarrow> 'm view" where
  "RootLayout_view f children =
     El ''html'' [Attr ''lang'' ''en'']
       [El ''body'' [cls (poppins_variable f @ '' '' @ montserrat_variable f @ '' '' @ inter_variable f @ '' font-sans antialiased'')]
          children]"

subsection \<open>The pages\<close>

datatype route = RHome | RLogin | RSignup | RStyleGuide | RAdmin | RAdminLogin | RAdminDashboard

fun route_path :: "route \<Rightarrow> string" where
  "route_path RHome = ''/''"
| "route_path RLogin = ''/login''"
| "route_path RSignup = ''/signup''"
| "route_path RStyleGuide = ''/style-guide''"
| "route_path RAdmin = ''/admin''"
| "route_path RAdminLogin = ''/admin/login''"
| "route_path RAdminDashboard = ''/admin/dashboard''"

definition routes :: "route list" where
  "routes = [RHome, RLogin, RSignup, RStyleGuide, RAdmin, RAdminLogin, RAdminDashboard]"

definition api_paths :: "string list" where
  "api_paths = [''/api/submit-form'', ''/api/get-submissions'']"

text \<open>The path of a URL: what precedes its query or fragment.\<close>

definition url_path :: "string \<Rightarrow> string" where
  "url_path h = takeWhile (\<lambda>c. c \<noteq> CHR ''#'' \<and> c \<noteq> CHR ''?'') h"

definition route_of_path :: "string \<Rightarrow> route option" where
  "route_of_path p = find (\<lambda>r. route_path r = url_path p) routes"

definition path_exists :: "string \<Rightarrow> bool" where
  "path_exists p = (route_of_path p \<noteq> None \<or> url_path p \<in> set api_paths)"

text \<open>\<open>AdminIndex\<close> (\<open>app/admin/page.tsx\<close>) renders a spinner while its effect
  (\<open>adminIndex_effect\<close> of theory AdminLogin) redirects.\<close>

definition AdminIndex_view :: "'m view" where
  "AdminIndex_view =
     El ''div'' [cls ''min-h-screen flex items-center justify-center'']
       [El ''div'' [cls ''animate-spin rounded-full h-12 w-12 border-b-2 border-indigo-500''] []]"

datatype app_msg =
    HomeMsg home_msg
  | LoginMsg ul_msg
  | SignupMsg signup_msg
  | AdminLoginMsg login_msg
  | DashMsg dash_msg

text \<open>The state of every page's components; the header and the footer's year are those
  of the home state, since the root layout renders them around every page.\<close>

record app_state =
  a_home :: home_state
  a_login :: ul_state
  a_signup :: signup_state
  a_admin_login :: login_state
  a_dash :: dash_state

definition page_content ::
  "(json option \<Rightarrow> string) \<Rightarrow> (rat \<Rightarrow> string) \<Rightarrow> route \<Rightarrow> app_state \<Rightarrow> js_error + app_msg view list" where
  "page_content date_text num_text r s =
     (case r of
        RHome \<Rightarrow> sum_bind (Home_view (a_home s)) (\<lambda>vs. Inr (map (map_view HomeMsg) vs))
      | RLogin \<Rightarrow> Inr [map_view LoginMsg (LoginPage_view (a_login s))]
      | RSignup \<Rightarrow> Inr [map_view SignupMsg (SignupPage_view (a_signup s))]
      | RStyleGuide \<Rightarrow> Inr [StyleGuidePage_view]
      | RAdmin \<Rightarrow> Inr [AdminLayout_view [AdminIndex_view]]
      | RAdminLogin \<Rightarrow> Inr [AdminLayout_view [map_view AdminLoginMsg (login_view (a_admin_login s))]]
      | RAdminDashboard \<Rightarrow>
          sum_bind (AdminDashboard_view date_text num_text (a_dash s)) (\<lambda>v. Inr [AdminLayout_view [map_view DashMsg v]]))"

definition Document_view ::
  "font_vars \<Rightarrow> (json option \<Rightarrow> string) \<Rightarrow> (rat \<Rightarrow> string) \<Rightarrow> route \<Rightarrow> app_state \<Rightarrow> js_error + app_msg view" where
  "Document_view f date_text num_text r s =
     sum_bind (page_content date_text num_text r s) (\<lambda>c.
       Inr (RootLayout_view f [RootLayoutWrapper_view (HomeMsg \<circ> HeaderMsg) (h_header (a_home s)) (h_year (a_home s)) c]))"

text \<open>The state in which a first visit renders every page: each component's initial
  hooks, no section scrolled into view, and the current year \<open>y\<close>.\<close>

definition home_init :: "nat \<Rightarrow> home_state" where
  "home_init y =
     \<lparr>h_header = init_header, h_highlight = 0, h_cards = (\<lambda>i. (efc_init, comp init_tooltip)),
      h_tabs = lm_tabs_init, h_testimonial = 0, h_pricing = init_pricing, h_faq = [], h_demo = init_demo,
      h_inView = (\<lambda>n. False), h_page3d = page3d_init, h_year = y\<rparr>"

definition app_init :: "nat \<Rightarrow> app_state" where
  "app_init y =
     \<lparr>a_home = home_init y, a_login = ul_init, a_signup = init_signup, a_admin_login = init_login, a_dash = init_dash\<rparr>"

subsection \<open>Navigation\<close>

text \<open>The links of a page that lead to no page: a path on this site (\<open>/\<dots>\<close>) that no
  \<open>page.tsx\<close> and no route handler serves; Next.js answers them with its 404 page.\<close>

definition dead_page_links :: "'m view \<Rightarrow> string list" where
  "dead_page_links v = filter (\<lambda>h. take 1 h = ''/'' \<and> \<not> path_exists h) (link_hrefs v)"

text \<open>The controls the \<open>label\<close> elements of a tree name in \<open>htmlFor\<close>.\<close>

fun label_fors :: "'m view \<Rightarrow> string list" where
  "label_fors (Txt s) = []"
| "label_fors (El tag as cs) =
     (if tag = ''label'' then (case attr_value ''htmlFor'' as of Some i \<Rightarrow> [i] | None \<Rightarrow> []) else []) @
     concat (map label_fors cs)"

lemma route_of_path_route_path: "route_of_path (route_path r) = Some r"
  by (cases r) (simp_all add: route_of_path_def routes_def url_path_def)

lemma set_filter_exactly:
  assumes "\<forall>x \<in> set xs. P x = (x \<in> D)" "D \<subseteq> set xs"
  shows "set (filter P xs) = D"
  using assms by auto

text \<open>The home document links to what the home page of theory Home links to.\<close>

lemma document_home_links:
  assumes "Document_view f date_text num_text RHome s = Inr v"
  shows "\<exists>w. Site_view (a_home s) = Inr w \<and> set (link_hrefs v) = set (link_hrefs w)"
  using assms
  by (cases "Home_view (a_home s)")
     (auto simp: Document_view_def page_content_def Site_view_def RootLayout_view_def RootLayoutWrapper_view_def
                 Page3D_view_def enhance_child_links_ids footer_links_ids(2) is_link_def cls_def)

text \<open>Every \<open>router.push\<close> of the handlers leads to an existing page: the customer
  login's \<open>/\<close>, the admin sign-in's \<open>/admin/dashboard\<close>, the admin entry page's two
  redirects, and the dashboard's redirect and logout to \<open>/admin/login\<close>.\<close>

lemma navigation_targets_exist:
  "path_exists (snd (ul_login_finish st))"
  "snd (snd (handleLogin lst ls)) = Some p \<Longrightarrow> path_exists p"
  "path_exists (adminIndex_effect ls)"
  "fst (snd (dashboard_effect ls d)) = Some q \<Longrightarrow> path_exists q"
  "path_exists (snd (handleLogout ls))"
  by (auto simp: path_exists_def route_of_path_def routes_def url_path_def ul_login_finish_def handleLogin_def Let_def
                 adminIndex_effect_def dashboard_effect_def handleLogout_def split: if_splits)

text \<open>
  C23. Every visit to the home page, in any state of its components that renders,
  shows exactly twenty links to pages the site does not have: the header's and the
  FAQ's \<open>/contact\<close>, and the footer's product, company, resource and legal links
  (\<open>/features\<close> \<open>\<dots>\<close> \<open>/security\<close>). Every other link of the page is external, an
  in-page fragment, or one of \<open>/\<close>, \<open>/login\<close> and \<open>/signup\<close>.
\<close>

theorem home_dead_page_links:
  assumes "Document_view f date_text num_text RHome s = Inr v"
  shows "set (dead_page_links v) =
           {''/contact'', ''/features'', ''/pricing'', ''/integrations'', ''/updates'', ''/roadmap'', ''/about'', ''/careers'',
            ''/blog'', ''/press'', ''/partners'', ''/docs'', ''/tutorials'', ''/support'', ''/api'', ''/privacy'', ''/terms'',
            ''/cookies'', ''/gdpr'', ''/security''}"
    (is "_ = ?D")
proof -
  obtain w where w: "Site_view (a_home s) = Inr w" and l: "set (link_hrefs v) = set (link_hrefs w)"
    using document_home_links [OF assms] by blast
  show ?thesis unfolding dead_page_links_def
  proof (rule set_filter_exactly)
    show "\<forall>h \<in> set (link_hrefs v). (take 1 h = ''/'' \<and> \<not> path_exists h) = (h \<in> ?D)"
      by (simp only: l site_link_set [OF w])
         (simp add: path_exists_def route_of_path_def routes_def url_path_def api_paths_def)
    show "?D \<subseteq> set (link_hrefs v)"
      by (simp only: l site_link_set [OF w]) simp
  qed
qed

theorem home_dead_page_links_witness:
  "\<exists>v. Document_view \<lparr>poppins_variable = ''p'', montserrat_variable = ''m'', inter_variable = ''i''\<rparr>
         (\<lambda>_. ''date'') (\<lambda>_. ''n'') RHome (app_init 2025) = Inr v \<and>
       set (dead_page_links v) =
         {''/contact'', ''/features'', ''/pricing'', ''/integrations'', ''/updates'', ''/roadmap'', ''/about'', ''/careers'',
          ''/blog'', ''/press'', ''/partners'', ''/docs'', ''/tutorials'', ''/support'', ''/api'', ''/privacy'', ''/terms'',
          ''/cookies'', ''/gdpr'', ''/security''}"
proof -
  have "\<exists>c. carousel 0 = Inr c" by (simp add: carousel_def nth_opt_def testimonials_def)
  then obtain v where v: "Document_view \<lparr>poppins_variable = ''p'', montserrat_variable = ''m'', inter_variable = ''i''\<rparr>
                             (\<lambda>_. ''date'') (\<lambda>_. ''n'') RHome (app_init 2025) = Inr v"
    by (auto simp: Document_view_def page_content_def Home_view_def TestimonialsSection_view_def app_init_def home_init_def)
  with home_dead_page_links [OF v] show ?thesis by blast
qed

subsection \<open>Labels of the forms\<close>

lemma FormInput_labels: "label_fors (FormInput l n ty v ph er rq opts i) = [field_name n]"
  by (simp add: FormInput_def Let_def split_def cls_def)

lemma signup_input_labels:
  "label_fors (signup_input f name label ty ac ph v err) = [name] \<and> elem_ids (signup_input f name label ty ac ph v err) = [name]"
  by (simp add: signup_input_def cls_def split: option.split)

text \<open>On every form of the site, each \<open>label\<close> names the id of an element of its page, and
  no id occurs twice: the customer login, the sign-up form, the admin sign-in, the style
  guide's sample inputs and the demo-request form.\<close>

lemma form_labels_target_ids:
  "set (label_fors (LoginPage_view st)) \<subseteq> set (elem_ids (LoginPage_view st)) \<and> distinct (elem_ids (LoginPage_view st))"
  "set (label_fors (login_view lst)) \<subseteq> set (elem_ids (login_view lst)) \<and> distinct (elem_ids (login_view lst))"
  "set (label_fors (StyleGuidePage_view :: 'm view)) \<subseteq> set (elem_ids (StyleGuidePage_view :: 'm view)) \<and>
   distinct (elem_ids (StyleGuidePage_view :: 'm view))"
  by (simp_all add: LoginPage_view_def ul_field_def login_view_def StyleGuidePage_view_def StyleGuide_view_def typography_def
                    sample_block_def sample_def swatch_grid_def spacing_section_def buttons_section_def form_samples_def
                    colors_def grays_def swatches_def spacingValues_def cls_def split_def)

lemma signup_demo_labels_target_ids:
  "set (label_fors (SignupPage_view st)) \<subseteq> set (elem_ids (SignupPage_view st)) \<and> distinct (elem_ids (SignupPage_view st))"
  "set (label_fors (DemoForm_view dst b)) \<subseteq> set (elem_ids (DemoForm_view dst b)) \<and> distinct (elem_ids (DemoForm_view dst b))"
  by (simp_all add: SignupPage_view_def signup_success_card_def signup_form_card_def signup_input_labels Let_def
                    DemoForm_view_def demo_success_def demo_form_card_def demo_inputs_def submit_button_def
                    FormInput_links_ids FormInput_labels all_fields_def cls_def)

end
