(* ===== verification/NextConfig.thy ===== *)
theory NextConfig
  imports FeaturesSection PlaceholderImage
begin

text \<open>
  The Next.js configuration \<open>src/next.config.js\<close> and the one run-time check it feeds:
  \<open>next/image\<close> renders an absolute image URL only when it matches one of
  \<open>images.remotePatterns\<close> (protocol, hostname and pathname), and throws otherwise; a
  path starting with \<open>/\<close> is a file of \<open>public/\<close> and needs no pattern. Patterns are
  globs; the configuration uses a literal hostname and the pathname \<open>**\<close>, which
  matches every path, and only these two forms are modelled. The other settings
  (strict mode, skipping type and lint errors at build time) do not change what runs.
\<close>

record remote_pattern =
  rp_protocol :: string
  rp_hostname :: string
  rp_pathname :: string

record next_config =
  reactStrictMode :: bool
  ignoreBuildErrors :: bool
  ignoreDuringBuilds :: bool
  remotePatterns :: "remote_pattern list"

definition nextConfig :: next_config where
  "nextConfig =
     \<lparr>reactStrictMode = True, ignoreBuildErrors = True, ignoreDuringBuilds = True,
      remotePatterns = [\<lparr>rp_protocol = ''https'', rp_hostname = ''images.unsplash.com'', rp_pathname = ''**''\<rparr>]\<rparr>"

definition glob_match :: "string \<Rightarrow> string \<Rightarrow> bool" where
  "glob_match p s = (p = ''**'' \<or> p = s)"

text \<open>An absolute URL \<open>proto://host/path?query\<close> split into protocol, host and path.\<close>

definition split_url :: "string \<Rightarrow> (string \<times> string \<times> string) option" where
  "split_url u =
     (let proto = takeWhile (\<lambda>c. c \<noteq> CHR '':'') u; rest = drop (length proto) u in
      if take 3 rest = ''://'' then
        (let hp = drop 3 rest; host = takeWhile (\<lambda>c. c \<noteq> CHR ''/'') hp in
         Some (proto, host, takeWhile (\<lambda>c. c \<noteq> CHR ''?'') (drop (length host) hp)))
      else None)"

definition remote_allowed :: "next_config \<Rightarrow> string \<Rightarrow> bool" where
  "remote_allowed cfg u =
     (case split_url u of
        Some (proto, host, path) \<Rightarrow>
          list_ex (\<lambda>p. rp_protocol p = proto \<and> glob_match (rp_hostname p) host \<and> glob_match (rp_pathname p) path)
                  (remotePatterns cfg)
      | None \<Rightarrow> False)"

definition image_src_allowed :: "next_config \<Rightarrow> string \<Rightarrow> bool" where
  "image_src_allowed cfg src = (take 1 src = ''/'' \<or> remote_allowed cfg src)"

text \<open>The image sources of a rendered tree: the \<open>src\<close> of each \<open>next/image\<close> element, and
  the \<open>src\<close> and \<open>fallbackSrc\<close> of each \<open>PlaceholderImage\<close>, which passes them on.\<close>

primrec opt_list :: "'a option \<Rightarrow> 'a list" where
  "opt_list None = []"
| "opt_list (Some x) = [x]"

fun image_srcs :: "'m view \<Rightarrow> string list" where
  "image_srcs (Txt s) = []"
| "image_srcs (El tag as cs) =
     (if tag = ''Image'' then opt_list (attr_value ''src'' as)
      else if tag = ''PlaceholderImage'' then opt_list (attr_value ''src'' as) @ opt_list (attr_value ''fallbackSrc'' as)
      else []) @ concat (map image_srcs cs)"

subsection \<open>Every rendered image is allowed\<close>

lemma pimg_update_src:
  "imgSrc st \<in> {src, fb} \<Longrightarrow> imgSrc (pimg_update fb m st) \<in> {src, fb}"
  by (cases m) (auto simp: handleError_def handleLoad_def)

text \<open>Whatever loads and failures occur, \<open>PlaceholderImage\<close> shows its \<open>src\<close> or its
  \<open>fallbackSrc\<close>.\<close>

lemma pimg_run_src: "imgSrc (pimg_run fb ms (init_pimg src)) \<in> {src, fb}"
proof -
  have "imgSrc st \<in> {src, fb} \<Longrightarrow> imgSrc (fold (pimg_update fb) ms st) \<in> {src, fb}" for st
  proof (induction ms arbitrary: st)
    case Nil
    then show ?case by simp
  next
    case (Cons m ms)
    from Cons.prems have "imgSrc (pimg_update fb m st) \<in> {src, fb}" by (rule pimg_update_src)
    then show ?case using Cons.IH by simp
  qed
  then show ?thesis by (simp add: pimg_run_def init_pimg_def)
qed

text \<open>
  C33. If \<open>next.config.js\<close> allows the \<open>src\<close> and the \<open>fallbackSrc\<close> given to
  \<open>PlaceholderImage\<close>, then whatever loads and failures occur, every image it renders
  passes \<open>next/image\<close>'s check, so the component never makes \<open>next/image\<close> throw.
\<close>

theorem placeholder_render_allowed:
  assumes "image_src_allowed cfg src" "image_src_allowed cfg fb"
  shows "list_all (image_src_allowed cfg)
           (image_srcs (PlaceholderImage_view alt w h c (pimg_run fb ms (init_pimg src))))"
  using pimg_run_src [of fb ms src] assms
  by (auto simp: PlaceholderImage_view_def cls_def)

theorem placeholder_render_allowed_witness:
  "list_all (image_src_allowed nextConfig)
     (image_srcs (PlaceholderImage_view ''Team'' 600 400 [] (pimg_run ''/images/team.svg'' [ImgError, ImgLoad]
        (init_pimg ''https://images.unsplash.com/photo-1?w=600''))))"
proof -
  have a: "image_src_allowed nextConfig ''https://images.unsplash.com/photo-1?w=600''"
       "image_src_allowed nextConfig ''/images/team.svg''"
    by (simp_all add: image_src_allowed_def remote_allowed_def split_url_def nextConfig_def glob_match_def)
  from placeholder_render_allowed [OF a] show ?thesis .
qed

text \<open>The images the sections pass to \<open>PlaceholderImage\<close>: two photographs on
  \<open>images.unsplash.com\<close> (each section's source and fallback) and the local preview of
  \<open>FeaturesSection\<close>; \<open>next.config.js\<close> allows them all, while an image from any other
  host would make \<open>next/image\<close> throw.\<close>

lemma section_images_allowed:
  "list_all (image_src_allowed nextConfig)
     (image_srcs (ProductivitySection_view b :: 'm view) @ image_srcs (CLVSection_view b :: 'm view) @ image_srcs feature_highlight)"
  "\<not> image_src_allowed nextConfig ''https://example.com/photo.jpg''"
  by (simp_all add: ProductivitySection_view_def CLVSection_view_def feature_highlight_def productivity_benefits_def strategies_def
                    placeholder_image_def floating_badge_def in_view_ref_def fade_def FadeIn_view_def in_view_wrapper_def cls_def image_src_allowed_def
                    remote_allowed_def split_url_def nextConfig_def glob_match_def)

end
