(* ===== verification/Spec2Isabelle.thy ===== *)
theory Spec2Isabelle
  imports EventLoop DemoFormView Faq Pricing Card3D AdminDashboard Testimonials Signup PlaceholderImage
    AnimatedTooltip Header Hero FeatureCard Home
    UserLogin Animations FeaturesSection StyleGuide App NextConfig Page3D
begin

text \<open>
  \<^bold>\<open>A verification development of PulseCRM (T-CRM), \<open>src/Tech crm\<close>.\<close>

  \<^bold>\<open>The program.\<close> A Next.js marketing site for a CRM product. Its one data path is
  the demo-request form: the client component \<open>components/DemoForm.tsx\<close> validates
  the form and posts it as JSON to the route \<open>app/api/submit-form/route.ts\<close>, whose
  \<open>POST\<close> handler validates the body again, reads \<open>data/submissions.json\<close>, appends the
  body with a server timestamp and writes the whole array back; the route
  \<open>app/api/get-submissions/route.ts\<close> returns the file's content, and the admin pages
  under \<open>app/admin\<close> (a hard-coded login kept in \<open>localStorage\<close>) show it as a table.
  Every page is rendered by \<open>app/layout.tsx\<close> through \<open>RootLayoutWrapper\<close>, which puts
  the header, the page and the footer inside the scroll- and mouse-driven 3D wrapper
  \<open>ui/Page3D\<close>. The home page \<open>app/page.tsx\<close> stacks the landing sections; the other
  routes are the customer login and sign-up pages, the style guide and the admin pages.

  \<^bold>\<open>How a component is modelled.\<close> A React component is a view function from its
  props and state to a tree \<open>'m view\<close> (theory \<open>Ui\<close>: elements with attributes and
  event handlers carrying a message of type \<open>'m\<close>, and text). Each \<open>useState\<close> hook
  is a field of a record; each handler is a function on that record, with its guards
  and early returns as branches; a handler that awaits is split at the \<open>await\<close>. A
  child component is either its own view function, called with a message-lifting
  function (\<open>map_view\<close>), or, for library components, an element with the child's
  name and props. framer-motion animation props are attributes; their timing numbers
  are kept only where a property is about them (tilt, parallax, transforms).

  \<^bold>\<open>Theories.\<close>
  \<^item> \<open>Prelude\<close>: the exception type \<open>js_error\<close>, the state-and-exception type
    \<open>('s, 'a) io\<close> with \<open>io_bind\<close> and \<open>io_catch\<close> (JavaScript's sequencing and
    \<open>try\<close>/\<open>catch\<close>), list lemmas, and the \<open>named_theorems\<close> collections.
  \<^item> \<open>JsString\<close>: strings as UTF-8 bytes read as JavaScript reads them: the
    characters (\<open>utf8_chars\<close>), the Unicode whitespace of \<open>\s\<close> and \<open>trim()\<close>
    (\<open>js_ws\<close>, \<open>js_trim\<close>), and the UTF-16 code units and \<open>length\<close>
    (\<open>utf16_units\<close>, \<open>js_length\<close>), with \<open>js_length s \<le> length s\<close>.
  \<^item> \<open>Json\<close>, \<open>FormStore\<close>, \<open>EventLoop\<close>: JSON values and truthiness; the two
    route handlers over the record \<open>fs\<close> (the file: absent, parsed, or unreadable;
    whether writes succeed), one equation per branch of \<open>POST\<close> and the split
    \<open>POST_cases\<close>; one server process as the step relation \<open>loop_step\<close> over
    \<open>POST\<close> split at its \<open>await\<close>, and two processes as an interleaving of its
    phases.
  \<^item> \<open>DemoForm\<close>, \<open>DemoFormView\<close>: the client form's state, \<open>validateForm\<close> with its
    e-mail test over characters, the handlers and the rendered form with its error
    messages.
  \<^item> \<open>AdminLogin\<close>, \<open>AdminDashboard\<close>: the hard-coded sign-in and the dashboard
    fetching and rendering the submissions; \<open>submissions.length\<close> reads an array's or
    a string's length or an object's own \<open>length\<close> property, and \<open>.map\<close> on a
    non-array throws a \<open>TypeError\<close>.
  \<^item> \<open>Signup\<close>, \<open>UserLogin\<close>: the sign-up page's validation (password length in
    UTF-16 code units), its submit and its rendered error messages, and the customer
    login page's handler.
  \<^item> \<open>Header\<close>, \<open>Hero\<close>, \<open>Faq\<close>, \<open>Pricing\<close>, \<open>Testimonials\<close>, \<open>Sections\<close>
    (productivity, use cases, lifetime value, collaboration, lead management, product
    overview), \<open>Tabs\<close>, \<open>FeaturesSection\<close>, \<open>Footer\<close>, \<open>StyleGuide\<close>: the
    page sections, each with its state record, messages, update function and view.
  \<^item> \<open>Card3D\<close>, \<open>AnimatedTooltip\<close>, \<open>FeatureCard\<close>, \<open>PlaceholderImage\<close>,
    \<open>Animations\<close>: the interactive UI library: tilt cards (rational pixel
    coordinates; the rendered transforms stay bounded over every run of pointer
    events, while the other card's tilt grows with its size), the tooltip's timer as a
    step relation with pending timers, the feature card composing both, the image
    fallback with its string hash over UTF-16 code units (\<open>32 word\<close> for \<open><<\<close>), the
    animation variants and \<open>ParallaxScroll\<close>.
  \<^item> \<open>Page3D\<close>: the 3D wrapper's scroll, mouse and resize handlers and
    \<open>calculateTransform\<close> (division by zero as \<open>None\<close>), and its window listeners over
    time as the step relation \<open>p3_step\<close>: the \<open>mousemove\<close> listener closes over a window
    size that is stale until React re-runs its effect.
  \<^item> \<open>Home\<close>: the home page composing every
    section (\<open>Home_view\<close>, a sum because the testimonials view can throw),
    \<open>RootLayoutWrapper_view\<close>, \<open>AdminLayout_view\<close>, and the page's in-page links.
  \<^item> \<open>App\<close>: the \<open>html\<close> document of \<open>app/layout.tsx\<close> with its metadata and
    viewport, the seven routes and their dispatch to the page views (\<open>page_content\<close>,
    \<open>Document_view\<close>), and navigation: which paths exist, the links to missing pages,
    and the \<open>router.push\<close> targets of the handlers (all existing pages); on every form
    page each \<open>label\<close> names an existing id and no id repeats.
  \<^item> \<open>NextConfig\<close>: \<open>next.config.js\<close> and \<open>next/image\<close>'s check of remote image URLs
    against its \<open>remotePatterns\<close>; every image \<open>PlaceholderImage\<close> and the sections
    render, in any run of load and error events, passes it.
  \<^item> This theory: the properties that span the client, the server and the dashboard,
    and the lemma that every entrance animation of the site ends at rest.

  \<^bold>\<open>What is proved.\<close> Store: \<open>POST\<close> answers and persists as specified (C1),
  rejects exactly bodies with a falsy required field and leaves the file alone then
  (C2), and keeps the data invariant (C5). Concurrency: within one process no update
  is lost for any interleaving (C3); across processes an update is lost (C4).
  Corruption: \<open>GET\<close> answers as for an empty store (C7) and the next \<open>POST\<close>
  overwrites it (C6). Client and server: the client check refines the server check
  (C8); the path from form to store to dashboard (C9, C10); the dashboard's gate (C11)
  and its crash on a non-array unless it is an object with \<open>length\<close> 0 (C12). UI:
  invariants of the FAQ (C13, C14), pricing (C18), carousel (C20, C21), tooltip (C26,
  C27), tilt (C19, C28, C30); the rendered forms' bindings and messages (C15 to C17);
  the sign-up submit, which starts its timer exactly when no message is shown (C22);
  the image hash's bound and the fallback (C24, C25); the 3D wrapper's stale listener,
  which gives wrong pointer positions in reachable states (C32) and which a re-run of
  the effect always repairs (C31); images always allowed by \<open>next.config.js\<close> (C33);
  and the home page's one dead in-page link (C29) and its twenty links to pages the site
  does not have (C23).

  \<^bold>\<open>Modelling choices.\<close> The clock (\<open>new Date().toISOString()\<close>) is a parameter of
  each request. \<open>JSON.stringify\<close> followed by \<open>JSON.parse\<close> is taken to give back
  the array written. Whether \<open>mkdirSync\<close> and \<open>writeFileSync\<close> succeed is one flag of
  the state, and a write is all or nothing: \<open>writeFileSync\<close> in fact truncates the
  file before writing, so a write that fails part-way (a full disk) leaves an empty
  file, which the next read takes for the empty array and the next accepted
  \<open>POST\<close> overwrites; such torn writes are outside the model, and C5 holds for writes
  that complete or fail before truncating. Logging and console output are not modelled.
  Strings are byte lists in UTF-8, read through \<open>JsString\<close> wherever the code
  inspects characters (\<open>trim\<close>, \<open>\s\<close>, \<open>length\<close>, \<open>charCodeAt\<close>). Pixel and second
  values are rationals, not doubles (the hash, which could leave the exact range of
  doubles, is shown to stay below \<open>2^53\<close>). No fuel or bound is needed: every
  function is structurally recursive or non-recursive, and the unbounded behaviours
  (the server's run, the event loop, pointer and timer events) are relations whose
  properties hold for every finite run.

  \<^bold>\<open>Not modelled.\<close> \<open>types/env.d.ts\<close> (type declarations without run-time
  behaviour); the build settings of \<open>next.config.js\<close> (strict mode, skipped type and lint
  checks), which do not change what runs; how Next.js turns the \<open>metadata\<close> and \<open>viewport\<close> of \<open>app/layout.tsx\<close> into
  \<open>head\<close> tags (the constants themselves are modelled); framer-motion's and the browser's own
  behaviour (spring physics, layout animation, \<open>IntersectionObserver\<close>), of which
  only the props the code passes are kept, and \<open>useScroll\<close>'s progress, taken as an
  input; CSS classes are strings, not interpreted.
\<close>

subsection \<open>The site's animations\<close>

text \<open>Every entrance variant of the site: the library's (theory Animations) and those the
  sections define locally (tabs, testimonials, feature grid, lead management).\<close>

definition site_entrance_variants :: "variants list" where
  "site_entrance_variants =
     entrance_variants @
     [tabVariants, headerVariants, testimonials_containerVariants, itemVariants, titleVariants, subtitleVariants,
      efs_containerVariants, headingVariants, contentVariants]"

subsection \<open>Client and server together\<close>

text \<open>
  C9. A form that passes \<open>validateForm\<close>, submitted to a writable store holding an
  array, is sent as \<open>form_json\<close>, answered 200, appended to the store with the server's
  timestamp, and leaves the client showing the thank-you view with an empty form, no
  error and no submission in flight.
\<close>

theorem demo_submit_end_to_end:
  assumes "snd (validateForm (formData st))" "readSubmissions s = JArr xs" "writable s"
  shows "snd (handleSubmit_start st) = Some (form_json (formData st)) \<and>
         snd (POST now (Some (form_json (formData st))) s) = submit_ok \<and>
         readSubmissions (fst (POST now (Some (form_json (formData st))) s)) =
           JArr (xs @ [submissionWithTimestamp (form_json (formData st)) now]) \<and>
         isSubmitted (handleSubmit_finish (fst (handleSubmit_start st))
                        (FetchResponse (snd (POST now (Some (form_json (formData st))) s)))) \<and>
         formData (handleSubmit_finish (fst (handleSubmit_start st))
                        (FetchResponse (snd (POST now (Some (form_json (formData st))) s)))) = empty_form \<and>
         \<not> isSubmitting (handleSubmit_finish (fst (handleSubmit_start st))
                        (FetchResponse (snd (POST now (Some (form_json (formData st))) s)))) \<and>
         submitError (handleSubmit_finish (fst (handleSubmit_start st))
                        (FetchResponse (snd (POST now (Some (form_json (formData st))) s)))) = []"
proof -
  have ok: "any_missing (form_json (formData st)) required_fields = Inr False"
    using assms(1) by (simp add: validateForm_ok_iff any_missing_JObj form_json_def required_fields_def)
        (use js_trim_nonempty in blast)
  have start: "handleSubmit_start st =
      (st\<lparr>errors := map_of [], isSubmitting := True, submitError := []\<rparr>, Some (form_json (formData st)))"
    using assms(1) validateForm_snd [of "formData st"]
    by (cases "validateForm (formData st)") (simp add: handleSubmit_start_def)
  note post = POST_accept [OF ok assms(2,3), of now]
  show ?thesis
    by (simp add: start post readSubmissions_def handleSubmit_finish_def submit_ok_def)
qed

theorem demo_submit_end_to_end_witness:
  "snd (POST ''T1'' (Some (form_json jane_form)) empty_store) = submit_ok \<and>
   readSubmissions (fst (POST ''T1'' (Some (form_json jane_form)) empty_store)) =
     JArr [submissionWithTimestamp (form_json jane_form) ''T1''] \<and>
   isSubmitted (handleSubmit_finish (fst (handleSubmit_start (init_demo\<lparr>formData := jane_form\<rparr>)))
                  (FetchResponse (snd (POST ''T1'' (Some (form_json jane_form)) empty_store))))"
proof -
  have v: "snd (validateForm (formData (init_demo\<lparr>formData := jane_form\<rparr>)))"
    by (simp add: validateForm_def js_string_eval email_test_def not_space_at_def)
  have a: "readSubmissions empty_store = JArr []" by (simp add: readSubmissions_def)
  have w: "writable empty_store" by simp
  have e: "formData (init_demo\<lparr>formData := jane_form\<rparr>) = jane_form" by simp
  from demo_submit_end_to_end [OF v a w, of "''T1''"] show ?thesis unfolding e append_Nil by blast
qed

lemma entry_strings_submission:
  "entry_strings (submissionWithTimestamp (form_json fd) now)"
  by (simp add: form_json_def submissionWithTimestamp_def spread_with_def row_fields_def)

lemma row_texts_submission:
  "row_texts dt (submissionWithTimestamp (form_json fd) now) =
     [dt (Some (JStr now)), fullName fd, jobTitle fd, email fd, companyName fd, companySize fd]"
  by (simp add: form_json_def submissionWithTimestamp_def spread_with_def row_texts_def str_field_def)

text \<open>
  C10. A form that passes \<open>validateForm\<close>, posted to a writable store whose entries
  the dashboard can show, appears on the signed-in admin dashboard as its last row,
  after the earlier entries in store order, with the server's timestamp and the
  submitted name, job title, e-mail, company and size.
\<close>

theorem submission_reaches_dashboard:
  assumes "snd (validateForm fd)" "readSubmissions s = JArr xs" "writable s" "list_all entry_strings xs"
    "token_truthy ls"
  shows "\<exists>v. AdminDashboard_view dt nt
               (fetchSubmissions_finish (fst (dashboard_effect ls st))
                  (FetchResponse (GET (fst (POST now (Some (form_json fd)) s))))) = Inr v \<and>
             tbody_texts v = concat (map (row_texts dt) xs) @
               [dt (Some (JStr now)), fullName fd, jobTitle fd, email fd, companyName fd, companySize fd]"
proof -
  have ok: "any_missing (form_json fd) required_fields = Inr False"
    using assms(1) by (simp add: validateForm_ok_iff any_missing_JObj form_json_def required_fields_def)
        (use js_trim_nonempty in blast)
  have r: "readSubmissions_get (fst (POST now (Some (form_json fd)) s)) =
           JArr (xs @ [submissionWithTimestamp (form_json fd) now])"
    by (simp add: POST_accept [OF ok assms(2,3)] readSubmissions_get_eq readSubmissions_def)
  have e: "list_all entry_strings (xs @ [submissionWithTimestamp (form_json fd) now])"
    using assms(4) entry_strings_submission by simp
  from dashboard_view_rows [OF assms(5) r e, of dt nt st] show ?thesis
    by (simp add: row_texts_submission)
qed

theorem submission_reaches_dashboard_witness:
  "\<exists>v. AdminDashboard_view (\<lambda>_. ''date'') (\<lambda>_. ''n'')
         (fetchSubmissions_finish (fst (dashboard_effect [auth_key \<mapsto> ''true''] init_dash))
            (FetchResponse (GET (fst (POST ''T1'' (Some (form_json jane_form)) empty_store))))) = Inr v \<and>
       tbody_texts v = [''date'', ''Jane Doe'', ''CTO'', ''jane@acme.com'', ''Acme'', ''11-50'']"
proof -
  have v: "snd (validateForm jane_form)"
    by (simp add: validateForm_def js_string_eval email_test_def not_space_at_def)
  have a: "readSubmissions empty_store = JArr []" by (simp add: readSubmissions_def)
  have w: "writable empty_store" by simp
  have e: "list_all entry_strings []" by simp
  have t: "token_truthy [auth_key \<mapsto> ''true'']" by (simp add: token_truthy_def)
  from submission_reaches_dashboard [OF v a w e t, of "\<lambda>_. ''date''" "\<lambda>_. ''n''" init_dash "''T1''"]
  show ?thesis by simp
qed

subsection \<open>The two sign-up style forms\<close>

text \<open>
  The site's two e-mail checks disagree: the sign-up page's unanchored pattern
  accepts an address containing a space, which the demo form's anchored pattern
  rejects.
\<close>

theorem email_checks_disagree:
  "signup_email_test ''jo smith@acme.com'' \<and> \<not> email_test ''jo smith@acme.com''"
  by (simp add: signup_email_test_def at_match_def email_test_def js_string_eval not_space_at_def upt_rec)

text \<open>No element of the site stays hidden or displaced after its entrance animation:
  every entrance variant, for every \<open>custom\<close> index, ends at the rest pose, animates
  the properties its hidden pose sets, and starts away from rest in each of them.\<close>

lemma site_entrances_end_at_rest:
  assumes "v \<in> set site_entrance_variants"
  shows "ends_at_rest (t_props (v_visible v i)) \<and> map fst (v_hidden v) = map fst (t_props (v_visible v i)) \<and>
         list_all (\<lambda>(k, vs). vs \<noteq> [] \<and> last vs \<noteq> rest_value k) (v_hidden v)"
proof (cases "v \<in> set entrance_variants")
  case True
  then show ?thesis using entrance_variants_rest by blast
next
  case False
  with assms show ?thesis
    by (auto simp: site_entrance_variants_def tabVariants_def headerVariants_def testimonials_containerVariants_def
                   itemVariants_def titleVariants_def subtitleVariants_def efs_containerVariants_def headingVariants_def
                   contentVariants_def ends_at_rest_def rest_value_def)
qed

end
